(* ===== verification/Prelude.thy ===== *)
theory Prelude
  imports Main
begin

text \<open>
  Shared vocabulary of the development: the exceptions the Python code can raise, the
  result type that carries them, sequencing of fallible steps, and Python list indexing.
  Nothing here models a line of the repository; it is the part of the language every
  component uses.
\<close>

named_theorems res_simps \<open>evaluation of the result type\<close>

section \<open>Exceptions and results\<close>

text \<open>
  The exceptions that the modelled code raises, itself or through the operations of the
  language. \<open>AssertionError\<close> keeps the message of the \<^verbatim>\<open>assert\<close>. \<open>OutOfFuel\<close> is no
  exception of Python: a loop of the model that ran out of its fuel returns it, and the
  components that use fuel prove that it is never returned. \<open>Unsupported\<close> marks an
  input on which Python goes on and the model does not follow it (the floats
  \<^verbatim>\<open>nan\<close> and \<^verbatim>\<open>inf\<close>).
\<close>

datatype py_error =
    AssertionError string
  | IndexError
  | KeyError
  | ValueError
  | TypeError
  | UnboundLocalError
  | ZeroDivisionError
  | FileNotFoundError
  | UnicodeDecodeError
  | StopIteration
  | CsvError
  | NameError string
  | OutOfFuel
  | Unsupported

type_synonym 'a res = "py_error + 'a"

definition rbind :: "'a res \<Rightarrow> ('a \<Rightarrow> 'b res) \<Rightarrow> 'b res" where
  "rbind r f = (case r of Inl e \<Rightarrow> Inl e | Inr x \<Rightarrow> f x)"

lemma rbind_Inl [simp, res_simps]: "rbind (Inl e) f = Inl e"
  by (simp add: rbind_def)

lemma rbind_Inr [simp, res_simps]: "rbind (Inr x) f = f x"
  by (simp add: rbind_def)

lemma rbind_eq_Inr_iff: "rbind r f = Inr y \<longleftrightarrow> (\<exists>x. r = Inr x \<and> f x = Inr y)"
  by (cases r) auto

lemma rbind_InrE:
  assumes "rbind r f = Inr y"
  obtains x where "r = Inr x" and "f x = Inr y"
  using assms by (auto simp: rbind_eq_Inr_iff)

lemma rbind_assoc: "rbind (rbind r f) g = rbind r (\<lambda>x. rbind (f x) g)"
  by (cases r) auto

lemma rbind_cong [fundef_cong]:
  assumes "r = r'" and "\<And>x. r' = Inr x \<Longrightarrow> f x = g x"
  shows "rbind r f = rbind r' g"
  using assms by (cases r') auto

text \<open>\<^verbatim>\<open>assert c, msg\<close>.\<close>

definition py_assert :: "bool \<Rightarrow> string \<Rightarrow> unit res" where
  "py_assert c msg = (if c then Inr () else Inl (AssertionError msg))"

lemma py_assert_simps [simp, res_simps]:
  "py_assert True msg = Inr ()"
  "py_assert False msg = Inl (AssertionError msg)"
  by (simp_all add: py_assert_def)

lemma rbind_assert: "rbind (py_assert c m) f = (if c then f () else Inl (AssertionError m))"
  by (simp add: py_assert_def)

text \<open>A fallible step over a list, left to right, stopping at the first exception.\<close>

fun rmap :: "('a \<Rightarrow> 'b res) \<Rightarrow> 'a list \<Rightarrow> 'b list res" where
  "rmap f [] = Inr []"
| "rmap f (x # xs) = rbind (f x) (\<lambda>y. rbind (rmap f xs) (\<lambda>ys. Inr (y # ys)))"

fun rfold :: "('a \<Rightarrow> 's \<Rightarrow> 's res) \<Rightarrow> 'a list \<Rightarrow> 's \<Rightarrow> 's res" where
  "rfold f [] s = Inr s"
| "rfold f (x # xs) s = rbind (f x s) (rfold f xs)"

lemma rfold_append: "rfold f (xs @ ys) s = rbind (rfold f xs s) (rfold f ys)"
proof (induction xs arbitrary: s)
  case (Cons a xs)
  then have "rfold f (xs @ ys) = (\<lambda>t. rbind (rfold f xs t) (rfold f ys))" by auto
  then show ?case by (simp add: rbind_assoc)
qed simp

lemma rfold_pure: "(\<And>x s. x \<in> set xs \<Longrightarrow> f x s = Inr (g x s)) \<Longrightarrow> rfold f xs s = Inr (fold g xs s)"
  by (induction xs arbitrary: s) auto

lemma rmap_pure: "(\<And>x. x \<in> set xs \<Longrightarrow> f x = Inr (g x)) \<Longrightarrow> rmap f xs = Inr (map g xs)"
  by (induction xs) auto

lemma rmap_error: "x \<in> set xs \<Longrightarrow> (\<And>y. y \<in> set xs \<Longrightarrow> f y = Inl e \<or> (\<exists>z. f y = Inr z)) \<Longrightarrow> f x = Inl e \<Longrightarrow> rmap f xs = Inl e"
proof (induction xs)
  case (Cons y ys)
  show ?case
  proof (cases "f y")
    case (Inl e')
    then have "e' = e" using Cons.prems(2) [of y] by auto
    with Inl show ?thesis by simp
  next
    case (Inr z)
    with Cons.prems have "x \<in> set ys" by auto
    with Cons Inr show ?thesis by simp
  qed
qed simp

lemma rmap_append: "rmap f (xs @ ys) = rbind (rmap f xs) (\<lambda>as. rbind (rmap f ys) (\<lambda>bs. Inr (as @ bs)))"
  by (induction xs) (simp_all add: rbind_assoc, simp add: rbind_def split: sum.split)

lemma rmap_length: "rmap f xs = Inr ys \<Longrightarrow> length ys = length xs"
  by (induction xs arbitrary: ys) (auto elim!: rbind_InrE)

section \<open>Indexing\<close>

text \<open>
  \<^verbatim>\<open>xs[i]\<close> with Python's negative indices; \<open>pop_at\<close> is \<^verbatim>\<open>xs.pop(i)\<close> for the list that
  stays behind.
\<close>

definition py_index :: "'a list \<Rightarrow> int \<Rightarrow> 'a res" where
  "py_index xs i =
     (let k = (if i < 0 then i + int (length xs) else i)
      in if k < 0 \<or> int (length xs) \<le> k then Inl IndexError else Inr (xs ! nat k))"

lemma py_index_nat [simp]:
  "py_index xs (int i) = (if i < length xs then Inr (xs ! i) else Inl IndexError)"
  by (simp add: py_index_def)

lemma py_index_0 [simp]: "py_index (x # xs) 0 = Inr x"
  by (simp add: py_index_def)

lemma py_index_0_Nil [simp]: "py_index [] i = Inl IndexError"
  by (simp add: py_index_def)

lemma py_index_1 [simp]: "py_index (x # y # xs) 1 = Inr y"
  by (simp add: py_index_def)

lemma py_index_numeral [simp]:
  "py_index xs (numeral k) =
     (if numeral k < length xs then Inr (xs ! numeral k) else Inl IndexError)"
  using py_index_nat [of xs "numeral k"] by simp

lemma py_index_last: "xs \<noteq> [] \<Longrightarrow> py_index xs (- 1) = Inr (last xs)"
proof -
  assume ne: "xs \<noteq> []"
  then have "nat (int (length xs) - 1) = length xs - 1" by (simp add: nat_diff_distrib)
  with ne show ?thesis by (cases xs) (auto simp: py_index_def last_conv_nth)
qed

lemma py_index_InrD: "py_index xs i = Inr x \<Longrightarrow> x \<in> set xs"
  by (auto simp: py_index_def Let_def split: if_splits)

lemma length_concat_replicate: "length (concat (replicate n xs)) = n * length xs"
  by (induction n) auto

end
