(* ===== verification/PyStr.thy ===== *)
theory PyStr
  imports Prelude
begin

text \<open>
  The part of Python's \<^verbatim>\<open>str\<close> the code uses, over lists of characters. A \<^typ>\<open>char\<close> is a code
  point below 256, so the model covers Latin-1 text; \<^verbatim>\<open>isspace\<close> and \<^verbatim>\<open>int\<close> are those of
  Python on these code points. Also the two directions of text files: \<^verbatim>\<open>readlines\<close> with
  universal newlines, and the text that a sequence of written lines makes. The
  lemmas are the round trips the components rest on: printing and reading an integer,
  writing and reading lines, joining and splitting words.
\<close>

named_theorems str_simps \<open>evaluation of string operations\<close>

section \<open>Characters\<close>

definition newline :: char where "newline = CHR 0x0A"
definition carriage :: char where "carriage = CHR 0x0D"

definition is_space :: "char \<Rightarrow> bool" where
  "is_space c \<longleftrightarrow> c \<in> {CHR 0x09, CHR 0x0A, CHR 0x0B, CHR 0x0C, CHR 0x0D,
     CHR 0x1C, CHR 0x1D, CHR 0x1E, CHR 0x1F, CHR 0x20, CHR 0x85, CHR 0xA0}"

definition digit_val :: "char \<Rightarrow> nat option" where
  "digit_val c = (let n = of_char c :: nat in if 48 \<le> n \<and> n \<le> 57 then Some (n - 48) else None)"

definition digit_char :: "nat \<Rightarrow> char" where
  "digit_char d = char_of (48 + d)"

lemma is_space_newline [simp]: "is_space newline"
  by (simp add: is_space_def newline_def)

lemma is_space_blank [simp]: "is_space (CHR '' '')"
  by (simp add: is_space_def)

lemma of_char_digit_char: "d < 10 \<Longrightarrow> of_char (digit_char d) = 48 + (d :: nat)"
  by (simp add: digit_char_def)

lemma digit_val_digit_char [simp]: "d < 10 \<Longrightarrow> digit_val (digit_char d) = Some d"
  by (simp add: digit_val_def of_char_digit_char)

lemma digit_val_lt: "digit_val c = Some d \<Longrightarrow> d < 10"
  by (auto simp: digit_val_def Let_def split: if_splits)

lemma is_space_no_digit: "is_space c \<Longrightarrow> digit_val c = None"
  by (auto simp: is_space_def digit_val_def)

lemma digit_char_not_space [simp]: "d < 10 \<Longrightarrow> \<not> is_space (digit_char d)"
  using is_space_no_digit by fastforce

section \<open>strip, split, join\<close>

definition lstrip_by :: "(char \<Rightarrow> bool) \<Rightarrow> string \<Rightarrow> string" where
  "lstrip_by P s = dropWhile P s"

definition rstrip_by :: "(char \<Rightarrow> bool) \<Rightarrow> string \<Rightarrow> string" where
  "rstrip_by P s = rev (dropWhile P (rev s))"

definition strip_by :: "(char \<Rightarrow> bool) \<Rightarrow> string \<Rightarrow> string" where
  "strip_by P s = rstrip_by P (lstrip_by P s)"

definition py_strip :: "string \<Rightarrow> string" where
  "py_strip s = strip_by is_space s"

definition py_strip_chars :: "string \<Rightarrow> string \<Rightarrow> string" where
  "py_strip_chars s cs = strip_by (\<lambda>c. c \<in> set cs) s"

text \<open>\<open>clean P s\<close>: nothing to strip at either end.\<close>

definition clean :: "(char \<Rightarrow> bool) \<Rightarrow> string \<Rightarrow> bool" where
  "clean P s \<longleftrightarrow> (s = [] \<or> \<not> P (hd s) \<and> \<not> P (last s))"

lemma dropWhile_keep: "xs = [] \<or> \<not> P (hd xs) \<Longrightarrow> dropWhile P xs = xs"
  by (cases xs) auto

lemma clean_dropWhile: "clean P s \<Longrightarrow> dropWhile P s = s" "clean P s \<Longrightarrow> dropWhile P (rev s) = rev s"
  by (auto simp: clean_def hd_rev intro!: dropWhile_keep)

lemma strip_by_clean: "clean P s \<Longrightarrow> strip_by P s = s"
  by (simp add: strip_by_def lstrip_by_def rstrip_by_def clean_dropWhile)

lemma dropWhile_all: "(\<And>x. x \<in> set xs \<Longrightarrow> P x) \<Longrightarrow> dropWhile P (xs @ ys) = dropWhile P ys"
  by (induction xs) auto

lemma strip_by_append:
  assumes "\<And>c. c \<in> set l \<Longrightarrow> P c" and "\<And>c. c \<in> set r \<Longrightarrow> P c" and "clean P s"
  shows "strip_by P (l @ s @ r) = s"
proof -
  have "lstrip_by P (l @ s @ r) = (if s = [] then dropWhile P r else s @ r)"
    using assms(1,3) by (cases s) (auto simp: lstrip_by_def dropWhile_all clean_def)
  moreover have "rstrip_by P (s @ r) = s"
    using dropWhile_all [of "rev r" P "rev s"] assms(2)
    by (simp add: rstrip_by_def clean_dropWhile [OF assms(3)])
  moreover have "rstrip_by P (dropWhile P r) = []"
    using assms(2) by (auto simp: rstrip_by_def dest: set_dropWhileD)
  ultimately show ?thesis by (simp add: strip_by_def)
qed

lemma hd_dropWhile_not: "dropWhile P xs \<noteq> [] \<Longrightarrow> \<not> P (hd (dropWhile P xs))"
  by (induction xs) auto

lemma clean_strip_by: "clean P (strip_by P s)"
proof -
  let ?t = "dropWhile P s" and ?u = "dropWhile P (rev (dropWhile P s))"
  have *: "strip_by P s = rev ?u" by (simp add: strip_by_def lstrip_by_def rstrip_by_def)
  show ?thesis
  proof (cases "?u = []")
    case False
    then have last: "\<not> P (last (rev ?u))" by (simp add: last_rev hd_dropWhile_not)
    obtain pre where pre: "rev ?t = pre @ ?u" by (metis takeWhile_dropWhile_id)
    then have "?t = rev ?u @ rev pre" by (metis rev_append rev_rev_ident)
    with False have "hd (rev ?u) = hd ?t" and "?t \<noteq> []"
      by (metis Nil_is_rev_conv hd_append, force)
    then have "\<not> P (hd (rev ?u))" by (metis hd_dropWhile_not)
    with last show ?thesis by (simp add: * clean_def)
  qed (simp add: * clean_def)
qed

text \<open>\<^verbatim>\<open>s.split()\<close>: maximal runs of non-space characters.\<close>

fun split_ws_aux :: "string \<Rightarrow> string \<Rightarrow> string list" where
  "split_ws_aux acc [] = (if acc = [] then [] else [rev acc])"
| "split_ws_aux acc (c # cs) =
     (if is_space c
      then (if acc = [] then split_ws_aux [] cs else rev acc # split_ws_aux [] cs)
      else split_ws_aux (c # acc) cs)"

definition py_split :: "string \<Rightarrow> string list" where
  "py_split s = split_ws_aux [] s"

text \<open>\<^verbatim>\<open>s.split(sep)\<close> for a separator of one character, and for any non-empty one.\<close>

fun split_char_aux :: "char \<Rightarrow> string \<Rightarrow> string \<Rightarrow> string list" where
  "split_char_aux d acc [] = [rev acc]"
| "split_char_aux d acc (c # cs) =
     (if c = d then rev acc # split_char_aux d [] cs else split_char_aux d (c # acc) cs)"

definition py_split_on :: "char \<Rightarrow> string \<Rightarrow> string list" where
  "py_split_on d s = split_char_aux d [] s"

definition py_startswith :: "string \<Rightarrow> string \<Rightarrow> bool" where
  "py_startswith s p \<longleftrightarrow> take (length p) s = p"

definition py_endswith :: "string \<Rightarrow> string \<Rightarrow> bool" where
  "py_endswith s p \<longleftrightarrow> length p \<le> length s \<and> drop (length s - length p) s = p"

fun py_join :: "string \<Rightarrow> string list \<Rightarrow> string" where
  "py_join sep [] = []"
| "py_join sep [s] = s"
| "py_join sep (s # t # ts) = s @ sep @ py_join sep (t # ts)"

text \<open>\<^verbatim>\<open>sub in s\<close>, and \<^verbatim>\<open>s.find(sub)\<close> with -1 for "not found".\<close>

fun py_contains :: "string \<Rightarrow> string \<Rightarrow> bool" where
  "py_contains [] sub = (sub = [])"
| "py_contains (c # cs) sub = (py_startswith (c # cs) sub \<or> py_contains cs sub)"

fun find_from :: "int \<Rightarrow> string \<Rightarrow> string \<Rightarrow> int" where
  "find_from i [] sub = (if sub = [] then i else - 1)"
| "find_from i (c # cs) sub = (if py_startswith (c # cs) sub then i else find_from (i + 1) cs sub)"

definition py_find :: "string \<Rightarrow> string \<Rightarrow> int" where
  "py_find s sub = find_from 0 s sub"

text \<open>\<^verbatim>\<open>s.replace(old, new)\<close> for a non-empty \<^verbatim>\<open>old\<close>: leftmost, non-overlapping.\<close>

function py_replace :: "string \<Rightarrow> string \<Rightarrow> string \<Rightarrow> string" where
  "py_replace [] old new = []"
| "py_replace (c # cs) old new =
     (if old \<noteq> [] \<and> py_startswith (c # cs) old
      then new @ py_replace (drop (length old) (c # cs)) old new
      else c # py_replace cs old new)"
  by pat_completeness auto
termination
  by (relation "measure (\<lambda>(s, old, new). length s)") (auto simp: neq_Nil_conv)

lemma split_ws_aux_word:
  "(\<And>c. c \<in> set w \<Longrightarrow> \<not> is_space c) \<Longrightarrow> split_ws_aux acc (w @ s) = split_ws_aux (rev w @ acc) s"
  by (induction w arbitrary: acc) auto

definition word :: "string \<Rightarrow> bool" where
  "word w \<longleftrightarrow> w \<noteq> [] \<and> (\<forall>c \<in> set w. \<not> is_space c)"

lemma py_split_word: "word w \<Longrightarrow> py_split w = [w]"
  using split_ws_aux_word [of w "[]" "[]"] by (simp add: py_split_def word_def)

lemma py_split_word_space:
  "word w \<Longrightarrow> is_space c \<Longrightarrow> py_split (w @ c # s) = w # py_split s"
  using split_ws_aux_word [of w "[]" "c # s"] by (simp add: py_split_def word_def)

lemma py_split_space: "is_space c \<Longrightarrow> py_split (c # s) = py_split s"
  by (simp add: py_split_def)

lemma split_ws_aux_words:
  "list_all (\<lambda>c. \<not> is_space c) acc \<Longrightarrow> list_all word (split_ws_aux acc s)"
proof (induction acc s rule: split_ws_aux.induct)
  case (1 acc)
  then show ?case by (auto simp: word_def list_all_iff)
next
  case (2 acc c cs)
  have acc: "acc \<noteq> [] \<Longrightarrow> word (rev acc)" using "2.prems" by (simp add: word_def list_all_iff)
  consider "is_space c" "acc = []" | "is_space c" "acc \<noteq> []" | "\<not> is_space c" by blast
  then show ?case
  proof cases
    case 1 with "2.IH"(1) show ?thesis by simp
  next
    case 2 with "2.IH"(2) acc show ?thesis by simp
  next
    case 3 with "2.IH"(3) "2.prems" show ?thesis by simp
  qed
qed

lemma py_split_words: "w \<in> set (py_split s) \<Longrightarrow> word w"
  using split_ws_aux_words [of "[]" s] by (simp add: py_split_def list_all_iff)

lemma split_char_aux_part:
  "d \<notin> set w \<Longrightarrow> split_char_aux d acc (w @ s) = split_char_aux d (rev w @ acc) s"
  by (induction w arbitrary: acc) auto

lemma py_split_on_single: "d \<notin> set w \<Longrightarrow> py_split_on d w = [w]"
  using split_char_aux_part [of d w "[]" "[]"] by (simp add: py_split_on_def)

lemma py_split_on_cons: "d \<notin> set w \<Longrightarrow> py_split_on d (w @ d # s) = w # py_split_on d s"
  using split_char_aux_part [of d w "[]" "d # s"] by (simp add: py_split_on_def)

lemma split_char_aux_ne: "split_char_aux d acc s \<noteq> []"
  by (induction d acc s rule: split_char_aux.induct) auto

lemma py_split_on_ne [simp]: "py_split_on d s \<noteq> []"
  by (simp add: py_split_on_def split_char_aux_ne)

lemma py_split_on_join:
  "ws \<noteq> [] \<Longrightarrow> (\<And>w. w \<in> set ws \<Longrightarrow> d \<notin> set w) \<Longrightarrow> py_split_on d (py_join [d] ws) = ws"
  by (induction "[d]" ws rule: py_join.induct)
     (auto simp: py_split_on_single py_split_on_cons)

lemma py_startswith_append [simp]: "py_startswith (p @ s) p"
  by (simp add: py_startswith_def)

lemma py_startswith_Nil [simp]: "py_startswith s []"
  by (simp add: py_startswith_def)

lemma py_startswith_Nil_Cons [simp]: "\<not> py_startswith [] (c # p)"
  by (simp add: py_startswith_def)

lemma py_startswith_Cons [simp]: "py_startswith (c # s) (d # p) \<longleftrightarrow> c = d \<and> py_startswith s p"
  by (auto simp: py_startswith_def)

lemma py_startswith_iff: "py_startswith s p \<longleftrightarrow> (\<exists>t. s = p @ t)"
  by (metis append_take_drop_id py_startswith_append py_startswith_def)

lemma py_contains_iff: "py_contains s sub \<longleftrightarrow> (\<exists>l r. s = l @ sub @ r)"
proof (induction s)
  case (Cons c cs)
  show ?case
  proof
    assume "py_contains (c # cs) sub"
    then consider t where "c # cs = sub @ t" | l r where "cs = l @ sub @ r"
      using Cons by (auto simp: py_startswith_iff)
    then show "\<exists>l r. c # cs = l @ sub @ r"
      by cases (metis append_Nil, metis append_Cons)
  next
    assume "\<exists>l r. c # cs = l @ sub @ r"
    then obtain l r where *: "c # cs = l @ sub @ r" by blast
    show "py_contains (c # cs) sub"
    proof (cases l)
      case Nil
      with * have "py_startswith (c # cs) sub" unfolding py_startswith_iff by auto
      then show ?thesis by simp
    next
      case (Cons d l')
      with * have "cs = l' @ sub @ r" by simp
      with \<open>py_contains cs sub \<longleftrightarrow> _\<close> show ?thesis by auto
    qed
  qed
qed auto

section \<open>Integers\<close>

text \<open>
  \<^verbatim>\<open>int(s)\<close>: surrounding white space, an optional sign, digits with single underscores
  between them.
\<close>

fun read_digits :: "nat \<Rightarrow> string \<Rightarrow> nat option" where
  "read_digits acc [] = Some acc"
| "read_digits acc (c # cs) =
     (case digit_val c of
        Some d \<Rightarrow> read_digits (10 * acc + d) cs
      | None \<Rightarrow>
          if c = CHR ''_'' \<and> cs \<noteq> [] \<and> digit_val (hd cs) \<noteq> None
          then read_digits acc cs else None)"

definition read_nat :: "string \<Rightarrow> nat option" where
  "read_nat s = (if s = [] \<or> digit_val (hd s) = None then None else read_digits 0 s)"

definition py_int :: "string \<Rightarrow> int res" where
  "py_int str =
     (let s = py_strip str;
          (neg, ds) = (case s of [] \<Rightarrow> (False, s)
             | c # cs \<Rightarrow> if c = CHR ''-'' then (True, cs) else if c = CHR ''+'' then (False, cs) else (False, s))
      in case read_nat ds of
           None \<Rightarrow> Inl ValueError
         | Some n \<Rightarrow> Inr (if neg then - int n else int n))"

fun str_nat :: "nat \<Rightarrow> string" where
  "str_nat n = (if n < 10 then [digit_char n] else str_nat (n div 10) @ [digit_char (n mod 10)])"

declare str_nat.simps [simp del]

definition str_int :: "int \<Rightarrow> string" where
  "str_int i = (if i < 0 then CHR ''-'' # str_nat (nat (- i)) else str_nat (nat i))"

lemma read_digits_append:
  "(\<And>c. c \<in> set s \<Longrightarrow> digit_val c \<noteq> None) \<Longrightarrow>
   read_digits acc (s @ t) = (case read_digits acc s of None \<Rightarrow> None | Some n \<Rightarrow> read_digits n t)"
proof (induction s arbitrary: acc)
  case (Cons c s)
  then obtain d where "digit_val c = Some d" by fastforce
  with Cons show ?case by simp
qed simp

lemma str_nat_digits: "c \<in> set (str_nat n) \<Longrightarrow> digit_val c \<noteq> None"
proof (induction n rule: str_nat.induct)
  case (1 n)
  then show ?case by (cases "n < 10") (auto simp: str_nat.simps [of n])
qed

lemma str_nat_ne [simp]: "str_nat n \<noteq> []"
  by (subst str_nat.simps) simp

lemma read_digits_str_nat: "read_digits 0 (str_nat n) = Some n"
proof (induction n rule: str_nat.induct)
  case (1 n)
  show ?case
  proof (cases "n < 10")
    case True
    then show ?thesis by (simp add: str_nat.simps [of n])
  next
    case False
    then have "read_digits 0 (str_nat n) =
        (case read_digits 0 (str_nat (n div 10)) of None \<Rightarrow> None | Some m \<Rightarrow> read_digits m [digit_char (n mod 10)])"
      by (simp add: str_nat.simps [of n] read_digits_append str_nat_digits)
    with 1 False show ?thesis by simp
  qed
qed

lemma read_nat_str_nat: "read_nat (str_nat n) = Some n"
  using str_nat_digits [of "hd (str_nat n)" n] by (simp add: read_nat_def read_digits_str_nat)

lemma str_nat_no_space: "c \<in> set (str_nat n) \<Longrightarrow> \<not> is_space c"
  using str_nat_digits is_space_no_digit by blast

lemma is_space_minus: "\<not> is_space (CHR ''-'')"
  by (simp add: is_space_def)

lemma str_int_no_space: "c \<in> set (str_int i) \<Longrightarrow> \<not> is_space c"
  using str_nat_no_space by (cases "i < 0") (auto simp: str_int_def is_space_minus)

lemma str_int_ne [simp]: "str_int i \<noteq> []"
  by (simp add: str_int_def)

lemma word_str_int: "word (str_int i)"
  by (simp add: word_def str_int_no_space)

lemma word_clean: "word w \<Longrightarrow> clean is_space w"
  by (cases w) (auto simp: word_def clean_def)

lemma str_nat_hd_sign: "hd (str_nat n) \<noteq> CHR ''-'' \<and> hd (str_nat n) \<noteq> CHR ''+''"
proof -
  have "digit_val (hd (str_nat n)) \<noteq> None" by (rule str_nat_digits [of _ n]) simp
  moreover have "digit_val (CHR ''-'') = None" "digit_val (CHR ''+'') = None"
    by (simp_all add: digit_val_def)
  ultimately show ?thesis by metis
qed

lemma py_int_str_int [simp]: "py_int (str_int i) = Inr i"
proof -
  have "py_strip (str_int i) = str_int i"
    by (simp add: py_strip_def strip_by_clean word_clean word_str_int)
  moreover obtain c cs where c: "str_nat (nat i) = c # cs" by (meson neq_Nil_conv str_nat_ne)
  moreover have "read_nat (c # cs) = Some (nat i)" using read_nat_str_nat [of "nat i"] c by simp
  ultimately show ?thesis
    using str_nat_hd_sign [of "nat i"]
    by (cases "i < 0") (simp_all add: py_int_def str_int_def Let_def read_nat_str_nat)
qed

section \<open>Text files\<close>

text \<open>\<^verbatim>\<open>open(f, "r")\<close> reads \<^verbatim>\<open>\r\n\<close> and \<^verbatim>\<open>\r\<close> as newlines; \<^verbatim>\<open>readlines\<close> keeps the newlines.\<close>

fun universal_newlines :: "string \<Rightarrow> string" where
  "universal_newlines [] = []"
| "universal_newlines [c] = [if c = carriage then newline else c]"
| "universal_newlines (c # d # cs) =
     (if c = carriage
      then (if d = newline then newline # universal_newlines cs
            else newline # universal_newlines (d # cs))
      else c # universal_newlines (d # cs))"

fun split_lines :: "string \<Rightarrow> string \<Rightarrow> string list" where
  "split_lines acc [] = (if acc = [] then [] else [rev acc])"
| "split_lines acc (c # cs) =
     (if c = newline then rev (c # acc) # split_lines [] cs else split_lines (c # acc) cs)"

definition py_readlines :: "string \<Rightarrow> string list" where
  "py_readlines s = split_lines [] (universal_newlines s)"

text \<open>A line as \<^verbatim>\<open>f.write(f"...\n")\<close> writes it, and the text of many of them.\<close>

definition unlines :: "string list \<Rightarrow> string" where
  "unlines ls = concat (map (\<lambda>l. l @ [newline]) ls)"

lemma unlines_simps [simp]: "unlines [] = []" "unlines (l # ls) = l @ newline # unlines ls"
  by (simp_all add: unlines_def)

lemma unlines_append [simp]: "unlines (xs @ ys) = unlines xs @ unlines ys"
  by (simp add: unlines_def)

definition line_text :: "string \<Rightarrow> bool" where
  "line_text l \<longleftrightarrow> newline \<notin> set l \<and> carriage \<notin> set l"

lemma universal_newlines_id: "carriage \<notin> set s \<Longrightarrow> universal_newlines s = s"
  by (induction s rule: universal_newlines.induct) auto

lemma split_lines_line: "newline \<notin> set l \<Longrightarrow> split_lines acc (l @ s) = split_lines (rev l @ acc) s"
  by (induction l arbitrary: acc) auto

lemma py_readlines_unlines:
  assumes "\<And>l. l \<in> set ls \<Longrightarrow> line_text l"
  shows "py_readlines (unlines ls) = map (\<lambda>l. l @ [newline]) ls"
proof -
  have "carriage \<notin> set (unlines ls)"
    using assms by (auto simp: unlines_def line_text_def carriage_def newline_def)
  then have "py_readlines (unlines ls) = split_lines [] (unlines ls)"
    by (simp add: py_readlines_def universal_newlines_id)
  also have "\<dots> = map (\<lambda>l. l @ [newline]) ls"
    using assms by (induction ls) (auto simp: split_lines_line line_text_def)
  finally show ?thesis .
qed

lemma strip_written_line: "clean is_space l \<Longrightarrow> py_strip (l @ [newline]) = l"
  using strip_by_append [of "[]" is_space "[newline]" l] by (simp add: py_strip_def)

end
