(* ===== verification/WatToInst.thy ===== *)
theory WatToInst
  imports PyStr
begin

text \<open>
  \<^verbatim>\<open>wat_to_inst\<close> of \<^verbatim>\<open>src/wasm_static_analysis.py\<close>: from the text of a module, as \<^verbatim>\<open>wasm2wat\<close>
  prints it, to the instruction file the analysis reads. The first loop numbers the
  functions by name (imports first, then shifted so that the first function of the module
  is 0), the second writes one line per critical instruction.

  The specification is a stream of tokens: \<open>classify\<close> says which token a line is, and
  \<open>emit_line\<close> is shown to write exactly the line of that token. \<open>code\<close> is the structured
  code (nested blocks and loops) a token stream may stand for; the text written for it is
  computed by \<open>code_lines\<close>, which numbers the loops of a function in the order in which
  they open.
\<close>

section \<open>The critical lines\<close>

definition critical_line :: "string \<Rightarrow> bool" where
  "critical_line line =
     (if py_startswith line ''(func'' then True
      else if py_startswith line ''block'' \<or> py_startswith line ''loop'' \<or> py_startswith line ''end'' then True
      else if py_startswith line ''br'' \<or> py_startswith line ''return'' then True
      else if py_startswith line ''local.tee'' \<or> py_startswith line ''local.set'' then True
      else if py_startswith line ''call'' \<or> py_startswith line ''call_indirect'' then True
      else False)"

definition wat_lines :: "string \<Rightarrow> string list" where
  "wat_lines wat = map (\<lambda>line. py_strip_chars line '')'') (map py_strip (py_readlines wat))"

section \<open>Function names\<close>

text \<open>
  \<^verbatim>\<open>func_name_to_idx\<close> is an insertion-ordered dictionary without duplicates: an association
  list.
\<close>

record name_state =
  func_name_to_idx :: "(string \<times> int) list"
  import_func_cnt :: int

definition add_name :: "string \<Rightarrow> name_state \<Rightarrow> name_state res" where
  "add_name func_name st =
     (if func_name \<in> fst ` set (func_name_to_idx st)
      then Inl (AssertionError (''Function '' @ func_name @ '' already exists''))
      else Inr (st\<lparr>func_name_to_idx :=
        func_name_to_idx st @ [(func_name, int (length (func_name_to_idx st)))]\<rparr>))"

definition collect_import :: "string \<Rightarrow> name_state \<Rightarrow> name_state res" where
  "collect_import line st =
     (if py_startswith line ''(import ''
      then let st1 = st\<lparr>import_func_cnt := import_func_cnt st + 1\<rparr>;
               pos = py_find line ''(func ''
           in rbind (py_assert (pos \<noteq> - 1) ''Invalid import function'') (\<lambda>_.
              rbind (py_index (py_split (drop (nat (pos + 6)) line)) 0) (\<lambda>func_name.
              add_name func_name st1))
      else Inr st)"

definition collect_func :: "string \<Rightarrow> name_state \<Rightarrow> name_state res" where
  "collect_func line st =
     (if py_startswith line ''(func''
      then rbind (py_index (py_split line) 1) (\<lambda>func_name. add_name func_name st)
      else Inr st)"

definition collect_line :: "string \<Rightarrow> name_state \<Rightarrow> name_state res" where
  "collect_line line st = rbind (collect_import line st) (collect_func line)"

definition collect_names :: "string list \<Rightarrow> (string \<times> int) list res" where
  "collect_names wat =
     rbind (rfold collect_line wat \<lparr>func_name_to_idx = [], import_func_cnt = 0\<rparr>) (\<lambda>st.
       Inr (map (\<lambda>(k, v). (k, v - import_func_cnt st)) (func_name_to_idx st)))"

definition lookup_func_idx :: "(string \<times> int) list \<Rightarrow> string \<Rightarrow> int res" where
  "lookup_func_idx names func_name =
     (case map_of names func_name of
        None \<Rightarrow> Inl (AssertionError (''Function '' @ func_name @ '' not found''))
      | Some i \<Rightarrow> Inr i)"

section \<open>Writing the instruction file\<close>

record emit_state =
  func_idx_ctr :: int
  loop_idx_ctr :: int
  first_func :: bool
  out_lines :: "string list"

definition write_line :: "string \<Rightarrow> emit_state \<Rightarrow> emit_state" where
  "write_line l st = st\<lparr>out_lines := out_lines st @ [l]\<rparr>"

definition int_operand :: "string \<Rightarrow> int res" where
  "int_operand line = rbind (py_index (py_split line) 1) py_int"

definition emit_line :: "(string \<times> int) list \<Rightarrow> string \<Rightarrow> emit_state \<Rightarrow> emit_state res" where
  "emit_line names line st =
     (if py_startswith line ''(func'' then
        let st1 = (if first_func st then st\<lparr>first_func := False\<rparr>
                   else write_line ''end_func'' (write_line ''end_block'' st));
            st2 = write_line ''begin_block'' (write_line (''begin_func '' @ str_int (func_idx_ctr st1)) st1)
        in Inr (st2\<lparr>func_idx_ctr := func_idx_ctr st2 + 1, loop_idx_ctr := 0\<rparr>)
      else if py_startswith line ''block'' then Inr (write_line ''begin_block'' st)
      else if py_startswith line ''loop'' then
        let st1 = write_line (''begin_loop '' @ str_int (loop_idx_ctr st)) st
        in Inr (st1\<lparr>loop_idx_ctr := loop_idx_ctr st1 + 1\<rparr>)
      else if py_startswith line ''end'' then Inr (write_line ''end_block'' st)
      else if py_startswith line ''br_if'' then
        rbind (int_operand line) (\<lambda>depth. Inr (write_line (''op_br_if '' @ str_int depth) st))
      else if py_startswith line ''br_table'' then Inr (write_line ''op_br_table'' st)
      else if py_startswith line ''br'' then
        rbind (int_operand line) (\<lambda>depth. Inr (write_line (''op_br '' @ str_int depth) st))
      else if py_startswith line ''return'' then Inr (write_line ''op_return'' st)
      else if py_startswith line ''local.tee'' then
        rbind (int_operand line) (\<lambda>local_idx. Inr (write_line (''op_tee '' @ str_int local_idx) st))
      else if py_startswith line ''local.set'' then
        rbind (int_operand line) (\<lambda>local_idx. Inr (write_line (''op_set '' @ str_int local_idx) st))
      else if py_startswith line ''call_indirect'' then Inr (write_line ''op_call_indirect'' st)
      else if py_startswith line ''call'' then
        rbind (py_index (py_split line) 1) (\<lambda>func_name.
        rbind (lookup_func_idx names func_name) (\<lambda>callee_idx.
        Inr (write_line (''op_call '' @ str_int callee_idx) st)))
      else Inl (AssertionError ''Invalid instruction''))"

definition emit_close :: "emit_state \<Rightarrow> emit_state" where
  "emit_close st = (if first_func st then st else write_line ''end_func'' (write_line ''end_block'' st))"

definition init_emit :: emit_state where
  "init_emit = \<lparr>func_idx_ctr = 0, loop_idx_ctr = 0, first_func = True, out_lines = []\<rparr>"

text \<open>The contents of \<^verbatim>\<open>inst_file\<close> after the call, or the exception that ends it.\<close>

definition wat_to_inst :: "string \<Rightarrow> string res" where
  "wat_to_inst wat_text =
     (let wat = wat_lines wat_text in
      rbind (collect_names wat) (\<lambda>names.
      rbind (rfold (emit_line names) (filter critical_line wat) init_emit) (\<lambda>st.
      Inr (unlines (out_lines (emit_close st))))))"

section \<open>Tokens\<close>

datatype tok =
    TFunc | TBlock | TLoop | TEnd
  | TBr int | TBrIf int | TBrTable | TReturn
  | TTee int | TSet int | TCall int | TCallIndirect

definition classify :: "(string \<times> int) list \<Rightarrow> string \<Rightarrow> tok res" where
  "classify names line =
     (if py_startswith line ''(func'' then Inr TFunc
      else if py_startswith line ''block'' then Inr TBlock
      else if py_startswith line ''loop'' then Inr TLoop
      else if py_startswith line ''end'' then Inr TEnd
      else if py_startswith line ''br_if'' then rbind (int_operand line) (\<lambda>d. Inr (TBrIf d))
      else if py_startswith line ''br_table'' then Inr TBrTable
      else if py_startswith line ''br'' then rbind (int_operand line) (\<lambda>d. Inr (TBr d))
      else if py_startswith line ''return'' then Inr TReturn
      else if py_startswith line ''local.tee'' then rbind (int_operand line) (\<lambda>i. Inr (TTee i))
      else if py_startswith line ''local.set'' then rbind (int_operand line) (\<lambda>i. Inr (TSet i))
      else if py_startswith line ''call_indirect'' then Inr TCallIndirect
      else if py_startswith line ''call'' then
        rbind (py_index (py_split line) 1) (\<lambda>f. rbind (lookup_func_idx names f) (\<lambda>i. Inr (TCall i)))
      else Inl (AssertionError ''Invalid instruction''))"

fun leaf_line :: "tok \<Rightarrow> string" where
  "leaf_line (TBr d) = ''op_br '' @ str_int d"
| "leaf_line (TBrIf d) = ''op_br_if '' @ str_int d"
| "leaf_line TBrTable = ''op_br_table''"
| "leaf_line TReturn = ''op_return''"
| "leaf_line (TTee i) = ''op_tee '' @ str_int i"
| "leaf_line (TSet i) = ''op_set '' @ str_int i"
| "leaf_line (TCall i) = ''op_call '' @ str_int i"
| "leaf_line TCallIndirect = ''op_call_indirect''"
| "leaf_line TBlock = ''begin_block''"
| "leaf_line TEnd = ''end_block''"
| "leaf_line TFunc = []"
| "leaf_line TLoop = []"

fun emit_tok :: "tok \<Rightarrow> emit_state \<Rightarrow> emit_state" where
  "emit_tok TFunc st =
     (let st1 = emit_close st
      in st1\<lparr>func_idx_ctr := func_idx_ctr st1 + 1, loop_idx_ctr := 0, first_func := False,
             out_lines := out_lines st1 @ [''begin_func '' @ str_int (func_idx_ctr st1), ''begin_block'']\<rparr>)"
| "emit_tok TLoop st =
     st\<lparr>loop_idx_ctr := loop_idx_ctr st + 1,
        out_lines := out_lines st @ [''begin_loop '' @ str_int (loop_idx_ctr st)]\<rparr>"
| "emit_tok t st = st\<lparr>out_lines := out_lines st @ [leaf_line t]\<rparr>"

text \<open>The writer is the token semantics of the classified line, errors included.\<close>

lemma emit_line_classify:
  "emit_line names line st = rbind (classify names line) (\<lambda>t. Inr (emit_tok t st))"
  by (simp add: emit_line_def classify_def write_line_def emit_close_def Let_def rbind_assoc)

lemma emit_lines_classify:
  "rfold (emit_line names) ls st = rbind (rmap (classify names) ls) (\<lambda>ts. Inr (fold emit_tok ts st))"
proof (induction ls arbitrary: st)
  case (Cons l ls)
  show ?case
    by (cases "classify names l"; cases "rmap (classify names) ls")
       (simp_all add: emit_line_classify [of names l st] Cons)
qed simp

section \<open>Structured code and the lines it is written as\<close>

datatype code = CLeaf tok | CBlock "code list" | CLoop "code list"

definition is_leaf :: "tok \<Rightarrow> bool" where
  "is_leaf t \<longleftrightarrow> t \<notin> {TFunc, TBlock, TLoop, TEnd}"

fun code_ok :: "code \<Rightarrow> bool" where
  "code_ok (CLeaf t) = is_leaf t"
| "code_ok (CBlock cs) = list_all code_ok cs"
| "code_ok (CLoop cs) = list_all code_ok cs"

fun flatten :: "code \<Rightarrow> tok list" where
  "flatten (CLeaf t) = [t]"
| "flatten (CBlock cs) = TBlock # concat (map flatten cs) @ [TEnd]"
| "flatten (CLoop cs) = TLoop # concat (map flatten cs) @ [TEnd]"

definition flatten_funcs :: "code list list \<Rightarrow> tok list" where
  "flatten_funcs fs = concat (map (\<lambda>b. TFunc # concat (map flatten b)) fs)"

fun loop_count :: "code \<Rightarrow> int" where
  "loop_count (CLeaf t) = 0"
| "loop_count (CBlock cs) = sum_list (map loop_count cs)"
| "loop_count (CLoop cs) = 1 + sum_list (map loop_count cs)"

fun code_lines :: "int \<Rightarrow> code \<Rightarrow> string list"
and codes_lines :: "int \<Rightarrow> code list \<Rightarrow> string list" where
  "code_lines k (CLeaf t) = [leaf_line t]"
| "code_lines k (CBlock cs) = ''begin_block'' # codes_lines k cs @ [''end_block'']"
| "code_lines k (CLoop cs) = (''begin_loop '' @ str_int k) # codes_lines (k + 1) cs @ [''end_block'']"
| "codes_lines k [] = []"
| "codes_lines k (c # cs) = code_lines k c @ codes_lines (k + loop_count c) cs"

definition func_lines :: "int \<Rightarrow> code list \<Rightarrow> string list" where
  "func_lines i b = [''begin_func '' @ str_int i, ''begin_block''] @ codes_lines 0 b @ [''end_block'', ''end_func'']"

fun funcs_lines :: "int \<Rightarrow> code list list \<Rightarrow> string list" where
  "funcs_lines i [] = []"
| "funcs_lines i (b # bs) = func_lines i b @ funcs_lines (i + 1) bs"

lemma emit_leaf:
  "is_leaf t \<Longrightarrow> emit_tok t st = st\<lparr>out_lines := out_lines st @ [leaf_line t]\<rparr>"
  by (cases t) (auto simp: is_leaf_def)

lemma emit_code:
  "code_ok c \<Longrightarrow> fold emit_tok (flatten c) st =
     st\<lparr>loop_idx_ctr := loop_idx_ctr st + loop_count c,
        out_lines := out_lines st @ code_lines (loop_idx_ctr st) c\<rparr>"
  and emit_codes:
  "list_all code_ok cs \<Longrightarrow> fold emit_tok (concat (map flatten cs)) st =
     st\<lparr>loop_idx_ctr := loop_idx_ctr st + sum_list (map loop_count cs),
        out_lines := out_lines st @ codes_lines (loop_idx_ctr st) cs\<rparr>"
proof (induction "loop_idx_ctr st" c and "loop_idx_ctr st" cs arbitrary: st and st
    rule: code_lines_codes_lines.induct)
  case (1 t)
  then show ?case by (simp add: emit_leaf)
next
  case (2 cs)
  then show ?case by simp
next
  case (3 cs)
  then show ?case by (simp add: add.assoc)
next
  case 4
  then show ?case by simp
next
  case (5 c cs)
  then show ?case by (simp add: add.assoc)
qed

lemma emit_func:
  assumes "list_all code_ok b"
  shows "out_lines (emit_close (fold emit_tok (TFunc # concat (map flatten b)) st)) =
           out_lines (emit_close st) @ func_lines (func_idx_ctr st) b"
    and "func_idx_ctr (fold emit_tok (TFunc # concat (map flatten b)) st) = func_idx_ctr st + 1"
    and "\<not> first_func (fold emit_tok (TFunc # concat (map flatten b)) st)"
  using assms
  by (simp_all add: emit_codes func_lines_def emit_close_def write_line_def Let_def)

lemma emit_funcs:
  "list_all (list_all code_ok) fs \<Longrightarrow>
   out_lines (emit_close (fold emit_tok (flatten_funcs fs) st)) =
     out_lines (emit_close st) @ funcs_lines (func_idx_ctr st) fs"
proof (induction fs arbitrary: st)
  case (Cons b fs)
  let ?st = "fold emit_tok (TFunc # concat (map flatten b)) st"
  have "out_lines (emit_close (fold emit_tok (flatten_funcs (b # fs)) st)) =
          out_lines (emit_close (fold emit_tok (flatten_funcs fs) ?st))"
    by (simp add: flatten_funcs_def)
  also have "\<dots> = out_lines (emit_close ?st) @ funcs_lines (func_idx_ctr ?st) fs"
    using Cons by simp
  also have "\<dots> = out_lines (emit_close st) @ func_lines (func_idx_ctr st) b @
      funcs_lines (func_idx_ctr st + 1) fs"
    using Cons.prems emit_func(1,2) [of b st] by (simp only: list.pred_inject append_assoc)
  finally show ?case by simp
qed (simp add: flatten_funcs_def)

text \<open>
  A text whose critical lines are the tokens of structured functions is written as the
  lines of these functions.
\<close>

theorem wat_to_inst_structured:
  assumes "collect_names (wat_lines wat) = Inr names"
    and "rmap (classify names) (filter critical_line (wat_lines wat)) = Inr (flatten_funcs fs)"
    and "list_all (list_all code_ok) fs"
  shows "wat_to_inst wat = Inr (unlines (funcs_lines 0 fs))"
  using assms emit_funcs [of fs init_emit]
  by (simp add: wat_to_inst_def emit_lines_classify init_emit_def emit_close_def)

end
