(* ===== verification/InstRoundtrip.thy ===== *)
theory InstRoundtrip
  imports InstParse
begin

text \<open>
  The writer of \<open>WatToInst\<close> and the parser of \<open>InstParse\<close> together: the program that
  \<^verbatim>\<open>WasmProgram\<close> builds from the written instruction file is the tree of the module's
  structured code, with its functions numbered from 0 and the loops of each function
  numbered in the order in which they open. \<open>load_program\<close> is the front end of the
  analysis, from the text of the module to the tree.
\<close>

section \<open>The tree of structured code\<close>

fun leaf_node :: "tok \<Rightarrow> wnode" where
  "leaf_node (TTee i) = WSet no_data i"
| "leaf_node (TSet i) = WSet no_data i"
| "leaf_node (TCall i) = WCall no_data i"
| "leaf_node TCallIndirect = WCall no_data (- 1)"
| "leaf_node t = WBranch no_data"

fun tree_of :: "int \<Rightarrow> code \<Rightarrow> wnode"
and trees_of :: "int \<Rightarrow> code list \<Rightarrow> wnode list" where
  "tree_of k (CLeaf t) = leaf_node t"
| "tree_of k (CBlock cs) = WBlock no_data (trees_of k cs)"
| "tree_of k (CLoop cs) = WLoop no_data k (trees_of (k + 1) cs)"
| "trees_of k [] = []"
| "trees_of k (c # cs) = tree_of k c # trees_of (k + loop_count c) cs"

definition func_tree :: "int \<Rightarrow> code list \<Rightarrow> wfunc" where
  "func_tree i b = \<lparr>func_idx = i, fblock = WBlock no_data (trees_of 0 b), fdata = no_data\<rparr>"

fun funcs_trees :: "int \<Rightarrow> code list list \<Rightarrow> wfunc list" where
  "funcs_trees i [] = []"
| "funcs_trees i (b # bs) = func_tree i b # funcs_trees (i + 1) bs"

section \<open>Streams split at the next instruction\<close>

definition stream_at :: "string list list \<Rightarrow> string list list \<Rightarrow> inst_stream" where
  "stream_at pre rest = \<lparr>insts = pre @ rest, inst_idx = length pre\<rparr>"

lemma stream_at_simps [simp]:
  "stream_end (stream_at pre rest) = (rest = [])"
  "stream_expect (stream_at pre ((t' # ws) # rest)) t = Inr (t' = t)"
  "stream_peek (stream_at pre (w # rest)) = Inr w"
  "stream_next (stream_at pre (w # rest)) = Inr (w, stream_at (pre @ [w]) rest)"
  "fuel_of (stream_at pre rest) = Suc (length rest)"
  by (simp_all add: stream_at_def stream_end_def stream_expect_def stream_peek_def stream_next_def fuel_of_def)

lemma next_int_at [simp]:
  "next_int (stream_at pre ((t # str_int i # ws) # rest)) = Inr (i, stream_at (pre @ [t # str_int i # ws]) rest)"
  by (simp add: next_int_def)

lemma if_expect_at [simp]:
  "if_expect (stream_at pre ((t' # ws) # rest)) t a b = (if t' = t then a else b)"
  by (simp add: if_expect_def)

lemma expect_or_fail_at [simp]:
  "expect_or_fail (stream_at pre ((t' # ws) # rest)) t = py_assert (t' = t) []"
  by (simp add: expect_or_fail_def)

section \<open>The words of a written line\<close>

abbreviation line_words :: "string \<Rightarrow> string list" where
  "line_words \<equiv> py_split_on (CHR '' '')"

lemma split_char_aux_str_int: "split_char_aux (CHR '' '') [] (str_int i) = [str_int i]"
proof -
  have "CHR '' '' \<notin> set (str_int i)" using str_int_no_space by fastforce
  then show ?thesis using py_split_on_single by (simp add: py_split_on_def)
qed

lemma line_words_fixed [simp]:
  "line_words ''begin_block'' = [''begin_block'']"
  "line_words ''end_block'' = [''end_block'']"
  "line_words ''end_func'' = [''end_func'']"
  by (simp_all add: py_split_on_def)

lemma line_words_begin [simp]:
  "line_words (''begin_loop '' @ str_int i) = [''begin_loop'', str_int i]"
  "line_words (''begin_func '' @ str_int i) = [''begin_func'', str_int i]"
  by (simp_all add: py_split_on_def split_char_aux_str_int)

fun leaf_words :: "tok \<Rightarrow> string list" where
  "leaf_words (TBr d) = [''op_br'', str_int d]"
| "leaf_words (TBrIf d) = [''op_br_if'', str_int d]"
| "leaf_words TBrTable = [''op_br_table'']"
| "leaf_words TReturn = [''op_return'']"
| "leaf_words (TTee i) = [''op_tee'', str_int i]"
| "leaf_words (TSet i) = [''op_set'', str_int i]"
| "leaf_words (TCall i) = [''op_call'', str_int i]"
| "leaf_words TCallIndirect = [''op_call_indirect'']"
| "leaf_words t = [[]]"

lemma line_words_leaf: "is_leaf t \<Longrightarrow> line_words (leaf_line t) = leaf_words t"
  by (cases t) (simp_all add: is_leaf_def py_split_on_def split_char_aux_str_int)

fun code_words :: "int \<Rightarrow> code \<Rightarrow> string list list"
and codes_words :: "int \<Rightarrow> code list \<Rightarrow> string list list" where
  "code_words k (CLeaf t) = [leaf_words t]"
| "code_words k (CBlock cs) = [''begin_block''] # codes_words k cs @ [[''end_block'']]"
| "code_words k (CLoop cs) = [''begin_loop'', str_int k] # codes_words (k + 1) cs @ [[''end_block'']]"
| "codes_words k [] = []"
| "codes_words k (c # cs) = code_words k c @ codes_words (k + loop_count c) cs"

lemma line_words_code:
  "code_ok c \<Longrightarrow> map line_words (code_lines k c) = code_words k c"
  and line_words_codes:
  "list_all code_ok cs \<Longrightarrow> map line_words (codes_lines k cs) = codes_words k cs"
  by (induction k c and k cs rule: code_lines_codes_lines.induct)
     (simp_all add: line_words_leaf del: append_Cons)

lemma code_words_length: "\<exists>j. length (code_words k c) = Suc j"
  by (cases c) simp_all

section \<open>Parsing the lines of structured code\<close>

lemma parse_leaf:
  assumes "is_leaf t"
  shows "parse_insts (Suc n) msg (stream_at pre (leaf_words t # rest)) =
    rbind (parse_insts n msg (stream_at (pre @ [leaf_words t]) rest))
      (\<lambda>(is, s2). Inr (leaf_node t # is, s2))"
  using assms
  by (cases t) (simp_all add: is_leaf_def token_to_class_def construct_def parse_branch_def
      parse_call_def parse_set_def)

lemma parse_code:
  "code_ok c \<Longrightarrow> length (code_words k c @ rest) \<le> Suc n \<Longrightarrow>
   parse_insts (Suc n) msg (stream_at pre (code_words k c @ rest)) =
     rbind (parse_insts n msg (stream_at (pre @ code_words k c) rest))
       (\<lambda>(is, s2). Inr (tree_of k c # is, s2))"
  and parse_codes:
  "list_all code_ok cs \<Longrightarrow> length (codes_words k cs @ [''end_block''] # rest) \<le> n \<Longrightarrow>
   parse_insts n msg (stream_at pre (codes_words k cs @ [''end_block''] # rest)) =
     Inr (trees_of k cs, stream_at (pre @ codes_words k cs) ([''end_block''] # rest))"
proof (induction k c and k cs arbitrary: n msg pre rest and n msg pre rest
    rule: code_words_codes_words.induct)
  case (1 k t)
  then show ?case by (simp add: parse_leaf del: parse_insts.simps)
next
  case (2 k cs)
  then show ?case
    by (simp add: token_to_class_def construct_def parse_block_def)
next
  case (3 k cs)
  then show ?case
    by (simp add: token_to_class_def construct_def parse_loop_def)
next
  case (4 k)
  then show ?case by (cases n) simp_all
next
  case (5 k c cs)
  obtain m where m: "n = Suc m" using 5(4) by (cases n) simp_all
  obtain j where "length (code_words k c) = Suc j" using code_words_length by blast
  with 5 m show ?case by (simp del: parse_insts.simps)
qed

text \<open>
  The statements above leave the body of a block to the caller; a whole block and a whole
  function follow.
\<close>

lemma parse_block_code:
  "list_all code_ok b \<Longrightarrow> length (codes_words 0 b) + length rest < n \<Longrightarrow>
   parse_block (parse_insts n) (stream_at pre ([''begin_block''] # codes_words 0 b @ [''end_block''] # rest)) =
     Inr (WBlock no_data (trees_of 0 b), stream_at (pre @ [''begin_block''] # codes_words 0 b @ [[''end_block'']]) rest)"
  by (simp add: parse_block_def parse_codes)

definition func_words :: "int \<Rightarrow> code list \<Rightarrow> string list list" where
  "func_words i b = [[''begin_func'', str_int i], [''begin_block'']] @ codes_words 0 b @ [[''end_block''], [''end_func'']]"

fun funcs_words :: "int \<Rightarrow> code list list \<Rightarrow> string list list" where
  "funcs_words i [] = []"
| "funcs_words i (b # bs) = func_words i b @ funcs_words (i + 1) bs"

lemma parse_function_code:
  "list_all code_ok b \<Longrightarrow>
   parse_function (stream_at pre (func_words i b @ rest)) =
     Inr (func_tree i b, stream_at (pre @ func_words i b) rest)"
  by (simp add: parse_function_def func_words_def func_tree_def parse_block_code)

lemma parse_funcs_code:
  "list_all (list_all code_ok) fs \<Longrightarrow> length (funcs_words i fs) < n \<Longrightarrow>
   parse_funcs n (stream_at pre (funcs_words i fs)) = Inr (funcs_trees i fs)"
proof (induction i fs arbitrary: n pre rule: funcs_words.induct)
  case (1 i)
  then show ?case by (cases n) simp_all
next
  case (2 i b bs)
  then obtain m where m: "n = Suc m" by (cases n) simp_all
  have ne: "\<not> stream_end (stream_at pre (funcs_words i (b # bs)))" by (simp add: func_words_def)
  from 2 m ne show ?case by (simp add: parse_function_code) (simp add: func_words_def)
qed

section \<open>The written file\<close>

definition plain_line :: "string \<Rightarrow> bool" where
  "plain_line l \<longleftrightarrow> line_text l \<and> clean is_space l"

lemma space_not_in_str_int [simp]: "newline \<notin> set (str_int i)" "carriage \<notin> set (str_int i)"
  using str_int_no_space [of newline i] str_int_no_space [of carriage i]
  by (auto simp: is_space_def carriage_def newline_def)

lemma last_str_int [simp]: "\<not> is_space (last (str_int i))"
  by (rule str_int_no_space [of _ i]) simp

lemma plain_line_prefix:
  assumes "w \<noteq> []" and "newline \<notin> set w" and "carriage \<notin> set w" and "\<not> is_space (hd w)"
  shows "plain_line (w @ str_int i)"
  using assms by (simp add: plain_line_def line_text_def clean_def)

lemma plain_line_int [simp]:
  "plain_line (''begin_loop '' @ str_int i)" "plain_line (''begin_func '' @ str_int i)"
  "plain_line (''op_br '' @ str_int i)" "plain_line (''op_br_if '' @ str_int i)"
  "plain_line (''op_tee '' @ str_int i)" "plain_line (''op_set '' @ str_int i)"
  "plain_line (''op_call '' @ str_int i)"
  by (rule plain_line_prefix; simp add: newline_def carriage_def is_space_def)+

lemma plain_line_fixed [simp]:
  "plain_line ''begin_block''" "plain_line ''end_block''" "plain_line ''end_func''"
  "plain_line ''op_br_table''" "plain_line ''op_return''" "plain_line ''op_call_indirect''"
  by (simp_all add: plain_line_def line_text_def clean_def newline_def carriage_def is_space_def)

lemma plain_leaf_line: "is_leaf t \<Longrightarrow> plain_line (leaf_line t)"
  by (cases t) (simp_all add: is_leaf_def del: append_Cons)

lemma plain_code_lines:
  "code_ok c \<Longrightarrow> list_all plain_line (code_lines k c)"
  and plain_codes_lines: "list_all code_ok cs \<Longrightarrow> list_all plain_line (codes_lines k cs)"
  by (induction k c and k cs rule: code_lines_codes_lines.induct)
     (simp_all add: plain_leaf_line del: append_Cons)

lemma plain_funcs_lines: "list_all (list_all code_ok) fs \<Longrightarrow> list_all plain_line (funcs_lines i fs)"
  by (induction i fs rule: funcs_lines.induct)
     (simp_all add: func_lines_def plain_codes_lines del: append_Cons)

lemma line_words_funcs:
  "list_all (list_all code_ok) fs \<Longrightarrow> map line_words (funcs_lines i fs) = funcs_words i fs"
  by (induction i fs rule: funcs_lines.induct)
     (simp_all add: func_lines_def func_words_def line_words_codes del: append_Cons)

lemma load_insts_unlines:
  assumes "list_all plain_line ls"
  shows "load_insts (unlines ls) = stream_at [] (map line_words ls)"
proof -
  have "py_readlines (unlines ls) = map (\<lambda>l. l @ [newline]) ls"
    using assms by (intro py_readlines_unlines) (auto simp: list_all_iff plain_line_def)
  then show ?thesis
    using assms by (auto simp: load_insts_def stream_at_def list_all_iff plain_line_def strip_written_line)
qed

section \<open>The front end\<close>

text \<open>
  \<^verbatim>\<open>wat_to_inst(wat_file, wat_inst_file); inst_stream = InstStream(wat_inst_file);
  program = WasmProgram(inst_stream)\<close>.
\<close>

definition load_program :: "string \<Rightarrow> wfunc list res" where
  "load_program wat_text = rbind (wat_to_inst wat_text) (\<lambda>inst_text. parse_program (load_insts inst_text))"

lemma parse_written_funcs:
  "list_all (list_all code_ok) fs \<Longrightarrow> parse_program (load_insts (unlines (funcs_lines i fs))) = Inr (funcs_trees i fs)"
  by (simp add: load_insts_unlines plain_funcs_lines parse_program_def line_words_funcs parse_funcs_code
      del: parse_funcs.simps)

lemma load_program_structured:
  assumes "collect_names (wat_lines wat) = Inr names"
    and "rmap (classify names) (filter critical_line (wat_lines wat)) = Inr (flatten_funcs fs)"
    and "list_all (list_all code_ok) fs"
  shows "load_program wat = Inr (funcs_trees 0 fs)"
  using assms by (simp add: load_program_def wat_to_inst_structured parse_written_funcs)

end
