(* ===== verification/NodeTree.thy ===== *)
theory NodeTree
  imports InstParse
begin

text \<open>
  What the three passes share: the nodes below a node, the shape of a tree without the
  annotations in \<^verbatim>\<open>data\<close>, and predicates that hold of every node of a tree. A pass changes
  annotations only, so its results are stated over the shape.
\<close>

fun nodes :: "wnode \<Rightarrow> wnode list" where
  "nodes (WLoop d i is) = WLoop d i is # concat (map nodes is)"
| "nodes (WBlock d is) = WBlock d is # concat (map nodes is)"
| "nodes n = [n]"

lemma self_in_nodes [simp]: "n \<in> set (nodes n)"
  by (cases n) simp_all

definition every :: "(wnode \<Rightarrow> bool) \<Rightarrow> wnode \<Rightarrow> bool" where
  "every P n = list_all P (nodes n)"

lemma every_simps [simp]:
  "every P (WBranch d) = P (WBranch d)"
  "every P (WCall d c) = P (WCall d c)"
  "every P (WSet d i) = P (WSet d i)"
  "every P (WLoop d i is) = (P (WLoop d i is) \<and> list_all (every P) is)"
  "every P (WBlock d is) = (P (WBlock d is) \<and> list_all (every P) is)"
  by (auto simp: every_def list_all_iff)

lemma every_self: "every P n \<Longrightarrow> P n"
  by (simp add: every_def list_all_iff)

text \<open>The shape: the tree with empty annotations.\<close>

fun shape :: "wnode \<Rightarrow> wnode" where
  "shape (WBranch d) = WBranch no_data"
| "shape (WCall d c) = WCall no_data c"
| "shape (WSet d i) = WSet no_data i"
| "shape (WLoop d i is) = WLoop no_data i (map shape is)"
| "shape (WBlock d is) = WBlock no_data (map shape is)"

definition func_shape :: "wfunc \<Rightarrow> int \<times> wnode" where
  "func_shape f = (func_idx f, shape (fblock f))"

lemma shape_nodes: "set (map shape (nodes n)) = set (nodes (shape n))"
  by (induction n rule: nodes.induct) (auto simp: image_iff)

lemma map_shape_eq_Cons:
  "map shape xs = map shape (y # ys) \<longleftrightarrow>
     (\<exists>x xs'. xs = x # xs' \<and> shape x = shape y \<and> map shape xs' = map shape ys)"
  by (cases xs) auto

text \<open>Node kinds, on the shape.\<close>

fun is_loop :: "wnode \<Rightarrow> bool" where
  "is_loop (WLoop d i is) = True"
| "is_loop n = False"

fun is_call :: "wnode \<Rightarrow> bool" where
  "is_call (WCall d c) = True"
| "is_call n = False"

lemma is_loop_shape [simp]: "is_loop (shape n) = is_loop n"
  by (cases n) simp_all

lemma is_call_shape [simp]: "is_call (shape n) = is_call n"
  by (cases n) simp_all

end
