(* ===== verification/FrontEnd.thy ===== *)
theory FrontEnd
  imports InstRoundtrip NodeTree
begin

text \<open>
  More about the front end of \<^verbatim>\<open>src/wasm_static_analysis.py\<close>, from the text of the module to
  the program tree: the parser always ends; a tree it returns carries no annotation; the
  numbers that calls refer to are the numbers of the functions; and a function with one
  more \<^verbatim>\<open>end\<close> than blocks and loops, such as every function that uses \<^verbatim>\<open>if\<close>, is rejected.
\<close>

section \<open>Termination\<close>

lemma rbind_fuel:
  "r \<noteq> Inl OutOfFuel \<Longrightarrow> (\<And>x. r = Inr x \<Longrightarrow> f x \<noteq> Inl OutOfFuel) \<Longrightarrow> rbind r f \<noteq> Inl OutOfFuel"
  by (cases r) auto

lemma rfold_fuel: "(\<And>x s. f x s \<noteq> Inl OutOfFuel) \<Longrightarrow> rfold f xs s \<noteq> Inl OutOfFuel"
  by (induction xs arbitrary: s) (simp_all add: rbind_fuel)

lemma add_name_fuel: "add_name n st \<noteq> Inl OutOfFuel"
  by (simp add: add_name_def)

lemma py_assert_fuel: "py_assert c m \<noteq> Inl OutOfFuel"
  by (simp add: py_assert_def)

lemma collect_import_fuel: "collect_import line st \<noteq> Inl OutOfFuel"
proof (cases "py_startswith line ''(import ''")
  case True
  show ?thesis
    unfolding collect_import_def Let_def if_P [OF True]
    by (intro rbind_fuel py_assert_fuel add_name_fuel py_index_fuel)
qed (simp add: collect_import_def)

lemma collect_func_fuel: "collect_func line st \<noteq> Inl OutOfFuel"
proof (cases "py_startswith line ''(func''")
  case True
  show ?thesis
    unfolding collect_func_def if_P [OF True] by (intro rbind_fuel add_name_fuel py_index_fuel)
qed (simp add: collect_func_def)

lemma collect_names_fuel: "collect_names wat \<noteq> Inl OutOfFuel"
  unfolding collect_names_def collect_line_def
  by (intro rbind_fuel rfold_fuel collect_import_fuel collect_func_fuel) simp

lemma lookup_fuel: "lookup_func_idx names f \<noteq> Inl OutOfFuel"
  by (simp add: lookup_func_idx_def split: option.split)

lemma int_operand_fuel: "int_operand line \<noteq> Inl OutOfFuel"
  unfolding int_operand_def by (rule rbind_fuel) simp_all

lemma if_fuel: "a \<noteq> Inl OutOfFuel \<Longrightarrow> b \<noteq> Inl OutOfFuel \<Longrightarrow> (if c then a else b) \<noteq> Inl OutOfFuel"
  by simp

lemma emit_line_fuel: "emit_line names line st \<noteq> Inl OutOfFuel"
  unfolding emit_line_classify classify_def
  by (intro rbind_fuel if_fuel int_operand_fuel lookup_fuel py_index_fuel) simp_all

lemma wat_to_inst_fuel: "wat_to_inst wat \<noteq> Inl OutOfFuel"
  unfolding wat_to_inst_def Let_def
  by (intro rbind_fuel rfold_fuel) (simp_all add: collect_names_fuel emit_line_fuel)

lemma parse_program_fuel: "parse_program s \<noteq> Inl OutOfFuel"
  unfolding parse_program_def by (rule parse_funcs_fuel) (simp add: fuel_of_def)

lemma load_program_fuel: "load_program wat \<noteq> Inl OutOfFuel"
  unfolding load_program_def by (intro rbind_fuel) (simp_all add: wat_to_inst_fuel parse_program_fuel)

section \<open>Every tree of the parser is unannotated\<close>

definition bare :: "wnode \<Rightarrow> bool" where
  "bare = every (\<lambda>n. node_data n = no_data)"

lemma bare_simps [simp]:
  "bare (WBranch d) = (d = no_data)"
  "bare (WCall d c) = (d = no_data)"
  "bare (WSet d i) = (d = no_data)"
  "bare (WLoop d i is) = (d = no_data \<and> list_all bare is)"
  "bare (WBlock d is) = (d = no_data \<and> list_all bare is)"
  by (simp_all add: bare_def)

definition yields :: "('a \<Rightarrow> bool) \<Rightarrow> ('a \<times> 's) res \<Rightarrow> bool" where
  "yields P r \<longleftrightarrow> (\<forall>x s. r = Inr (x, s) \<longrightarrow> P x)"

lemma yields_Inl [simp]: "yields P (Inl e)"
  by (simp add: yields_def)

lemma yields_Inr [simp]: "yields P (Inr (x, s)) = P x"
  by (simp add: yields_def)

lemma yields_bind: "(\<And>x. r = Inr x \<Longrightarrow> yields P (f x)) \<Longrightarrow> yields P (rbind r f)"
  by (cases r) auto

lemma yields_if: "yields P a \<Longrightarrow> yields P b \<Longrightarrow> yields P (if_expect s t a b)"
  unfolding if_expect_def by (rule yields_bind) simp

lemma yields_leaf:
  "yields bare (parse_branch s)" "yields bare (parse_call s)" "yields bare (parse_set s)"
  unfolding parse_branch_def parse_call_def parse_set_def Let_def
  by (intro yields_if; (rule yields_bind; simp split: prod.split)?; simp)+

lemma yields_container:
  assumes "\<And>msg s1. yields (list_all bare) (body msg s1)"
  shows "yields bare (parse_loop body s)" and "yields bare (parse_block body s)"
proof -
  have body: "list_all bare is" if "body msg s1 = Inr (is, s2)" for msg s1 "is" s2
    using assms [of msg s1] that by (simp add: yields_def)
  show "yields bare (parse_loop body s)"
    unfolding parse_loop_def by (auto simp: yields_def body elim!: rbind_InrE)
  show "yields bare (parse_block body s)"
    unfolding parse_block_def by (auto simp: yields_def body elim!: rbind_InrE)
qed

lemma yields_construct:
  "(\<And>msg s1. yields (list_all bare) (body msg s1)) \<Longrightarrow> yields bare (construct body c s)"
  by (cases c) (simp_all add: construct_def yields_leaf yields_container)

lemma parse_insts_bare: "yields (list_all bare) (parse_insts n msg s)"
proof (induction n arbitrary: msg s)
  case (Suc n)
  have "yields (list_all bare) (rbind (construct (parse_insts n) c s)
      (\<lambda>(i, s1). rbind (parse_insts n msg s1) (\<lambda>(is, s2). Inr (i # is, s2))))" for c
    using yields_construct [of "parse_insts n" c s, OF Suc] Suc
    by (intro yields_bind) (auto simp: yields_def split: prod.splits elim!: rbind_InrE, blast)
  then show ?case by (auto intro!: yields_bind split: option.split)
qed simp

lemma parse_funcs_bare:
  "parse_funcs n s = Inr fs \<Longrightarrow> list_all (\<lambda>f. bare (fblock f) \<and> fdata f = no_data) fs"
proof (induction n arbitrary: s fs)
  case (Suc n)
  have blk: "bare b" if "parse_block (parse_insts k) s1 = Inr (b, s2)" for k s1 b s2
    using yields_container(2) [of "parse_insts k" s1] parse_insts_bare that by (auto simp: yields_def)
  have fn: "bare (fblock f) \<and> fdata f = no_data" if "parse_function s = Inr (f, s1)" for f s1
    using that blk by (auto simp: parse_function_def elim!: rbind_InrE split: prod.splits)
  show ?case
  proof (cases "stream_end s")
    case False
    with Suc.prems obtain f s1 gs where "parse_function s = Inr (f, s1)" "parse_funcs n s1 = Inr gs" "fs = f # gs"
      by (auto elim!: rbind_InrE split: prod.splits)
    with Suc.IH fn show ?thesis by simp
  qed (use Suc.prems in simp)
qed simp

lemma load_program_bare:
  "load_program wat = Inr fs \<Longrightarrow> list_all (\<lambda>f. bare (fblock f) \<and> fdata f = no_data) fs"
  by (auto simp: load_program_def parse_program_def elim!: rbind_InrE intro: parse_funcs_bare)

section \<open>One \<^verbatim>\<open>end\<close> too many\<close>

text \<open>
  \<open>emits\<close>: what a token appends to the file is at least one line, in the form the reader
  expects, and the first of them is not \<^verbatim>\<open>end_func\<close>.
\<close>

definition emitted :: "string list \<Rightarrow> bool" where
  "emitted ls \<longleftrightarrow> list_all plain_line ls \<and> (\<exists>w ws r. map line_words ls = (w # ws) # r \<and> w \<noteq> ''end_func'')"

lemma emitted_close: "\<not> first_func st \<Longrightarrow> \<exists>ls. out_lines (emit_close st) = out_lines st @ ls \<and> emitted ls"
  by (simp add: emit_close_def write_line_def emitted_def)

lemma emitted_leaf:
  assumes "is_leaf t \<or> t = TBlock \<or> t = TEnd"
  shows "emitted [leaf_line t]"
proof (cases "is_leaf t")
  case True
  then have "\<exists>w ws. leaf_words t = w # ws \<and> w \<noteq> ''end_func''"
    by (cases t) (simp_all add: is_leaf_def)
  with True show ?thesis by (auto simp: emitted_def plain_leaf_line line_words_leaf)
qed (use assms in \<open>auto simp: emitted_def\<close>)

lemma emitted_tok:
  assumes "\<not> first_func st"
  shows "\<exists>ls. out_lines (emit_tok t st) = out_lines st @ ls \<and> emitted ls"
    and "\<not> first_func (emit_tok t st)"
proof -
  consider "t = TFunc" | "t = TLoop" | "is_leaf t \<or> t = TBlock \<or> t = TEnd"
    by (auto simp: is_leaf_def)
  then show "\<exists>ls. out_lines (emit_tok t st) = out_lines st @ ls \<and> emitted ls"
  proof cases
    case 1
    let ?f = "''begin_func '' @ str_int (func_idx_ctr st)"
    have "out_lines (emit_tok t st) = out_lines st @ [''end_block'', ''end_func'', ?f, ''begin_block'']"
      using 1 assms by (simp add: Let_def emit_close_def write_line_def)
    moreover have "list_all plain_line [''end_block'', ''end_func'', ?f, ''begin_block'']"
      by (simp del: append_Cons)
    then have "emitted [''end_block'', ''end_func'', ?f, ''begin_block'']"
      by (simp add: emitted_def)
    ultimately show ?thesis by blast
  next
    case 2
    let ?l = "''begin_loop '' @ str_int (loop_idx_ctr st)"
    have "emitted [?l]" using line_words_begin(1) plain_line_int(1) by (simp add: emitted_def del: append_Cons)
    with 2 show ?thesis by auto
  next
    case 3
    then have "out_lines (emit_tok t st) = out_lines st @ [leaf_line t]" by (cases t) (auto simp: is_leaf_def)
    with emitted_leaf [OF 3] show ?thesis by blast
  qed
  show "\<not> first_func (emit_tok t st)"
    using assms by (cases t) (simp_all add: Let_def)
qed

lemma emitted_append: "emitted xs \<Longrightarrow> emitted ys \<Longrightarrow> emitted (xs @ ys)"
  by (auto simp: emitted_def)

lemma emitted_rest:
  "\<not> first_func st \<Longrightarrow> \<exists>ls. out_lines (emit_close (fold emit_tok ts st)) = out_lines st @ ls \<and> emitted ls"
proof (induction ts arbitrary: st)
  case (Cons t ts)
  obtain ls where ls: "out_lines (emit_tok t st) = out_lines st @ ls" "emitted ls"
    using emitted_tok(1) [OF Cons.prems] by blast
  obtain ms where "out_lines (emit_close (fold emit_tok ts (emit_tok t st))) =
      out_lines (emit_tok t st) @ ms" "emitted ms"
    using Cons.IH [OF emitted_tok(2) [OF Cons.prems]] by blast
  with ls have "out_lines (emit_close (fold emit_tok (t # ts) st)) = out_lines st @ (ls @ ms)"
    "emitted (ls @ ms)" by (simp_all add: emitted_append)
  then show ?case by blast
qed (simp add: emitted_close)

lemma parse_funcs_prefix:
  "list_all (list_all code_ok) fs \<Longrightarrow>
   parse_funcs (length fs + n) (stream_at pre (funcs_words i fs @ r)) =
     rbind (parse_funcs n (stream_at (pre @ funcs_words i fs) r)) (\<lambda>gs. Inr (funcs_trees i fs @ gs))"
proof (induction i fs arbitrary: pre rule: funcs_words.induct)
  case (1 i)
  then show ?case by (cases "parse_funcs n (stream_at pre r)") simp_all
next
  case (2 i b bs)
  have "\<not> stream_end (stream_at pre (funcs_words i (b # bs) @ r))" by (simp add: func_words_def)
  with 2 show ?case
    by (simp add: parse_function_code rbind_assoc del: stream_at_simps(1))
qed

lemma length_funcs_words: "length fs \<le> length (funcs_words i fs)"
  by (induction i fs rule: funcs_words.induct) (simp_all add: func_words_def)

lemma parse_function_extra_end:
  assumes "list_all code_ok b" and "w \<noteq> ''end_func''"
  shows "parse_function (stream_at pre ([''begin_func'', str_int i] # [''begin_block''] #
    codes_words 0 b @ [''end_block''] # (w # ws) # r)) = Inl (AssertionError [])"
  using assms by (simp add: parse_function_def parse_block_code)

lemma fold_emit_extra_end:
  assumes "list_all (list_all code_ok) fs" and "list_all code_ok b"
  shows "\<exists>ls. emitted ls \<and>
    out_lines (emit_close (fold emit_tok (flatten_funcs fs @ TFunc # concat (map flatten b) @ TEnd # rest) init_emit)) =
    funcs_lines 0 fs @ ((''begin_func '' @ str_int (int (length fs))) # ''begin_block'' #
      codes_lines 0 b @ ''end_block'' # ls)"
proof -
  let ?st = "fold emit_tok (flatten_funcs fs) init_emit"
  let ?st1 = "fold emit_tok (TFunc # concat (map flatten b) @ [TEnd]) ?st"
  have idx: "func_idx_ctr (fold emit_tok (flatten_funcs gs) st) = func_idx_ctr st + int (length gs)"
    if "list_all (list_all code_ok) gs" for gs st
    using that
  proof (induction gs arbitrary: st)
    case (Cons g gs)
    then show ?case using emit_func(2) [of g st] by (simp add: flatten_funcs_def)
  qed (simp add: flatten_funcs_def)
  have "out_lines ?st1 = out_lines (emit_close ?st) @
      [''begin_func '' @ str_int (func_idx_ctr ?st), ''begin_block''] @ codes_lines 0 b @ [''end_block'']"
    and first: "\<not> first_func ?st1"
    using assms(2) by (simp_all add: emit_codes Let_def emit_close_def write_line_def)
  moreover have "out_lines (emit_close ?st) = funcs_lines 0 fs"
    using emit_funcs [OF assms(1), of init_emit] by (simp add: init_emit_def emit_close_def)
  moreover obtain ls where "out_lines (emit_close (fold emit_tok rest ?st1)) = out_lines ?st1 @ ls" "emitted ls"
    using emitted_rest [OF first] by blast
  ultimately show ?thesis using idx [OF assms(1), of init_emit] by (auto simp: init_emit_def)
qed

lemma load_program_extra_end:
  assumes "collect_names (wat_lines wat) = Inr names"
    and "rmap (classify names) (filter critical_line (wat_lines wat)) =
           Inr (flatten_funcs fs @ TFunc # concat (map flatten b) @ TEnd # rest)"
    and "list_all (list_all code_ok) fs" and "list_all code_ok b"
  shows "load_program wat = Inl (AssertionError [])"
proof -
  obtain ls where ls: "emitted ls" and out:
    "out_lines (emit_close (fold emit_tok (flatten_funcs fs @ TFunc # concat (map flatten b) @ TEnd # rest) init_emit)) =
      funcs_lines 0 fs @ ((''begin_func '' @ str_int (int (length fs))) # ''begin_block'' #
      codes_lines 0 b @ ''end_block'' # ls)" (is "_ = ?lines")
    using fold_emit_extra_end [OF assms(3,4)] by blast
  obtain w ws r where w: "map line_words ls = (w # ws) # r" "w \<noteq> ''end_func''"
    using ls by (auto simp: emitted_def)
  have "list_all plain_line ?lines"
    using assms(3,4) ls by (simp add: plain_funcs_lines plain_codes_lines emitted_def del: append_Cons)
  then have load: "load_insts (unlines ?lines) = stream_at [] (map line_words ?lines)"
    by (rule load_insts_unlines)
  let ?bad = "[''begin_func'', str_int (int (length fs))] # [''begin_block''] #
    codes_words 0 b @ [''end_block''] # (w # ws) # r"
  have words: "map line_words ?lines = funcs_words 0 fs @ ?bad"
    using assms(3,4) w(1) by (simp add: line_words_funcs line_words_codes del: append_Cons)
  obtain n where n: "fuel_of (stream_at [] (funcs_words 0 fs @ ?bad)) = length fs + Suc n"
    using length_funcs_words [of fs 0] le_Suc_ex [of "length fs" "length (funcs_words 0 fs) + length ?bad"]
    by fastforce
  have "parse_program (stream_at [] (funcs_words 0 fs @ ?bad)) =
      parse_funcs (length fs + Suc n) (stream_at [] (funcs_words 0 fs @ ?bad))"
    unfolding parse_program_def n ..
  also have "\<dots> = Inl (AssertionError [])"
    using parse_function_extra_end [OF assms(4) w(2)]
    by (simp only: parse_funcs_prefix [OF assms(3)] parse_funcs.simps stream_at_simps rbind_Inl) simp
  finally have parse: "parse_program (stream_at [] (funcs_words 0 fs @ ?bad)) = Inl (AssertionError [])" .
  have "wat_to_inst wat = Inr (unlines ?lines)"
    using assms(1,2) out by (simp only: wat_to_inst_def emit_lines_classify Let_def rbind_Inr)
  then show ?thesis
    by (simp only: load_program_def rbind_Inr load words parse)
qed

end
