(* ===== verification/SimpleFuncPass.thy ===== *)
theory SimpleFuncPass
  imports NodeTree
begin

text \<open>
  \<^verbatim>\<open>SimpleFuncPass\<close> of \<^verbatim>\<open>src/wasm_static_analysis.py\<close>: mark each visited node with whether it
  is simple, collect the indices of the functions whose body is, and repeat until the set
  stops growing. Visiting caches its verdict in the node, so a node is judged once.

  The set the pass returns is computed in closed form (\<open>simple_indices\<close>): the functions
  whose body holds neither a loop nor a call. \<^verbatim>\<open>visit_call\<close> overwrites the verdict \<^verbatim>\<open>True\<close>
  it gives to a call of a simple function, so the repetition never adds anything; the
  lemmas below show that it stops after one further round and prints nothing.
\<close>

section \<open>The pass\<close>

definition set_simple :: "bool \<Rightarrow> wdata \<Rightarrow> wdata" where
  "set_simple b d = d\<lparr>d_simple_func := Some b\<rparr>"

definition sf_visit_call :: "int set \<Rightarrow> wdata \<Rightarrow> int \<Rightarrow> wdata" where
  "sf_visit_call simple_func_set d callee_idx =
     (let d1 = (if callee_idx \<in> simple_func_set then set_simple True d else d) in set_simple False d1)"

text \<open>\<^verbatim>\<open>sf_visit_insts\<close> is the loop of \<^verbatim>\<open>visit_block\<close>, with its early return.\<close>

fun sf_visit :: "int set \<Rightarrow> wnode \<Rightarrow> wnode res"
and sf_visit_insts :: "int set \<Rightarrow> wnode list \<Rightarrow> (wnode list \<times> bool) res" where
  "sf_visit S (WLoop d i is) =
     (if d_simple_func d \<noteq> None then Inr (WLoop d i is) else Inr (WLoop (set_simple False d) i is))"
| "sf_visit S (WBlock d is) =
     (if d_simple_func d \<noteq> None then Inr (WBlock d is)
      else rbind (sf_visit_insts S is) (\<lambda>(is', b). Inr (WBlock (set_simple b d) is')))"
| "sf_visit S (WCall d c) =
     (if d_simple_func d \<noteq> None then Inr (WCall d c) else Inr (WCall (sf_visit_call S d c) c))"
| "sf_visit S (WBranch d) =
     (if d_simple_func d \<noteq> None then Inr (WBranch d) else Inr (WBranch (set_simple True d)))"
| "sf_visit S (WSet d i) =
     (if d_simple_func d \<noteq> None then Inr (WSet d i) else Inr (WSet (set_simple True d) i))"
| "sf_visit_insts S [] = Inr ([], True)"
| "sf_visit_insts S (n # ns) =
     rbind (sf_visit S n) (\<lambda>n'.
       case d_simple_func (node_data n') of
         None \<Rightarrow> Inl KeyError
       | Some b \<Rightarrow>
           if \<not> b then Inr (n' # ns, False)
           else rbind (sf_visit_insts S ns) (\<lambda>(ns', r). Inr (n' # ns', r)))"

definition sf_visit_func :: "int set \<Rightarrow> wfunc \<Rightarrow> wfunc res" where
  "sf_visit_func S f =
     (if d_simple_func (fdata f) \<noteq> None then Inr f
      else rbind (sf_visit S (fblock f)) (\<lambda>b.
        case d_simple_func (node_data b) of
          None \<Rightarrow> Inl KeyError
        | Some v \<Rightarrow> Inr (f\<lparr>fblock := b, fdata := set_simple v (fdata f)\<rparr>)))"

fun sf_iteration :: "int set \<Rightarrow> wfunc list \<Rightarrow> (int set \<times> wfunc list) res" where
  "sf_iteration S [] = Inr (S, [])"
| "sf_iteration S (f # fs) =
     rbind (sf_visit_func S f) (\<lambda>f'.
       case d_simple_func (fdata f') of
         None \<Rightarrow> Inl KeyError
       | Some b \<Rightarrow>
           let S1 = (if b then insert (func_idx f') S else S) in
           rbind (sf_iteration S1 fs) (\<lambda>(S2, fs'). Inr (S2, f' # fs')))"

text \<open>The \<^verbatim>\<open>while True\<close> loop, with what it prints.\<close>

fun sf_loop :: "nat \<Rightarrow> int set \<Rightarrow> wfunc list \<Rightarrow> string list \<Rightarrow> (int set \<times> wfunc list \<times> string list) res" where
  "sf_loop 0 S fs printed = Inl OutOfFuel"
| "sf_loop (Suc n) S fs printed =
     (let previous_cnt = card S in
      rbind (sf_iteration S fs) (\<lambda>(S1, fs1).
        if card S1 = previous_cnt then Inr (S1, fs1, printed)
        else sf_loop n S1 fs1 (printed @
          [''Continue to iterate, new simple function count: '' @ str_int (int (card S1) - int previous_cnt)])))"

definition SimpleFuncPass :: "wfunc list \<Rightarrow> (int list \<times> wfunc list \<times> string list) res" where
  "SimpleFuncPass fs =
     rbind (sf_iteration {} fs) (\<lambda>(S1, fs1).
     rbind (sf_loop (Suc (length fs)) S1 fs1 []) (\<lambda>(S2, fs2, printed).
     Inr (sorted_list_of_set S2, fs2, printed)))"

section \<open>The verdict of a visit\<close>

fun simple_node :: "wnode \<Rightarrow> bool" where
  "simple_node (WLoop d i is) = False"
| "simple_node (WBlock d is) = list_all simple_node is"
| "simple_node (WCall d c) = False"
| "simple_node (WBranch d) = True"
| "simple_node (WSet d i) = True"

lemma simple_node_iff: "simple_node n \<longleftrightarrow> (\<forall>m \<in> set (nodes n). \<not> is_loop m \<and> \<not> is_call m)"
  by (induction n rule: nodes.induct) (auto simp: list_all_iff)

lemma simple_node_shape [simp]: "simple_node (shape n) = simple_node n"
  by (induction n rule: nodes.induct) (auto simp: list_all_iff)

text \<open>The invariant of the annotations: a cached verdict is the verdict of the node.\<close>

definition sf_cached :: "wnode \<Rightarrow> bool" where
  "sf_cached n \<longleftrightarrow> d_simple_func (node_data n) \<in> {None, Some (simple_node n)}"

lemma sf_cached_simps [simp]:
  "sf_cached (WLoop d i is) = (d_simple_func d \<in> {None, Some False})"
  "sf_cached (WBlock d is) = (d_simple_func d \<in> {None, Some (list_all simple_node is)})"
  "sf_cached (WCall d c) = (d_simple_func d \<in> {None, Some False})"
  "sf_cached (WBranch d) = (d_simple_func d \<in> {None, Some True})"
  "sf_cached (WSet d i) = (d_simple_func d \<in> {None, Some True})"
  by (simp_all add: sf_cached_def)

abbreviation sf_inv :: "wnode \<Rightarrow> bool" where
  "sf_inv \<equiv> every sf_cached"

text \<open>What no visit of this pass touches: the shape and the other annotations.\<close>

fun but_simple :: "wnode \<Rightarrow> wnode" where
  "but_simple (WBranch d) = WBranch (d\<lparr>d_simple_func := None\<rparr>)"
| "but_simple (WCall d c) = WCall (d\<lparr>d_simple_func := None\<rparr>) c"
| "but_simple (WSet d i) = WSet (d\<lparr>d_simple_func := None\<rparr>) i"
| "but_simple (WLoop d i is) = WLoop (d\<lparr>d_simple_func := None\<rparr>) i (map but_simple is)"
| "but_simple (WBlock d is) = WBlock (d\<lparr>d_simple_func := None\<rparr>) (map but_simple is)"

lemma but_simple_shape [simp]: "shape (but_simple n) = shape n"
  by (induction n rule: nodes.induct) auto

lemma but_simple_simple [simp]: "simple_node (but_simple n) = simple_node n"
  by (induction n rule: nodes.induct) (auto simp: list_all_iff)

lemma but_simple_eqD:
  "but_simple n = but_simple m \<Longrightarrow> simple_node n = simple_node m"
  by (metis but_simple_simple)

lemma simple_list_but:
  "map but_simple ns = map but_simple ms \<Longrightarrow> list_all simple_node ns = list_all simple_node ms"
proof -
  assume *: "map but_simple ns = map but_simple ms"
  have "list_all simple_node ns = list_all simple_node (map but_simple ns)" for ns
    by (induction ns) auto
  with * show ?thesis by metis
qed

definition sf_visited :: "wnode \<Rightarrow> wnode \<Rightarrow> bool" where
  "sf_visited n n' \<longleftrightarrow>
     d_simple_func (node_data n') = Some (simple_node n) \<and> sf_inv n' \<and> but_simple n' = but_simple n"

lemma sf_visit_ok:
  "sf_inv n \<Longrightarrow> \<exists>n'. sf_visit S n = Inr n' \<and> sf_visited n n'"
  and sf_visit_insts_ok:
  "list_all sf_inv ns \<Longrightarrow> \<exists>ns'. sf_visit_insts S ns = Inr (ns', list_all simple_node ns) \<and>
     list_all sf_inv ns' \<and> map but_simple ns' = map but_simple ns"
proof (induction S n and S ns rule: sf_visit_sf_visit_insts.induct)
  case (2 S d "is")
  show ?case
  proof (cases "d_simple_func d")
    case None
    with 2 obtain ns' where ns': "sf_visit_insts S is = Inr (ns', list_all simple_node is)"
      "list_all sf_inv ns'" "map but_simple ns' = map but_simple is" by auto
    with None simple_list_but [OF ns'(3)] show ?thesis
      by (auto simp: sf_visited_def set_simple_def)
  qed (use 2 in \<open>auto simp: sf_visited_def\<close>)
next
  case (7 S n ns)
  then obtain n' where n': "sf_visit S n = Inr n'" "sf_visited n n'" by auto
  show ?case
  proof (cases "simple_node n")
    case True
    with 7 n' obtain ns' where "sf_visit_insts S ns = Inr (ns', list_all simple_node ns)"
      "list_all sf_inv ns'" "map but_simple ns' = map but_simple ns"
      by (auto simp: sf_visited_def)
    with True n' show ?thesis by (auto simp: sf_visited_def)
  qed (use 7 n' in \<open>auto simp: sf_visited_def\<close>)
qed (auto simp: sf_visited_def set_simple_def sf_visit_call_def Let_def)

section \<open>Functions and programs\<close>

definition sf_func_inv :: "wfunc \<Rightarrow> bool" where
  "sf_func_inv f \<longleftrightarrow> sf_inv (fblock f) \<and> d_simple_func (fdata f) \<in> {None, Some (simple_node (fblock f))}"

definition func_but_simple :: "wfunc \<Rightarrow> wfunc" where
  "func_but_simple f = f\<lparr>fblock := but_simple (fblock f), fdata := (fdata f)\<lparr>d_simple_func := None\<rparr>\<rparr>"

definition simple_indices :: "wfunc list \<Rightarrow> int set" where
  "simple_indices fs = {func_idx f | f. f \<in> set fs \<and> simple_node (fblock f)}"

lemma simple_indices_Nil [simp]: "simple_indices [] = {}"
  by (simp add: simple_indices_def)

lemma simple_indices_Cons [simp]:
  "simple_indices (f # fs) = (if simple_node (fblock f) then insert (func_idx f) (simple_indices fs) else simple_indices fs)"
  by (auto simp: simple_indices_def)

lemma finite_simple_indices [simp]: "finite (simple_indices fs)"
  by (induction fs) simp_all

lemma simple_indices_but:
  "map func_but_simple fs = map func_but_simple gs \<Longrightarrow> simple_indices fs = simple_indices gs"
proof -
  assume *: "map func_but_simple fs = map func_but_simple gs"
  have "simple_indices fs = simple_indices (map func_but_simple fs)" for fs
    by (induction fs) (simp_all add: func_but_simple_def)
  with * show ?thesis by metis
qed

lemma sf_visit_func_ok:
  assumes "sf_func_inv f"
  shows "\<exists>f'. sf_visit_func S f = Inr f' \<and> sf_func_inv f' \<and> func_but_simple f' = func_but_simple f \<and>
    d_simple_func (fdata f') = Some (simple_node (fblock f)) \<and> func_idx f' = func_idx f"
proof (cases "d_simple_func (fdata f)")
  case None
  obtain b where "sf_visit S (fblock f) = Inr b" "sf_visited (fblock f) b"
    using sf_visit_ok assms by (auto simp: sf_func_inv_def)
  with None show ?thesis
    by (auto simp: sf_visit_func_def sf_visited_def sf_func_inv_def func_but_simple_def set_simple_def
        dest: but_simple_eqD)
qed (use assms in \<open>auto simp: sf_visit_func_def sf_func_inv_def\<close>)

lemma sf_iteration_ok:
  "list_all sf_func_inv fs \<Longrightarrow>
   \<exists>fs'. sf_iteration S fs = Inr (S \<union> simple_indices fs, fs') \<and> list_all sf_func_inv fs' \<and>
     map func_but_simple fs' = map func_but_simple fs"
proof (induction fs arbitrary: S)
  case (Cons f fs)
  then obtain f' where f': "sf_visit_func S f = Inr f'" "sf_func_inv f'"
    "func_but_simple f' = func_but_simple f"
    "d_simple_func (fdata f') = Some (simple_node (fblock f))" "func_idx f' = func_idx f"
    using sf_visit_func_ok [of f S] by auto
  let ?S = "if simple_node (fblock f) then insert (func_idx f) S else S"
  obtain fs' where "sf_iteration ?S fs = Inr (?S \<union> simple_indices fs, fs')"
    "list_all sf_func_inv fs'" "map func_but_simple fs' = map func_but_simple fs"
    using Cons.IH [of ?S] Cons.prems by auto
  with f' show ?case by (cases "simple_node (fblock f)") simp_all
qed simp

text \<open>
  The pass on any program whose cached verdicts are right, in particular on one that no
  pass has visited: it ends, raises nothing and prints nothing.
\<close>

lemma SimpleFuncPass_ok:
  assumes "list_all sf_func_inv fs"
  shows "\<exists>fs'. SimpleFuncPass fs = Inr (sorted_list_of_set (simple_indices fs), fs', []) \<and>
    list_all sf_func_inv fs' \<and> map func_but_simple fs' = map func_but_simple fs"
proof -
  obtain fs1 where fs1: "sf_iteration {} fs = Inr (simple_indices fs, fs1)"
    "list_all sf_func_inv fs1" "map func_but_simple fs1 = map func_but_simple fs"
    using sf_iteration_ok [OF assms, of "{}"] by auto
  obtain fs2 where fs2: "sf_iteration (simple_indices fs) fs1 = Inr (simple_indices fs, fs2)"
    "list_all sf_func_inv fs2" "map func_but_simple fs2 = map func_but_simple fs1"
    using sf_iteration_ok [OF fs1(2), of "simple_indices fs"] simple_indices_but [OF fs1(3)] by auto
  with fs1 show ?thesis by (simp add: SimpleFuncPass_def)
qed

end
