(* ===== verification/ModifiedLocalsPass.thy ===== *)
theory ModifiedLocalsPass
  imports NodeTree
begin

text \<open>
  \<^verbatim>\<open>ModifiedLocalsPass\<close> of \<^verbatim>\<open>src/wasm_static_analysis.py\<close>: for every loop, the set of locals
  that some instruction inside it sets. The pass threads the list \<^verbatim>\<open>results\<close> and the index
  of the function it is in, and caches the set of each node in its annotations.

  The specification reads the answer off the tree: \<open>locals_of\<close> is the set of the locals
  written below a node, \<open>loops_of\<close> lists the loops, inner before outer, with that set.
\<close>

section \<open>The pass\<close>

type_synonym ml_results = "(int \<times> int \<times> int set) list"

definition set_modified :: "int set \<Rightarrow> wdata \<Rightarrow> wdata" where
  "set_modified m d = d\<lparr>d_modified_locals := Some m\<rparr>"

text \<open>
  \<^verbatim>\<open>ml_visit_insts\<close> is the loop of \<^verbatim>\<open>visit_block\<close>; its argument \<open>m\<close> is \<^verbatim>\<open>modified_locals\<close>.
\<close>

fun ml_visit :: "int \<Rightarrow> wnode \<Rightarrow> ml_results \<Rightarrow> (wnode \<times> ml_results) res"
and ml_visit_insts :: "int \<Rightarrow> wnode list \<Rightarrow> int set \<Rightarrow> ml_results \<Rightarrow> (wnode list \<times> int set \<times> ml_results) res" where
  "ml_visit cur (WBlock d is) results =
     (if d_modified_locals d \<noteq> None then Inr (WBlock d is, results)
      else rbind (ml_visit_insts cur is {} results) (\<lambda>(is', m, results1).
        Inr (WBlock (set_modified m d) is', results1)))"
| "ml_visit cur (WLoop d i is) results =
     (if d_modified_locals d \<noteq> None then Inr (WLoop d i is, results)
      else rbind (ml_visit_insts cur is {} results) (\<lambda>(is', m, results1).
        Inr (WLoop (set_modified m d) i is', results1 @ [(cur, i, m)])))"
| "ml_visit cur (WSet d i) results =
     (if d_modified_locals d \<noteq> None then Inr (WSet d i, results)
      else Inr (WSet (set_modified {i} d) i, results))"
| "ml_visit cur (WCall d c) results =
     (if d_modified_locals d \<noteq> None then Inr (WCall d c, results)
      else Inr (WCall (set_modified {} d) c, results))"
| "ml_visit cur (WBranch d) results =
     (if d_modified_locals d \<noteq> None then Inr (WBranch d, results)
      else Inr (WBranch (set_modified {} d), results))"
| "ml_visit_insts cur [] m results = Inr ([], m, results)"
| "ml_visit_insts cur (n # ns) m results =
     rbind (ml_visit cur n results) (\<lambda>(n', results1).
       case d_modified_locals (node_data n') of
         None \<Rightarrow> Inl KeyError
       | Some s \<Rightarrow>
           rbind (ml_visit_insts cur ns (m \<union> s) results1) (\<lambda>(ns', m', results2).
           Inr (n' # ns', m', results2)))"

definition ml_visit_func :: "wfunc \<Rightarrow> ml_results \<Rightarrow> (wfunc \<times> ml_results) res" where
  "ml_visit_func f results =
     (if d_modified_locals (fdata f) \<noteq> None then Inr (f, results)
      else rbind (ml_visit (func_idx f) (fblock f) results) (\<lambda>(b, results1).
        case d_modified_locals (node_data b) of
          None \<Rightarrow> Inl KeyError
        | Some s \<Rightarrow> Inr (f\<lparr>fblock := b, fdata := set_modified s (fdata f)\<rparr>, results1)))"

fun ml_funcs :: "wfunc list \<Rightarrow> ml_results \<Rightarrow> (wfunc list \<times> ml_results) res" where
  "ml_funcs [] results = Inr ([], results)"
| "ml_funcs (f # fs) results =
     rbind (ml_visit_func f results) (\<lambda>(f', results1).
     rbind (ml_funcs fs results1) (\<lambda>(fs', results2). Inr (f' # fs', results2)))"

definition ModifiedLocalsPass :: "wfunc list \<Rightarrow> (wfunc list \<times> ml_results) res" where
  "ModifiedLocalsPass fs = ml_funcs fs []"

section \<open>What it computes\<close>

fun locals_of :: "wnode \<Rightarrow> int set" where
  "locals_of (WSet d i) = {i}"
| "locals_of (WLoop d i is) = (\<Union>n \<in> set is. locals_of n)"
| "locals_of (WBlock d is) = (\<Union>n \<in> set is. locals_of n)"
| "locals_of (WCall d c) = {}"
| "locals_of (WBranch d) = {}"

fun loops_of :: "wnode \<Rightarrow> (int \<times> int set) list" where
  "loops_of (WLoop d i is) = concat (map loops_of is) @ [(i, \<Union>n \<in> set is. locals_of n)]"
| "loops_of (WBlock d is) = concat (map loops_of is)"
| "loops_of n = []"

lemma locals_of_iff: "l \<in> locals_of n \<longleftrightarrow> (\<exists>d. WSet d l \<in> set (nodes n))"
  by (induction n rule: nodes.induct) auto

lemma loops_of_iff:
  "(i, s) \<in> set (loops_of n) \<longleftrightarrow>
     (\<exists>d is. WLoop d i is \<in> set (nodes n) \<and> s = locals_of (WLoop d i is))"
proof (induction n rule: nodes.induct)
  case (1 d j "is")
  then have "(\<exists>x \<in> set is. (i, s) \<in> set (loops_of x)) \<longleftrightarrow>
      (\<exists>x \<in> set is. \<exists>d is. WLoop d i is \<in> set (nodes x) \<and> s = locals_of (WLoop d i is))"
    by (intro bex_cong refl)
  then show ?case by (simp del: locals_of.simps) (simp, metis)
next
  case (2 d "is")
  then have "(\<exists>x \<in> set is. (i, s) \<in> set (loops_of x)) \<longleftrightarrow>
      (\<exists>x \<in> set is. \<exists>d is. WLoop d i is \<in> set (nodes x) \<and> s = locals_of (WLoop d i is))"
    by (intro bex_cong refl)
  then show ?case by (simp del: locals_of.simps) metis
qed simp_all

lemma locals_of_shape [simp]: "locals_of (shape n) = locals_of n"
  by (induction n rule: nodes.induct) auto

lemma loops_of_shape [simp]: "loops_of (shape n) = loops_of n"
  by (induction n rule: nodes.induct) (auto intro!: arg_cong [where f = concat])

lemma length_loops_of: "length (loops_of n) = length (filter is_loop (nodes n))"
  by (induction n rule: nodes.induct)
     (auto simp: length_concat filter_concat o_def intro!: arg_cong [where f = sum_list])

text \<open>No annotation of this pass is set yet.\<close>

definition ml_unset :: "wnode \<Rightarrow> bool" where
  "ml_unset n \<longleftrightarrow> d_modified_locals (node_data n) = None"

lemma ml_unset_simps [simp]:
  "ml_unset (WLoop d i is) = (d_modified_locals d = None)"
  "ml_unset (WBlock d is) = (d_modified_locals d = None)"
  "ml_unset (WCall d c) = (d_modified_locals d = None)"
  "ml_unset (WSet d i) = (d_modified_locals d = None)"
  "ml_unset (WBranch d) = (d_modified_locals d = None)"
  by (simp_all add: ml_unset_def)

abbreviation ml_fresh :: "wnode \<Rightarrow> bool" where
  "ml_fresh \<equiv> every ml_unset"

fun but_modified :: "wnode \<Rightarrow> wnode" where
  "but_modified (WBranch d) = WBranch (d\<lparr>d_modified_locals := None\<rparr>)"
| "but_modified (WCall d c) = WCall (d\<lparr>d_modified_locals := None\<rparr>) c"
| "but_modified (WSet d i) = WSet (d\<lparr>d_modified_locals := None\<rparr>) i"
| "but_modified (WLoop d i is) = WLoop (d\<lparr>d_modified_locals := None\<rparr>) i (map but_modified is)"
| "but_modified (WBlock d is) = WBlock (d\<lparr>d_modified_locals := None\<rparr>) (map but_modified is)"

lemma but_modified_shape [simp]: "shape (but_modified n) = shape n"
  by (induction n rule: nodes.induct) auto

definition tag_loops :: "int \<Rightarrow> (int \<times> int set) list \<Rightarrow> ml_results" where
  "tag_loops cur ls = map (\<lambda>(i, s). (cur, i, s)) ls"

lemma tag_loops_simps [simp]:
  "tag_loops cur [] = []"
  "tag_loops cur (xs @ ys) = tag_loops cur xs @ tag_loops cur ys"
  "tag_loops cur (x # ys) = (cur, fst x, snd x) # tag_loops cur ys"
  by (auto simp: tag_loops_def split: prod.split)

text \<open>
  The cached set of every node is right after a visit: \<open>ml_visited\<close> says so for the node
  itself, which is what the caller reads.
\<close>

definition ml_visited :: "wnode \<Rightarrow> wnode \<Rightarrow> bool" where
  "ml_visited n n' \<longleftrightarrow> d_modified_locals (node_data n') = Some (locals_of n) \<and> but_modified n' = but_modified n"

lemma ml_visit_ok:
  "ml_fresh n \<Longrightarrow> \<exists>n'. ml_visit cur n r = Inr (n', r @ tag_loops cur (loops_of n)) \<and> ml_visited n n'"
  and ml_visit_insts_ok:
  "list_all ml_fresh ns \<Longrightarrow> \<exists>ns'. ml_visit_insts cur ns m r =
     Inr (ns', m \<union> (\<Union>n \<in> set ns. locals_of n), r @ tag_loops cur (concat (map loops_of ns))) \<and>
     map but_modified ns' = map but_modified ns"
proof (induction cur n r and cur ns m r rule: ml_visit_ml_visit_insts.induct)
  case (7 cur n ns m r)
  then obtain n' where n': "ml_visit cur n r = Inr (n', r @ tag_loops cur (loops_of n))" "ml_visited n n'"
    by auto
  with 7 obtain ns' where "ml_visit_insts cur ns (m \<union> locals_of n) (r @ tag_loops cur (loops_of n)) =
     Inr (ns', m \<union> locals_of n \<union> (\<Union>n \<in> set ns. locals_of n),
       (r @ tag_loops cur (loops_of n)) @ tag_loops cur (concat (map loops_of ns)))"
     "map but_modified ns' = map but_modified ns"
    using "7.IH"(2) [OF n'(1)] by (fastforce simp: ml_visited_def)
  with n' show ?case by (simp add: ml_visited_def Un_assoc)
qed (fastforce simp: ml_visited_def set_modified_def)+

definition ml_func_fresh :: "wfunc \<Rightarrow> bool" where
  "ml_func_fresh f \<longleftrightarrow> ml_fresh (fblock f) \<and> d_modified_locals (fdata f) = None"

definition func_but_modified :: "wfunc \<Rightarrow> wfunc" where
  "func_but_modified f = f\<lparr>fblock := but_modified (fblock f), fdata := (fdata f)\<lparr>d_modified_locals := None\<rparr>\<rparr>"

definition func_loops :: "wfunc \<Rightarrow> ml_results" where
  "func_loops f = tag_loops (func_idx f) (loops_of (fblock f))"

lemma ml_visit_func_ok:
  assumes "ml_func_fresh f"
  shows "\<exists>f'. ml_visit_func f r = Inr (f', r @ func_loops f) \<and> func_but_modified f' = func_but_modified f"
proof -
  obtain b where "ml_visit (func_idx f) (fblock f) r = Inr (b, r @ func_loops f)" "ml_visited (fblock f) b"
    using ml_visit_ok [of "fblock f" "func_idx f" r] assms by (auto simp: ml_func_fresh_def func_loops_def)
  with assms show ?thesis
    by (simp add: ml_visit_func_def ml_func_fresh_def ml_visited_def func_but_modified_def set_modified_def)
qed

lemma ml_funcs_ok:
  "list_all ml_func_fresh fs \<Longrightarrow> \<exists>fs'. ml_funcs fs r = Inr (fs', r @ concat (map func_loops fs)) \<and>
     map func_but_modified fs' = map func_but_modified fs"
proof (induction fs arbitrary: r)
  case (Cons f fs)
  obtain f' where "ml_visit_func f r = Inr (f', r @ func_loops f)"
    "func_but_modified f' = func_but_modified f"
    using ml_visit_func_ok Cons.prems by auto
  moreover obtain fs' where "ml_funcs fs (r @ func_loops f) =
      Inr (fs', (r @ func_loops f) @ concat (map func_loops fs))"
    "map func_but_modified fs' = map func_but_modified fs"
    using Cons.IH [of "r @ func_loops f"] Cons.prems by auto
  ultimately show ?case by simp
qed simp

lemma ModifiedLocalsPass_ok:
  "list_all ml_func_fresh fs \<Longrightarrow> \<exists>fs'. ModifiedLocalsPass fs = Inr (fs', concat (map func_loops fs)) \<and>
     map func_but_modified fs' = map func_but_modified fs"
  using ml_funcs_ok [of fs "[]"] by (simp add: ModifiedLocalsPass_def)

end
