(* ===== verification/LoopCkptPass.thy ===== *)
theory LoopCkptPass
  imports NodeTree
begin

text \<open>
  \<^verbatim>\<open>LoopCkptPass\<close> of \<^verbatim>\<open>src/wasm_static_analysis.py\<close>: the loops whose own checkpoint may be
  left out, because their body already meets a checkpoint (a nested loop, or a call of a
  function that is not simple). A node is annotated with \<^verbatim>\<open>noinf\<close> and \<^verbatim>\<open>ckpt\<close>.

  The specification: \<open>needs_ckpt\<close> says that a checkpoint is met below a node, \<open>scanned\<close>
  is the list of the loops the pass looks at, which are not all loops, since the scan of a
  block stops at its first instruction that is not \<^verbatim>\<open>noinf\<close>.
\<close>

section \<open>The pass\<close>

type_synonym lc_results = "(int \<times> int) list"

definition set_ckpt :: "bool \<Rightarrow> bool \<Rightarrow> wdata \<Rightarrow> wdata" where
  "set_ckpt ni ck d = d\<lparr>d_loop_ckpt := Some \<lparr>noinf = ni, ckpt = ck\<rparr>\<rparr>"

definition lc_visit_call :: "int set \<Rightarrow> wdata \<Rightarrow> int \<Rightarrow> wdata" where
  "lc_visit_call simple_func_set d callee_idx =
     (if callee_idx \<in> simple_func_set then set_ckpt True False d else set_ckpt False True d)"

text \<open>
  \<^verbatim>\<open>lc_visit_insts\<close> is the loop of \<^verbatim>\<open>visit_block\<close> with its \<^verbatim>\<open>break\<close>; \<open>ck\<close> is the variable
  \<^verbatim>\<open>ckpt\<close>, and the returned pair is \<^verbatim>\<open>(noinf, ckpt)\<close>.
\<close>

fun lc_visit :: "int set \<Rightarrow> int \<Rightarrow> wnode \<Rightarrow> lc_results \<Rightarrow> (wnode \<times> lc_results) res"
and lc_visit_insts :: "int set \<Rightarrow> int \<Rightarrow> wnode list \<Rightarrow> bool \<Rightarrow> lc_results \<Rightarrow>
      (wnode list \<times> (bool \<times> bool) \<times> lc_results) res" where
  "lc_visit S cur (WBlock d is) results =
     (if d_loop_ckpt d \<noteq> None then Inr (WBlock d is, results)
      else rbind (lc_visit_insts S cur is False results) (\<lambda>(is', (ni, ck), results1).
        Inr (WBlock (set_ckpt ni ck d) is', results1)))"
| "lc_visit S cur (WLoop d i is) results =
     (if d_loop_ckpt d \<noteq> None then Inr (WLoop d i is, results)
      else rbind (lc_visit_insts S cur is False results) (\<lambda>(is', (ni, ck), results1).
        let d1 = set_ckpt ni ck d; ignore_emit_ckpt = ck; d2 = set_ckpt False True d1 in
        Inr (WLoop d2 i is', if ignore_emit_ckpt then results1 @ [(cur, i)] else results1)))"
| "lc_visit S cur (WCall d c) results =
     (if d_loop_ckpt d \<noteq> None then Inr (WCall d c, results)
      else Inr (WCall (lc_visit_call S d c) c, results))"
| "lc_visit S cur (WBranch d) results =
     (if d_loop_ckpt d \<noteq> None then Inr (WBranch d, results)
      else Inr (WBranch (set_ckpt True False d), results))"
| "lc_visit S cur (WSet d i) results =
     (if d_loop_ckpt d \<noteq> None then Inr (WSet d i, results)
      else Inr (WSet (set_ckpt True False d) i, results))"
| "lc_visit_insts S cur [] ck results = Inr ([], (True, ck), results)"
| "lc_visit_insts S cur (n # ns) ck results =
     rbind (lc_visit S cur n results) (\<lambda>(n', results1).
       case d_loop_ckpt (node_data n') of
         None \<Rightarrow> Inl KeyError
       | Some info \<Rightarrow>
           let ck1 = (ck \<or> ckpt info) in
           if \<not> noinf info then Inr (n' # ns, (False, ck1), results1)
           else rbind (lc_visit_insts S cur ns ck1 results1) (\<lambda>(ns', r, results2).
             Inr (n' # ns', r, results2)))"

text \<open>\<^verbatim>\<open>visit_func\<close> visits the body and leaves the function's own \<^verbatim>\<open>data\<close> alone.\<close>

definition lc_visit_func :: "int set \<Rightarrow> wfunc \<Rightarrow> lc_results \<Rightarrow> (wfunc \<times> lc_results) res" where
  "lc_visit_func S f results =
     (if d_loop_ckpt (fdata f) \<noteq> None then Inr (f, results)
      else rbind (lc_visit S (func_idx f) (fblock f) results) (\<lambda>(b, results1).
        Inr (f\<lparr>fblock := b\<rparr>, results1)))"

fun lc_funcs :: "int set \<Rightarrow> wfunc list \<Rightarrow> lc_results \<Rightarrow> (wfunc list \<times> lc_results) res" where
  "lc_funcs S [] results = Inr ([], results)"
| "lc_funcs S (f # fs) results =
     rbind (lc_visit_func S f results) (\<lambda>(f', results1).
     rbind (lc_funcs S fs results1) (\<lambda>(fs', results2). Inr (f' # fs', results2)))"

definition LoopCkptPass :: "wfunc list \<Rightarrow> int set \<Rightarrow> (wfunc list \<times> lc_results) res" where
  "LoopCkptPass fs simple_func_set = lc_funcs simple_func_set fs []"

section \<open>What it computes\<close>

fun needs_ckpt :: "int set \<Rightarrow> wnode \<Rightarrow> bool" where
  "needs_ckpt S (WLoop d i is) = True"
| "needs_ckpt S (WBlock d is) = list_ex (needs_ckpt S) is"
| "needs_ckpt S (WCall d c) = (c \<notin> S)"
| "needs_ckpt S (WBranch d) = False"
| "needs_ckpt S (WSet d i) = False"

text \<open>The instructions of a block up to and including the first that meets a checkpoint.\<close>

fun upto_ckpt :: "int set \<Rightarrow> wnode list \<Rightarrow> wnode list" where
  "upto_ckpt S [] = []"
| "upto_ckpt S (n # ns) = n # (if needs_ckpt S n then [] else upto_ckpt S ns)"

lemma size_upto_ckpt: "n \<in> set (upto_ckpt S ns) \<Longrightarrow> n \<in> set ns"
  by (induction ns) (auto split: if_splits)

lemma upto_ckpt_size [termination_simp]: "n \<in> set (upto_ckpt S ns) \<Longrightarrow> size n < Suc (size_list size ns)"
  using size_upto_ckpt size_list_estimation' by (metis le_imp_less_Suc order_refl)

text \<open>The loops the pass looks at, inner before outer, each with its body.\<close>

fun scanned :: "int set \<Rightarrow> wnode \<Rightarrow> (int \<times> wnode list) list" where
  "scanned S (WLoop d i is) = concat (map (scanned S) (upto_ckpt S is)) @ [(i, is)]"
| "scanned S (WBlock d is) = concat (map (scanned S) (upto_ckpt S is))"
| "scanned S n = []"

definition skipped :: "int set \<Rightarrow> wnode \<Rightarrow> int list" where
  "skipped S n = map fst (filter (\<lambda>(i, is). list_ex (needs_ckpt S) is) (scanned S n))"

lemma needs_ckpt_iff:
  "needs_ckpt S n \<longleftrightarrow> (\<exists>m \<in> set (nodes n). is_loop m \<or> (\<exists>d c. m = WCall d c \<and> c \<notin> S))"
  by (induction n rule: nodes.induct) (auto simp: list_ex_iff)

lemma needs_ckpt_shape [simp]: "needs_ckpt S (shape n) = needs_ckpt S n"
  by (induction n rule: nodes.induct) (auto simp: list_ex_iff)

lemma scanned_in_nodes: "(i, is) \<in> set (scanned S n) \<Longrightarrow> \<exists>d. WLoop d i is \<in> set (nodes n)"
proof (induction S n rule: scanned.induct)
  case (1 S d j js)
  show ?case
  proof (cases "(i, is) = (j, js)")
    case False
    with "1.prems" obtain m where m: "m \<in> set (upto_ckpt S js)" "(i, is) \<in> set (scanned S m)" by auto
    with "1.IH" [OF m] size_upto_ckpt [OF m(1)] show ?thesis by auto
  qed auto
next
  case (2 S d js)
  then obtain m where m: "m \<in> set (upto_ckpt S js)" "(i, is) \<in> set (scanned S m)" by auto
  with "2.IH" [OF m] size_upto_ckpt [OF m(1)] show ?case by auto
qed simp_all

lemma upto_ckpt_append:
  "upto_ckpt S (xs @ ys) = upto_ckpt S xs @ (if list_ex (needs_ckpt S) xs then [] else upto_ckpt S ys)"
  by (induction xs) auto

definition lc_unset :: "wnode \<Rightarrow> bool" where
  "lc_unset n \<longleftrightarrow> d_loop_ckpt (node_data n) = None"

lemma lc_unset_simps [simp]:
  "lc_unset (WLoop d i is) = (d_loop_ckpt d = None)"
  "lc_unset (WBlock d is) = (d_loop_ckpt d = None)"
  "lc_unset (WCall d c) = (d_loop_ckpt d = None)"
  "lc_unset (WSet d i) = (d_loop_ckpt d = None)"
  "lc_unset (WBranch d) = (d_loop_ckpt d = None)"
  by (simp_all add: lc_unset_def)

abbreviation lc_fresh :: "wnode \<Rightarrow> bool" where
  "lc_fresh \<equiv> every lc_unset"

fun but_ckpt :: "wnode \<Rightarrow> wnode" where
  "but_ckpt (WBranch d) = WBranch (d\<lparr>d_loop_ckpt := None\<rparr>)"
| "but_ckpt (WCall d c) = WCall (d\<lparr>d_loop_ckpt := None\<rparr>) c"
| "but_ckpt (WSet d i) = WSet (d\<lparr>d_loop_ckpt := None\<rparr>) i"
| "but_ckpt (WLoop d i is) = WLoop (d\<lparr>d_loop_ckpt := None\<rparr>) i (map but_ckpt is)"
| "but_ckpt (WBlock d is) = WBlock (d\<lparr>d_loop_ckpt := None\<rparr>) (map but_ckpt is)"

definition tag_skips :: "int \<Rightarrow> int list \<Rightarrow> lc_results" where
  "tag_skips cur ls = map (Pair cur) ls"

lemma tag_skips_simps [simp]:
  "tag_skips cur [] = []"
  "tag_skips cur (xs @ ys) = tag_skips cur xs @ tag_skips cur ys"
  "tag_skips cur (x # ys) = (cur, x) # tag_skips cur ys"
  by (simp_all add: tag_skips_def)

text \<open>
  The invariant of the two flags: \<^verbatim>\<open>noinf\<close> is the negation of \<^verbatim>\<open>ckpt\<close> at every node, and
  both say whether a checkpoint is met.
\<close>

definition lc_visited :: "int set \<Rightarrow> wnode \<Rightarrow> wnode \<Rightarrow> bool" where
  "lc_visited S n n' \<longleftrightarrow>
     d_loop_ckpt (node_data n') = Some \<lparr>noinf = (\<not> needs_ckpt S n), ckpt = needs_ckpt S n\<rparr> \<and>
     but_ckpt n' = but_ckpt n"

definition skipped_insts :: "int set \<Rightarrow> wnode list \<Rightarrow> int list" where
  "skipped_insts S ns = concat (map (skipped S) (upto_ckpt S ns))"

lemma skipped_simps [simp]:
  "skipped S (WLoop d i is) = skipped_insts S is @ (if list_ex (needs_ckpt S) is then [i] else [])"
  "skipped S (WBlock d is) = skipped_insts S is"
  "skipped S (WCall d c) = []"
  "skipped S (WBranch d) = []"
  "skipped S (WSet d i) = []"
  by (simp_all add: skipped_def [abs_def] skipped_insts_def filter_concat map_concat o_def)

lemma skipped_insts_simps [simp]:
  "skipped_insts S [] = []"
  "skipped_insts S (n # ns) = skipped S n @ (if needs_ckpt S n then [] else skipped_insts S ns)"
  by (simp_all add: skipped_insts_def)

lemma lc_visit_ok:
  "lc_fresh n \<Longrightarrow> \<exists>n'. lc_visit S cur n r = Inr (n', r @ tag_skips cur (skipped S n)) \<and> lc_visited S n n'"
  and lc_visit_insts_ok:
  "list_all lc_fresh ns \<Longrightarrow> \<exists>ns'. lc_visit_insts S cur ns ck r =
     Inr (ns', (\<not> list_ex (needs_ckpt S) ns, ck \<or> list_ex (needs_ckpt S) ns), r @ tag_skips cur (skipped_insts S ns)) \<and>
     map but_ckpt ns' = map but_ckpt ns"
proof (induction S cur n r and S cur ns ck r rule: lc_visit_lc_visit_insts.induct)
  case (1 S cur d "is" r)
  then show ?case by (fastforce simp: lc_visited_def set_ckpt_def)
next
  case (2 S cur d i "is" r)
  then show ?case by (fastforce simp: lc_visited_def set_ckpt_def Let_def)
next
  case (7 S cur n ns ck r)
  then obtain n' where n': "lc_visit S cur n r = Inr (n', r @ tag_skips cur (skipped S n))" "lc_visited S n n'"
    by auto
  show ?case
  proof (cases "needs_ckpt S n")
    case True
    with n' show ?thesis by (simp add: lc_visited_def)
  next
    case False
    let ?r = "r @ tag_skips cur (skipped S n)"
    from 7 n' False obtain ns' where "lc_visit_insts S cur ns ck ?r =
       Inr (ns', (\<not> list_ex (needs_ckpt S) ns, ck \<or> list_ex (needs_ckpt S) ns), ?r @ tag_skips cur (skipped_insts S ns))"
       "map but_ckpt ns' = map but_ckpt ns"
      using "7.IH"(2) [OF n'(1)] by (fastforce simp: lc_visited_def)
    with n' False show ?thesis by (simp add: lc_visited_def)
  qed
qed (simp_all add: lc_visited_def set_ckpt_def lc_visit_call_def)

definition lc_func_fresh :: "wfunc \<Rightarrow> bool" where
  "lc_func_fresh f \<longleftrightarrow> lc_fresh (fblock f) \<and> d_loop_ckpt (fdata f) = None"

definition func_skips :: "int set \<Rightarrow> wfunc \<Rightarrow> lc_results" where
  "func_skips S f = tag_skips (func_idx f) (skipped S (fblock f))"

lemma lc_funcs_ok:
  "list_all lc_func_fresh fs \<Longrightarrow> \<exists>fs'. lc_funcs S fs r = Inr (fs', r @ concat (map (func_skips S) fs)) \<and>
     map func_idx fs' = map func_idx fs"
proof (induction fs arbitrary: r)
  case (Cons f fs)
  obtain b where "lc_visit S (func_idx f) (fblock f) r = Inr (b, r @ func_skips S f)"
    using lc_visit_ok [of "fblock f" S "func_idx f" r] Cons.prems by (auto simp: lc_func_fresh_def func_skips_def)
  then have "lc_visit_func S f r = Inr (f\<lparr>fblock := b\<rparr>, r @ func_skips S f)"
    using Cons.prems by (simp add: lc_visit_func_def lc_func_fresh_def)
  moreover obtain fs' where "lc_funcs S fs (r @ func_skips S f) =
      Inr (fs', (r @ func_skips S f) @ concat (map (func_skips S) fs))" "map func_idx fs' = map func_idx fs"
    using Cons.IH [of "r @ func_skips S f"] Cons.prems by auto
  ultimately show ?case by simp
qed simp

lemma LoopCkptPass_ok:
  "list_all lc_func_fresh fs \<Longrightarrow> \<exists>fs'. LoopCkptPass fs S = Inr (fs', concat (map (func_skips S) fs)) \<and>
     map func_idx fs' = map func_idx fs"
  using lc_funcs_ok [of fs S "[]"] by (simp add: LoopCkptPass_def)

end
