(* ===== verification/AnalysisMain.thy ===== *)
theory AnalysisMain
  imports InstRoundtrip SimpleFuncPass ModifiedLocalsPass LoopCkptPass
begin

text \<open>
  The main program of \<^verbatim>\<open>src/wasm_static_analysis.py\<close>: the three passes run one after the
  other on the same tree, and their results go to standard output and to three files.
  Outside the repository, and so parameters: whether the input file exists, the text that
  \<^verbatim>\<open>wasm2wat\<close> leaves in the \<^verbatim>\<open>.wat\<close> file (\<open>None\<close> when it leaves none), and the order in which
  Python iterates over a set of integers.
\<close>

section \<open>The three passes on one tree\<close>

text \<open>Results, and what \<^verbatim>\<open>SimpleFuncPass\<close> prints.\<close>

definition analyse :: "wfunc list \<Rightarrow> (int list \<times> ml_results \<times> lc_results \<times> string list) res" where
  "analyse program =
     rbind (SimpleFuncPass program) (\<lambda>(simple_func, program1, printed).
     rbind (ModifiedLocalsPass program1) (\<lambda>(program2, modified_locals).
     rbind (LoopCkptPass program2 (set simple_func)) (\<lambda>(program3, skip_ckpt).
     Inr (simple_func, modified_locals, skip_ckpt, printed))))"

definition func_fresh :: "wfunc \<Rightarrow> bool" where
  "func_fresh f \<longleftrightarrow>
     every (\<lambda>n. node_data n = no_data) (fblock f) \<and> fdata f = no_data"

lemma every_mono: "(\<And>m. m \<in> set (nodes n) \<Longrightarrow> P m \<Longrightarrow> Q m) \<Longrightarrow> every P n \<Longrightarrow> every Q n"
  by (auto simp: every_def list_all_iff)

lemma func_freshD:
  assumes "func_fresh f"
  shows "sf_func_inv f" and "ml_func_fresh f" and "lc_func_fresh f"
  using assms
  by (auto simp: func_fresh_def sf_func_inv_def ml_func_fresh_def lc_func_fresh_def no_data_def
      ml_unset_def lc_unset_def sf_cached_def elim!: every_mono [rotated])

text \<open>A pass sees the other passes' annotations as if nothing had happened.\<close>

lemma ml_fresh_but_simple [simp]: "ml_fresh (but_simple n) = ml_fresh n"
  by (induction n rule: nodes.induct) (auto simp: list_all_iff)

lemma lc_fresh_but_simple [simp]: "lc_fresh (but_simple n) = lc_fresh n"
  by (induction n rule: nodes.induct) (auto simp: list_all_iff)

lemma lc_fresh_but_modified [simp]: "lc_fresh (but_modified n) = lc_fresh n"
  by (induction n rule: nodes.induct) (auto simp: list_all_iff)

lemma loops_of_but_simple [simp]: "loops_of (but_simple n) = loops_of n"
  by (metis but_simple_shape loops_of_shape)

lemma needs_ckpt_but [simp]:
  "needs_ckpt S (but_simple n) = needs_ckpt S n" "needs_ckpt S (but_modified n) = needs_ckpt S n"
  by (metis but_simple_shape needs_ckpt_shape, metis but_modified_shape needs_ckpt_shape)

lemma skipped_insts_map:
  "(\<And>n. n \<in> set ns \<Longrightarrow> skipped S (f n) = skipped S n) \<Longrightarrow> (\<And>n. needs_ckpt S (f n) = needs_ckpt S n) \<Longrightarrow>
   skipped_insts S (map f ns) = skipped_insts S ns"
  by (induction ns) auto

lemma list_ex_needs_map:
  "(\<And>n. needs_ckpt S (f n) = needs_ckpt S n) \<Longrightarrow> list_ex (needs_ckpt S) (map f ns) = list_ex (needs_ckpt S) ns"
  by (induction ns) auto

lemma skipped_but_simple [simp]: "skipped S (but_simple n) = skipped S n"
  by (induction n rule: nodes.induct) (simp_all add: skipped_insts_map list_ex_needs_map)

lemma skipped_but_modified [simp]: "skipped S (but_modified n) = skipped S n"
  by (induction n rule: nodes.induct) (simp_all add: skipped_insts_map list_ex_needs_map)

lemma func_but_simple_facts:
  "ml_func_fresh (func_but_simple f) = ml_func_fresh f"
  "lc_func_fresh (func_but_simple f) = lc_func_fresh f"
  "func_loops (func_but_simple f) = func_loops f"
  "func_skips S (func_but_simple f) = func_skips S f"
  by (simp_all add: func_but_simple_def ml_func_fresh_def lc_func_fresh_def func_loops_def func_skips_def)

lemma func_but_modified_facts:
  "lc_func_fresh (func_but_modified f) = lc_func_fresh f"
  "func_skips S (func_but_modified f) = func_skips S f"
  by (simp_all add: func_but_modified_def lc_func_fresh_def func_skips_def)

lemma map_transfer:
  assumes "map f xs = map f ys" and "\<And>x. P (f x) = P x"
  shows "map P xs = map P ys"
proof -
  have "map P zs = map P (map f zs)" for zs using assms(2) by simp
  with assms(1) show ?thesis by metis
qed

lemma list_all_transfer:
  assumes "map f xs = map f ys" and "\<And>x. P (f x) = P x"
  shows "list_all P xs = list_all P ys"
proof -
  have "list_all P zs = list_all id (map P zs)" for zs by (induction zs) auto
  with map_transfer [of f xs ys P, OF assms] show ?thesis by metis
qed

text \<open>
  On a tree fresh from the parser the passes raise nothing and compute the three
  specifications.
\<close>

lemma analyse_ok:
  assumes "list_all func_fresh fs"
  shows "analyse fs = Inr (sorted_list_of_set (simple_indices fs), concat (map func_loops fs),
    concat (map (func_skips (simple_indices fs)) fs), [])"
proof -
  have inv: "list_all sf_func_inv fs" and ml: "list_all ml_func_fresh fs" and lc: "list_all lc_func_fresh fs"
    using assms by (auto simp: list_all_iff dest: func_freshD)
  obtain fs1 where fs1: "SimpleFuncPass fs = Inr (sorted_list_of_set (simple_indices fs), fs1, [])"
    "map func_but_simple fs1 = map func_but_simple fs" using SimpleFuncPass_ok [OF inv] by blast
  note tr1 = list_all_transfer [OF fs1(2)] map_transfer [OF fs1(2)]
  from ml tr1(1) have "list_all ml_func_fresh fs1" by (metis func_but_simple_facts(1))
  then obtain fs2 where fs2: "ModifiedLocalsPass fs1 = Inr (fs2, concat (map func_loops fs1))"
    "map func_but_modified fs2 = map func_but_modified fs1" using ModifiedLocalsPass_ok by blast
  note tr2 = list_all_transfer [OF fs2(2)] map_transfer [OF fs2(2)]
  from lc tr1(1) tr2(1) have "list_all lc_func_fresh fs2"
    by (metis func_but_simple_facts(2) func_but_modified_facts(1))
  then obtain fs3 where "LoopCkptPass fs2 (simple_indices fs) = Inr (fs3, concat (map (func_skips (simple_indices fs)) fs2))"
    using LoopCkptPass_ok by blast
  moreover have "map (func_skips S) fs2 = map (func_skips S) fs" for S
    using tr1(2) tr2(2) by (metis func_but_simple_facts(4) func_but_modified_facts(2))
  moreover have "map func_loops fs1 = map func_loops fs"
    using tr1(2) by (metis func_but_simple_facts(3))
  ultimately show ?thesis using fs1(1) fs2(1) by (simp add: analyse_def)
qed

section \<open>Freshness of the parsed program\<close>

lemma fresh_tree_of: "every (\<lambda>n. node_data n = no_data) (tree_of k c)"
  and fresh_trees_of: "list_all (every (\<lambda>n. node_data n = no_data)) (trees_of k cs)"
proof (induction k c and k cs rule: tree_of_trees_of.induct)
  case (1 k t)
  then show ?case by (cases t) simp_all
qed simp_all

lemma fresh_funcs_trees: "list_all func_fresh (funcs_trees i fs)"
  by (induction i fs rule: funcs_trees.induct)
     (simp_all add: func_tree_def func_fresh_def fresh_trees_of)

section \<open>Output\<close>

definition print_ints :: "int list \<Rightarrow> string" where
  "print_ints is = py_join '', '' (map str_int is)"

definition print_list :: "int list \<Rightarrow> string" where
  "print_list is = ''['' @ print_ints is @ '']''"

definition print_set :: "(int set \<Rightarrow> int list) \<Rightarrow> int set \<Rightarrow> string" where
  "print_set set_iter s = (if s = {} then ''set()'' else ''{'' @ print_ints (set_iter s) @ ''}'')"

record analysis_output =
  stdout_lines :: "string list"
  simple_func_opt :: string
  modified_locals_opt :: string
  skip_ckpt_opt :: string

definition simple_func_file :: "int list \<Rightarrow> string" where
  "simple_func_file simple_func = unlines (str_int (int (length simple_func)) # map str_int simple_func)"

definition modified_line :: "(int set \<Rightarrow> int list) \<Rightarrow> int \<times> int \<times> int set \<Rightarrow> string" where
  "modified_line set_iter r =
     (case r of (f, l, locals) \<Rightarrow>
        str_int f @ '' '' @ str_int l @ '' '' @ str_int (int (card locals)) @ '' '' @
        py_join '' '' (map str_int (set_iter locals)))"

definition modified_locals_file :: "(int set \<Rightarrow> int list) \<Rightarrow> ml_results \<Rightarrow> string" where
  "modified_locals_file set_iter rs = unlines (str_int (int (length rs)) # map (modified_line set_iter) rs)"

definition skip_line :: "int \<times> int \<Rightarrow> string" where
  "skip_line r = (case r of (f, l) \<Rightarrow> str_int f @ '' '' @ str_int l)"

definition skip_ckpt_file :: "lc_results \<Rightarrow> string" where
  "skip_ckpt_file rs = unlines (str_int (int (length rs)) # map skip_line rs)"

definition report_lines :: "(int set \<Rightarrow> int list) \<Rightarrow> int list \<Rightarrow> ml_results \<Rightarrow> lc_results \<Rightarrow> string list" where
  "report_lines set_iter simple_func modified_locals skip_ckpt =
     (''Simple Functions: '' @ print_list simple_func) #
     map (\<lambda>(f, l, locals). ''Func '' @ str_int f @ '' Loop '' @ str_int l @ '' Modified Locals: '' @
       print_set set_iter locals) modified_locals @
     map (\<lambda>(f, l). ''Func '' @ str_int f @ '' Loop '' @ str_int l @ '' Skip Checkpoint'') skip_ckpt"

definition analysis_main ::
  "(int set \<Rightarrow> int list) \<Rightarrow> (string \<Rightarrow> bool) \<Rightarrow> (string \<Rightarrow> string option) \<Rightarrow> string list \<Rightarrow> analysis_output res" where
  "analysis_main set_iter file_exists wasm2wat argv =
     rbind (py_assert (length argv = 2) ''Invalid arguments'') (\<lambda>_.
     rbind (py_index argv 1) (\<lambda>wasm_file.
     rbind (py_assert (py_endswith wasm_file ''.wasm'') ''Invalid wasm file'') (\<lambda>_.
     rbind (py_assert (file_exists wasm_file) ''Wasm file not found'') (\<lambda>_.
     case wasm2wat (py_replace wasm_file ''.wasm'' ''.wat'') of
       None \<Rightarrow> Inl FileNotFoundError
     | Some wat_text \<Rightarrow>
         rbind (load_program wat_text) (\<lambda>program.
         rbind (analyse program) (\<lambda>(simple_func, modified_locals, skip_ckpt, printed).
         Inr \<lparr>stdout_lines = printed @ report_lines set_iter simple_func modified_locals skip_ckpt,
              simple_func_opt = simple_func_file simple_func,
              modified_locals_opt = modified_locals_file set_iter modified_locals,
              skip_ckpt_opt = skip_ckpt_file skip_ckpt\<rparr>))))))"

lemma endswith_snoc: "\<not> py_endswith (s @ ''x'') ''.wasm''"
proof
  assume "py_endswith (s @ ''x'') ''.wasm''"
  then have "last (drop (length (s @ ''x'') - 5) (s @ ''x'')) = CHR ''m''"
    by (simp add: py_endswith_def)
  then show False by (auto simp: last_drop py_endswith_def split: if_splits)
qed

end
