(* ===== verification/Numbering.thy ===== *)
theory Numbering
  imports FrontEnd AnalysisMain
begin

text \<open>
  The numbers in the instruction file. \<^verbatim>\<open>wat_to_inst\<close> numbers the declared names (a first
  loop over the text) and the functions it writes (a second loop) independently; the lemmas
  show that the two agree when the imports come first, that imports get negative numbers, and
  that a pair of a function number and a loop number names one loop of the program.
\<close>

section \<open>The dictionary of names\<close>

text \<open>The names a line declares, and the dictionary after a list of lines.\<close>

definition import_name :: "string \<Rightarrow> string" where
  "import_name line = hd (py_split (drop (nat (py_find line ''(func '' + 6)) line))"

definition func_name :: "string \<Rightarrow> string" where
  "func_name line = py_split line ! 1"

definition declared :: "string \<Rightarrow> string list" where
  "declared line =
     (if py_startswith line ''(import '' then [import_name line]
      else if py_startswith line ''(func'' then [func_name line] else [])"

definition numbered :: "int \<Rightarrow> string list \<Rightarrow> (string \<times> int) list" where
  "numbered i ns = zip ns (map (\<lambda>k. i + int k) [0..<length ns])"

lemma numbered_Nil [simp]: "numbered i [] = []"
  by (simp add: numbered_def)

lemma numbered_snoc: "numbered i ns @ [(n, i + int (length ns))] = numbered i (ns @ [n])"
  by (simp add: numbered_def)

lemma length_numbered [simp]: "length (numbered i ns) = length ns"
  by (simp add: numbered_def)

lemma map_fst_numbered [simp]: "map fst (numbered i ns) = ns"
  by (simp add: numbered_def)

lemma shift_numbered: "map (\<lambda>(k, v). (k, v - m)) (numbered i ns) = numbered (i - m) ns"
  by (rule nth_equalityI) (auto simp: numbered_def)

lemma map_of_numbered:
  assumes "distinct ns" and "k < length ns"
  shows "map_of (numbered i ns) (ns ! k) = Some (i + int k)"
proof -
  have "numbered i ns ! k = (ns ! k, i + int k)" using assms(2) by (simp add: numbered_def)
  then have "(ns ! k, i + int k) \<in> set (numbered i ns)" using assms(2) by (metis length_numbered nth_mem)
  with assms(1) show ?thesis by (simp add: map_of_eq_Some_iff)
qed

definition names_of :: "string list \<Rightarrow> string list" where
  "names_of wat = concat (map declared wat)"

definition imports_of :: "string list \<Rightarrow> string list" where
  "imports_of wat = filter (\<lambda>line. py_startswith line ''(import '') wat"

lemma py_index_0_hd: "py_index xs 0 = Inr x \<Longrightarrow> x = hd xs"
  by (cases xs) simp_all

lemma py_index_1_nth: "py_index xs 1 = Inr x \<Longrightarrow> x = xs ! 1"
  by (simp add: py_index_def Let_def split: if_splits)

lemma not_both: "py_startswith line ''(import '' \<Longrightarrow> \<not> py_startswith line ''(func''"
  by (cases line; cases "tl line") auto

definition name_inv :: "string list \<Rightarrow> int \<Rightarrow> name_state \<Rightarrow> bool" where
  "name_inv ns m st \<longleftrightarrow> func_name_to_idx st = numbered 0 ns \<and> distinct ns \<and> import_func_cnt st = m"

lemma add_name_inv:
  assumes "add_name n st = Inr st'" and "name_inv ns m st"
  shows "name_inv (ns @ [n]) m st'"
proof -
  have "fst ` set (func_name_to_idx st) = set ns"
    using assms(2) by (metis list.set_map map_fst_numbered name_inv_def)
  with assms show ?thesis
    using numbered_snoc [of 0 ns n] by (auto simp: add_name_def name_inv_def split: if_splits)
qed

lemma collect_line_inv:
  assumes "collect_line line st = Inr st'" and "name_inv ns m st"
  shows "name_inv (ns @ declared line) (m + int (length (imports_of [line]))) st'"
proof (cases "py_startswith line ''(import ''")
  case True
  let ?st = "st\<lparr>import_func_cnt := import_func_cnt st + 1\<rparr>"
  have "name_inv ns (m + 1) ?st" using assms(2) by (simp add: name_inv_def)
  moreover obtain n where "py_index (py_split (drop (nat (py_find line ''(func '' + 6)) line)) 0 = Inr n"
      "add_name n ?st = Inr st'"
    using assms(1) True not_both [OF True]
    by (auto simp: collect_line_def collect_import_def collect_func_def Let_def rbind_eq_Inr_iff)
  ultimately show ?thesis
    using True add_name_inv [of n ?st st' ns "m + 1"] py_index_0_hd [of _ n]
    by (auto simp: declared_def import_name_def imports_of_def)
next
  case False
  show ?thesis
  proof (cases "py_startswith line ''(func''")
    case True
    with assms(1) False obtain n where "py_index (py_split line) 1 = Inr n" "add_name n st = Inr st'"
      by (auto simp: collect_line_def collect_import_def collect_func_def Let_def rbind_eq_Inr_iff)
    with True False assms(2) show ?thesis
      using add_name_inv [of n st st' ns m] py_index_1_nth [of _ n]
      by (auto simp: declared_def func_name_def imports_of_def)
  qed (use False assms in \<open>simp add: collect_line_def collect_import_def collect_func_def declared_def imports_of_def\<close>)
qed

lemma collect_lines_inv:
  "rfold collect_line wat st = Inr st' \<Longrightarrow> name_inv ns m st \<Longrightarrow>
   name_inv (ns @ names_of wat) (m + int (length (imports_of wat))) st'"
proof (induction wat arbitrary: st ns m)
  case (Cons line wat)
  then obtain st1 where st1: "collect_line line st = Inr st1" "rfold collect_line wat st1 = Inr st'"
    by (auto elim: rbind_InrE)
  from Cons.IH [OF st1(2) collect_line_inv [OF st1(1) Cons.prems(2)]]
  show ?case by (simp add: names_of_def imports_of_def add.assoc split: if_splits)
qed (simp add: names_of_def imports_of_def)

lemma collect_names_numbered:
  assumes "collect_names wat = Inr names"
  shows "names = numbered (- int (length (imports_of wat))) (names_of wat)" and "distinct (names_of wat)"
proof -
  let ?st = "\<lparr>func_name_to_idx = [], import_func_cnt = 0\<rparr>"
  obtain st where st: "rfold collect_line wat ?st = Inr st"
    and names: "names = map (\<lambda>(k, v). (k, v - import_func_cnt st)) (func_name_to_idx st)"
    using assms by (auto simp: collect_names_def elim: rbind_InrE)
  have "name_inv (names_of wat) (int (length (imports_of wat))) st"
    using collect_lines_inv [OF st, of "[]" 0] by (simp add: name_inv_def)
  then show "names = numbered (- int (length (imports_of wat))) (names_of wat)" "distinct (names_of wat)"
    using names shift_numbered [of "int (length (imports_of wat))" 0] by (auto simp: name_inv_def)
qed

text \<open>When every import precedes every function, the functions are numbered from 0 in order.\<close>

lemma names_of_imports:
  "list_all (\<lambda>l. \<not> py_startswith l ''(func'') ws \<Longrightarrow> length (names_of ws) = length (imports_of ws)"
  by (induction ws) (auto simp: names_of_def imports_of_def declared_def)

lemma names_of_funcs:
  "list_all (\<lambda>l. \<not> py_startswith l ''(import '') ws \<Longrightarrow>
   names_of ws = map func_name (filter (\<lambda>l. py_startswith l ''(func'') ws) \<and> imports_of ws = []"
  by (induction ws) (auto simp: names_of_def imports_of_def declared_def)

lemma imports_first_numbers:
  assumes names: "collect_names (imps @ defs) = Inr names"
    and imps: "list_all (\<lambda>l. \<not> py_startswith l ''(func'') imps"
    and defs: "list_all (\<lambda>l. \<not> py_startswith l ''(import '') defs"
  shows "k < length (filter (\<lambda>l. py_startswith l ''(func'') defs) \<Longrightarrow>
      lookup_func_idx names (func_name (filter (\<lambda>l. py_startswith l ''(func'') defs ! k)) = Inr (int k)"
    and "n \<in> set (names_of imps) \<Longrightarrow> \<exists>i. lookup_func_idx names n = Inr i \<and> i < 0"
proof -
  let ?fs = "filter (\<lambda>l. py_startswith l ''(func'') defs" and ?m = "length (imports_of imps)"
  have ns: "names_of (imps @ defs) = names_of imps @ map func_name ?fs"
    and ms: "length (imports_of (imps @ defs)) = ?m" "length (names_of imps) = ?m"
    using names_of_imports [OF imps] names_of_funcs [OF defs] by (simp_all add: names_of_def imports_of_def)
  note num = collect_names_numbered [OF names]
  have nm: "names = numbered (- int ?m) (names_of (imps @ defs))" using num(1) ms(1) by simp
  show "lookup_func_idx names (func_name (?fs ! k)) = Inr (int k)" if "k < length ?fs"
  proof -
    have k: "names_of (imps @ defs) ! (?m + k) = func_name (?fs ! k)" "?m + k < length (names_of (imps @ defs))"
      using that by (simp_all add: ns ms nth_append)
    have "map_of names (func_name (?fs ! k)) = Some (- int ?m + int (?m + k))"
      using map_of_numbered [OF num(2) k(2), of "- int ?m"] unfolding nm k(1) .
    then show ?thesis by (simp add: lookup_func_idx_def)
  qed
  show "\<exists>i. lookup_func_idx names n = Inr i \<and> i < 0" if n: "n \<in> set (names_of imps)"
  proof -
    obtain j where j: "j < ?m" "names_of imps ! j = n" using n ms(2) by (metis in_set_conv_nth)
    then have j': "names_of (imps @ defs) ! j = n" "j < length (names_of (imps @ defs))"
      using ms(2) by (simp_all add: ns nth_append)
    have "map_of names n = Some (- int ?m + int j)"
      using map_of_numbered [OF num(2) j'(2), of "- int ?m"] unfolding nm j'(1) .
    with j(1) show ?thesis by (simp add: lookup_func_idx_def)
  qed
qed

section \<open>Loop numbers\<close>

fun loop_idxs :: "wnode \<Rightarrow> int list" where
  "loop_idxs (WLoop d i is) = concat (map loop_idxs is) @ [i]"
| "loop_idxs (WBlock d is) = concat (map loop_idxs is)"
| "loop_idxs n = []"

lemma map_fst_loops_of: "map fst (loops_of n) = loop_idxs n"
  by (induction n rule: loop_idxs.induct) (auto simp: map_concat intro!: arg_cong [where f = concat])

lemma loop_idxs_iff: "i \<in> set (loop_idxs n) \<longleftrightarrow> (\<exists>d is. WLoop d i is \<in> set (nodes n))"
  by (induction n rule: loop_idxs.induct) auto

lemma loop_count_nonneg: "0 \<le> loop_count c"
  by (induction c) (auto intro!: sum_list_nonneg add_nonneg_nonneg)

lemma loop_idxs_tree:
  "distinct (loop_idxs (tree_of k c)) \<and> set (loop_idxs (tree_of k c)) = {k..<k + loop_count c}"
  and loop_idxs_trees:
  "distinct (concat (map loop_idxs (trees_of k cs))) \<and>
   set (concat (map loop_idxs (trees_of k cs))) = {k..<k + sum_list (map loop_count cs)}"
proof (induction k c and k cs rule: tree_of_trees_of.induct)
  case (1 k t)
  then show ?case by (cases t) simp_all
next
  case (3 k cs)
  have "0 \<le> sum_list (map loop_count cs)" by (rule sum_list_nonneg) (auto simp: loop_count_nonneg)
  with 3 show ?case by auto
next
  case (5 k c cs)
  have "0 \<le> sum_list (map loop_count cs)" by (rule sum_list_nonneg) (auto simp: loop_count_nonneg)
  with 5 loop_count_nonneg [of c] show ?case by auto
qed simp_all

lemma func_loops_keys:
  "map (\<lambda>(f, l, s). (f, l)) (func_loops f) = map (Pair (func_idx f)) (loop_idxs (fblock f))"
  by (simp add: func_loops_def tag_loops_def map_fst_loops_of [symmetric] split_def)

lemma funcs_trees_idx: "map func_idx (funcs_trees i fs) = map (\<lambda>k. i + int k) [0..<length fs]"
  by (induction i fs rule: funcs_trees.induct)
     (auto simp: func_tree_def map_upt_Suc simp del: upt_Suc)

lemma length_funcs_trees [simp]: "length (funcs_trees i fs) = length fs"
  by (induction i fs rule: funcs_trees.induct) simp_all

lemma funcs_trees_nth: "k < length fs \<Longrightarrow> funcs_trees i fs ! k = func_tree (i + int k) (fs ! k)"
  by (induction i fs arbitrary: k rule: funcs_trees.induct) (auto simp: nth_Cons' add.assoc)

lemma distinct_func_keys:
  "distinct (concat (map (\<lambda>f. map (Pair (func_idx f)) (loop_idxs (fblock f))) (funcs_trees i fs)))"
proof (induction i fs rule: funcs_trees.induct)
  case (2 i b bs)
  have "distinct (loop_idxs (fblock (func_tree i b)))"
    using loop_idxs_trees [of 0 b] by (simp add: func_tree_def)
  moreover have "func_idx f > i" if "f \<in> set (funcs_trees (i + 1) bs)" for f
  proof -
    have "func_idx f \<in> set (map func_idx (funcs_trees (i + 1) bs))" using that by simp
    then show ?thesis unfolding funcs_trees_idx by auto
  qed
  ultimately show ?case using 2 by (fastforce simp: distinct_map inj_on_def func_tree_def)
qed simp

lemma distinct_loop_keys:
  "distinct (map (\<lambda>(f, l, s). (f, l)) (concat (map func_loops (funcs_trees i fs))))"
  using distinct_func_keys by (simp add: map_concat o_def func_loops_keys)

end
