(* ===== verification/CkptPaths.thy ===== *)
theory CkptPaths
  imports Numbering
begin

text \<open>
  What the result of \<^verbatim>\<open>LoopCkptPass\<close> means for executions. \<open>exec_node\<close> is the control flow of a
  program tree: a branch may fall through, jump out of any number of enclosing blocks, or
  return; a loop is entered again by a jump to it. Its events are the checkpoints met: at the
  header of a loop that keeps its own checkpoint, and at a call of a function outside the
  set \<open>S\<close> of simple ones. A loop may do without its own checkpoint when every pass over its
  body meets another; \<open>skip_sound\<close> shows that this holds for a skipped loop when no branch
  comes before the checkpoint that the pass has found.
\<close>

section \<open>Executions of a tree\<close>

datatype ckpt_event = AtLoop int | AtCall int

datatype exit = Fall | Jump nat | Return

fun leave :: "exit \<Rightarrow> exit" where
  "leave (Jump 0) = Fall"
| "leave (Jump (Suc k)) = Jump k"
| "leave e = e"

definition header :: "int set \<Rightarrow> int \<Rightarrow> ckpt_event list" where
  "header skip i = (if i \<in> skip then [] else [AtLoop i])"

inductive exec_node :: "int set \<Rightarrow> int set \<Rightarrow> wnode \<Rightarrow> ckpt_event list \<Rightarrow> exit \<Rightarrow> bool"
  and exec_nodes :: "int set \<Rightarrow> int set \<Rightarrow> wnode list \<Rightarrow> ckpt_event list \<Rightarrow> exit \<Rightarrow> bool"
  for S skip where
  set: "exec_node S skip (WSet d i) [] Fall"
| simple_call: "c \<in> S \<Longrightarrow> exec_node S skip (WCall d c) [] Fall"
| ckpt_call: "c \<notin> S \<Longrightarrow> exec_node S skip (WCall d c) [AtCall c] Fall"
| branch: "exec_node S skip (WBranch d) [] e"
| block: "exec_nodes S skip is evs e \<Longrightarrow> exec_node S skip (WBlock d is) evs (leave e)"
| loop_exit: "exec_nodes S skip is evs e \<Longrightarrow> e \<noteq> Jump 0 \<Longrightarrow> exec_node S skip (WLoop d i is) (header skip i @ evs) (leave e)"
| loop_again: "exec_nodes S skip is evs (Jump 0) \<Longrightarrow> exec_node S skip (WLoop d i is) evs' e \<Longrightarrow>
    exec_node S skip (WLoop d i is) (header skip i @ evs @ evs') e"
| nodes_end: "exec_nodes S skip [] [] Fall"
| nodes_step: "exec_node S skip n evs Fall \<Longrightarrow> exec_nodes S skip ns evs' e \<Longrightarrow> exec_nodes S skip (n # ns) (evs @ evs') e"
| nodes_leave: "exec_node S skip n evs e \<Longrightarrow> e \<noteq> Fall \<Longrightarrow> exec_nodes S skip (n # ns) evs e"

inductive_cases exec_callE: "exec_node S skip (WCall d c) evs e"
inductive_cases exec_blockE: "exec_node S skip (WBlock d is) evs e"
inductive_cases exec_NilE: "exec_nodes S skip [] evs e"
inductive_cases exec_ConsE: "exec_nodes S skip (n # ns) evs e"

section \<open>Trees that always meet a checkpoint\<close>

fun branching :: "wnode \<Rightarrow> bool" where
  "branching (WBranch d) = True"
| "branching (WLoop d i is) = list_ex branching is"
| "branching (WBlock d is) = list_ex branching is"
| "branching n = False"

fun guarded :: "int set \<Rightarrow> int set \<Rightarrow> wnode \<Rightarrow> bool"
and guards :: "int set \<Rightarrow> int set \<Rightarrow> wnode list \<Rightarrow> bool" where
  "guarded S skip (WCall d c) = (c \<notin> S)"
| "guarded S skip (WLoop d i is) = (i \<notin> skip \<or> guards S skip is)"
| "guarded S skip (WBlock d is) = guards S skip is"
| "guarded S skip (WSet d i) = False"
| "guarded S skip (WBranch d) = False"
| "guards S skip [] = False"
| "guards S skip (n # ns) = (guarded S skip n \<or> \<not> branching n \<and> guards S skip ns)"

lemma exec_not_branching:
  "exec_node S skip n evs e \<Longrightarrow> \<not> branching n \<Longrightarrow> e = Fall"
  "exec_nodes S skip ns evs e \<Longrightarrow> \<not> list_ex branching ns \<Longrightarrow> e = Fall"
  by (induction rule: exec_node_exec_nodes.inducts) auto

lemma exec_guarded:
  "exec_node S skip n evs e \<Longrightarrow> guarded S skip n \<Longrightarrow> evs \<noteq> []"
  "exec_nodes S skip ns evs e \<Longrightarrow> guards S skip ns \<Longrightarrow> evs \<noteq> []"
proof (induction rule: exec_node_exec_nodes.inducts)
  case (nodes_leave n evs e ns)
  then show ?case using exec_not_branching(1) by fastforce
qed (auto simp: header_def)

section \<open>The skipped loops\<close>

fun loop_bodies :: "wnode \<Rightarrow> (int \<times> wnode list) list" where
  "loop_bodies (WLoop d i is) = concat (map loop_bodies is) @ [(i, is)]"
| "loop_bodies (WBlock d is) = concat (map loop_bodies is)"
| "loop_bodies n = []"

lemma map_fst_loop_bodies: "map fst (loop_bodies n) = loop_idxs n"
  by (induction n rule: loop_idxs.induct) (auto simp: map_concat intro!: arg_cong [where f = concat])

lemma loop_in_bodies: "WLoop d i is \<in> set (nodes n) \<Longrightarrow> (i, is) \<in> set (loop_bodies n)"
  by (induction n rule: loop_bodies.induct) auto

lemma loop_body_unique:
  assumes "distinct (loop_idxs n)" and "WLoop d i is \<in> set (nodes n)" and "WLoop d' i is' \<in> set (nodes n)"
  shows "is = is'"
  using assms eq_key_imp_eq_value [of "loop_bodies n"] by (metis loop_in_bodies map_fst_loop_bodies)

lemma skipped_loop:
  assumes "i \<in> set (skipped S n)"
  shows "\<exists>d is. WLoop d i is \<in> set (nodes n) \<and> list_ex (needs_ckpt S) is"
  using assms scanned_in_nodes by (fastforce simp: skipped_def)

lemma nodes_trans: "m \<in> set (nodes n) \<Longrightarrow> set (nodes m) \<subseteq> set (nodes n)"
  by (induction n rule: nodes.induct) auto

lemma guards_first:
  "\<not> list_ex branching pre \<Longrightarrow> guarded S skip m \<Longrightarrow> guards S skip (pre @ m # post)"
  by (induction pre) auto

lemma upto_ckpt_split:
  assumes "list_ex (needs_ckpt S) is"
  obtains pre m post where "is = pre @ m # post" and "needs_ckpt S m" and "upto_ckpt S is = pre @ [m]"
  using assms
proof (induction "is" arbitrary: thesis)
  case (Cons n ns)
  show ?case
  proof (cases "needs_ckpt S n")
    case True
    then show ?thesis using Cons.prems(1) [of "[]" n ns] by simp
  next
    case False
    with Cons.prems(2) have "list_ex (needs_ckpt S) ns" by simp
    then obtain pre m post where "ns = pre @ m # post" "needs_ckpt S m" "upto_ckpt S ns = pre @ [m]"
      using Cons.IH by blast
    with False show ?thesis using Cons.prems(1) [of "n # pre" m post] by simp
  qed
qed simp

lemma not_branching_guarded:
  assumes root: "distinct (loop_idxs root)"
  shows "set (nodes m) \<subseteq> set (nodes root) \<Longrightarrow> needs_ckpt S m \<Longrightarrow> \<not> branching m \<Longrightarrow>
    guarded S (set (skipped S root)) m"
proof (induction m rule: nodes.induct)
  case (1 d i "is")
  show ?case
  proof (cases "i \<in> set (skipped S root)")
    case True
    then obtain d' is' where "WLoop d' i is' \<in> set (nodes root)" "list_ex (needs_ckpt S) is'"
      using skipped_loop by blast
    moreover have "WLoop d i is \<in> set (nodes root)" using "1.prems"(1) self_in_nodes by blast
    ultimately have "list_ex (needs_ckpt S) is" using loop_body_unique [OF root] by blast
    then obtain pre m post where m: "is = pre @ m # post" "needs_ckpt S m" using upto_ckpt_split by metis
    then have "guarded S (set (skipped S root)) m" using 1 by auto
    with m "1.prems"(3) show ?thesis using guards_first by simp
  qed simp
next
  case (2 d "is")
  then obtain pre m post where m: "is = pre @ m # post" "needs_ckpt S m" using upto_ckpt_split
    by (metis needs_ckpt.simps(2))
  then have "guarded S (set (skipped S root)) m" using 2 by auto
  with m "2.prems"(3) show ?case using guards_first by simp
qed simp_all

lemma skip_sound:
  assumes root: "distinct (loop_idxs root)" and loop: "WLoop d i is \<in> set (nodes root)"
    and skip: "i \<in> set (skipped S root)" and early: "\<not> list_ex branching (upto_ckpt S is)"
    and passes: "exec_nodes S (set (skipped S root)) is evs e"
  shows "evs \<noteq> []"
proof -
  obtain d' is' where "WLoop d' i is' \<in> set (nodes root)" "list_ex (needs_ckpt S) is'"
    using skipped_loop [OF skip] by blast
  then have "list_ex (needs_ckpt S) is" using loop_body_unique [OF root loop] by blast
  then obtain pre m post where m: "is = pre @ m # post" "needs_ckpt S m" "upto_ckpt S is = pre @ [m]"
    by (rule upto_ckpt_split)
  have "m \<in> set is" using m(1) by simp
  then have "set (nodes m) \<subseteq> set (nodes root)" using nodes_trans [OF loop] by auto
  then have "guarded S (set (skipped S root)) m"
    using not_branching_guarded [OF root] m(2,3) early by simp
  with m early have "guards S (set (skipped S root)) is" by (simp add: guards_first)
  with passes show ?thesis by (rule exec_guarded(2))
qed

end
