(* ===== verification/OptFiles.thy ===== *)
theory OptFiles
  imports AnalysisMain
begin

text \<open>
  The three files that \<^verbatim>\<open>src/wasm_static_analysis.py\<close> leaves for the compiler, read back: a
  reader that takes each line apart at white space and converts the words with \<^verbatim>\<open>int\<close> finds
  the number of records in the first line and one record in every other line.
\<close>

definition read_ints :: "string \<Rightarrow> int list res" where
  "read_ints line = rmap py_int (py_split line)"

definition read_opt :: "string \<Rightarrow> int list list res" where
  "read_opt text = rmap read_ints (py_readlines text)"

lemma py_split_int_space: "is_space c \<Longrightarrow> py_split (str_int i @ c # s) = str_int i # py_split s"
  by (rule py_split_word_space [OF word_str_int])

lemma py_split_Nil [simp]: "py_split [] = []"
  by (simp add: py_split_def)

lemma blank_not_newline [simp]: "CHR '' '' \<noteq> newline" "newline \<noteq> CHR '' ''"
  "CHR '' '' \<noteq> carriage" "carriage \<noteq> CHR '' ''"
  by (simp_all add: newline_def carriage_def)

lemma py_split_newline: "py_split [newline] = []"
  by (simp add: py_split_def)

lemma py_split_ints: "py_split (py_join '' '' (map str_int is) @ [newline]) = map str_int is"
  by (induction "is" rule: induct_list012)
     (simp_all add: py_split_newline py_split_int_space)

lemma rmap_ints [simp]: "rmap py_int (map str_int is) = Inr is"
  by (induction "is") simp_all

lemma set_join_ints: "c \<in> set (py_join '' '' (map str_int is)) \<Longrightarrow> c \<noteq> newline \<and> c \<noteq> carriage"
  by (induction "is" rule: induct_list012) auto

lemma line_text_int [simp]: "line_text (str_int i)"
  by (simp add: line_text_def)

lemma line_text_skip [simp]: "line_text (skip_line r)"
  by (cases r) (simp add: skip_line_def line_text_def)

lemma line_text_modified [simp]: "line_text (modified_line set_iter r)"
  using set_join_ints
  by (cases r) (auto simp: modified_line_def line_text_def)

lemma read_int_line: "read_ints (str_int i @ [newline]) = Inr [i]"
  by (simp add: read_ints_def py_split_int_space py_split_newline)

lemma read_skip_line: "read_ints (skip_line (f, l) @ [newline]) = Inr [f, l]"
  by (simp add: read_ints_def skip_line_def py_split_int_space py_split_newline)

lemma read_modified_line:
  "read_ints (modified_line set_iter (f, l, s) @ [newline]) = Inr (f # l # int (card s) # set_iter s)"
  by (simp add: read_ints_def modified_line_def py_split_int_space py_split_ints)

lemma read_opt_lines:
  "(\<And>x. line_text (line x)) \<Longrightarrow> (\<And>x. read_ints (line x @ [newline]) = Inr (val x)) \<Longrightarrow>
   read_opt (unlines (str_int (int (length xs)) # map line xs)) = Inr ([int (length xs)] # map val xs)"
proof -
  assume plain: "\<And>x. line_text (line x)" and line: "\<And>x. read_ints (line x @ [newline]) = Inr (val x)"
  have "py_readlines (unlines (str_int (int (length xs)) # map line xs)) =
      (str_int (int (length xs)) @ [newline]) # map (\<lambda>x. line x @ [newline]) xs"
    using plain by (subst py_readlines_unlines) auto
  moreover have "rmap read_ints (map (\<lambda>x. line x @ [newline]) xs) = Inr (map val xs)"
    by (induction xs) (simp_all add: line)
  ultimately show ?thesis by (simp add: read_opt_def read_int_line)
qed

end
