(* ===== verification/PassInterface.thy ===== *)
theory PassInterface
  imports AnalysisMain
begin

text \<open>
  The contract the three passes share. Each of them is a \<^verbatim>\<open>visit\<close> that first looks for its own
  key in \<^verbatim>\<open>base.data\<close>: a node that has it is left alone, any other is annotated below, at
  least as far as the pass looks, and then itself. The locale \<open>node_pass\<close> states this, its
  lemmas say that the annotation makes a second visit of a node, and of a list of nodes, do
  nothing, and every pass is an interpretation.
\<close>

locale node_pass =
  fixes visit :: "wnode \<Rightarrow> 'r \<Rightarrow> (wnode \<times> 'r) res"
    and set_here :: "wnode \<Rightarrow> bool"
    and fresh :: "wnode \<Rightarrow> bool"
    and strip_own :: "wnode \<Rightarrow> wnode"
  assumes visit_fresh: "fresh n \<Longrightarrow> \<exists>n' r'. visit n r = Inr (n', r') \<and> set_here n' \<and> strip_own n' = strip_own n"
    and visit_cached: "set_here n \<Longrightarrow> visit n r = Inr (n, r)"
begin

fun visit_all :: "wnode list \<Rightarrow> 'r \<Rightarrow> (wnode list \<times> 'r) res" where
  "visit_all [] r = Inr ([], r)"
| "visit_all (n # ns) r = rbind (visit n r) (\<lambda>(n', r1). rbind (visit_all ns r1) (\<lambda>(ns', r2). Inr (n' # ns', r2)))"

lemma visit_twice:
  assumes "fresh n" and "visit n r = Inr (n', r')"
  shows "visit n' r'' = Inr (n', r'')" and "strip_own n' = strip_own n"
  using visit_fresh [OF assms(1), of r] assms(2) visit_cached by auto

lemma visit_all_fresh:
  "list_all fresh ns \<Longrightarrow> \<exists>ns' r'. visit_all ns r = Inr (ns', r') \<and> list_all set_here ns' \<and>
     map strip_own ns' = map strip_own ns"
proof (induction ns arbitrary: r)
  case (Cons n ns)
  obtain n' r1 where n': "visit n r = Inr (n', r1)" "set_here n'" "strip_own n' = strip_own n"
    using visit_fresh [of n r] Cons.prems by auto
  moreover obtain ns' r2 where "visit_all ns r1 = Inr (ns', r2)" "list_all set_here ns'"
      "map strip_own ns' = map strip_own ns"
    using Cons.IH [of r1] Cons.prems by auto
  ultimately show ?case by auto
qed simp

lemma visit_all_cached: "list_all set_here ns \<Longrightarrow> visit_all ns r = Inr (ns, r)"
  by (induction ns) (simp_all add: visit_cached)

end

text \<open>\<^verbatim>\<open>SimpleFuncPass\<close> keeps no result while it visits: its state is the unit.\<close>

definition sf_step :: "int set \<Rightarrow> wnode \<Rightarrow> unit \<Rightarrow> (wnode \<times> unit) res" where
  "sf_step S n r = rbind (sf_visit S n) (\<lambda>n'. Inr (n', r))"

interpretation sf: node_pass "sf_step S" "\<lambda>n. d_simple_func (node_data n) \<noteq> None" sf_inv but_simple
proof
  show "\<exists>n' r'. sf_step S n r = Inr (n', r') \<and> d_simple_func (node_data n') \<noteq> None \<and> but_simple n' = but_simple n"
    if "sf_inv n" for n r
    using sf_visit_ok [OF that, of S] by (auto simp: sf_step_def sf_visited_def)
  show "sf_step S n r = Inr (n, r)" if "d_simple_func (node_data n) \<noteq> None" for n r
    using that by (cases n) (auto simp: sf_step_def)
qed

interpretation ml: node_pass "ml_visit cur" "\<lambda>n. d_modified_locals (node_data n) \<noteq> None" ml_fresh but_modified
proof
  show "\<exists>n' r'. ml_visit cur n r = Inr (n', r') \<and> d_modified_locals (node_data n') \<noteq> None \<and>
      but_modified n' = but_modified n" if "ml_fresh n" for n r
    using ml_visit_ok [OF that, of cur r] by (auto simp: ml_visited_def)
  show "ml_visit cur n r = Inr (n, r)" if "d_modified_locals (node_data n) \<noteq> None" for n r
    using that by (cases n) auto
qed

interpretation lc: node_pass "lc_visit S cur" "\<lambda>n. d_loop_ckpt (node_data n) \<noteq> None" lc_fresh but_ckpt
proof
  show "\<exists>n' r'. lc_visit S cur n r = Inr (n', r') \<and> d_loop_ckpt (node_data n') \<noteq> None \<and>
      but_ckpt n' = but_ckpt n" if "lc_fresh n" for n r
    using lc_visit_ok [OF that, of S cur r] by (auto simp: lc_visited_def)
  show "lc_visit S cur n r = Inr (n, r)" if "d_loop_ckpt (node_data n) \<noteq> None" for n r
    using that by (cases n) auto
qed

end
