(* ===== verification/WasmSpec.thy ===== *)
theory WasmSpec
  imports CkptPaths OptFiles PassInterface
begin

text \<open>
  The properties of \<^verbatim>\<open>src/wasm_static_analysis.py\<close>, over the definitions of the front end and
  of the three passes. The witnesses apply them to \<open>sample_wat\<close>, a module with an import, a
  function without calls, a function that calls it, and a function with two loops.
\<close>

section \<open>A sample module\<close>

definition sample_wat :: string where
  "sample_wat = unlines
     [''(module'',
      ''  (import \"env\" \"puts\" (func $puts (type 0)))'',
      ''  (func $leaf (type 1) (param i32)'',
      ''    local.get 0'',
      ''    local.set 1)'',
      ''  (func $caller (type 0)'',
      ''    call $leaf)'',
      ''  (func $main (type 0)'',
      ''    loop  ;; label = @1'',
      ''      call $puts'',
      ''      local.set 3'',
      ''      br_if 0'',
      ''    end'',
      ''    loop  ;; label = @1'',
      ''      call $puts'',
      ''      br_if 0'',
      ''    end)'',
      ''  (func $spin (type 0)'',
      ''    loop  ;; label = @1'',
      ''      local.tee 2'',
      ''      br_if 0'',
      ''      call $puts'',
      ''    end))'']"

definition sample_names :: "(string \<times> int) list" where
  "sample_names = [(''$puts'', - 1), (''$leaf'', 0), (''$caller'', 1), (''$main'', 2), (''$spin'', 3)]"

definition sample_code :: "code list list" where
  "sample_code =
     [[CLeaf (TSet 1)],
      [CLeaf (TCall 0)],
      [CLoop [CLeaf (TCall (- 1)), CLeaf (TSet 3), CLeaf (TBrIf 0)],
       CLoop [CLeaf (TCall (- 1)), CLeaf (TBrIf 0)]],
      [CLoop [CLeaf (TTee 2), CLeaf (TBrIf 0), CLeaf (TCall (- 1))]]]"

lemma sample_front:
  "collect_names (wat_lines sample_wat) = Inr sample_names"
  "rmap (classify sample_names) (filter critical_line (wat_lines sample_wat)) = Inr (flatten_funcs sample_code)"
  "list_all (list_all code_ok) sample_code"
  by code_simp+

lemma sample_program: "load_program sample_wat = Inr (funcs_trees 0 sample_code)"
  using load_program_structured sample_front by blast

section \<open>The front end\<close>

lemma analyse_loaded:
  "load_program wat = Inr p \<Longrightarrow>
   analyse p = Inr (sorted_list_of_set (simple_indices p), concat (map func_loops p),
     concat (map (func_skips (simple_indices p)) p), [])"
  by (rule analyse_ok) (use load_program_bare in \<open>auto simp: list_all_iff func_fresh_def bare_def\<close>)

lemma sample_analysis:
  "analyse (funcs_trees 0 sample_code) =
     Inr ([0], [(2, 0, {3}), (2, 1, {}), (3, 0, {2})], [(2, 0), (3, 0)], [])"
  using analyse_loaded [OF sample_program]
  by (simp add: sample_code_def func_tree_def func_loops_def func_skips_def)

text \<open>
  C1. The parser inverts the writer: a text whose critical lines are structured functions (every
  block and loop closed by its own \<^verbatim>\<open>end\<close>) is loaded as the tree of these functions, the
  functions numbered from 0 and the loops of each function numbered from 0 in the order in
  which they open; nothing is lost on the way through the instruction file.
\<close>
theorem load_structured_module:
  assumes "collect_names (wat_lines wat) = Inr names"
    and "rmap (classify names) (filter critical_line (wat_lines wat)) = Inr (flatten_funcs fs)"
    and "list_all (list_all code_ok) fs"
  shows "load_program wat = Inr (funcs_trees 0 fs)"
  using assms by (rule load_program_structured)

theorem load_structured_module_witness: "load_program sample_wat = Inr (funcs_trees 0 sample_code)"
  by (rule load_structured_module [OF sample_front])

text \<open>
  C2. The whole analysis, on every text the front end accepts: the three passes raise nothing,
  print nothing, and, run one after the other on the same annotated tree, give the sorted
  indices of the functions with neither loop nor call, every loop with the set of locals
  written in it, and the loops the third pass has found to hold a checkpoint.
\<close>
theorem analyse_loaded_program:
  assumes "load_program wat = Inr p"
  shows "analyse p = Inr (sorted_list_of_set (simple_indices p), concat (map func_loops p),
    concat (map (func_skips (simple_indices p)) p), [])"
  using assms by (rule analyse_loaded)

theorem analyse_loaded_program_witness:
  "analyse (funcs_trees 0 sample_code) =
     Inr ([0], [(2, 0, {3}), (2, 1, {}), (3, 0, {2})], [(2, 0), (3, 0)], [])"
proof -
  have "simple_indices (funcs_trees 0 sample_code) = {0}"
    by (simp add: sample_code_def func_tree_def)
  with analyse_loaded_program [OF sample_program] show ?thesis
    by (simp add: sample_code_def func_tree_def func_loops_def func_skips_def)
qed

text \<open>
  C3. The program always ends: for no text does the parser, whose loops run with fuel, or a
  pass, whose fixpoint loop does, run out of it.
\<close>
theorem load_analyse_terminates: "rbind (load_program wat) analyse \<noteq> Inl OutOfFuel"
  using analyse_loaded load_program_fuel by (intro rbind_fuel) fastforce+

section \<open>SimpleFuncPass\<close>

text \<open>
  C4. A function index is reported as simple exactly when a function with that index has a body
  with no loop and no call in it, at any depth; the list is sorted and has no duplicates.
\<close>
theorem simple_func_exact:
  assumes "load_program wat = Inr p" and "analyse p = Inr (simple, modified, skip, printed)"
  shows "sorted simple \<and> distinct simple \<and>
    set simple = {func_idx f | f. f \<in> set p \<and> (\<forall>n \<in> set (nodes (fblock f)). \<not> is_loop n \<and> \<not> is_call n)}"
  using analyse_loaded [OF assms(1)] assms(2) by (auto simp: simple_indices_def simple_node_iff)

theorem simple_func_exact_witness: "\<exists>p simple modified skip printed.
    load_program sample_wat = Inr p \<and> analyse p = Inr (simple, modified, skip, printed) \<and>
    sorted simple \<and> set simple \<noteq> {}"
proof -
  note * = sample_analysis
  show ?thesis using simple_func_exact [OF sample_program *] * sample_program by fastforce
qed



section \<open>ModifiedLocalsPass\<close>

text \<open>
  C6. \<^verbatim>\<open>ModifiedLocalsPass\<close> is exact: its result has the entry (function, loop, set) exactly
  when the function holds that loop, at any depth, and the set is the set of the locals that a
  \<^verbatim>\<open>local.set\<close> or \<^verbatim>\<open>local.tee\<close> inside the loop, at any depth, writes.
\<close>
theorem modified_locals_exact:
  assumes "load_program wat = Inr p" and "analyse p = Inr (simple, modified, skip, printed)"
  shows "(f, l, s) \<in> set modified \<longleftrightarrow>
    (\<exists>fn \<in> set p. \<exists>d is. func_idx fn = f \<and> WLoop d l is \<in> set (nodes (fblock fn)) \<and>
       s = {i. \<exists>n \<in> set is. \<exists>d'. WSet d' i \<in> set (nodes n)})"
proof -
  have "modified = concat (map func_loops p)" using analyse_loaded [OF assms(1)] assms(2) by simp
  moreover have "(f, l, s) \<in> set (func_loops fn) \<longleftrightarrow> func_idx fn = f \<and> (l, s) \<in> set (loops_of (fblock fn))" for fn
    by (auto simp: func_loops_def tag_loops_def)
  moreover have "locals_of (WLoop d l is) = {i. \<exists>n \<in> set is. \<exists>d'. WSet d' i \<in> set (nodes n)}" for d "is"
    by (simp add: set_eq_iff locals_of_iff)
  ultimately show ?thesis by (auto simp: loops_of_iff simp del: locals_of.simps)
qed

theorem modified_locals_exact_witness:
  "\<exists>fn \<in> set (funcs_trees 0 sample_code). \<exists>d is. func_idx fn = 3 \<and> WLoop d 0 is \<in> set (nodes (fblock fn)) \<and>
     {2} = {i. \<exists>n \<in> set is. \<exists>d'. WSet d' i \<in> set (nodes n)}"
  using modified_locals_exact [OF sample_program sample_analysis, of 3 0 "{2}"] by simp



section \<open>LoopCkptPass\<close>

lemma skip_entry:
  assumes "analyse (funcs_trees 0 fs) = Inr (simple, modified, skip, printed)"
    and "(int k, l) \<in> set skip"
  shows "k < length fs" and "l \<in> set (skipped (set simple) (WBlock no_data (trees_of 0 (fs ! k))))"
proof -
  let ?p = "funcs_trees 0 fs"
  have simple: "set simple = simple_indices ?p" and skip: "skip = concat (map (func_skips (simple_indices ?p)) ?p)"
    using analyse_ok [OF fresh_funcs_trees, of 0 fs] assms(1) by auto
  obtain f where f: "f \<in> set ?p" "func_idx f = int k" "l \<in> set (skipped (set simple) (fblock f))"
    using assms(2) unfolding skip simple by (auto simp: func_skips_def tag_skips_def)
  obtain j where "j < length fs" "f = func_tree (int j) (fs ! j)"
    using f(1) funcs_trees_nth [of _ fs 0] by (fastforce simp: in_set_conv_nth)
  with f(2,3) show "k < length fs" "l \<in> set (skipped (set simple) (WBlock no_data (trees_of 0 (fs ! k))))"
    by (simp_all add: func_tree_def)
qed

text \<open>
  C8. A loop that \<^verbatim>\<open>LoopCkptPass\<close> skips may do without its own checkpoint if no branch comes
  before the checkpoint the pass has found in its body: then every execution of the body, however
  it is left, meets a checkpoint, when the headers of the skipped loops give none and the calls
  of functions that are not simple do.
\<close>
theorem skipped_loop_sound:
  assumes "analyse (funcs_trees 0 fs) = Inr (simple, modified, skip, printed)"
    and "(int k, l) \<in> set skip"
    and "WLoop d l is \<in> set (nodes (WBlock no_data (trees_of 0 (fs ! k))))"
    and "\<not> list_ex branching (upto_ckpt (set simple) is)"
    and "exec_nodes (set simple) {i. (int k, i) \<in> set skip} is evs e"
  shows "evs \<noteq> []"
proof -
  let ?root = "WBlock no_data (trees_of 0 (fs ! k))"
  have len: "k < length fs" and l: "l \<in> set (skipped (set simple) ?root)"
    using skip_entry [OF assms(1,2)] by auto
  have skip: "skip = concat (map (func_skips (set simple)) (funcs_trees 0 fs))"
    using analyse_ok [OF fresh_funcs_trees, of 0 fs] assms(1) by auto
  have "func_tree (int k) (fs ! k) \<in> set (funcs_trees 0 fs)"
    using len funcs_trees_nth [OF len, of 0] by (metis add_0 length_funcs_trees nth_mem)
  then have "set (skipped (set simple) ?root) \<subseteq> {i. (int k, i) \<in> set skip}"
    unfolding skip by (force simp: func_skips_def tag_skips_def func_tree_def simp del: skipped_simps)
  moreover have "{i. (int k, i) \<in> set skip} \<subseteq> set (skipped (set simple) ?root)"
    using skip_entry(2) [OF assms(1)] by blast
  ultimately have eq: "{i. (int k, i) \<in> set skip} = set (skipped (set simple) ?root)" by blast
  have "distinct (loop_idxs ?root)" using loop_idxs_trees [of 0 "fs ! k"] by simp
  from skip_sound [OF this assms(3) l assms(4) assms(5) [unfolded eq]] show ?thesis .
qed

theorem skipped_loop_sound_witness:
  "\<exists>is. exec_nodes {0} {0} is [AtCall (- 1)] Fall \<and> [AtCall (- 1)] \<noteq> []"
proof -
  let ?is = "trees_of 1 [CLeaf (TCall (- 1)), CLeaf (TSet 3), CLeaf (TBrIf 0)]"
  have passes: "exec_nodes {0} {0} ?is ([AtCall (- 1)] @ [] @ [] @ []) Fall"
    unfolding trees_of.simps tree_of.simps leaf_node.simps
    by (intro nodes_step nodes_end exec_node_exec_nodes.set branch ckpt_call) simp
  have skip: "{i. (int 2, i) \<in> set [(2, 0), (3, 0)]} = {0}" by auto
  have "[AtCall (- 1)] @ [] @ [] @ [] \<noteq> []"
  proof (rule skipped_loop_sound [OF sample_analysis])
    show "(int 2, 0) \<in> set [(2, 0), (3, 0)]" by simp
    show "WLoop no_data 0 ?is \<in> set (nodes (WBlock no_data (trees_of 0 (sample_code ! 2))))"
      by (simp add: sample_code_def)
    show "\<not> list_ex branching (upto_ckpt (set [0]) ?is)" by simp
    show "exec_nodes (set [0]) {i. (int 2, i) \<in> set [(2, 0), (3, 0)]} ?is ([AtCall (- 1)] @ [] @ [] @ []) Fall"
      using passes unfolding skip by simp
  qed
  with passes show ?thesis by auto
qed

text \<open>
  C9. The set the pass computes is not safe in general: the function \<^verbatim>\<open>$spin\<close> of the sample is
  reported as a loop to skip, its body can go round without meeting any checkpoint, by the
  branch back to its header that stands before the call.
\<close>
theorem skipped_loop_unsafe:
  "\<exists>simple modified skip printed d is.
     rbind (load_program sample_wat) analyse = Inr (simple, modified, skip, printed) \<and>
     (3, 0) \<in> set skip \<and>
     WLoop d 0 is \<in> set (nodes (fblock (funcs_trees 0 sample_code ! 3))) \<and>
     exec_nodes (set simple) {i. (3, i) \<in> set skip} is [] (Jump 0)"
proof -
  let ?is = "trees_of 1 [CLeaf (TTee 2), CLeaf (TBrIf 0), CLeaf (TCall (- 1))]"
  have "exec_nodes {0} {0} ?is ([] @ []) (Jump 0)"
    unfolding trees_of.simps tree_of.simps leaf_node.simps
    by (rule nodes_step [OF exec_node_exec_nodes.set]) (rule nodes_leave [OF branch], simp)
  moreover have "WLoop no_data 0 ?is \<in> set (nodes (fblock (funcs_trees 0 sample_code ! 3)))"
    by (simp add: sample_code_def func_tree_def)
  ultimately show ?thesis using sample_program sample_analysis by fastforce
qed

text \<open>
  C10. Nor does it find every loop it could: the scan of a function body ends with the first
  instruction that meets a checkpoint, so no loop that opens after it is ever reported, whatever
  its body holds.
\<close>
theorem later_loops_not_reported:
  assumes "analyse (funcs_trees 0 fs) = Inr (simple, modified, skip, printed)"
    and "fs ! k = xs @ ys" and "list_ex (needs_ckpt (set simple)) (trees_of 0 xs)"
    and "(int k, l) \<in> set skip"
  shows "l < sum_list (map loop_count xs)"
proof -
  have "trees_of i (xs @ ys) = trees_of i xs @ trees_of (i + sum_list (map loop_count xs)) ys" for i
    by (induction xs arbitrary: i) (simp_all add: add.assoc)
  then have "skipped (set simple) (WBlock no_data (trees_of 0 (fs ! k))) =
      skipped (set simple) (WBlock no_data (trees_of 0 xs))"
    using assms(2,3) by (simp add: skipped_insts_def upto_ckpt_append)
  with skip_entry(2) [OF assms(1,4)] have l: "l \<in> set (skipped (set simple) (WBlock no_data (trees_of 0 xs)))"
    by simp
  obtain d "is" where "WLoop d l is \<in> set (nodes (WBlock no_data (trees_of 0 xs)))"
    using skipped_loop [OF l] by blast
  then have "l \<in> set (loop_idxs (WBlock no_data (trees_of 0 xs)))" unfolding loop_idxs_iff by blast
  with loop_idxs_trees [of 0 xs] show ?thesis by simp
qed

theorem later_loops_not_reported_witness:
  "analyse (funcs_trees 0 sample_code) = Inr ([0], [(2, 0, {3}), (2, 1, {}), (3, 0, {2})], [(2, 0), (3, 0)], []) \<and>
   0 < sum_list (map loop_count [CLoop [CLeaf (TCall (- 1)), CLeaf (TSet 3), CLeaf (TBrIf 0)]])"
proof (intro conjI)
  show "0 < sum_list (map loop_count [CLoop [CLeaf (TCall (- 1)), CLeaf (TSet 3), CLeaf (TBrIf 0)]])"
    by (rule later_loops_not_reported [OF sample_analysis, of 2 _ "[CLoop [CLeaf (TCall (- 1)), CLeaf (TBrIf 0)]]"])
       (simp_all add: sample_code_def)
qed (rule sample_analysis)

section \<open>Rejected modules\<close>

text \<open>
  C11. A function with one \<^verbatim>\<open>end\<close> more than it opens blocks and loops is rejected with an
  assertion error, whatever follows. Every function that uses \<^verbatim>\<open>if\<close> is such a function, since
  \<^verbatim>\<open>critical_line\<close> keeps the \<^verbatim>\<open>end\<close> of an \<^verbatim>\<open>if\<close> and drops the \<^verbatim>\<open>if\<close>.
\<close>
theorem unbalanced_end_rejected:
  assumes "collect_names (wat_lines wat) = Inr names"
    and "rmap (classify names) (filter critical_line (wat_lines wat)) =
           Inr (flatten_funcs fs @ TFunc # concat (map flatten b) @ TEnd # rest)"
    and "list_all (list_all code_ok) fs" and "list_all code_ok b"
  shows "load_program wat = Inl (AssertionError [])"
  using assms by (rule load_program_extra_end)

definition if_wat :: string where
  "if_wat = unlines
     [''(module'',
      ''  (func $f (type 0)'',
      ''    local.get 0'',
      ''    if  ;; label = @1'',
      ''      local.set 1'',
      ''    end))'']"

theorem unbalanced_end_rejected_witness: "load_program if_wat = Inl (AssertionError [])"
proof (rule unbalanced_end_rejected)
  show "collect_names (wat_lines if_wat) = Inr [(''$f'', 0)]" by code_simp
  show "rmap (classify [(''$f'', 0)]) (filter critical_line (wat_lines if_wat)) =
      Inr (flatten_funcs [] @ TFunc # concat (map flatten [CLeaf (TSet 1)]) @ TEnd # [])" by code_simp
qed (simp_all add: is_leaf_def)

text \<open>
  C12. A module that imports anything but functions is rejected: an \<^verbatim>\<open>(import\<close> line without
  \<^verbatim>\<open>(func\<close>, such as that of a memory or a global, ends the analysis with the assertion
  \<^verbatim>\<open>Invalid import function\<close> when the names before it are accepted.
\<close>
theorem other_imports_rejected:
  assumes "wat_lines wat = pre @ line # post"
    and "rfold collect_line pre \<lparr>func_name_to_idx = [], import_func_cnt = 0\<rparr> = Inr st"
    and "py_startswith line ''(import ''" and "py_find line ''(func '' = - 1"
  shows "load_program wat = Inl (AssertionError ''Invalid import function'')"
  using assms
  by (simp add: load_program_def wat_to_inst_def collect_names_def Let_def rfold_append
      collect_line_def collect_import_def)

definition memory_wat :: string where
  "memory_wat = unlines [''(module'', ''  (import \"env\" \"memory\" (memory 1))'', '')'']"

theorem other_imports_rejected_witness:
  "load_program memory_wat = Inl (AssertionError ''Invalid import function'')"
proof (rule other_imports_rejected)
  show "wat_lines memory_wat = [''(module''] @ ''(import \"env\" \"memory\" (memory 1'' # [[]]" by code_simp
  show "rfold collect_line [''(module''] \<lparr>func_name_to_idx = [], import_func_cnt = 0\<rparr> =
      Inr \<lparr>func_name_to_idx = [], import_func_cnt = 0\<rparr>" by code_simp
qed code_simp+

section \<open>Numbers and files\<close>

text \<open>
  C13. When the imports come first, the two numberings agree: a call of the \<open>k\<close>-th function of
  the text is written with the number \<open>k\<close>, which is the number the function itself is written
  with, and a call of an import is written with a negative number.
\<close>
theorem call_numbers:
  assumes "collect_names (imps @ defs) = Inr names"
    and "list_all (\<lambda>l. \<not> py_startswith l ''(func'') imps"
    and "list_all (\<lambda>l. \<not> py_startswith l ''(import '') defs"
  shows "(\<forall>k < length (filter (\<lambda>l. py_startswith l ''(func'') defs).
      lookup_func_idx names (func_name (filter (\<lambda>l. py_startswith l ''(func'') defs ! k)) = Inr (int k)) \<and>
    (\<forall>n \<in> set (names_of imps). \<exists>i < 0. lookup_func_idx names n = Inr i)"
  using imports_first_numbers [OF assms] by blast

theorem call_numbers_witness:
  "lookup_func_idx sample_names ''$spin'' = Inr 3 \<and> (\<exists>i < 0. lookup_func_idx sample_names ''$puts'' = Inr i)"
proof -
  let ?w = "wat_lines sample_wat"
  have names: "collect_names (take 2 ?w @ drop 2 ?w) = Inr sample_names" using sample_front(1) by simp
  have imps: "list_all (\<lambda>l. \<not> py_startswith l ''(func'') (take 2 ?w)" by code_simp
  have defs: "list_all (\<lambda>l. \<not> py_startswith l ''(import '') (drop 2 ?w)" by code_simp
  have fs: "map func_name (filter (\<lambda>l. py_startswith l ''(func'') (drop 2 ?w)) =
    [''$leaf'', ''$caller'', ''$main'', ''$spin'']" by code_simp
  have len: "3 < length (filter (\<lambda>l. py_startswith l ''(func'') (drop 2 ?w))"
    and nth: "func_name (filter (\<lambda>l. py_startswith l ''(func'') (drop 2 ?w) ! 3) = ''$spin''"
    using arg_cong [OF fs, of length] arg_cong [OF fs, of "\<lambda>ns. ns ! 3"] by simp_all
  have "''$puts'' \<in> set (names_of (take 2 ?w))" by code_simp
  with call_numbers [OF names imps defs] len nth show ?thesis
    by (metis of_nat_numeral)
qed

text \<open>
  C14. What the compiler reads: taking the lines of the two loop files apart and converting the
  words gives the number of records and then one record per line, with the function, the loop
  and, for the locals, their number and the locals themselves in the order of the iteration.
\<close>
theorem opt_files_read_back:
  "read_opt (simple_func_file fns) = Inr ([int (length fns)] # map (\<lambda>f. [f]) fns) \<and>
   read_opt (modified_locals_file set_iter ms) =
     Inr ([int (length ms)] # map (\<lambda>(f, l, s). f # l # int (card s) # set_iter s) ms) \<and>
   read_opt (skip_ckpt_file ss) = Inr ([int (length ss)] # map (\<lambda>(f, l). [f, l]) ss)"
  unfolding simple_func_file_def modified_locals_file_def skip_ckpt_file_def
  using read_opt_lines [of str_int "\<lambda>f. [f]" fns]
    read_opt_lines [of "modified_line set_iter" "\<lambda>(f, l, s). f # l # int (card s) # set_iter s" ms]
    read_opt_lines [of skip_line "\<lambda>(f, l). [f, l]" ss]
  by (auto simp: read_int_line read_modified_line read_skip_line)



section \<open>Annotations\<close>

text \<open>
  C16. The annotations are a sound cache, for each of the three passes: visiting an unannotated
  node changes nothing but the annotations of the pass, and visiting its result again, in any
  state, changes nothing and reports nothing.
\<close>
theorem second_visit_idle:
  assumes "bare n"
  shows "(sf_visit S n = Inr n' \<longrightarrow> sf_visit S' n' = Inr n' \<and> but_simple n' = but_simple n) \<and>
    (ml_visit cur n ms = Inr (n', ms') \<longrightarrow> ml_visit cur n' ms'' = Inr (n', ms'') \<and> but_modified n' = but_modified n) \<and>
    (lc_visit S cur n ls = Inr (n', ls') \<longrightarrow> lc_visit S cur n' ls'' = Inr (n', ls'') \<and> but_ckpt n' = but_ckpt n)"
proof -
  have fresh: "sf_inv n" "ml_fresh n" "lc_fresh n"
    using assms by (auto simp: bare_def no_data_def ml_unset_def lc_unset_def sf_cached_def elim!: every_mono [rotated])
  have "sf_visit S' n' = Inr n' \<and> but_simple n' = but_simple n" if "sf_visit S n = Inr n'"
    using sf.visit_fresh [OF fresh(1), of S "()"] sf.visit_cached [of n' S' "()"] that
    by (cases "sf_visit S' n'") (auto simp: sf_step_def)
  with ml.visit_twice [OF fresh(2)] lc.visit_twice [OF fresh(3)] show ?thesis by blast
qed

theorem second_visit_idle_witness:
  "\<exists>n'. sf_visit {} (tree_of 0 (CLoop [CLeaf (TCall 0)])) = Inr n' \<and> sf_visit {0} n' = Inr n'"
proof -
  obtain n' where n': "sf_visit {} (tree_of 0 (CLoop [CLeaf (TCall 0)])) = Inr n'"
    by (simp add: no_data_def)
  have "sf_visit {0} n' = Inr n'"
    using second_visit_idle [of "tree_of 0 (CLoop [CLeaf (TCall 0)])" "{}" n' "{0}"] n' by simp
  with n' show ?thesis by blast
qed

end
