(* ===== verification/PyFloat.thy ===== *)
theory PyFloat
  imports Complex_Main PyStr
begin

text \<open>
  Python's floats. A finite float is the rational number it stands for; \<open>fl64\<close> rounds a
  rational to the nearest number of 53 significant bits (ties to even, with gradual
  underflow), so a float operation of the code is the exact operation followed by \<open>fl64\<close>. Not
  covered are infinities, nan and the sign of zero: a literal \<^verbatim>\<open>inf\<close> or \<^verbatim>\<open>nan\<close> is
  \<open>Unsupported\<close>, and results stay below the overflow threshold of \<open>2 ^ 1024\<close>.

  The locale \<open>float_rounding\<close> is what the components rely on: integers of at most 53 bits are
  exact, and the relative error of a result that is not tiny is at most \<open>2 ^ -53\<close>.
\<close>

section \<open>Rounding\<close>

fun nat_log2 :: "nat \<Rightarrow> nat" where
  "nat_log2 n = (if n < 2 then 0 else Suc (nat_log2 (n div 2)))"

declare nat_log2.simps [simp del]

lemma nat_log2_bounds: "0 < n \<Longrightarrow> 2 ^ nat_log2 n \<le> n \<and> n < 2 ^ Suc (nat_log2 n)"
proof (induction n rule: nat_log2.induct)
  case (1 n)
  show ?case
  proof (cases "n < 2")
    case True
    with 1 show ?thesis by (simp add: nat_log2.simps [of n])
  next
    case False
    with 1 have *: "2 ^ nat_log2 (n div 2) \<le> n div 2 \<and> n div 2 < 2 * 2 ^ nat_log2 (n div 2)" by simp
    have n: "nat_log2 n = Suc (nat_log2 (n div 2))" using False by (simp add: nat_log2.simps [of n])
    from * show ?thesis unfolding n by (simp only: power_Suc) linarith
  qed
qed

definition pow2 :: "int \<Rightarrow> rat" where
  "pow2 k = (if 0 \<le> k then 2 ^ nat k else 1 / 2 ^ nat (- k))"

lemma pow2_pos [simp]: "0 < pow2 k"
  by (simp add: pow2_def)

lemma pow2_powi: "pow2 k = 2 powi k"
  by (simp add: pow2_def power_int_def inverse_eq_divide power_one_over)

lemma pow2_nonneg [simp]: "0 \<le> pow2 k"
  by (simp add: less_imp_le)

lemma pow2_nonzero [simp]: "pow2 k \<noteq> 0"
  by (metis less_irrefl pow2_pos)

lemma pow2_add: "pow2 (j + k) = pow2 j * pow2 k"
  unfolding pow2_powi by (rule power_int_add) simp

lemma pow2_simps [simp]: "pow2 0 = 1" "pow2 (int n) = 2 ^ n"
  by (simp_all add: pow2_def)

text \<open>The exponent of a positive rational: \<open>pow2 e \<le> x < pow2 (e + 1)\<close>.\<close>

definition rat_log2 :: "rat \<Rightarrow> int" where
  "rat_log2 x =
     (let (a, b) = quotient_of x; k = int (nat_log2 (nat a)) - int (nat_log2 (nat b))
      in if pow2 k \<le> x then k else k - 1)"

lemma rat_log2_bounds:
  assumes "0 < x"
  shows "pow2 (rat_log2 x) \<le> x" and "x < pow2 (rat_log2 x + 1)"
proof -
  obtain a b where q: "quotient_of x = (a, b)" by (cases "quotient_of x")
  have b: "0 < b" using quotient_of_denom_pos [OF q] .
  have x: "x = of_int a / of_int b" using quotient_of_div [OF q] .
  with assms b have a: "0 < a" by (simp add: zero_less_divide_iff)
  define p r where "p = nat_log2 (nat a)" and "r = nat_log2 (nat b)"
  have A: "2 ^ p \<le> nat a" "nat a < 2 ^ Suc p" using nat_log2_bounds [of "nat a"] a by (simp_all add: p_def)
  have B: "2 ^ r \<le> nat b" "nat b < 2 ^ Suc r" using nat_log2_bounds [of "nat b"] b by (simp_all add: r_def)
  have A': "(2::int) ^ p \<le> a" "a < 2 ^ Suc p"
    using A a by (simp_all add: nat_le_iff le_nat_iff nat_less_iff)
  have B': "(2::int) ^ r \<le> b" "b < 2 ^ Suc r"
    using B b by (simp_all add: nat_le_iff le_nat_iff nat_less_iff)
  have Ar: "(2::rat) ^ p \<le> of_int a" "of_int a < (2::rat) ^ Suc p"
    using A' by (metis of_int_le_iff of_int_numeral of_int_power, metis of_int_less_iff of_int_numeral of_int_power)
  have Br: "(2::rat) ^ r \<le> of_int b" "of_int b < (2::rat) ^ Suc r"
    using B' by (metis of_int_le_iff of_int_numeral of_int_power, metis of_int_less_iff of_int_numeral of_int_power)
  have a0: "(0::rat) \<le> of_int a" "(0::rat) < of_int b" using a b by simp_all
  let ?k = "int p - int r"
  have pk: "pow2 ?k = 2 ^ p / 2 ^ r"
    using pow2_add [of ?k "int r"] by (simp add: field_simps)
  have "pow2 (?k - 1) * 2 = pow2 ?k" using pow2_add [of "?k - 1" 1] pow2_simps(2) [of 1] by simp
  then have pk1: "pow2 (?k - 1) = 2 ^ p / 2 ^ Suc r" using pk by (simp add: field_simps)
  have "pow2 (?k + 1) = 2 * pow2 ?k" using pow2_add [of ?k 1] pow2_simps(2) [of 1] by simp
  then have pk2: "pow2 (?k + 1) = 2 ^ Suc p / 2 ^ r" using pk by simp
  have "x < 2 ^ Suc p / 2 ^ r"
    unfolding x using Ar Br a0 by (intro frac_less) auto
  moreover have "2 ^ p / 2 ^ Suc r \<le> x"
    unfolding x using Ar Br a0 by (intro frac_le) auto
  ultimately show "pow2 (rat_log2 x) \<le> x" "x < pow2 (rat_log2 x + 1)"
    using pk1 pk2 q by (auto simp: rat_log2_def Let_def p_def r_def not_le)
qed

text \<open>Round half to even.\<close>

definition round_even :: "rat \<Rightarrow> int" where
  "round_even y =
     (let f = \<lfloor>y\<rfloor>; d = y - of_int f
      in if d < 1 / 2 then f else if 1 / 2 < d then f + 1 else if even f then f else f + 1)"

lemma round_even_err: "\<bar>of_int (round_even y) - y\<bar> \<le> 1 / 2"
proof -
  have "of_int \<lfloor>y\<rfloor> \<le> y" "y < of_int \<lfloor>y\<rfloor> + 1" by linarith+
  then show ?thesis by (auto simp: round_even_def Let_def abs_le_iff)
qed

lemma round_even_int [simp]: "round_even (of_int i) = i"
  by (simp add: round_even_def)

definition fl64 :: "rat \<Rightarrow> rat" where
  "fl64 x =
     (if x = 0 then 0
      else let u = pow2 (max (rat_log2 \<bar>x\<bar> - 52) (- 1074)) in of_int (round_even (x / u)) * u)"

lemma fl64_0 [simp]: "fl64 0 = 0"
  by (simp add: fl64_def)

lemma fl64_abs_err:
  assumes "x \<noteq> 0"
  shows "\<bar>fl64 x - x\<bar> \<le> pow2 (max (rat_log2 \<bar>x\<bar> - 52) (- 1074)) / 2"
proof -
  let ?u = "pow2 (max (rat_log2 \<bar>x\<bar> - 52) (- 1074))"
  have "fl64 x - x = (of_int (round_even (x / ?u)) - x / ?u) * ?u"
    using assms by (simp add: fl64_def Let_def left_diff_distrib)
  moreover have "\<bar>of_int (round_even (x / ?u)) - x / ?u\<bar> * ?u \<le> 1 / 2 * ?u"
    by (intro mult_right_mono round_even_err) (simp add: less_imp_le)
  ultimately show ?thesis by (simp add: abs_mult)
qed

lemma pow2_mono: "j \<le> k \<Longrightarrow> pow2 j \<le> pow2 k"
  by (simp add: pow2_powi power_int_increasing)

lemma fl64_rel_err:
  assumes "pow2 (- 1022) \<le> \<bar>x\<bar>"
  shows "\<bar>fl64 x - x\<bar> \<le> \<bar>x\<bar> * pow2 (- 53)"
proof -
  have x: "0 < \<bar>x\<bar>" using assms pow2_pos [of "- 1022"] by linarith
  have "pow2 (- 1022) < pow2 (rat_log2 \<bar>x\<bar> + 1)" using rat_log2_bounds(2) [OF x] assms by linarith
  then have "- 1022 < rat_log2 \<bar>x\<bar> + 1" using pow2_mono [of "rat_log2 \<bar>x\<bar> + 1" "- 1022"] by linarith
  then have u: "max (rat_log2 \<bar>x\<bar> - 52) (- 1074) = rat_log2 \<bar>x\<bar> + (- 52)" by simp
  have "\<bar>fl64 x - x\<bar> \<le> pow2 (rat_log2 \<bar>x\<bar>) * pow2 (- 52) / 2"
    using fl64_abs_err [of x] x unfolding u pow2_add by simp
  also have "\<dots> \<le> \<bar>x\<bar> * pow2 (- 52) / 2"
    using rat_log2_bounds(1) [OF x] pow2_pos [of "- 52"]
    by (intro divide_right_mono mult_right_mono) auto
  also have "\<dots> = \<bar>x\<bar> * pow2 (- 53)" using pow2_add [of "- 53" 1] pow2_simps(2) [of 1] by simp
  finally show ?thesis .
qed

lemma fl64_int:
  assumes "\<bar>i\<bar> \<le> 2 ^ 53"
  shows "fl64 (of_int i) = of_int i"
proof (cases "i = 0")
  case False
  let ?x = "of_int i :: rat" and ?e = "rat_log2 \<bar>of_int i\<bar>"
  have x: "0 < \<bar>?x\<bar>" using False by simp
  have "pow2 (- 1022) \<le> 1" using pow2_mono [of "- 1022" 0] by simp
  have one: "1 \<le> \<bar>?x\<bar>" using False by linarith
  have "0 \<le> ?e"
  proof (rule ccontr)
    assume "\<not> 0 \<le> ?e"
    then have "pow2 (?e + 1) \<le> pow2 0" by (intro pow2_mono) simp
    with rat_log2_bounds(2) [OF x] one show False by simp
  qed
  have "(of_int \<bar>i\<bar> :: rat) \<le> of_int (2 ^ 53)" using assms by (simp only: of_int_le_iff)
  then have le: "\<bar>?x\<bar> \<le> 2 ^ 53" by simp
  have e: "?e \<le> 53"
  proof (rule ccontr)
    assume "\<not> ?e \<le> 53"
    then have "pow2 54 \<le> pow2 ?e" by (intro pow2_mono) simp
    with rat_log2_bounds(1) [OF x] le show False by (simp add: pow2_def)
  qed
  show ?thesis
  proof (cases "?e \<le> 52")
    case True
    let ?u = "pow2 (?e - 52)"
    have m: "max (?e - 52) (- 1074) = ?e - 52" using \<open>0 \<le> ?e\<close> by simp
    have "?x / ?u = of_int (i * 2 ^ nat (52 - ?e))"
      using True by (simp add: pow2_def field_simps split: if_splits)
    then show ?thesis using False unfolding fl64_def m Let_def
      by (metis (no_types, lifting) nonzero_eq_divide_eq of_int_eq_0_iff pow2_pos less_irrefl round_even_int times_divide_eq_left mult.commute)
  next
    case False
    with e have "?e = 53" by simp
    with rat_log2_bounds(1) [OF x] le have "\<bar>?x\<bar> = 2 ^ 53" by (simp add: pow2_def)
    then have "(of_int \<bar>i\<bar> :: rat) = of_int (2 ^ 53)" by simp
    then have "\<bar>i\<bar> = 2 ^ 53" by (simp only: of_int_eq_iff)
    then have "i = 2 ^ 53 \<or> i = - (2 ^ 53)" by (simp add: abs_if split: if_splits)
    then show ?thesis
    proof
      assume i: "i = 2 ^ 53"
      have "?x / pow2 1 = of_int (2 ^ 52)" by (simp add: i pow2_def)
      then show ?thesis using \<open>?e = 53\<close> unfolding fl64_def Let_def
        by (simp del: of_int_power add: i) (simp add: pow2_def round_even_def)
    next
      assume i: "i = - (2 ^ 53)"
      show ?thesis using \<open>?e = 53\<close> unfolding fl64_def Let_def
        by (simp add: i) (simp add: pow2_def round_even_def)
    qed
  qed
qed simp

lemma fl64_nonneg: "0 \<le> x \<Longrightarrow> 0 \<le> fl64 x"
proof -
  assume "0 \<le> x"
  then have "0 \<le> \<lfloor>x / u\<rfloor>" if "0 < u" for u :: rat using that by simp
  then have "0 \<le> round_even (x / u)" if "0 < u" for u
    using that by (auto simp: round_even_def Let_def)
  then show ?thesis by (simp add: fl64_def Let_def less_imp_le)
qed

section \<open>What the components rely on\<close>

locale float_rounding =
  fixes fl :: "rat \<Rightarrow> rat"
  assumes fl_int: "\<bar>i\<bar> \<le> 2 ^ 53 \<Longrightarrow> fl (of_int i) = of_int i"
    and fl_nonneg: "0 \<le> x \<Longrightarrow> 0 \<le> fl x"
    and fl_err: "pow2 (- 1022) \<le> \<bar>x\<bar> \<Longrightarrow> \<bar>fl x - x\<bar> \<le> \<bar>x\<bar> * pow2 (- 53)"
begin

lemma fl_nat: "n \<le> 2 ^ 53 \<Longrightarrow> fl (of_nat n) = of_nat n"
  using fl_int [of "int n"] by simp

lemma fl_lower:
  assumes "pow2 (- 1022) \<le> x"
  shows "x * (1 - pow2 (- 53)) \<le> fl x"
proof -
  have "0 < x" using assms pow2_pos [of "- 1022"] by linarith
  with fl_err [of x] assms show ?thesis by (simp add: right_diff_distrib abs_le_iff)
qed

lemma fl_sum_ones:
  "n + m \<le> 2 ^ 53 \<Longrightarrow> fold (\<lambda>v s. fl (s + v)) (replicate n 1) (of_nat m) = of_nat (n + m)"
proof (induction n arbitrary: m)
  case (Suc n)
  have "fl (of_nat m + 1) = of_nat (Suc m)" using fl_nat [of "Suc m"] Suc.prems by (simp add: add.commute)
  with Suc.IH [of "Suc m"] Suc.prems show ?case by simp
qed simp

end

interpretation fl64: float_rounding fl64
  by unfold_locales (simp_all add: fl64_int fl64_nonneg fl64_rel_err)

section \<open>float(s)\<close>

text \<open>
  A decimal literal: white space, sign, digits with an optional point, at least one digit,
  optional exponent; single underscores between digits. The value is the rational number,
  rounded once.
\<close>

definition digit_part :: "string \<Rightarrow> (nat \<times> nat) option" where
  "digit_part s =
     (if s = [] then Some (0, 0)
      else case read_nat s of None \<Rightarrow> None | Some n \<Rightarrow> Some (n, length (filter (\<lambda>c. c \<noteq> CHR ''_'') s)))"

definition split_sign :: "string \<Rightarrow> bool \<times> string" where
  "split_sign s =
     (case s of [] \<Rightarrow> (False, [])
      | c # cs \<Rightarrow> if c = CHR ''-'' then (True, cs) else if c = CHR ''+'' then (False, cs) else (False, s))"

definition read_mantissa :: "string \<Rightarrow> rat option" where
  "read_mantissa s =
     (let i = takeWhile (\<lambda>c. c \<noteq> CHR ''.'') s; f = drop (Suc (length i)) s in
      if i = [] \<and> f = [] then None
      else case (digit_part i, digit_part f) of
          (Some (m, _), Some (n, k)) \<Rightarrow> Some (of_nat m + of_nat n / 10 ^ k)
        | _ \<Rightarrow> None)"

definition read_exponent :: "string \<Rightarrow> int option" where
  "read_exponent s =
     (if s = [] then Some 0
      else case split_sign (tl s) of (neg, ds) \<Rightarrow>
        (case read_nat ds of None \<Rightarrow> None | Some n \<Rightarrow> Some (if neg then - int n else int n)))"

definition lower_char :: "char \<Rightarrow> char" where
  "lower_char c = (let n = of_char c :: nat in if 65 \<le> n \<and> n \<le> 90 then char_of (n + 32) else c)"

definition ten_pow :: "int \<Rightarrow> rat" where
  "ten_pow e = (if 0 \<le> e then 10 ^ nat e else 1 / 10 ^ nat (- e))"

definition py_float :: "string \<Rightarrow> rat res" where
  "py_float str =
     (case split_sign (py_strip str) of (neg, s) \<Rightarrow>
        if map lower_char s \<in> {''inf'', ''infinity'', ''nan''} then Inl Unsupported
        else
          let m = takeWhile (\<lambda>c. c \<noteq> CHR ''e'' \<and> c \<noteq> CHR ''E'') s;
              e = drop (length m) s
          in case (read_mantissa m, read_exponent e) of
              (Some x, Some k) \<Rightarrow>
                (let v = fl64 (x * ten_pow k) in
                 if v < 2 ^ 1024 then Inr (if neg then - v else v) else Inl Unsupported)
            | _ \<Rightarrow> Inl ValueError)"

text \<open>A word that starts with a letter that no literal starts with is rejected.\<close>

lemma py_float_letter:
  assumes "py_strip str = c # cs" and "c \<notin> {CHR ''-'', CHR ''+'', CHR ''.'', CHR ''e'', CHR ''E'',
      CHR ''i'', CHR ''I'', CHR ''n'', CHR ''N''}" and "digit_val c = None"
  shows "py_float str = Inl ValueError"
proof -
  have sign: "split_sign (py_strip str) = (False, c # cs)" using assms(1,2) by (simp add: split_sign_def)
  have neq: "(of_char c :: nat) \<noteq> of_char d" if "c \<noteq> d" for d using that by simp
  have code: "(of_char c :: nat) \<notin> {105, 73, 110, 78}"
    using neq [of "CHR ''i''"] neq [of "CHR ''I''"] neq [of "CHR ''n''"] neq [of "CHR ''N''"] assms(2) by simp
  have low: "(of_char (lower_char c) :: nat) =
      (if 65 \<le> (of_char c :: nat) \<and> (of_char c :: nat) \<le> 90 then of_char c + 32 else of_char c)"
    by (simp add: lower_char_def Let_def)
  have "lower_char c \<noteq> CHR ''i'' \<and> lower_char c \<noteq> CHR ''n''"
  proof (intro conjI notI)
    assume "lower_char c = CHR ''i''"
    then have "(of_char (lower_char c) :: nat) = 105" by simp
    with low code show False by (simp split: if_splits)
  next
    assume "lower_char c = CHR ''n''"
    then have "(of_char (lower_char c) :: nat) = 110" by simp
    with low code show False by (simp split: if_splits)
  qed
  then have word: "map lower_char (c # cs) \<notin> {''inf'', ''infinity'', ''nan''}" by simp
  have "digit_part (takeWhile (\<lambda>c. c \<noteq> CHR ''.'') (takeWhile (\<lambda>c. c \<noteq> CHR ''e'' \<and> c \<noteq> CHR ''E'') (c # cs))) = None"
    using assms(2,3) by (simp add: digit_part_def read_nat_def)
  then have "read_mantissa (takeWhile (\<lambda>c. c \<noteq> CHR ''e'' \<and> c \<noteq> CHR ''E'') (c # cs)) = None"
    using assms(2) by (simp add: read_mantissa_def Let_def)
  then show ?thesis unfolding py_float_def sign using word by (simp add: Let_def)
qed

lemma py_float_2: "py_float ''2'' = Inr 2"
proof -
  have "split_sign (py_strip ''2'') = (False, ''2'')" "map lower_char ''2'' = ''2''" "read_nat ''2'' = Some 2"
    by code_simp+
  moreover have "fl64 2 = 2" using fl64_int [of 2] by simp
  ultimately show ?thesis
    by (simp add: py_float_def read_mantissa_def digit_part_def read_exponent_def ten_pow_def Let_def)
qed

end
