(* ===== verification/Shell.thy ===== *)
theory Shell
  imports PyFloat
begin

text \<open>
  What the benchmark scripts do to the world. A call of \<^verbatim>\<open>print\<close>, \<^verbatim>\<open>os.system\<close>,
  \<^verbatim>\<open>time.sleep\<close> or \<^verbatim>\<open>subprocess\<close> is an event; a computation appends its events to the trace
  of those before it and returns a value or an exception. What comes back from outside (the
  output of a process, whether it has ended, the clock) is the record \<open>world\<close>, the parameter
  of every computation: functions of the whole trace so far, so nothing is assumed of how one
  command depends on those before it.

  \<open>utf_8\<close> decodes bytes as \<^verbatim>\<open>bytes.decode("utf-8")\<close> does. A string holds code points below
  256 only, so a valid sequence for a greater one is \<open>Unsupported\<close>.
\<close>

section \<open>Computations with events\<close>

type_synonym env_vars = "(string \<times> string) list"

datatype sys_event =
    Print string
  | System string
  | Sleep rat
  | Run "string list" "env_vars option"
  | Popen "string list" "env_vars option"
  | Spawn "string list" env_vars
  | Poll
  | Clock
  | Terminate
  | WaitFor rat
  | Kill
  | Wait
  | Communicate

type_synonym trace = "sys_event list"

text \<open>
  \<open>w_run\<close>: standard output and standard error of the \<open>Run\<close> that ends the trace, \<open>None\<close> if
  there is no such program; \<open>w_streams\<close>: the two streams that a \<open>Communicate\<close> collects;
  \<open>w_started\<close>: whether a \<open>Popen\<close> or \<open>Spawn\<close> finds its program; \<open>w_ended\<close>: \<^verbatim>\<open>poll\<close> is not
  \<open>None\<close>, or \<^verbatim>\<open>wait\<close> returns before its timeout.
\<close>

record world =
  w_run :: "trace \<Rightarrow> (string \<times> string) option"
  w_started :: "trace \<Rightarrow> bool"
  w_streams :: "trace \<Rightarrow> string \<times> string"
  w_ended :: "trace \<Rightarrow> bool"
  w_clock :: "trace \<Rightarrow> rat"
  w_pid :: "trace \<Rightarrow> int"

type_synonym 'a io = "world \<Rightarrow> trace \<Rightarrow> 'a res \<times> trace"

definition io_return :: "'a \<Rightarrow> 'a io" where
  "io_return x = (\<lambda>w t. (Inr x, t))"

definition io_raise :: "py_error \<Rightarrow> 'a io" where
  "io_raise e = (\<lambda>w t. (Inl e, t))"

definition io_lift :: "'a res \<Rightarrow> 'a io" where
  "io_lift r = (\<lambda>w t. (r, t))"

definition io_bind :: "'a io \<Rightarrow> ('a \<Rightarrow> 'b io) \<Rightarrow> 'b io" where
  "io_bind m f = (\<lambda>w t. case m w t of (Inl e, t1) \<Rightarrow> (Inl e, t1) | (Inr x, t1) \<Rightarrow> f x w t1)"

definition io_do :: "sys_event \<Rightarrow> unit io" where
  "io_do e = (\<lambda>w t. (Inr (), t @ [e]))"

definition io_seq :: "sys_event list \<Rightarrow> unit io" where
  "io_seq es = (\<lambda>w t. (Inr (), t @ es))"

text \<open>\<^verbatim>\<open>for x in xs: res.append(...)\<close>\<close>

fun io_for :: "('a \<Rightarrow> 'b io) \<Rightarrow> 'a list \<Rightarrow> 'b list io" where
  "io_for f [] = io_return []"
| "io_for f (x # xs) = io_bind (f x) (\<lambda>y. io_bind (io_for f xs) (\<lambda>ys. io_return (y # ys)))"

named_theorems io_simps \<open>running computations\<close>

lemma io_basic [io_simps]:
  "io_return x w t = (Inr x, t)"
  "io_raise e w t = (Inl e, t)"
  "io_lift r w t = (r, t)"
  "io_do ev w t = (Inr (), t @ [ev])"
  "io_seq es w t = (Inr (), t @ es)"
  by (simp_all add: io_return_def io_raise_def io_lift_def io_do_def io_seq_def)

lemma io_bind_Inr [io_simps]: "m w t = (Inr x, t1) \<Longrightarrow> io_bind m f w t = f x w t1"
  by (simp add: io_bind_def)

lemma io_bind_Inl [io_simps]: "m w t = (Inl e, t1) \<Longrightarrow> io_bind m f w t = (Inl e, t1)"
  by (simp add: io_bind_def)

lemma io_bind_lift [io_simps]: "io_bind (io_lift r) f w t = (case r of Inl e \<Rightarrow> (Inl e, t) | Inr x \<Rightarrow> f x w t)"
  by (simp add: io_bind_def io_lift_def split: sum.split)

text \<open>Events are only ever appended.\<close>

definition extends :: "'a io \<Rightarrow> bool" where
  "extends m \<longleftrightarrow> (\<forall>w t. \<exists>es. snd (m w t) = t @ es)"

lemma extends_basic [intro]: "extends (io_return x)" "extends (io_raise e)" "extends (io_lift r)" "extends (io_do ev)" "extends (io_seq es)"
  by (simp_all add: extends_def io_simps)

lemma extends_bind [intro]:
  assumes "extends m" and "\<And>x. extends (f x)"
  shows "extends (io_bind m f)"
  unfolding extends_def
proof (intro allI)
  fix w t
  obtain es where es: "snd (m w t) = t @ es" using assms(1) by (auto simp: extends_def)
  show "\<exists>es. snd (io_bind m f w t) = t @ es"
  proof (cases "m w t")
    case (Pair r t1)
    show ?thesis
    proof (cases r)
      case (Inr x)
      obtain es' where "snd (f x w t1) = t1 @ es'" using assms(2) [of x] unfolding extends_def by blast
      with es Pair Inr show ?thesis by (auto simp: io_bind_def)
    qed (use es Pair in \<open>auto simp: io_bind_def\<close>)
  qed
qed

lemma extends_for [intro]: "(\<And>x. extends (f x)) \<Longrightarrow> extends (io_for f xs)"
  by (induction xs) auto

text \<open>\<^verbatim>\<open>subprocess.run\<close> with both streams captured, and the start of \<^verbatim>\<open>subprocess.Popen\<close>.\<close>

definition subprocess_run :: "string list \<Rightarrow> env_vars option \<Rightarrow> (string \<times> string) io" where
  "subprocess_run cmd env =
     (\<lambda>w t. let t1 = t @ [Run cmd env] in
        case w_run w t1 of None \<Rightarrow> (Inl FileNotFoundError, t1) | Some out \<Rightarrow> (Inr out, t1))"

definition subprocess_popen :: "string list \<Rightarrow> env_vars option \<Rightarrow> unit io" where
  "subprocess_popen cmd env =
     (\<lambda>w t. let t1 = t @ [Popen cmd env] in (if w_started w t1 then Inr () else Inl FileNotFoundError, t1))"

text \<open>
  \<^verbatim>\<open>asyncio.run(run_subprocess(cmd, env))\<close> gives the pid of the new process; \<^verbatim>\<open>proc.poll()\<close>,
  \<^verbatim>\<open>proc.wait(timeout=s)\<close> (false when the timeout expires), \<^verbatim>\<open>time.time()\<close> and
  \<^verbatim>\<open>proc.communicate()\<close>.
\<close>

definition run_subprocess :: "string list \<Rightarrow> env_vars \<Rightarrow> int io" where
  "run_subprocess cmd env =
     (\<lambda>w t. let t1 = t @ [Spawn cmd env] in (if w_started w t1 then Inr (w_pid w t1) else Inl FileNotFoundError, t1))"

definition proc_poll :: "bool io" where
  "proc_poll = (\<lambda>w t. (Inr (w_ended w (t @ [Poll])), t @ [Poll]))"

definition proc_wait :: "rat \<Rightarrow> bool io" where
  "proc_wait s = (\<lambda>w t. (Inr (w_ended w (t @ [WaitFor s])), t @ [WaitFor s]))"

definition clock_time :: "rat io" where
  "clock_time = (\<lambda>w t. (Inr (w_clock w (t @ [Clock])), t @ [Clock]))"

definition proc_communicate :: "(string \<times> string) io" where
  "proc_communicate = (\<lambda>w t. (Inr (w_streams w (t @ [Communicate])), t @ [Communicate]))"

lemma extends_subprocess [intro]:
  "extends (subprocess_run cmd env)" "extends (subprocess_popen cmd env)" "extends (run_subprocess cmd vars)"
  "extends proc_poll" "extends (proc_wait s)" "extends clock_time" "extends proc_communicate"
  by (auto simp: extends_def subprocess_run_def subprocess_popen_def run_subprocess_def proc_poll_def
      proc_wait_def clock_time_def proc_communicate_def Let_def split: option.split)

section \<open>Bytes and text\<close>

definition cont_byte :: "char \<Rightarrow> bool" where
  "cont_byte c \<longleftrightarrow> (let n = of_char c :: nat in 128 \<le> n \<and> n < 192)"

text \<open>The second byte of a sequence that starts with the byte \<open>b\<close>.\<close>

definition second_byte :: "nat \<Rightarrow> char \<Rightarrow> bool" where
  "second_byte b c \<longleftrightarrow> cont_byte c \<and>
     (let n = of_char c :: nat in
       (b = 224 \<longrightarrow> 160 \<le> n) \<and> (b = 237 \<longrightarrow> n < 160) \<and> (b = 240 \<longrightarrow> 144 \<le> n) \<and> (b = 244 \<longrightarrow> n < 144))"

fun utf_8 :: "string \<Rightarrow> string res" where
  "utf_8 [] = Inr []"
| "utf_8 (b # bs) =
     (let n = of_char b :: nat in
      if n < 128 then rbind (utf_8 bs) (\<lambda>s. Inr (b # s))
      else if n < 194 \<or> 245 \<le> n then Inl UnicodeDecodeError
      else case bs of
          [] \<Rightarrow> Inl UnicodeDecodeError
        | c # cs \<Rightarrow>
            if \<not> second_byte n c then Inl UnicodeDecodeError
            else if n < 196 then rbind (utf_8 cs) (\<lambda>s. Inr (char_of (64 * (n - 192) + (of_char c - 128)) # s))
            else if n < 224 then Inl Unsupported
            else if n < 240 then (if length cs < 1 \<or> \<not> list_all cont_byte (take 1 cs) then Inl UnicodeDecodeError else Inl Unsupported)
            else (if length cs < 2 \<or> \<not> list_all cont_byte (take 2 cs) then Inl UnicodeDecodeError else Inl Unsupported))"

definition ascii :: "string \<Rightarrow> bool" where
  "ascii s \<longleftrightarrow> list_all (\<lambda>c. (of_char c :: nat) < 128) s"

lemma utf_8_ascii: "ascii s \<Longrightarrow> utf_8 s = Inr s"
  by (induction s) (simp_all add: ascii_def)

text \<open>
  \<^verbatim>\<open>try: output = b.decode("utf-8") except: output = b\<close>: the variable \<^verbatim>\<open>output\<close> is a string or
  the bytes themselves.
\<close>

datatype py_text = PStr string | PBytes string

definition decode_or_bytes :: "string \<Rightarrow> py_text res" where
  "decode_or_bytes b =
     (case utf_8 b of
        Inr s \<Rightarrow> Inr (PStr s)
      | Inl e \<Rightarrow> if e = Unsupported then Inl Unsupported else Inr (PBytes b))"

lemma decode_or_bytes_ascii: "ascii s \<Longrightarrow> decode_or_bytes s = Inr (PStr s)"
  by (simp add: decode_or_bytes_def utf_8_ascii)

lemma decode_or_bytes_cases:
  "decode_or_bytes b = Inl e \<Longrightarrow> e = Unsupported"
  "decode_or_bytes b = Inr (PBytes b') \<Longrightarrow> b' = b"
  by (auto simp: decode_or_bytes_def split: sum.splits if_splits)

text \<open>A method of \<^verbatim>\<open>str\<close> called with string arguments on bytes raises \<^verbatim>\<open>TypeError\<close>.\<close>

fun as_str :: "py_text \<Rightarrow> string res" where
  "as_str (PStr s) = Inr s"
| "as_str (PBytes b) = Inl TypeError"

text \<open>Standard output of a process opened with \<^verbatim>\<open>text=True\<close>: decoded, with universal newlines.\<close>

definition text_mode :: "string \<Rightarrow> string res" where
  "text_mode b = rbind (utf_8 b) (\<lambda>s. Inr (universal_newlines s))"

text \<open>\<^verbatim>\<open>dict([env.split("=")])\<close>: one key and one value, or a \<^verbatim>\<open>ValueError\<close>.\<close>

definition env_dict :: "string \<Rightarrow> env_vars res" where
  "env_dict env = (case py_split_on (CHR ''='') env of [k, v] \<Rightarrow> Inr [(k, v)] | _ \<Rightarrow> Inl ValueError)"

end
