(* ===== verification/RunCommands.thy ===== *)
theory RunCommands
  imports Shell
begin

text \<open>
  The functions of \<^verbatim>\<open>src/artifact/common_util.py\<close> that run one command and return its label
  and its output: \<^verbatim>\<open>run\<close>, \<^verbatim>\<open>run_profile\<close>, \<^verbatim>\<open>run_slowtier\<close>, \<^verbatim>\<open>run_burst\<close>, \<^verbatim>\<open>run_hcontainer\<close>,
  \<^verbatim>\<open>run_native\<close> and the two for QEMU, \<^verbatim>\<open>run_checkpoint\<close>, and the constants of the module. The
  benchmarks rely on two things: the label, by which they tell the variants apart, and the
  words the command is split into. The locale \<open>command_runner\<close> is that contract.
\<close>

section \<open>Constants\<close>

definition pwd_mac :: string where "pwd_mac = ''/Users/victoryang00/Documents/project/MVVM-bench/''"
definition pwd :: string where "pwd = ''/mnt1/MVVM''"
definition slowtier :: string where "slowtier = ''epyc''"
definition burst :: string where "burst = ''mac''"

definition list_of_arg :: "string list" where
  "list_of_arg = [''OMP_NUM_THREADS=1'', ''OMP_NUM_THREADS=2'', ''OMP_NUM_THREADS=4'']"

definition aot_variant :: "string list" where
  "aot_variant =
     [''.aot'', ''-pure.aot'', ''-stack.aot'', ''-ckpt-every-dirty.aot'', ''-ckpt-loop.aot'', ''-ckpt-loop-counter.aot'']"

definition aot_variant_freq :: "string list" where
  "aot_variant_freq =
     [''-ckpt-loop-counter-1.aot'', ''-ckpt-loop-counter-4.aot'', ''-ckpt-loop-counter-8.aot'',
      ''-ckpt-loop-counter-16.aot'', ''-ckpt-loop-counter-20.aot'', ''-ckpt-loop-counter-30.aot'',
      ''-ckpt-loop-pgo.aot'', ''.aot'', ''-pure.aot'']"

definition trial :: nat where "trial = 2"

definition contains_result :: "string \<Rightarrow> string \<Rightarrow> bool" where
  "contains_result output result = py_contains output result"

section \<open>Commands and labels\<close>

text \<open>\<^verbatim>\<open>' '.join(['-a ' + str(x) for x in arg])\<close>, \<^verbatim>\<open>" ".join([env] + [aot_file] + arg)\<close>\<close>

definition dash_args :: "string list \<Rightarrow> string" where
  "dash_args arg = py_join '' '' (map (\<lambda>x. ''-a '' @ x) arg)"

definition exec_name :: "string \<Rightarrow> string \<Rightarrow> string list \<Rightarrow> string" where
  "exec_name env file arg = py_join '' '' ([env] @ [file] @ arg)"

definition run :: "string \<Rightarrow> string list \<Rightarrow> string \<Rightarrow> string \<Rightarrow> (string \<times> py_text) io" where
  "run aot_file arg env extra =
     (let cmd = ''./MVVM_checkpoint -t ./bench/'' @ aot_file @ '' '' @ dash_args arg @ '' -e '' @ env @ '' '' @ extra in
      io_bind (io_do (Print cmd)) (\<lambda>_.
      io_bind (subprocess_run (py_split cmd) None) (\<lambda>(stdout, stderr).
      io_bind (io_lift (decode_or_bytes stdout)) (\<lambda>output.
      io_return (exec_name env aot_file arg, output)))))"

definition run_profile :: "string \<Rightarrow> string list \<Rightarrow> string \<Rightarrow> string \<Rightarrow> (string \<times> py_text) io" where
  "run_profile aot_file arg env extra =
     (let wasm_file = py_replace aot_file ''aot'' ''wasm'';
          cmd = ''./MVVM_profile -w ./bench/'' @ wasm_file @ '' -t ./bench/'' @ aot_file @ '' '' @ dash_args arg @
                '' -e '' @ env @ '' '' @ extra in
      io_bind (io_do (Print cmd)) (\<lambda>_.
      io_bind (subprocess_run (py_split cmd) None) (\<lambda>(stdout, stderr).
      io_bind (io_lift (decode_or_bytes stdout)) (\<lambda>output.
      io_return (exec_name env aot_file arg, output)))))"

definition run_slowtier :: "string \<Rightarrow> string list \<Rightarrow> string \<Rightarrow> string \<Rightarrow> (string \<times> py_text) io" where
  "run_slowtier aot_file arg env extra =
     (let cmd = ''ssh '' @ slowtier @ '' '' @ pwd @ ''/build/MVVM_checkpoint -t '' @ pwd @ ''/build/bench/'' @ aot_file @
                '' '' @ dash_args arg @ '' -e '' @ env @ '' '' @ extra in
      io_bind (io_do (Print cmd)) (\<lambda>_.
      io_bind (subprocess_run (py_split cmd) None) (\<lambda>(stdout, stderr).
      io_bind (io_lift (decode_or_bytes stdout)) (\<lambda>output.
      io_return (exec_name env aot_file arg, output)))))"

definition run_burst :: "string \<Rightarrow> string list \<Rightarrow> string \<Rightarrow> string \<Rightarrow> (string \<times> py_text) io" where
  "run_burst aot_file arg env extra =
     io_bind (io_do (System (''script -q /dev/null -c 'ssh -t '' @ burst @ '' ./MVVM_checkpoint -t ./bench/'' @ aot_file @
       '' '' @ dash_args arg @ '' -e '' @ env @ '' '' @ extra @ ''' > burst.out''))) (\<lambda>_.
     (let cmd = ''cat burst.out'' in
      io_bind (io_do (Print cmd)) (\<lambda>_.
      io_bind (subprocess_run (py_split cmd) None) (\<lambda>(stdout, stderr).
      io_bind (io_lift (decode_or_bytes stdout)) (\<lambda>output.
      io_return (exec_name env aot_file arg, output))))))"

definition run_hcontainer :: "string \<Rightarrow> string \<Rightarrow> string list \<Rightarrow> string \<Rightarrow> (string \<times> py_text) io" where
  "run_hcontainer file_name folder arg env =
     (let cmd = ''/usr/bin/time '' @ pwd @ ''/bench/'' @ folder @ ''/build_x86/'' @ file_name @ '' '' @ py_join '' '' arg in
      io_bind (io_do (Print cmd)) (\<lambda>_.
      io_bind (subprocess_run (py_split cmd) None) (\<lambda>(stdout, stderr).
      io_bind (io_lift (decode_or_bytes stderr)) (\<lambda>output.
      io_return (exec_name env file_name arg, output)))))"

definition run_native :: "string \<Rightarrow> string \<Rightarrow> string list \<Rightarrow> string \<Rightarrow> (string \<times> py_text) io" where
  "run_native file_name folder arg env =
     (let cmd = py_strip (''/usr/bin/time '' @ pwd @ ''/bench/'' @ folder @ ''/build/'' @ file_name @ '' '' @ py_join '' '' arg) in
      io_bind (io_do (Print cmd)) (\<lambda>_.
      io_bind (io_lift (env_dict env)) (\<lambda>env_arg.
      io_bind (subprocess_run (py_split cmd) (Some env_arg)) (\<lambda>(stdout, stderr).
      io_bind (io_lift (decode_or_bytes stderr)) (\<lambda>output.
      io_return (exec_name env file_name arg, output))))))"

definition run_qemu_x86_64 :: "string \<Rightarrow> string \<Rightarrow> string list \<Rightarrow> string \<Rightarrow> (string \<times> py_text) io" where
  "run_qemu_x86_64 file_name folder arg env =
     (let cmd = ''/usr/bin/time /usr/bin/qemu-x86_64 -E '' @ env @ '' '' @ pwd @ ''/bench/'' @ folder @ ''/build/'' @
                file_name @ '' '' @ py_join '' '' arg in
      io_bind (io_do (Print cmd)) (\<lambda>_.
      io_bind (subprocess_run (py_split cmd) None) (\<lambda>(stdout, stderr).
      io_bind (io_lift (decode_or_bytes stderr)) (\<lambda>output.
      io_return (exec_name env file_name arg, output)))))"

definition run_qemu_aarch64 :: "string \<Rightarrow> string \<Rightarrow> string list \<Rightarrow> string \<Rightarrow> (string \<times> py_text) io" where
  "run_qemu_aarch64 file_name folder arg env =
     (let cmd = ''/usr/bin/time /usr/bin/qemu-aarch64 -E '' @ env @ '' '' @ pwd @ ''/bench/'' @ folder @
                ''/build_aarch64_native/'' @ file_name @ '' '' @ py_join '' '' arg in
      io_bind (io_do (Print cmd)) (\<lambda>_.
      io_bind (subprocess_run (py_split cmd) None) (\<lambda>(stdout, stderr).
      io_bind (io_lift (decode_or_bytes stderr)) (\<lambda>output.
      io_return (exec_name env file_name arg, output)))))"

text \<open>\<^verbatim>\<open>run_checkpoint\<close> decodes without a handler.\<close>

definition run_checkpoint :: "string \<Rightarrow> string list \<Rightarrow> string \<Rightarrow> (string \<times> string) io" where
  "run_checkpoint aot_file arg env =
     (let cmd = ''./MVVM_checkpoint -t ./bench/'' @ aot_file @ '' '' @ dash_args arg @ '' -e '' @ env @ '' -c 100000'' in
      io_bind (io_do (Print cmd)) (\<lambda>_.
      io_bind (subprocess_run (py_split cmd) None) (\<lambda>(stdout, stderr).
      io_bind (io_lift (utf_8 stdout)) (\<lambda>output.
      io_return (exec_name env aot_file arg, output)))))"

section \<open>The contract\<close>

text \<open>
  A job is run by printing a command and running the words it splits into; \<open>chosen\<close> is the
  stream it reports. Its label does not depend on the world.
\<close>

locale command_runner =
  fixes act :: "'j \<Rightarrow> (string \<times> py_text) io"
    and label :: "'j \<Rightarrow> string"
    and before :: "'j \<Rightarrow> sys_event list"
    and command :: "'j \<Rightarrow> string"
    and vars :: "'j \<Rightarrow> env_vars option"
    and chosen :: "string \<times> string \<Rightarrow> string"
    and valid :: "'j \<Rightarrow> bool"
  assumes act_eq: "valid j \<Longrightarrow> act j =
    io_bind (io_seq (before j @ [Print (command j)])) (\<lambda>_.
    io_bind (subprocess_run (py_split (command j)) (vars j)) (\<lambda>streams.
    io_bind (io_lift (decode_or_bytes (chosen streams))) (\<lambda>output. io_return (label j, output))))"
begin

definition issued :: "'j \<Rightarrow> sys_event list" where
  "issued j = before j @ [Print (command j), Run (py_split (command j)) (vars j)]"

lemma act_run:
  assumes "valid j"
  shows "act j w t =
    (case w_run w (t @ issued j) of
       None \<Rightarrow> (Inl FileNotFoundError, t @ issued j)
     | Some streams \<Rightarrow>
         (case decode_or_bytes (chosen streams) of
            Inl e \<Rightarrow> (Inl e, t @ issued j)
          | Inr output \<Rightarrow> (Inr (label j, output), t @ issued j)))"
  unfolding act_eq [OF assms]
  by (auto simp: io_bind_def io_seq_def subprocess_run_def Let_def io_lift_def io_return_def issued_def
      split: option.split sum.split)

lemma trace_fixed: "valid j \<Longrightarrow> snd (act j w t) = t @ issued j"
  by (auto simp: act_run split: option.split sum.split)

lemma result_label: "valid j \<Longrightarrow> fst (act j w t) = Inr (l, out) \<Longrightarrow> l = label j"
  by (auto simp: act_run split: option.splits sum.splits)

lemma result_output:
  "valid j \<Longrightarrow> w_run w (t @ issued j) = Some streams \<Longrightarrow> ascii (chosen streams) \<Longrightarrow>
   act j w t = (Inr (label j, PStr (chosen streams)), t @ issued j)"
  by (simp add: act_run decode_or_bytes_ascii)

lemma result_error:
  "valid j \<Longrightarrow> fst (act j w t) = Inl e \<Longrightarrow> e = FileNotFoundError \<or> e = Unsupported"
  using decode_or_bytes_cases(1) by (auto simp: act_run split: option.splits sum.splits)

end

lemmas runner_unfold = io_bind_def io_do_def io_seq_def io_lift_def Let_def fun_eq_iff

text \<open>A job is the tuple of the arguments; \<open>valid\<close> excludes what is rejected before the run.\<close>

interpretation plain: command_runner "\<lambda>(aot_file, arg, env, extra). run aot_file arg env extra"
  "\<lambda>(aot_file, arg, env, extra). exec_name env aot_file arg" "\<lambda>_. []"
  "\<lambda>(aot_file, arg, env, extra). ''./MVVM_checkpoint -t ./bench/'' @ aot_file @ '' '' @ dash_args arg @ '' -e '' @ env @ '' '' @ extra"
  "\<lambda>_. None" fst "\<lambda>_. True"
  by unfold_locales (auto simp: run_def runner_unfold split: prod.split sum.split)

interpretation profile: command_runner "\<lambda>(aot_file, arg, env, extra). run_profile aot_file arg env extra"
  "\<lambda>(aot_file, arg, env, extra). exec_name env aot_file arg" "\<lambda>_. []"
  "\<lambda>(aot_file, arg, env, extra). ''./MVVM_profile -w ./bench/'' @ py_replace aot_file ''aot'' ''wasm'' @ '' -t ./bench/'' @
     aot_file @ '' '' @ dash_args arg @ '' -e '' @ env @ '' '' @ extra"
  "\<lambda>_. None" fst "\<lambda>_. True"
  by unfold_locales (auto simp: run_profile_def runner_unfold split: prod.split sum.split)

interpretation slow: command_runner "\<lambda>(aot_file, arg, env, extra). run_slowtier aot_file arg env extra"
  "\<lambda>(aot_file, arg, env, extra). exec_name env aot_file arg" "\<lambda>_. []"
  "\<lambda>(aot_file, arg, env, extra). ''ssh '' @ slowtier @ '' '' @ pwd @ ''/build/MVVM_checkpoint -t '' @ pwd @ ''/build/bench/'' @
     aot_file @ '' '' @ dash_args arg @ '' -e '' @ env @ '' '' @ extra"
  "\<lambda>_. None" fst "\<lambda>_. True"
  by unfold_locales (auto simp: run_slowtier_def runner_unfold split: prod.split sum.split)

interpretation burst: command_runner "\<lambda>(aot_file, arg, env, extra). run_burst aot_file arg env extra"
  "\<lambda>(aot_file, arg, env, extra). exec_name env aot_file arg"
  "\<lambda>(aot_file, arg, env, extra). [System (''script -q /dev/null -c 'ssh -t '' @ burst @ '' ./MVVM_checkpoint -t ./bench/'' @ aot_file @
       '' '' @ dash_args arg @ '' -e '' @ env @ '' '' @ extra @ ''' > burst.out'')]"
  "\<lambda>_. ''cat burst.out''" "\<lambda>_. None" fst "\<lambda>_. True"
  by unfold_locales (auto simp: run_burst_def runner_unfold split: prod.split sum.split)

interpretation hcontainer: command_runner "\<lambda>(file_name, folder, arg, env). run_hcontainer file_name folder arg env"
  "\<lambda>(file_name, folder, arg, env). exec_name env file_name arg" "\<lambda>_. []"
  "\<lambda>(file_name, folder, arg, env). ''/usr/bin/time '' @ pwd @ ''/bench/'' @ folder @ ''/build_x86/'' @ file_name @ '' '' @ py_join '' '' arg"
  "\<lambda>_. None" snd "\<lambda>_. True"
  by unfold_locales (auto simp: run_hcontainer_def runner_unfold split: prod.split sum.split)

interpretation native: command_runner "\<lambda>(file_name, folder, arg, env). run_native file_name folder arg env"
  "\<lambda>(file_name, folder, arg, env). exec_name env file_name arg" "\<lambda>_. []"
  "\<lambda>(file_name, folder, arg, env). py_strip (''/usr/bin/time '' @ pwd @ ''/bench/'' @ folder @ ''/build/'' @ file_name @ '' '' @ py_join '' '' arg)"
  "\<lambda>(file_name, folder, arg, env). (case env_dict env of Inl _ \<Rightarrow> None | Inr d \<Rightarrow> Some d)" snd
  "\<lambda>(file_name, folder, arg, env). \<exists>d. env_dict env = Inr d"
  by unfold_locales (auto simp: run_native_def runner_unfold split: prod.split sum.split)

interpretation qemu_x86: command_runner "\<lambda>(file_name, folder, arg, env). run_qemu_x86_64 file_name folder arg env"
  "\<lambda>(file_name, folder, arg, env). exec_name env file_name arg" "\<lambda>_. []"
  "\<lambda>(file_name, folder, arg, env). ''/usr/bin/time /usr/bin/qemu-x86_64 -E '' @ env @ '' '' @ pwd @ ''/bench/'' @ folder @ ''/build/'' @
     file_name @ '' '' @ py_join '' '' arg"
  "\<lambda>_. None" snd "\<lambda>_. True"
  by unfold_locales (auto simp: run_qemu_x86_64_def runner_unfold split: prod.split sum.split)

interpretation qemu_arm: command_runner "\<lambda>(file_name, folder, arg, env). run_qemu_aarch64 file_name folder arg env"
  "\<lambda>(file_name, folder, arg, env). exec_name env file_name arg" "\<lambda>_. []"
  "\<lambda>(file_name, folder, arg, env). ''/usr/bin/time /usr/bin/qemu-aarch64 -E '' @ env @ '' '' @ pwd @ ''/bench/'' @ folder @
     ''/build_aarch64_native/'' @ file_name @ '' '' @ py_join '' '' arg"
  "\<lambda>_. None" snd "\<lambda>_. True"
  by unfold_locales (auto simp: run_qemu_aarch64_def runner_unfold split: prod.split sum.split)

end
