(* ===== verification/Csv.thy ===== *)
theory Csv
  imports PyFloat
begin

text \<open>
  Python's \<^verbatim>\<open>csv.writer\<close> and \<^verbatim>\<open>csv.reader\<close> in the default dialect, as far as the benchmarks use
  them: a file is opened with \<^verbatim>\<open>newline=""\<close> to append rows, and read in text mode, where
  \<^verbatim>\<open>\r\n\<close> becomes a newline; one script reads without that translation (\<open>read_table_lf\<close>). The
  main lemma is the round trip; \<open>append_csv\<close> and \<open>read_table\<close> are the two loops that the scripts
  share: a header and the rows after it. The locale \<open>result_file\<close> is the contract of a script
  with its own file.
\<close>

section \<open>Writing\<close>

definition quote_char :: char where "quote_char = CHR 0x22"
definition comma :: char where "comma = CHR '',''"

definition needs_quote :: "string \<Rightarrow> bool" where
  "needs_quote f \<longleftrightarrow> list_ex (\<lambda>c. c \<in> {comma, quote_char, newline, carriage}) f"

definition csv_field :: "string \<Rightarrow> string" where
  "csv_field f =
     (if needs_quote f
      then quote_char # concat (map (\<lambda>c. if c = quote_char then [quote_char, quote_char] else [c]) f) @ [quote_char]
      else f)"

definition row_text :: "string list \<Rightarrow> string" where
  "row_text fs = (if fs = [[]] then [quote_char, quote_char] else py_join [comma] (map csv_field fs))"

definition writerow :: "string list \<Rightarrow> string" where
  "writerow fs = row_text fs @ [carriage, newline]"

definition append_csv :: "string list \<Rightarrow> string list list \<Rightarrow> string \<Rightarrow> string" where
  "append_csv header rows old = old @ writerow header @ concat (map writerow rows)"

section \<open>Reading\<close>

datatype csv_state = StartRecord | StartField | InField | InQuoted | QuoteInQuoted

text \<open>\<open>acc\<close> is the field read so far and \<open>fs\<close> the fields before it, both reversed.\<close>

fun csv_read :: "csv_state \<Rightarrow> string \<Rightarrow> string list \<Rightarrow> string \<Rightarrow> string list list" where
  "csv_read st acc fs [] = (if st = StartRecord then [] else [rev (rev acc # fs)])"
| "csv_read st acc fs (c # cs) =
     (case st of
        InQuoted \<Rightarrow>
          if c = quote_char then csv_read QuoteInQuoted acc fs cs else csv_read InQuoted (c # acc) fs cs
      | QuoteInQuoted \<Rightarrow>
          if c = quote_char then csv_read InQuoted (c # acc) fs cs
          else if c = comma then csv_read StartField [] (rev acc # fs) cs
          else if c = newline then rev (rev acc # fs) # csv_read StartRecord [] [] cs
          else csv_read InField (c # acc) fs cs
      | InField \<Rightarrow>
          if c = comma then csv_read StartField [] (rev acc # fs) cs
          else if c = newline then rev (rev acc # fs) # csv_read StartRecord [] [] cs
          else csv_read InField (c # acc) fs cs
      | StartField \<Rightarrow>
          if c = quote_char then csv_read InQuoted [] fs cs
          else if c = comma then csv_read StartField [] ([] # fs) cs
          else if c = newline then rev ([] # fs) # csv_read StartRecord [] [] cs
          else csv_read InField [c] fs cs
      | StartRecord \<Rightarrow>
          if c = newline then [] # csv_read StartRecord [] [] cs
          else if c = quote_char then csv_read InQuoted [] [] cs
          else if c = comma then csv_read StartField [] [[]] cs
          else csv_read InField [c] [] cs)"

definition csv_rows :: "string \<Rightarrow> string list list" where
  "csv_rows text_of = csv_read StartRecord [] [] (universal_newlines text_of)"

text \<open>
  \<^verbatim>\<open>next(reader)\<close> and the loop over the rows, each taken apart by \<open>row\<close>; a file without rows
  raises \<^verbatim>\<open>StopIteration\<close>.
\<close>

definition read_table :: "(string list \<Rightarrow> 'r res) \<Rightarrow> string \<Rightarrow> 'r list res" where
  "read_table row text_of =
     (case csv_rows text_of of [] \<Rightarrow> Inl StopIteration | header # rows \<Rightarrow> rmap row rows)"

text \<open>
  A file opened with \<^verbatim>\<open>newline="\n"\<close>: nothing is translated, the reader itself ends a row at a
  carriage return and then wants the newline (\<open>eat\<close>); anything else raises \<^verbatim>\<open>csv.Error\<close>. The
  rows are read one by one, so that the error comes after the rows before it.
\<close>

fun csv_read_lf :: "bool \<Rightarrow> csv_state \<Rightarrow> string \<Rightarrow> string list \<Rightarrow> string \<Rightarrow> string list res list" where
  "csv_read_lf eat st acc fs [] = (if eat \<or> st = StartRecord then [] else [Inr (rev (rev acc # fs))])"
| "csv_read_lf eat st acc fs (c # cs) =
     (if eat then
        if c = newline then csv_read_lf False StartRecord [] [] cs
        else if c = carriage then csv_read_lf True st acc fs cs
        else [Inl CsvError]
      else if st = InQuoted then
        if c = quote_char then csv_read_lf False QuoteInQuoted acc fs cs else csv_read_lf False InQuoted (c # acc) fs cs
      else if c = newline \<or> c = carriage then
        Inr (case st of StartRecord \<Rightarrow> [] | StartField \<Rightarrow> rev ([] # fs) | _ \<Rightarrow> rev (rev acc # fs)) #
          csv_read_lf (c = carriage) StartRecord [] [] cs
      else if c = comma then
        (case st of
           StartRecord \<Rightarrow> csv_read_lf False StartField [] [[]] cs
         | StartField \<Rightarrow> csv_read_lf False StartField [] ([] # fs) cs
         | _ \<Rightarrow> csv_read_lf False StartField [] (rev acc # fs) cs)
      else
        (case st of
           StartRecord \<Rightarrow> if c = quote_char then csv_read_lf False InQuoted [] [] cs else csv_read_lf False InField [c] [] cs
         | StartField \<Rightarrow> if c = quote_char then csv_read_lf False InQuoted [] fs cs else csv_read_lf False InField [c] fs cs
         | QuoteInQuoted \<Rightarrow> if c = quote_char then csv_read_lf False InQuoted (c # acc) fs cs
             else csv_read_lf False InField (c # acc) fs cs
         | _ \<Rightarrow> csv_read_lf False InField (c # acc) fs cs))"

definition read_table_lf :: "(string list \<Rightarrow> 'r res) \<Rightarrow> string \<Rightarrow> 'r list res" where
  "read_table_lf row text_of =
     (case csv_read_lf False StartRecord [] [] text_of of
        [] \<Rightarrow> Inl StopIteration
      | header # rows \<Rightarrow> rbind header (\<lambda>_. rmap (\<lambda>r. rbind r row) rows))"

text \<open>\<^verbatim>\<open>float(row[i])\<close>\<close>

definition float_at :: "string list \<Rightarrow> int \<Rightarrow> rat res" where
  "float_at row i = rbind (py_index row i) py_float"

section \<open>Round trip\<close>

lemma special_chars [simp]:
  "comma \<noteq> quote_char" "quote_char \<noteq> comma" "comma \<noteq> newline" "newline \<noteq> comma"
  "quote_char \<noteq> newline" "newline \<noteq> quote_char" "carriage \<noteq> newline" "newline \<noteq> carriage"
  "comma \<noteq> carriage" "carriage \<noteq> comma" "quote_char \<noteq> carriage" "carriage \<noteq> quote_char"
  by (simp_all add: comma_def quote_char_def newline_def carriage_def)

lemma read_plain: "\<not> needs_quote f \<Longrightarrow> csv_read InField acc fs (f @ s) = csv_read InField (rev f @ acc) fs s"
  by (induction f arbitrary: acc) (auto simp: needs_quote_def)

lemma read_quoted:
  "csv_read InQuoted acc fs (concat (map (\<lambda>c. if c = quote_char then [quote_char, quote_char] else [c]) f) @ quote_char # s) =
   csv_read QuoteInQuoted (rev f @ acc) fs s"
  by (induction f arbitrary: acc) auto

lemma read_field:
  "csv_read StartField [] fs (csv_field f @ comma # s) = csv_read StartField [] (f # fs) s"
  "csv_read StartField [] fs (csv_field f @ newline # s) = rev (f # fs) # csv_read StartRecord [] [] s"
proof -
  have plain: "csv_read StartField [] fs (f @ d # s) = csv_read InField (rev f) fs (d # s)"
    if "\<not> needs_quote f" "f \<noteq> []" for d
  proof -
    obtain c cs where f: "f = c # cs" using \<open>f \<noteq> []\<close> by (cases f) auto
    with that have "\<not> needs_quote cs" "c \<notin> {comma, quote_char, newline, carriage}"
      by (auto simp: needs_quote_def)
    with read_plain [of cs "[c]" fs "d # s"] f show ?thesis by simp
  qed
  have quoted: "csv_read StartField [] fs (csv_field f @ d # s) = csv_read QuoteInQuoted (rev f) fs (d # s)"
    if "needs_quote f" for d
    using that read_quoted [of "[]" fs f "d # s"] by (simp add: csv_field_def)
  show "csv_read StartField [] fs (csv_field f @ comma # s) = csv_read StartField [] (f # fs) s"
    "csv_read StartField [] fs (csv_field f @ newline # s) = rev (f # fs) # csv_read StartRecord [] [] s"
    using plain [of comma] plain [of newline] quoted [of comma] quoted [of newline]
    by (cases "f = []"; cases "needs_quote f"; simp add: csv_field_def)+
qed

lemma read_fields:
  "fs \<noteq> [] \<Longrightarrow> csv_read StartField [] before (py_join [comma] (map csv_field fs) @ newline # s) =
     (rev before @ fs) # csv_read StartRecord [] [] s"
proof (induction fs arbitrary: before rule: induct_list012)
  case (3 f g fs)
  then show ?case using read_field(1) [of before f] by simp
qed (use read_field(2) in simp_all)

lemma start_record: "c \<noteq> newline \<Longrightarrow> csv_read StartRecord [] [] (c # s) = csv_read StartField [] [] (c # s)"
  by simp

lemma csv_field_hd: "csv_field f = c # s \<Longrightarrow> c \<noteq> newline"
  by (cases f) (auto simp: csv_field_def needs_quote_def split: if_splits)

lemma read_row:
  assumes "fs \<noteq> []"
  shows "csv_read StartRecord [] [] (row_text fs @ newline # s) = fs # csv_read StartRecord [] [] s"
proof (cases "fs = [[]]")
  case False
  obtain f gs where fs: "fs = f # gs" using assms by (cases fs) auto
  obtain c r where c: "row_text fs @ newline # s = c # r" "c \<noteq> newline"
  proof (cases "csv_field f")
    case Nil
    then have "f = []" by (auto simp: csv_field_def split: if_splits)
    with False fs obtain g hs where "gs = g # hs" by (cases gs) auto
    with Nil fs show thesis using that [of comma] by (simp add: row_text_def)
  next
    case (Cons c r)
    obtain q where "py_join [comma] (map csv_field fs) = c # q"
      using Cons fs by (cases gs) simp_all
    with csv_field_hd [OF Cons] False show thesis using that [of c] by (simp add: row_text_def)
  qed
  have "csv_read StartField [] [] (row_text fs @ newline # s) = fs # csv_read StartRecord [] [] s"
    using read_fields [OF assms, of "[]" s] False by (simp add: row_text_def)
  then show ?thesis unfolding c(1) start_record [OF c(2)] .
qed (simp add: row_text_def)

lemma universal_newlines_line: "carriage \<notin> set s \<Longrightarrow> universal_newlines (s @ carriage # newline # t) = s @ newline # universal_newlines t"
proof (induction s rule: universal_newlines.induct)
  case (2 c)
  then show ?case by (cases t) simp_all
next
  case (3 c d cs)
  then have "c \<noteq> carriage" "d \<noteq> carriage" by auto
  with 3 show ?case by simp
qed simp

lemma carriage_field: "carriage \<notin> set f \<Longrightarrow> carriage \<notin> set (csv_field f)"
  by (auto simp: csv_field_def)

lemma carriage_row: "list_all (\<lambda>f. carriage \<notin> set f) fs \<Longrightarrow> carriage \<notin> set (row_text fs)"
proof -
  have "list_all (\<lambda>f. carriage \<notin> set f) fs \<Longrightarrow> carriage \<notin> set (py_join [comma] (map csv_field fs))" for fs
    by (induction fs rule: induct_list012) (auto simp: carriage_field)
  then show "list_all (\<lambda>f. carriage \<notin> set f) fs \<Longrightarrow> carriage \<notin> set (row_text fs)" by (simp add: row_text_def)
qed

definition table_row :: "string list \<Rightarrow> bool" where
  "table_row fs \<longleftrightarrow> fs \<noteq> [] \<and> list_all (\<lambda>f. carriage \<notin> set f) fs"

lemma csv_rows_written: "list_all table_row rows \<Longrightarrow> csv_rows (concat (map writerow rows)) = rows"
proof -
  assume "list_all table_row rows"
  then have "csv_read StartRecord [] [] (universal_newlines (concat (map writerow rows))) = rows"
  proof (induction rows)
    case (Cons fs rows)
    then show ?case
      using carriage_row [of fs] by (simp add: writerow_def universal_newlines_line read_row table_row_def)
  qed simp
  then show ?thesis by (simp add: csv_rows_def)
qed

lemma csv_rows_append:
  assumes "table_row header" and "list_all table_row rows" and "list_all table_row before"
  shows "csv_rows (append_csv header rows (concat (map writerow before))) = before @ header # rows"
  using csv_rows_written [of "before @ header # rows"] assms by (simp add: append_csv_def)

text \<open>
  A file written once is read back row by row; a second run appends a second header, and the
  reader takes it for a row.
\<close>

lemma read_table_once:
  assumes "table_row header" and "list_all table_row rows"
  shows "read_table row (append_csv header rows []) = rmap row rows"
  using csv_rows_append [OF assms, of "[]"] by (simp add: read_table_def)

lemma read_table_twice:
  assumes "table_row header" and "list_all table_row rows" and "list_all table_row rows'"
  shows "read_table row (append_csv header rows' (append_csv header rows [])) =
    rbind (rmap row rows) (\<lambda>xs. rbind (row header) (\<lambda>x. rbind (rmap row rows') (\<lambda>ys. Inr (xs @ x # ys))))"
proof -
  have "csv_rows (append_csv header rows' (append_csv header rows [])) = header # rows @ header # rows'"
    using csv_rows_append [OF assms(1,3), of "header # rows"] assms by (simp add: append_csv_def)
  then show ?thesis by (simp add: read_table_def rmap_append rbind_assoc)
qed

section \<open>Files of results\<close>

text \<open>
  What a script promises about its file: for a good result the cells make a row of text, and its
  row function takes from them what the result stands for. Then the file it writes anew reads
  back as the results.
\<close>

locale result_file =
  fixes header :: "string list"
    and cells :: "'r \<Rightarrow> string list"
    and parse :: "string list \<Rightarrow> 'v res"
    and stands_for :: "'r \<Rightarrow> 'v"
    and good :: "'r \<Rightarrow> bool"
  assumes header_row: "table_row header"
    and cells_row: "good r \<Longrightarrow> table_row (cells r)"
    and parse_cells: "good r \<Longrightarrow> parse (cells r) = Inr (stands_for r)"
begin

lemma parse_all: "list_all good rs \<Longrightarrow> rmap parse (map cells rs) = Inr (map stands_for rs)"
  by (induction rs) (simp_all add: parse_cells)

lemma written_read: "list_all good rs \<Longrightarrow> read_table parse (append_csv header (map cells rs) []) = Inr (map stands_for rs)"
proof -
  assume good: "list_all good rs"
  then have "list_all table_row (map cells rs)" by (auto simp: list_all_iff cells_row)
  then show ?thesis by (simp only: read_table_once [OF header_row] parse_all [OF good])
qed

end

end
