(* ===== verification/BenchJobs.thy ===== *)
theory BenchJobs
  imports RunCommands Csv
begin

text \<open>
  What the benchmark scripts share. They submit jobs to a process pool, take the results in the
  order of submission, look for a line with a key in each output, keep the time of the last one
  found, and sort the times into lists by the variant that the label of the job names.
\<close>

section \<open>Jobs\<close>

type_synonym job = "string \<times> string list \<times> string"

text \<open>
  \<^verbatim>\<open>for _ in range(trial): for i in range(len(cmd)): for j in range(len(variants)): ...\<close>: the file,
  its arguments and its environment.
\<close>

definition variant_jobs :: "string list \<Rightarrow> string list list \<Rightarrow> string list \<Rightarrow> string list \<Rightarrow> job list" where
  "variant_jobs cmd arg envs variants =
     concat (replicate trial (concat (map (\<lambda>i. map (\<lambda>a. (cmd ! i @ a, arg ! i, envs ! i)) variants) [0..<length cmd])))"

text \<open>
  \<^verbatim>\<open>results1 = [x.get() for x in results1]\<close>: the first job that raised ends the list. \<open>ws k\<close> is
  the world of the process that runs the \<open>k\<close>-th job.
\<close>

definition pool_results :: "('j \<Rightarrow> 'r io) \<Rightarrow> (nat \<Rightarrow> world) \<Rightarrow> 'j list \<Rightarrow> 'r list res" where
  "pool_results act ws jobs = rmap (\<lambda>(k, job). fst (act job (ws k) [])) (enumerate 0 jobs)"

definition run_job :: "job \<Rightarrow> (string \<times> py_text) io" where
  "run_job job = (case job of (aot, arg, env) \<Rightarrow> run aot arg env [])"

definition run_checkpoint_job :: "job \<Rightarrow> (string \<times> py_text) io" where
  "run_checkpoint_job job =
     (case job of (aot, arg, env) \<Rightarrow>
        io_bind (run_checkpoint aot arg env) (\<lambda>(exec, output). io_return (exec, PStr output)))"

definition job_label :: "job \<Rightarrow> string" where
  "job_label job = (case job of (aot, arg, env) \<Rightarrow> exec_name env aot arg)"

text \<open>\<open>prints act out w job\<close>: in \<open>w\<close> the job ends and reports \<open>out\<close>.\<close>

definition prints :: "(job \<Rightarrow> (string \<times> py_text) io) \<Rightarrow> string \<Rightarrow> world \<Rightarrow> job \<Rightarrow> bool" where
  "prints act out w job \<longleftrightarrow> fst (act job w []) = Inr (job_label job, PStr out)"

lemma prints_run:
  assumes "w_run w [Print (''./MVVM_checkpoint -t ./bench/'' @ aot @ '' '' @ dash_args arg @ '' -e '' @ env @ '' ''),
     Run (py_split (''./MVVM_checkpoint -t ./bench/'' @ aot @ '' '' @ dash_args arg @ '' -e '' @ env @ '' '')) None] = Some (out, err)"
    and "ascii out"
  shows "prints run_job out w (aot, arg, env)"
  using plain.result_output [where j = "(aot, arg, env, [])" and w = w and t = "[]" and streams = "(out, err)", unfolded plain.issued_def] assms
  by (simp add: prints_def run_job_def job_label_def)

section \<open>The time in an output\<close>

text \<open>\<^verbatim>\<open>for line in output.split("\n"): if line.__contains__(key): exec_time = line.split(" ")[-2]\<close>\<close>

definition scan_lines :: "string \<Rightarrow> string list \<Rightarrow> string \<Rightarrow> string res" where
  "scan_lines key lines exec_time =
     rfold (\<lambda>line t. if py_contains line key then py_index (py_split_on (CHR '' '') line) (- 2) else Inr t) lines exec_time"

definition scan_output :: "string \<Rightarrow> py_text \<Rightarrow> string \<Rightarrow> string res" where
  "scan_output key output exec_time =
     rbind (as_str output) (\<lambda>s. scan_lines key (py_split_on newline s) exec_time)"

text \<open>
  The same with the variable unbound at first (\<open>None\<close>): it keeps its value from one output to the
  next, and every output adds a result. \<open>pick\<close> is how the word of the line is taken.
\<close>

definition second_last :: "string \<Rightarrow> string res" where
  "second_last line = py_index (py_split_on (CHR '' '') line) (- 2)"

definition second_last_word :: "string \<Rightarrow> string res" where
  "second_last_word line = py_index (py_split line) (- 2)"

definition find_time :: "(string \<Rightarrow> string res) \<Rightarrow> string \<Rightarrow> string \<Rightarrow> string option \<Rightarrow> string option res" where
  "find_time pick key s exec_time =
     rfold (\<lambda>line t. if py_contains line key then rbind (pick line) (\<lambda>w. Inr (Some w)) else Inr t)
       (py_split_on newline s) exec_time"

fun found_times ::
    "(string \<Rightarrow> string res) \<Rightarrow> string \<Rightarrow> (string \<times> py_text) list \<Rightarrow> string option \<Rightarrow>
     ((string \<times> string) list \<times> string option) res" where
  "found_times pick key [] exec_time = Inr ([], exec_time)"
| "found_times pick key ((exec_label, output) # results1) exec_time =
     rbind (as_str output) (\<lambda>s.
     rbind (find_time pick key s exec_time) (\<lambda>exec_time.
     case exec_time of
       None \<Rightarrow> Inl UnboundLocalError
     | Some t \<Rightarrow>
         rbind (found_times pick key results1 exec_time) (\<lambda>(rest, exec_time). Inr ((exec_label, t) # rest, exec_time))))"

text \<open>The last line with the key, if any, decides; the key holds a space, so there are two words.\<close>

definition last_time :: "string \<Rightarrow> string \<Rightarrow> string \<Rightarrow> string" where
  "last_time key s exec_time =
     (case filter (\<lambda>line. py_contains line key) (py_split_on newline s) of
        [] \<Rightarrow> exec_time
      | ls \<Rightarrow> last (butlast (py_split_on (CHR '' '') (last ls))))"

lemma py_index_minus2: "2 \<le> length xs \<Longrightarrow> py_index xs (- 2) = Inr (last (butlast xs))"
proof -
  assume len: "2 \<le> length xs"
  then obtain ys x y where xs: "xs = ys @ [x, y]"
    by (metis append.assoc append_Cons append_Nil length_0_conv list.size(3) not_numeral_le_zero rev_exhaust
        length_append_singleton numeral_2_eq_2 Suc_le_mono le_zero_eq nat.simps(3))
  have "nat (int (length xs) - 2) = length ys" using xs by simp
  then show ?thesis using len xs by (simp add: py_index_def nth_append butlast_append)
qed

lemma length_split_on: "length (py_split_on d s) = Suc (length (filter (\<lambda>c. c = d) s))"
proof -
  have "length (split_char_aux d acc s) = Suc (length (filter (\<lambda>c. c = d) s))" for acc
    by (induction d acc s rule: split_char_aux.induct) auto
  then show ?thesis by (simp add: py_split_on_def)
qed

lemma contains_space: "py_contains line key \<Longrightarrow> CHR '' '' \<in> set key \<Longrightarrow> 2 \<le> length (py_split_on (CHR '' '') line)"
proof -
  assume "py_contains line key" "CHR '' '' \<in> set key"
  then have "CHR '' '' \<in> set line" by (auto simp: py_contains_iff)
  then have "filter (\<lambda>c. c = CHR '' '') line \<noteq> []" by (auto simp: filter_empty_conv)
  then show ?thesis by (cases "filter (\<lambda>c. c = CHR '' '') line") (simp_all add: length_split_on)
qed

lemma scan_lines_total:
  assumes "CHR '' '' \<in> set key"
  shows "scan_lines key lines t =
    Inr (case filter (\<lambda>line. py_contains line key) lines of [] \<Rightarrow> t
         | ls \<Rightarrow> last (butlast (py_split_on (CHR '' '') (last ls))))"
proof (induction lines arbitrary: t)
  case (Cons l lines)
  show ?case
  proof (cases "py_contains l key")
    case True
    with Cons py_index_minus2 [OF contains_space [OF True assms]] show ?thesis
      by (cases "filter (\<lambda>line. py_contains line key) lines") (simp_all add: scan_lines_def)
  qed (use Cons in \<open>simp add: scan_lines_def\<close>)
qed (simp add: scan_lines_def)

lemma scan_output_str: "CHR '' '' \<in> set key \<Longrightarrow> scan_output key (PStr s) t = Inr (last_time key s t)"
  by (simp add: scan_output_def scan_lines_total last_time_def)

section \<open>Sorting by variant\<close>

text \<open>
  The lists of times and the list of names. \<open>bin exec a\<close> is the list into which the time of a
  job with label \<open>exec\<close> goes for the variant \<open>a\<close> in its label; a time that goes into the
  list \<open>named\<close> also adds its label to the names.
\<close>

type_synonym bins = "string list \<times> string list list"

definition note_variant :: "(string \<Rightarrow> string \<Rightarrow> nat option) \<Rightarrow> nat \<Rightarrow> string \<Rightarrow> string \<Rightarrow> string \<Rightarrow> bins \<Rightarrow> bins" where
  "note_variant bin named exec_label exec_time a st =
     (if py_contains exec_label a
      then case (bin exec_label a, st) of
          (None, _) \<Rightarrow> st
        | (Some n, (names, results)) \<Rightarrow>
            (if n = named then names @ [exec_label] else names, results[n := results ! n @ [exec_time]])
      else st)"

fun sort_outputs :: "string \<Rightarrow> (string \<Rightarrow> string \<Rightarrow> nat option) \<Rightarrow> nat \<Rightarrow> string list \<Rightarrow>
    (string \<times> py_text) list \<Rightarrow> string \<Rightarrow> bins \<Rightarrow> bins res" where
  "sort_outputs key bin named variants [] exec_time st = Inr st"
| "sort_outputs key bin named variants ((exec_label, output) # results1) exec_time st =
     rbind (scan_output key output exec_time) (\<lambda>exec_time.
     sort_outputs key bin named variants results1 exec_time
       (fold (note_variant bin named exec_label exec_time) variants st))"

text \<open>\<^verbatim>\<open>list(zip(name, *results))\<close>\<close>

definition zip_bins :: "bins \<Rightarrow> string list list" where
  "zip_bins st = (case st of (names, results) \<Rightarrow>
     map (\<lambda>k. names ! k # map (\<lambda>ts. ts ! k) results) [0..<Min (set (map length (names # results)))])"

lemma zip_bins_empty: "[] \<in> set results \<Longrightarrow> zip_bins (names, results) = []"
proof -
  assume "[] \<in> set results"
  then have "0 \<in> set (map length (names # results))" by force
  then have "Min (set (map length (names # results))) = 0" by (intro Min_eqI) auto
  then show ?thesis by (simp add: zip_bins_def)
qed

text \<open>A list that no variant goes into stays empty.\<close>

lemma note_variant_unused:
  "length results = N \<Longrightarrow> m < N \<Longrightarrow> results ! m = [] \<Longrightarrow> bin exec_label a \<noteq> Some m \<Longrightarrow>
   (case note_variant bin named exec_label exec_time a (names, results) of
      (names', results') \<Rightarrow> length results' = N \<and> results' ! m = [])"
  by (auto simp: note_variant_def nth_list_update split: option.splits)

lemma note_variants_unused:
  assumes "m < N" and "\<And>a. a \<in> set variants \<Longrightarrow> bin exec_label a \<noteq> Some m"
  shows "length (snd st) = N \<Longrightarrow> snd st ! m = [] \<Longrightarrow>
    length (snd (fold (note_variant bin named exec_label exec_time) variants st)) = N \<and>
    snd (fold (note_variant bin named exec_label exec_time) variants st) ! m = []"
  using assms(2)
proof (induction variants arbitrary: st)
  case (Cons a variants)
  obtain names results where "st = (names, results)" by (cases st)
  moreover obtain names' results' where st': "note_variant bin named exec_label exec_time a st = (names', results')"
    by (cases "note_variant bin named exec_label exec_time a st")
  ultimately have "length results' = N" "results' ! m = []"
    using note_variant_unused [OF _ assms(1), of results bin exec_label a named exec_time names] Cons.prems by auto
  with st' Cons show ?case by simp
qed simp

lemma sort_outputs_unused:
  assumes "m < N" and "\<And>e a. a \<in> set variants \<Longrightarrow> bin e a \<noteq> Some m"
  shows "sort_outputs key bin named variants results1 exec_time st = Inr st' \<Longrightarrow>
    length (snd st) = N \<Longrightarrow> snd st ! m = [] \<Longrightarrow> length (snd st') = N \<and> snd st' ! m = []"
proof (induction results1 arbitrary: exec_time st)
  case (Cons r results1)
  obtain e out where r: "r = (e, out)" by (cases r)
  with Cons.prems(1) obtain t' where t': "scan_output key out exec_time = Inr t'"
    "sort_outputs key bin named variants results1 t' (fold (note_variant bin named e t') variants st) = Inr st'"
    by (auto elim: rbind_InrE)
  from Cons.IH [OF t'(2)] note_variants_unused [where st = st and exec_label = e and named = named and exec_time = t' and bin = bin and variants = variants, OF assms] Cons.prems(2,3)
  show ?case by blast
qed simp

section \<open>When every label goes into one list\<close>

definition hits :: "(string \<Rightarrow> string \<Rightarrow> nat option) \<Rightarrow> string list \<Rightarrow> string \<Rightarrow> nat list" where
  "hits bin variants e = concat (map (\<lambda>a. if py_contains e a then (case bin e a of None \<Rightarrow> [] | Some n \<Rightarrow> [n]) else []) variants)"

definition add_time :: "nat \<Rightarrow> string \<Rightarrow> string \<Rightarrow> nat \<Rightarrow> bins \<Rightarrow> bins" where
  "add_time named e t n st =
     (if n = named then fst st @ [e] else fst st, (snd st)[n := snd st ! n @ [t]])"

lemma note_variants_hits:
  "fold (note_variant bin named e t) variants st = fold (add_time named e t) (hits bin variants e) st"
  by (induction variants arbitrary: st)
     (auto simp: hits_def note_variant_def add_time_def split: option.split prod.split)

text \<open>The times noted for the outputs of a run: each output's own, or the one before it.\<close>

fun run_times :: "string \<Rightarrow> string list \<Rightarrow> string \<Rightarrow> string list" where
  "run_times key [] t = []"
| "run_times key (s # ss) t = (let t1 = last_time key s t in t1 # run_times key ss t1)"

lemma length_run_times [simp]: "length (run_times key ss t) = length ss"
  by (induction key ss t rule: run_times.induct) (simp_all add: Let_def)

text \<open>The times of one list, and the labels of the list \<open>named\<close>.\<close>

definition bin_column :: "nat list \<Rightarrow> 'a list \<Rightarrow> nat \<Rightarrow> 'a list" where
  "bin_column bs ts n = map snd (filter (\<lambda>(b, t). b = n) (zip bs ts))"

lemma bin_column_Cons: "bin_column (b # bs) (t # ts) n = (if b = n then t # bin_column bs ts n else bin_column bs ts n)"
  by (simp add: bin_column_def)

lemma sort_outputs_columns:
  assumes "CHR '' '' \<in> set key"
  shows "length labels = length ss \<Longrightarrow> map (hits bin variants) labels = map (\<lambda>b. [b]) bs \<Longrightarrow> set bs \<subseteq> {..<N} \<Longrightarrow>
    length results = N \<Longrightarrow>
    sort_outputs key bin named variants (zip labels (map PStr ss)) t (names, results) =
      Inr (names @ bin_column bs labels named,
           map (\<lambda>n. results ! n @ bin_column bs (run_times key ss t) n) [0..<N])"
proof (induction labels arbitrary: ss bs t names results)
  case Nil
  then show ?case by (auto simp: bin_column_def intro: nth_equalityI)
next
  case (Cons e labels)
  obtain s ss' where ss: "ss = s # ss'" using Cons.prems(1) by (cases ss) auto
  obtain b bs' where bs: "bs = b # bs'" using Cons.prems(2) by (cases bs) auto
  let ?t = "last_time key s t" and ?names = "if b = named then names @ [e] else names"
  let ?results = "results[b := results ! b @ [last_time key s t]]"
  have b: "b < N" using Cons.prems(3) bs by simp
  have "fold (note_variant bin named e ?t) variants (names, results) = (?names, ?results)"
    using Cons.prems(2) bs by (simp add: note_variants_hits add_time_def)
  then have "sort_outputs key bin named variants (zip (e # labels) (map PStr ss)) t (names, results) =
      sort_outputs key bin named variants (zip labels (map PStr ss')) ?t (?names, ?results)"
    by (simp add: ss scan_output_str [OF assms])
  also have "\<dots> = Inr (?names @ bin_column bs' labels named,
      map (\<lambda>n. ?results ! n @ bin_column bs' (run_times key ss' ?t) n) [0..<N])"
    using Cons.prems ss bs by (intro Cons.IH) auto
  finally show ?case using b Cons.prems(4)
    by (auto simp: ss bs bin_column_Cons Let_def nth_list_update)
qed

lemma filter_upt_zip:
  "length xs = w \<Longrightarrow> n < w \<Longrightarrow> filter (\<lambda>(b, t). b = n) (zip [0..<w] xs) = [(n, xs ! n)]"
proof (induction w arbitrary: xs)
  case (Suc w)
  obtain ys y where xs: "xs = ys @ [y]" "length ys = w"
    using Suc.prems(1) by (metis length_Suc_conv_rev)
  show ?case
  proof (cases "n = w")
    case True
    have "filter (\<lambda>(b, t). b = n) (zip [0..<w] ys) = []"
      using True by (auto simp: filter_empty_conv dest: set_zip_leftD)
    with xs True show ?thesis by (simp add: nth_append)
  next
    case False
    with Suc xs show ?thesis by (simp add: nth_append)
  qed
qed simp

lemma bin_column_rounds:
  "length ts = w * m \<Longrightarrow> n < w \<Longrightarrow>
   bin_column (concat (replicate m [0..<w])) ts n = map (\<lambda>r. ts ! (w * r + n)) [0..<m]"
proof (induction m arbitrary: ts)
  case (Suc m)
  let ?xs = "take w ts" and ?ys = "drop w ts"
  have len: "length ?xs = w" "length ?ys = w * m" using Suc.prems(1) by auto
  have "zip (concat (replicate (Suc m) [0..<w])) ts =
      zip [0..<w] ?xs @ zip (concat (replicate m [0..<w])) ?ys"
    using len zip_append [of "[0..<w]" ?xs "concat (replicate m [0..<w])" ?ys] by simp
  then have "bin_column (concat (replicate (Suc m) [0..<w])) ts n =
      ts ! n # map (\<lambda>r. ?ys ! (w * r + n)) [0..<m]"
    using filter_upt_zip [OF len(1) Suc.prems(2)] Suc.IH [OF len(2) Suc.prems(2)] Suc.prems(2)
    by (simp add: bin_column_def)
  also have "\<dots> = map (\<lambda>r. ts ! (w * r + n)) [0..<Suc m]"
  proof -
    have "w \<le> length ts" using Suc.prems(1) by simp
    then have "?ys ! (w * r + n) = ts ! (w * Suc r + n)" for r by (simp add: add.assoc)
    moreover have "[0..<Suc m] = 0 # map Suc [0..<m]" by (simp add: upt_conv_Cons map_Suc_upt del: upt_Suc)
    ultimately show ?thesis by simp
  qed
  finally show ?case .
qed (simp add: bin_column_def)

lemma zip_bins_equal:
  assumes "length names = m" and "\<And>ts. ts \<in> set results \<Longrightarrow> length ts = m"
  shows "zip_bins (names, results) = map (\<lambda>k. names ! k # map (\<lambda>ts. ts ! k) results) [0..<m]"
proof -
  have "set (map length (names # results)) = {m}" using assms by auto
  then have min: "Min (set (map length (names # results))) = m" by (simp only: Min_singleton)
  show ?thesis unfolding zip_bins_def prod.case min ..
qed

lemma pool_results_str:
  assumes "length jobs = length ss" and "\<And>k. k < length jobs \<Longrightarrow> prints act (ss ! k) (ws k) (jobs ! k)"
  shows "pool_results act ws jobs = Inr (zip (map job_label jobs) (map PStr ss))"
proof -
  have "pool_results act ws jobs = Inr (map (\<lambda>(k, job). (job_label job, PStr (ss ! k))) (enumerate 0 jobs))"
    unfolding pool_results_def
  proof (rule rmap_pure)
    fix kj assume "kj \<in> set (enumerate 0 jobs)"
    then obtain k where "k < length jobs" "kj = (k, jobs ! k)" by (auto simp: in_set_enumerate_eq)
    with assms(2) [of k] show "(case kj of (k, job) \<Rightarrow> fst (act job (ws k) [])) =
        Inr (case kj of (k, job) \<Rightarrow> (job_label job, PStr (ss ! k)))" by (simp add: prints_def)
  qed
  also have "map (\<lambda>(k, job). (job_label job, PStr (ss ! k))) (enumerate 0 jobs) =
      zip (map job_label jobs) (map PStr ss)"
    using assms(1) by (intro nth_equalityI) (auto simp: nth_enumerate_eq split: prod.split)
  finally show ?thesis .
qed

end
