(* ===== verification/PyDict.thy ===== *)
theory PyDict
  imports Prelude
begin

text \<open>
  Python's dictionaries, which keep the order in which keys were inserted: association lists
  without duplicate keys. \<open>dict_append\<close> is \<^verbatim>\<open>d[k].append(v)\<close> on a \<^verbatim>\<open>defaultdict(list)\<close>,
  \<open>dict_update\<close> is \<^verbatim>\<open>d[k] op= v\<close> on a \<^verbatim>\<open>defaultdict\<close> with default \<open>z\<close>. Most of the reports group
  rows by workload; the locale \<open>grouping\<close> is the interface they use, and \<open>group_rows\<close> the fold
  that all of them run.
\<close>

fun dict_append :: "'k \<Rightarrow> 'v \<Rightarrow> ('k \<times> 'v list) list \<Rightarrow> ('k \<times> 'v list) list" where
  "dict_append k v [] = [(k, [v])]"
| "dict_append k v ((k', vs) # d) = (if k = k' then (k', vs @ [v]) # d else (k', vs) # dict_append k v d)"

definition dict_list :: "('k \<times> 'v list) list \<Rightarrow> 'k \<Rightarrow> 'v list" where
  "dict_list d k = (case map_of d k of None \<Rightarrow> [] | Some vs \<Rightarrow> vs)"

definition dict_keys :: "('k \<times> 'v) list \<Rightarrow> 'k list" where
  "dict_keys d = map fst d"

fun dict_update :: "'k \<Rightarrow> ('v \<Rightarrow> 'v) \<Rightarrow> 'v \<Rightarrow> ('k \<times> 'v) list \<Rightarrow> ('k \<times> 'v) list" where
  "dict_update k f z [] = [(k, f z)]"
| "dict_update k f z ((k', v) # d) = (if k = k' then (k', f v) # d else (k', v) # dict_update k f z d)"

definition group_rows :: "('r \<Rightarrow> 'k) \<Rightarrow> ('r \<Rightarrow> 'v) \<Rightarrow> 'r list \<Rightarrow> ('k \<times> 'v list) list" where
  "group_rows key val rows = fold (\<lambda>r. dict_append (key r) (val r)) rows []"

text \<open>The elements of a list in the order of their first occurrences.\<close>

definition firsts :: "'a list \<Rightarrow> 'a list" where
  "firsts xs = fold (\<lambda>x acc. if x \<in> set acc then acc else acc @ [x]) xs []"

lemma firsts_snoc: "firsts (xs @ [x]) = (if x \<in> set (firsts xs) then firsts xs else firsts xs @ [x])"
  by (simp add: firsts_def)

lemma firsts_Nil [simp]: "firsts [] = []"
  by (simp add: firsts_def)

lemma set_firsts [simp]: "set (firsts xs) = set xs"
  by (induction xs rule: rev_induct) (auto simp: firsts_snoc)

lemma distinct_firsts [simp]: "distinct (firsts xs)"
  by (induction xs rule: rev_induct) (auto simp: firsts_snoc)

locale grouping =
  fixes empty :: 'd
    and add :: "'k \<Rightarrow> 'v \<Rightarrow> 'd \<Rightarrow> 'd"
    and get :: "'d \<Rightarrow> 'k \<Rightarrow> 'v list"
    and keys :: "'d \<Rightarrow> 'k list"
  assumes get_empty: "get empty k = []"
    and keys_empty: "keys empty = []"
    and get_add: "get (add k v d) k' = (if k = k' then get d k' @ [v] else get d k')"
    and keys_add: "keys (add k v d) = (if k \<in> set (keys d) then keys d else keys d @ [k])"
begin

definition collect :: "('k \<times> 'v) list \<Rightarrow> 'd" where
  "collect kvs = fold (\<lambda>(k, v). add k v) kvs empty"

lemma collect_snoc: "collect (kvs @ [(k, v)]) = add k v (collect kvs)"
  by (simp add: collect_def)

lemma get_collect: "get (collect kvs) k = map snd (filter (\<lambda>(k', v). k' = k) kvs)"
proof (induction kvs rule: rev_induct)
  case Nil
  then show ?case by (simp add: collect_def get_empty)
next
  case (snoc kv kvs)
  then show ?case by (cases kv) (simp add: collect_snoc get_add)
qed

lemma keys_collect: "keys (collect kvs) = firsts (map fst kvs)"
proof (induction kvs rule: rev_induct)
  case Nil
  then show ?case by (simp add: collect_def keys_empty)
next
  case (snoc kv kvs)
  then show ?case by (cases kv) (simp add: collect_snoc keys_add firsts_snoc)
qed

lemma get_nonempty: "k \<in> set (keys (collect kvs)) \<Longrightarrow> get (collect kvs) k \<noteq> []"
  by (auto simp: keys_collect get_collect filter_empty_conv)

end

lemma map_of_dict_append: "dict_list (dict_append k v d) k' = (if k = k' then dict_list d k' @ [v] else dict_list d k')"
  by (induction k v d rule: dict_append.induct) (auto simp: dict_list_def)

lemma keys_dict_append: "dict_keys (dict_append k v d) = (if k \<in> set (dict_keys d) then dict_keys d else dict_keys d @ [k])"
  by (induction k v d rule: dict_append.induct) (auto simp: dict_keys_def)

interpretation workloads: grouping "[]" dict_append dict_list dict_keys
  by (unfold_locales; (simp add: map_of_dict_append keys_dict_append)?; (simp add: dict_list_def dict_keys_def)?)

lemma group_collect: "group_rows key val rows = workloads.collect (map (\<lambda>r. (key r, val r)) rows)"
  by (simp add: group_rows_def workloads.collect_def fold_map o_def)

lemma dict_list_group: "dict_list (group_rows key val rows) k = map val (filter (\<lambda>r. key r = k) rows)"
  by (induction rows) (auto simp: group_collect workloads.get_collect)

lemma dict_keys_group: "dict_keys (group_rows key val rows) = firsts (map key rows)"
  by (simp add: group_collect workloads.keys_collect o_def)

lemma distinct_group: "distinct (map fst (group_rows key val rows))"
  using dict_keys_group [of key val rows] by (simp add: dict_keys_def)

text \<open>A grouping is its keys, in order of first occurrence, each with its rows.\<close>

lemma group_eq: "group_rows key val rows = map (\<lambda>k. (k, map val (filter (\<lambda>r. key r = k) rows))) (firsts (map key rows))"
proof -
  let ?d = "group_rows key val rows"
  have "(k, vs) \<in> set ?d \<Longrightarrow> vs = dict_list ?d k" for k vs
    using distinct_group [of key val rows] by (simp add: dict_list_def)
  then have "map (\<lambda>kv. (fst kv, dict_list ?d (fst kv))) ?d = map (\<lambda>kv. kv) ?d"
    by (intro map_cong refl) auto
  then have "?d = map (\<lambda>k. (k, dict_list ?d k)) (map fst ?d)" by (simp add: o_def)
  also have "map fst ?d = firsts (map key rows)" using dict_keys_group [of key val rows] by (simp add: dict_keys_def)
  finally show ?thesis by (simp add: dict_list_group)
qed

text \<open>The first row of a key.\<close>

definition first_row :: "('r \<Rightarrow> 'k) \<Rightarrow> 'r list \<Rightarrow> 'k \<Rightarrow> 'r" where
  "first_row key rows k = hd (filter (\<lambda>r. key r = k) rows)"

lemma group_first: "k \<in> set (map key rows) \<Longrightarrow> map val (filter (\<lambda>r. key r = k) rows) ! 0 = val (first_row key rows k)"
  by (induction rows) (auto simp: first_row_def)

lemma group_snd_first:
  "map (\<lambda>(k, vs). vs ! 0) (group_rows key val rows) = map (\<lambda>k. val (first_row key rows k)) (firsts (map key rows))"
  using group_first [of _ key rows val] by (simp add: group_eq)

lemma keys_dict_update: "map fst (dict_update k f z d) = (if k \<in> set (map fst d) then map fst d else map fst d @ [k])"
  by (induction k f z d rule: dict_update.induct) auto

lemma map_of_dict_update:
  "map_of (dict_update k f z d) k' =
     (if k = k' then Some (f (case map_of d k of None \<Rightarrow> z | Some v \<Rightarrow> v)) else map_of d k')"
  by (induction k f z d rule: dict_update.induct) auto

end
