(* ===== verification/Averages.thy ===== *)
theory Averages
  imports PyFloat PyDict
begin

text \<open>
  The four \<^verbatim>\<open>calculate_*averages*\<close> functions of \<^verbatim>\<open>src/artifact/common_util.py\<close>: every workload's
  times are divided by a baseline, and the quotients averaged over the workloads. The rows are
  the tuples the functions take; a dictionary of policies is an association list in the order
  of the literal. What the functions print is not modelled.
\<close>

section \<open>The functions\<close>

text \<open>\<^verbatim>\<open>x / y if y else 0\<close>\<close>

definition ratio :: "rat \<Rightarrow> rat \<Rightarrow> rat" where
  "ratio x y = (if y \<noteq> 0 then fl64 (x / y) else 0)"

text \<open>Steps 2 and 3, the same in all four: the sums per policy and their division.\<close>

definition add_policies :: "(string \<times> rat) list \<Rightarrow> (string \<times> rat) list \<Rightarrow> (string \<times> rat) list" where
  "add_policies policies totals =
     fold (\<lambda>(policy, v). dict_update policy (\<lambda>s. fl64 (s + v)) 0) policies totals"

definition average_policies :: "(string \<times> (string \<times> rat) list list) list \<Rightarrow> (string \<times> rat) list" where
  "average_policies workload_normalized =
     (let total_averages = fold (\<lambda>(workload, policies). add_policies (policies ! 0)) workload_normalized [];
          num_workloads = length workload_normalized
      in map (\<lambda>(policy, t). (policy, fl64 (t / of_nat num_workloads))) total_averages)"

type_synonym comparison_row = "string \<times> rat \<times> rat \<times> rat \<times> rat \<times> rat"

definition comparison_policies :: "comparison_row \<Rightarrow> (string \<times> rat) list" where
  "comparison_policies r =
     (case r of (workload, mvvm_values, hcontainer_values, qemu_x86_64_values, qemu_aarch64_values, native_values) \<Rightarrow>
        [(''native'', 1),
         (''mvvm'', ratio mvvm_values native_values),
         (''hcontainer'', ratio hcontainer_values native_values),
         (''qemu_x86_64'', ratio qemu_x86_64_values native_values),
         (''qemu_aarch64'', ratio qemu_aarch64_values native_values)])"

definition counted_workload :: "string \<Rightarrow> bool" where
  "counted_workload workload \<longleftrightarrow>
     \<not> py_contains workload ''sp'' \<and> \<not> py_contains workload ''lu'' \<and> \<not> py_contains workload ''tc''"

definition calculate_averages_comparison :: "comparison_row list \<Rightarrow> (string \<times> rat) list" where
  "calculate_averages_comparison results =
     average_policies (group_rows fst comparison_policies (filter (\<lambda>r. counted_workload (fst r)) results))"

type_synonym policy_row = "string \<times> rat \<times> rat \<times> rat \<times> rat \<times> rat"

definition policy_policies :: "policy_row \<Rightarrow> (string \<times> rat) list" where
  "policy_policies r =
     (case r of (workload, aot, pure, stack, loop, loop_dirty) \<Rightarrow>
        [(''pure'', 1),
         (''aot'', ratio aot pure),
         (''stack'', ratio stack pure),
         (''loop'', ratio loop pure),
         (''loop_dirty'', ratio loop_dirty pure)])"

definition calculate_averages :: "policy_row list \<Rightarrow> (string \<times> rat) list" where
  "calculate_averages results = average_policies (group_rows fst policy_policies results)"

type_synonym counter_row = "string \<times> rat \<times> rat \<times> rat \<times> rat \<times> rat \<times> rat \<times> rat \<times> rat \<times> rat"

definition counter_policies :: "counter_row \<Rightarrow> (string \<times> rat) list" where
  "counter_policies r =
     (case r of (workload, c1, c4, c8, c16, c20, c30, pgo, aot, pure) \<Rightarrow>
        [(''ckptloopcounter1'', ratio c1 pure),
         (''ckptloopcounter4'', ratio c4 pure),
         (''ckptloopcounter8'', ratio c8 pure),
         (''ckptloopcounter16'', ratio c16 pure),
         (''ckptloopcounter20'', ratio c20 pure),
         (''ckptloopcounter30'', ratio c30 pure),
         (''ckptlooppgo'', ratio pgo pure),
         (''aot'', ratio aot pure),
         (''pure'', 1)])"

definition calculate_loop_counter_averages :: "counter_row list \<Rightarrow> (string \<times> rat) list" where
  "calculate_loop_counter_averages results = average_policies (group_rows fst counter_policies results)"

type_synonym snapshot_row = "string \<times> rat \<times> rat \<times> rat \<times> rat \<times> rat \<times> rat"

definition snapshot_policies :: "snapshot_row \<Rightarrow> (string \<times> rat) list" where
  "snapshot_policies r =
     (case r of (workload, c1, c4, c8, c16, c20, c30) \<Rightarrow>
        [(''ckptloopcounter1'', 1),
         (''ckptloopcounter4'', ratio c4 c1),
         (''ckptloopcounter8'', ratio c8 c1),
         (''ckptloopcounter16'', ratio c16 c1),
         (''ckptloopcounter20'', ratio c20 c1),
         (''ckptloopcounter30'', ratio c30 c1)])"

definition calculate_loop_counter_snapshot_averages :: "snapshot_row list \<Rightarrow> (string \<times> rat) list" where
  "calculate_loop_counter_snapshot_averages results = average_policies (group_rows fst snapshot_policies results)"

section \<open>Closed form\<close>

lemma map_of_add_policies:
  "distinct (map fst ps) \<Longrightarrow> map_of (add_policies ps d) p =
     (case map_of ps p of None \<Rightarrow> map_of d p
      | Some v \<Rightarrow> Some (fl64 ((case map_of d p of None \<Rightarrow> 0 | Some s \<Rightarrow> s) + v)))"
proof (induction ps arbitrary: d)
  case (Cons qv ps)
  obtain q v where qv: "qv = (q, v)" by (cases qv)
  then have "map_of ps q = None" using Cons.prems by (simp add: map_of_eq_None_iff)
  with Cons qv show ?case by (auto simp: add_policies_def map_of_dict_update split: option.splits)
qed (simp add: add_policies_def)

lemma keys_add_policies:
  "map fst (add_policies ps d) = fold (\<lambda>q ks. if q \<in> set ks then ks else ks @ [q]) (map fst ps) (map fst d)"
  by (induction ps arbitrary: d) (force simp: add_policies_def keys_dict_update)+

lemma fold_keys_old: "set qs \<subseteq> set ks \<Longrightarrow> fold (\<lambda>q ks. if q \<in> set ks then ks else ks @ [q]) qs ks = ks"
  by (induction qs) auto

lemma fold_keys_new: "distinct (ks @ qs) \<Longrightarrow> fold (\<lambda>q ks. if q \<in> set ks then ks else ks @ [q]) qs ks = ks @ qs"
  by (induction qs arbitrary: ks) auto

text \<open>The average of a policy over a list of dictionaries.\<close>

definition policy_sum :: "string \<Rightarrow> (string \<times> rat) list list \<Rightarrow> rat" where
  "policy_sum p rows = fold (\<lambda>row s. fl64 (s + the (map_of row p))) rows 0"

definition policy_average :: "string \<Rightarrow> (string \<times> rat) list list \<Rightarrow> rat" where
  "policy_average p rows = fl64 (policy_sum p rows / of_nat (length rows))"

lemma totals:
  assumes "distinct ks" and "rows \<noteq> []" and "\<And>row. row \<in> set rows \<Longrightarrow> map fst row = ks"
  shows "map fst (fold add_policies rows []) = ks \<and>
    (\<forall>p \<in> set ks. map_of (fold add_policies rows []) p = Some (policy_sum p rows))"
  using assms(2,3)
proof (induction rows rule: rev_induct)
  case (snoc row rows)
  have row: "map fst row = ks" "distinct (map fst row)" using snoc.prems assms(1) by auto
  have some: "\<exists>v. map_of row p = Some v" if "p \<in> set ks" for p
    using that row(1) by (metis map_of_eq_None_iff option.exhaust_sel set_map)
  show ?case
  proof (cases "rows = []")
    case True
    have "map fst (add_policies row []) = ks"
      using fold_keys_new [of "[]" ks] assms(1) row(1) by (simp add: keys_add_policies)
    with True row some show ?thesis
      by (fastforce simp: map_of_add_policies policy_sum_def)
  next
    case False
    with snoc have IH: "map fst (fold add_policies rows []) = ks"
      "\<forall>p \<in> set ks. map_of (fold add_policies rows []) p = Some (policy_sum p rows)" by auto
    have "map fst (add_policies row (fold add_policies rows [])) = ks"
      unfolding keys_add_policies IH(1) row(1) by (rule fold_keys_old) simp
    with IH(2) row some show ?thesis
      by (fastforce simp: map_of_add_policies policy_sum_def)
  qed
qed simp

lemma alist_eqI: "map fst d = ks \<Longrightarrow> distinct ks \<Longrightarrow> (\<And>k. k \<in> set ks \<Longrightarrow> map_of d k = Some (f k)) \<Longrightarrow> d = map (\<lambda>k. (k, f k)) ks"
proof (induction d arbitrary: ks)
  case (Cons kv d)
  then obtain ks' where ks: "ks = fst kv # ks'" "map fst d = ks'" by auto
  have "map_of d k = Some (f k)" if "k \<in> set ks'" for k
    using Cons.prems(2) Cons.prems(3) [of k] that by (auto simp: ks split: if_splits)
  moreover have "snd kv = f (fst kv)" using Cons.prems(3) [of "fst kv"] by (cases kv) (simp add: ks)
  ultimately show ?case using Cons.IH [of ks'] Cons.prems(2) by (cases kv) (simp add: ks)
qed simp

text \<open>
  All four functions have this form: \<open>pol\<close> gives the policies of a row, always under the same
  keys.
\<close>

lemma average_closed_form:
  assumes "distinct ks" and "\<And>r. map fst (pol r) = ks"
  shows "average_policies (group_rows fst pol rs) =
    (if rs = [] then []
     else map (\<lambda>p. (p, policy_average p (map (\<lambda>w. pol (first_row fst rs w)) (firsts (map fst rs))))) ks)"
proof (cases "rs = []")
  case True
  then show ?thesis by (simp add: average_policies_def group_rows_def)
next
  case False
  let ?g = "group_rows fst pol rs" and ?rows = "map (\<lambda>w. pol (first_row fst rs w)) (firsts (map fst rs))"
  have fold: "fold (\<lambda>(w, ps). add_policies (ps ! 0)) ?g [] = fold add_policies ?rows []"
    unfolding group_snd_first [symmetric] fold_map by (simp add: o_def case_prod_unfold)
  have ne: "?rows \<noteq> []" using False set_firsts [of "map fst rs"] by (metis Nil_is_map_conv set_empty)
  have keys: "map fst row = ks" if "row \<in> set ?rows" for row
    using that assms(2) by (metis (no_types, lifting) imageE list.set_map)
  have total: "fold add_policies ?rows [] = map (\<lambda>p. (p, policy_sum p ?rows)) ks"
    using totals [OF assms(1) ne keys] assms(1) by (intro alist_eqI) auto
  have len: "length ?g = length ?rows" by (simp add: group_eq)
  show ?thesis using False
    by (simp add: average_policies_def Let_def fold total len policy_average_def o_def)
qed

lemma policy_sum_ones:
  assumes "length rows \<le> 2 ^ 53" and "\<And>row. row \<in> set rows \<Longrightarrow> map_of row p = Some 1"
  shows "policy_sum p rows = of_nat (length rows)"
proof -
  have "map (\<lambda>row. the (map_of row p)) rows = replicate (length rows) 1"
    using assms(2) by (intro nth_equalityI) auto
  then have "policy_sum p rows = fold (\<lambda>v s. fl64 (s + v)) (replicate (length rows) 1) 0"
    using fold_map [of "\<lambda>v s. fl64 (s + v)" "\<lambda>row. the (map_of row p)" rows] by (simp add: policy_sum_def o_def)
  with fl64.fl_sum_ones [of "length rows" 0] assms(1) show ?thesis by simp
qed

lemma policy_average_ones:
  assumes "rows \<noteq> []" and "length rows \<le> 2 ^ 53" and "\<And>row. row \<in> set rows \<Longrightarrow> map_of row p = Some 1"
  shows "policy_average p rows = 1"
  using policy_sum_ones [OF assms(2,3)] assms(1) fl64_int [of 1] by (simp add: policy_average_def)

lemma firsts_append_old: "x \<in> set xs \<Longrightarrow> firsts (xs @ [x]) = firsts xs"
  by (simp add: firsts_snoc)

lemma first_row_append: "k \<in> set (map key rs) \<Longrightarrow> first_row key (rs @ rs') k = first_row key rs k"
  by (induction rs) (auto simp: first_row_def)

lemma policy_keys:
  "map fst (policy_policies r) = [''pure'', ''aot'', ''stack'', ''loop'', ''loop_dirty'']"
  "map fst (comparison_policies r) = [''native'', ''mvvm'', ''hcontainer'', ''qemu_x86_64'', ''qemu_aarch64'']"
  "map fst (counter_policies r') = [''ckptloopcounter1'', ''ckptloopcounter4'', ''ckptloopcounter8'',
     ''ckptloopcounter16'', ''ckptloopcounter20'', ''ckptloopcounter30'', ''ckptlooppgo'', ''aot'', ''pure'']"
  "map fst (snapshot_policies r'') = [''ckptloopcounter1'', ''ckptloopcounter4'', ''ckptloopcounter8'',
     ''ckptloopcounter16'', ''ckptloopcounter20'', ''ckptloopcounter30'']"
  by (simp_all add: policy_policies_def comparison_policies_def counter_policies_def snapshot_policies_def
      split_beta)

lemma policy_baselines:
  "map_of (policy_policies r) ''pure'' = Some 1"
  "map_of (comparison_policies r) ''native'' = Some 1"
  "map_of (counter_policies r') ''pure'' = Some 1"
  "map_of (snapshot_policies r'') ''ckptloopcounter1'' = Some 1"
  by (simp_all add: policy_policies_def comparison_policies_def counter_policies_def snapshot_policies_def
      split_beta)

text \<open>A row of a workload that is there already changes nothing.\<close>

lemma average_ignores_repeats:
  assumes "distinct ks" and "\<And>r. map fst (pol r) = ks" and "fst r \<in> set (map fst rs)"
  shows "average_policies (group_rows fst pol (rs @ [r])) = average_policies (group_rows fst pol rs)"
proof -
  have ws: "firsts (map fst (rs @ [r])) = firsts (map fst rs)" using assms(3) by (simp add: firsts_append_old)
  have "first_row fst (rs @ [r]) w = first_row fst rs w" if "w \<in> set (map fst rs)" for w
    using that by (rule first_row_append)
  then have rows: "map (\<lambda>w. pol (first_row fst (rs @ [r]) w)) (firsts (map fst rs)) =
      map (\<lambda>w. pol (first_row fst rs w)) (firsts (map fst rs))"
    by (intro map_cong refl) auto
  have ne: "rs \<noteq> []" using assms(3) by auto
  then show ?thesis
    unfolding average_closed_form [of ks pol, OF assms(1,2)] ws rows by simp
qed

lemma average_baseline:
  assumes "distinct ks" and "\<And>r. map fst (pol r) = ks" and "\<And>r. map_of (pol r) p = Some 1"
    and "rs \<noteq> []" and "length rs \<le> 2 ^ 53"
  shows "map_of (average_policies (group_rows fst pol rs)) p = Some 1"
proof -
  let ?rows = "map (\<lambda>w. pol (first_row fst rs w)) (firsts (map fst rs))"
  have "length (firsts (map fst rs)) = card (set (map fst rs))"
    by (metis distinct_card distinct_firsts set_firsts)
  then have "length ?rows \<le> 2 ^ 53" using card_length [of "map fst rs"] assms(5) by simp
  moreover have "?rows \<noteq> []" using assms(4) set_firsts [of "map fst rs"] by (metis Nil_is_map_conv set_empty)
  moreover have "map_of row p = Some 1" if "row \<in> set ?rows" for row
    using that assms(3) by (metis (no_types, lifting) imageE list.set_map)
  ultimately have "policy_average p ?rows = 1" by (intro policy_average_ones) blast+
  moreover have "p \<in> set ks"
    using assms(2,3) by (metis map_of_eq_None_iff option.distinct(1) set_map)
  ultimately show ?thesis
    using assms(1,4) average_closed_form [of ks pol rs, OF assms(1,2)]
    by (simp add: map_of_map_keys map_of_eq_Some_iff o_def image_iff)
qed

end
