(* ===== verification/BenchPolicy.thy ===== *)
theory BenchPolicy
  imports BenchJobs Averages
begin

text \<open>
  \<^verbatim>\<open>src/artifact/bench_policy.py\<close>, \<^verbatim>\<open>bench_policy_mac.py\<close> and \<^verbatim>\<open>bench_policy_multithread.py\<close>:
  the workloads, \<^verbatim>\<open>run_mvvm\<close>, the file of results and its reader. The main lemmas: \<^verbatim>\<open>run_mvvm\<close>
  never has a row, whatever the jobs print, since nothing goes into its last list; the file
  read back is what was written, with one column left out; and the third script's reader
  rejects every row that its writer makes.
\<close>

section \<open>One thread\<close>

definition cmd_policy :: "string list" where
  "cmd_policy =
     [''llama'', ''bc'', ''bfs'', ''cc'', ''cc_sv'', ''pr'', ''pr_spmv'', ''sssp'', ''tc'', ''bt'',
      ''cg'', ''ep'', ''ft'', ''lu'', ''mg'', ''sp'', ''redis'', ''hdastar'']"

definition folder_policy :: "string list" where
  "folder_policy =
     [''llama'', ''gapbs'', ''gapbs'', ''gapbs'', ''gapbs'', ''gapbs'', ''gapbs'', ''gapbs'', ''gapbs'',
      ''nas'', ''nas'', ''nas'', ''nas'', ''nas'', ''nas'', ''nas'', ''redis'', ''hdastar'']"

definition arg_policy :: "string list list" where
  "arg_policy =
     [[''stories110M.bin'', ''-z'', ''tokenizer.bin'', ''-t'', ''0.0''], [''-g20'', ''-vn300''],
      [''-g20'', ''-vn300''], [''-g20'', ''-vn300''], [''-g20'', ''-vn300''], [''-g20'',
      ''-vn300''], [''-g20'', ''-vn300''], [''-g20'', ''-vn300''], [''-g20'', ''-n1''], [], [], [],
      [], [], [], [], [], [''maze-6404.txt'', ''8'']]"

definition envs_policy :: "string list" where
  "envs_policy =
     [''OMP_NUM_THREADS=1'', ''OMP_NUM_THREADS=1'', ''OMP_NUM_THREADS=1'', ''OMP_NUM_THREADS=1'',
      ''OMP_NUM_THREADS=1'', ''OMP_NUM_THREADS=1'', ''OMP_NUM_THREADS=1'', ''OMP_NUM_THREADS=1'',
      ''OMP_NUM_THREADS=1'', ''OMP_NUM_THREADS=1'', ''OMP_NUM_THREADS=1'', ''OMP_NUM_THREADS=1'',
      ''OMP_NUM_THREADS=1'', ''OMP_NUM_THREADS=1'', ''OMP_NUM_THREADS=1'', ''OMP_NUM_THREADS=1'',
      ''OMP_NUM_THREADS=1'', ''a=b'', ''a=b'']"

definition policy_bin :: "string \<Rightarrow> string \<Rightarrow> nat option" where
  "policy_bin exec a =
     (if a = ''-pure.aot'' then Some 1
      else if a = ''-stack.aot'' then Some 2
      else if a = ''-ckpt-loop-counter.aot'' then Some 3
      else if a = ''-ckpt-loop.aot'' then Some 4
      else if a = ''-ckpt-loop-dirty.aot'' then Some 5
      else if a = ''.aot'' \<and> \<not> py_contains exec ''-pure.aot'' \<and> \<not> py_contains exec ''-stack.aot'' \<and>
        \<not> py_contains exec ''-ckpt-loop-counter.aot'' \<and> \<not> py_contains exec ''-ckpt-loop.aot'' \<and>
        \<not> py_contains exec ''-ckpt-loop-dirty.aot'' then Some 0
      else None)"

definition run_mvvm_policy :: "(nat \<Rightarrow> world) \<Rightarrow> string list list res" where
  "run_mvvm_policy ws =
     rbind (pool_results run_job ws (variant_jobs cmd_policy arg_policy envs_policy aot_variant)) (\<lambda>results1.
     rbind (sort_outputs ''Execution time:'' policy_bin 0 aot_variant results1 [] ([], replicate 6 [])) (\<lambda>st.
     Inr (zip_bins st)))"

text \<open>\<^verbatim>\<open>row[i]\<close> for a column \<open>i\<close>; a row of results is a list of strings.\<close>

definition columns :: "nat \<Rightarrow> string list \<Rightarrow> string list res" where
  "columns n row = rmap (\<lambda>i. py_index row (int i)) [0..<n]"

definition header_policy :: "string list" where
  "header_policy =
     [''name'', ''aot'', ''pure.aot'', ''stack.aot'', ''ckpt-every-dirty.aot'', ''ckpt-loop.aot'', ''ckpt-loop-dirty.aot'']"

definition write_to_csv_policy :: "string list list \<Rightarrow> string \<Rightarrow> string res" where
  "write_to_csv_policy mvvm_results old =
     rbind (rmap (columns 7) mvvm_results) (\<lambda>rows. Inr (append_csv header_policy rows old))"

definition policy_row_of :: "string list \<Rightarrow> policy_row res" where
  "policy_row_of row =
     rbind (py_index row 0) (\<lambda>name. rbind (float_at row 1) (\<lambda>a. rbind (float_at row 2) (\<lambda>b. rbind (float_at row 3) (\<lambda>c.
     rbind (float_at row 5) (\<lambda>d. rbind (float_at row 6) (\<lambda>e. Inr (name, a, b, c, d, e)))))))"

definition read_from_csv_policy :: "string \<Rightarrow> policy_row list res" where
  "read_from_csv_policy csv_text = read_table policy_row_of csv_text"

section \<open>The Mac\<close>

definition cmd_policy_mac :: "string list" where
  "cmd_policy_mac =
     [''llama'', ''bc'', ''bfs'', ''cc'', ''cc_sv'', ''pr'', ''pr_spmv'', ''sssp'', ''tc'', ''bt'',
      ''cg'', ''ep'', ''ft'', ''lu'', ''mg'', ''sp'', ''redis'', ''hdastar'']"

definition folder_policy_mac :: "string list" where
  "folder_policy_mac =
     [''llama'', ''gapbs'', ''gapbs'', ''gapbs'', ''gapbs'', ''gapbs'', ''gapbs'', ''gapbs'', ''gapbs'',
      ''nas'', ''nas'', ''nas'', ''nas'', ''nas'', ''nas'', ''nas'', ''redis'', ''hdastar'']"

definition arg_policy_mac :: "string list list" where
  "arg_policy_mac =
     [[''stories110M.bin'', ''-z'', ''tokenizer.bin'', ''-t'', ''0.0''], [''-g20'', ''-vn300''],
      [''-g20'', ''-vn300''], [''-g20'', ''-vn300''], [''-g20'', ''-vn300''], [''-g20'',
      ''-vn300''], [''-g20'', ''-vn300''], [''-g20'', ''-vn300''], [''-g20'', ''-n1''], [], [], [],
      [], [], [], [], [], [''maze-6404.txt'', ''8'']]"

definition envs_policy_mac :: "string list" where
  "envs_policy_mac =
     [''OMP_NUM_THREADS=1'', ''OMP_NUM_THREADS=1'', ''OMP_NUM_THREADS=1'', ''OMP_NUM_THREADS=1'',
      ''OMP_NUM_THREADS=1'', ''OMP_NUM_THREADS=1'', ''OMP_NUM_THREADS=1'', ''OMP_NUM_THREADS=1'',
      ''OMP_NUM_THREADS=1'', ''OMP_NUM_THREADS=1'', ''OMP_NUM_THREADS=1'', ''OMP_NUM_THREADS=1'',
      ''OMP_NUM_THREADS=1'', ''OMP_NUM_THREADS=1'', ''OMP_NUM_THREADS=1'', ''OMP_NUM_THREADS=1'',
      ''OMP_NUM_THREADS=1'', ''a=b'', ''a=b'']"

definition policy_bin_mac :: "string \<Rightarrow> string \<Rightarrow> nat option" where
  "policy_bin_mac exec a =
     (if a = ''-pure.aot'' then Some 1
      else if a = ''-stack.aot'' then Some 2
      else if a = ''-ckpt-every-dirty.aot'' then Some 3
      else if a = ''-ckpt-loop.aot'' then Some 4
      else if a = ''-ckpt-loop-dirty.aot'' then Some 5
      else if a = ''.aot'' \<and> \<not> py_contains exec ''-pure.aot'' \<and> \<not> py_contains exec ''-stack.aot'' \<and>
        \<not> py_contains exec ''-ckpt-every-dirty.aot'' \<and> \<not> py_contains exec ''-ckpt-loop.aot'' \<and>
        \<not> py_contains exec ''-ckpt-loop-dirty.aot'' then Some 0
      else None)"

definition run_mvvm_policy_mac :: "(nat \<Rightarrow> world) \<Rightarrow> string list list res" where
  "run_mvvm_policy_mac ws =
     rbind (pool_results run_job ws (variant_jobs cmd_policy_mac arg_policy_mac envs_policy_mac aot_variant)) (\<lambda>results1.
     rbind (sort_outputs ''Execution time:'' policy_bin_mac 0 aot_variant results1 [] ([], replicate 6 [])) (\<lambda>st.
     Inr (zip_bins st)))"

section \<open>Four threads\<close>

definition cmd_policy_multithread :: "string list" where
  "cmd_policy_multithread =
     [''llama'', ''bc'', ''bfs'', ''cc'', ''cc_sv'', ''pr'', ''pr_spmv'', ''sssp'', ''tc'', ''bt'',
      ''cg'', ''ep'', ''ft'', ''lu'', ''mg'', ''sp'', ''redis'', ''hdastar'']"

definition folder_policy_multithread :: "string list" where
  "folder_policy_multithread =
     [''llama'', ''gapbs'', ''gapbs'', ''gapbs'', ''gapbs'', ''gapbs'', ''gapbs'', ''gapbs'', ''gapbs'',
      ''nas'', ''nas'', ''nas'', ''nas'', ''nas'', ''nas'', ''nas'', ''redis'', ''hdastar'']"

definition arg_policy_multithread :: "string list list" where
  "arg_policy_multithread =
     [[''stories110M.bin'', ''-z'', ''tokenizer.bin'', ''-t'', ''0.0''], [''-g20'', ''-vn300''],
      [''-g20'', ''-vn300''], [''-g20'', ''-vn300''], [''-g20'', ''-vn300''], [''-g20'',
      ''-vn300''], [''-g20'', ''-vn300''], [''-g20'', ''-vn300''], [''-g20'', ''-n1''], [], [], [],
      [], [], [], [], [], [''maze-6404.txt'', ''8'']]"

definition envs_policy_multithread :: "string list" where
  "envs_policy_multithread =
     [''OMP_NUM_THREADS=4'', ''OMP_NUM_THREADS=4'', ''OMP_NUM_THREADS=4'', ''OMP_NUM_THREADS=4'',
      ''OMP_NUM_THREADS=4'', ''OMP_NUM_THREADS=4'', ''OMP_NUM_THREADS=4'', ''OMP_NUM_THREADS=4'',
      ''OMP_NUM_THREADS=4'', ''OMP_NUM_THREADS=4'', ''OMP_NUM_THREADS=4'', ''OMP_NUM_THREADS=4'',
      ''OMP_NUM_THREADS=4'', ''OMP_NUM_THREADS=4'', ''OMP_NUM_THREADS=4'', ''OMP_NUM_THREADS=4'',
      ''OMP_NUM_THREADS=4'', ''a=b'', ''a=b'']"

definition policy_bin_multithread :: "string \<Rightarrow> string \<Rightarrow> nat option" where
  "policy_bin_multithread exec a =
     (if a = ''-pure.aot'' then Some 1
      else if a = ''-stack.aot'' then Some 2
      else if a = ''-ckpt-loop-counter.aot'' then Some 3
      else if a = ''-ckpt-loop.aot'' then Some 4
      else if a = ''-ckpt-loop-dirty.aot'' then Some 5
      else if a = ''.aot'' \<and> \<not> py_contains exec ''-pure.aot'' \<and> \<not> py_contains exec ''-stack.aot'' \<and>
        \<not> py_contains exec ''-ckpt-loop-counter.aot'' \<and> \<not> py_contains exec ''-ckpt-loop.aot'' \<and>
        \<not> py_contains exec ''-ckpt-loop-dirty.aot'' then Some 0
      else None)"

definition run_mvvm_policy_multithread :: "(nat \<Rightarrow> world) \<Rightarrow> string list list res" where
  "run_mvvm_policy_multithread ws =
     rbind (pool_results run_job ws (variant_jobs cmd_policy_multithread arg_policy_multithread envs_policy_multithread aot_variant)) (\<lambda>results1.
     rbind (sort_outputs ''Execution time:'' policy_bin_multithread 0 aot_variant results1 [] ([], replicate 6 [])) (\<lambda>st.
     Inr (zip_bins st)))"

definition header_multithread :: "string list" where
  "header_multithread =
     [''name'', ''aot'', ''pure.aot'', ''stack.aot'', ''ckpt-loop.aot'', ''ckpt-loop-dirty.aot'']"

definition write_to_csv_multithread :: "string list list \<Rightarrow> string \<Rightarrow> string res" where
  "write_to_csv_multithread mvvm_results old =
     rbind (rmap (columns 6) mvvm_results) (\<lambda>rows. Inr (append_csv header_multithread rows old))"

definition read_from_csv_multithread :: "string \<Rightarrow> policy_row list res" where
  "read_from_csv_multithread csv_text = read_table policy_row_of csv_text"

section \<open>No rows\<close>

text \<open>A list into which no variant of the module's table goes makes the zipped rows empty.\<close>

lemma no_rows:
  assumes "m < 6" and "\<And>e a. a \<in> set aot_variant \<Longrightarrow> bin e a \<noteq> Some m"
    and "sort_outputs key bin named aot_variant results1 t ([], replicate 6 []) = Inr st"
  shows "zip_bins st = []"
proof -
  obtain names results where st: "st = (names, results)" by (cases st)
  have "length (snd st) = 6 \<and> snd st ! m = []"
    using sort_outputs_unused [OF assms(1,2,3)] assms(1) by simp
  then have "[] \<in> set results" using st assms(1) by (metis nth_mem snd_conv)
  then show ?thesis unfolding st by (rule zip_bins_empty)
qed

lemma policy_bin_unused: "a \<in> set aot_variant \<Longrightarrow> policy_bin e a \<noteq> Some 5"
  "a \<in> set aot_variant \<Longrightarrow> policy_bin_mac e a \<noteq> Some 5"
  "a \<in> set aot_variant \<Longrightarrow> policy_bin_multithread e a \<noteq> Some 5"
  by (auto simp: aot_variant_def policy_bin_def policy_bin_mac_def policy_bin_multithread_def)

section \<open>The file\<close>

lemma columns_ok: "n \<le> length row \<Longrightarrow> columns n row = Inr (take n row)"
proof -
  assume n: "n \<le> length row"
  have "columns n row = Inr (map (\<lambda>i. row ! i) [0..<n])"
    unfolding columns_def using n by (intro rmap_pure) (simp add: py_index_def)
  moreover have "map (\<lambda>i. row ! i) [0..<n] = take n row" using n by (intro nth_equalityI) auto
  ultimately show ?thesis by simp
qed

lemma float_at_ok: "i < length row \<Longrightarrow> py_float (row ! i) = Inr x \<Longrightarrow> float_at row (int i) = Inr x"
  by (simp add: float_at_def py_index_def)

text \<open>\<open>cells v row\<close>: the value of every cell but the name.\<close>

definition cells :: "(string \<Rightarrow> rat) \<Rightarrow> string list \<Rightarrow> bool" where
  "cells v row \<longleftrightarrow> list_all (\<lambda>f. py_float f = Inr (v f)) (tl row)"

lemma cells_at: "cells v row \<Longrightarrow> 0 < i \<Longrightarrow> i < length row \<Longrightarrow> float_at row (int i) = Inr (v (row ! i))"
  by (rule float_at_ok) (auto simp: cells_def list_all_length nth_tl dest!: spec [where x = "i - 1"])

lemma policy_row_ok:
  assumes "length row = 7" and "cells v row"
  shows "policy_row_of row = Inr (row ! 0, v (row ! 1), v (row ! 2), v (row ! 3), v (row ! 5), v (row ! 6))"
  using cells_at [OF assms(2), of 1] cells_at [OF assms(2), of 2] cells_at [OF assms(2), of 3] cells_at [OF assms(2), of 5]
    cells_at [OF assms(2), of 6] assms(1) by (simp add: policy_row_of_def py_index_def)

lemma policy_row_short:
  assumes "length row = 6" and "cells v row"
  shows "policy_row_of row = Inl IndexError"
  using cells_at [OF assms(2), of 1] cells_at [OF assms(2), of 2] cells_at [OF assms(2), of 3] cells_at [OF assms(2), of 5]
    assms(1) by (simp add: policy_row_of_def py_index_def float_at_def)

lemma policy_row_header: "policy_row_of header_policy = Inl ValueError" "policy_row_of header_multithread = Inl ValueError"
proof -
  have "py_float ''aot'' = Inl ValueError" by code_simp
  then show "policy_row_of header_policy = Inl ValueError" "policy_row_of header_multithread = Inl ValueError"
    by (simp_all add: policy_row_of_def header_policy_def header_multithread_def float_at_def py_index_def)
qed

lemma written_rows:
  assumes "\<And>row. row \<in> set rows \<Longrightarrow> n \<le> length row"
  shows "rmap (columns n) rows = Inr (map (take n) rows)"
  using assms by (intro rmap_pure columns_ok)

end
