(* ===== verification/BenchLoopCounter.thy ===== *)
theory BenchLoopCounter
  imports BenchPolicy
begin

text \<open>
  \<^verbatim>\<open>src/artifact/bench_loop_counter.py\<close>: the run times and the snapshot overheads of nine
  variants of each workload, the file of results and its two readers. The main lemma: when
  every job prints its time, the rows hold, workload by workload, the times of that workload's
  own nine jobs, in the order of the variants.
\<close>

section \<open>The script\<close>

definition cmd_loop_counter :: "string list" where
  "cmd_loop_counter =
     [''llama'', ''bc'', ''bfs'', ''cc'', ''cc_sv'', ''pr'', ''pr_spmv'', ''sssp'', ''tc'', ''bt'',
      ''cg'', ''ep'', ''ft'', ''lu'', ''mg'', ''sp'', ''redis'']"

definition folder_loop_counter :: "string list" where
  "folder_loop_counter =
     [''llama'', ''gapbs'', ''gapbs'', ''gapbs'', ''gapbs'', ''gapbs'', ''gapbs'', ''gapbs'', ''gapbs'',
      ''nas'', ''nas'', ''nas'', ''nas'', ''nas'', ''nas'', ''nas'', ''redis'']"

definition arg_loop_counter :: "string list list" where
  "arg_loop_counter =
     [[''stories110M.bin'', ''-z'', ''tokenizer.bin'', ''-t'', ''0.0''], [''-g20'', ''-vn300''],
      [''-g20'', ''-vn300''], [''-g20'', ''-vn300''], [''-g20'', ''-vn300''], [''-g20'',
      ''-vn300''], [''-g20'', ''-vn300''], [''-g20'', ''-vn300''], [''-g20'', ''-n1''], [], [], [],
      [], [], [], [], []]"

definition envs_loop_counter :: "string list" where
  "envs_loop_counter =
     [''OMP_NUM_THREADS=1'', ''OMP_NUM_THREADS=1'', ''OMP_NUM_THREADS=1'', ''OMP_NUM_THREADS=1'',
      ''OMP_NUM_THREADS=1'', ''OMP_NUM_THREADS=1'', ''OMP_NUM_THREADS=1'', ''OMP_NUM_THREADS=1'',
      ''OMP_NUM_THREADS=1'', ''OMP_NUM_THREADS=1'', ''OMP_NUM_THREADS=1'', ''OMP_NUM_THREADS=1'',
      ''OMP_NUM_THREADS=1'', ''OMP_NUM_THREADS=1'', ''OMP_NUM_THREADS=1'', ''OMP_NUM_THREADS=1'',
      ''OMP_NUM_THREADS=1'', ''a=b'']"

definition counter_bin :: "string \<Rightarrow> string \<Rightarrow> nat option" where
  "counter_bin exec a =
     (if a = ''-ckpt-loop-counter-1.aot'' then Some 0
      else if a = ''-ckpt-loop-counter-4.aot'' then Some 1
      else if a = ''-ckpt-loop-counter-8.aot'' then Some 2
      else if a = ''-ckpt-loop-counter-16.aot'' then Some 3
      else if a = ''-ckpt-loop-counter-20.aot'' then Some 4
      else if a = ''-ckpt-loop-counter-30.aot'' then Some 5
      else if a = ''-ckpt-loop-pgo.aot'' then Some 6
      else if a = ''-pure.aot'' then Some 8
      else if a = ''.aot'' \<and> \<not> py_contains exec ''-ckpt-loop-counter-1.aot'' \<and>
        \<not> py_contains exec ''-ckpt-loop-counter-4.aot'' \<and> \<not> py_contains exec ''-ckpt-loop-counter-8.aot'' \<and>
        \<not> py_contains exec ''-ckpt-loop-counter-16.aot'' \<and> \<not> py_contains exec ''-ckpt-loop-counter-20.aot'' \<and>
        \<not> py_contains exec ''-ckpt-loop-counter-30.aot'' \<and> \<not> py_contains exec ''-ckpt-loop-pgo.aot'' \<and>
        \<not> py_contains exec ''-pure.aot'' then Some 7
      else None)"

definition counter_jobs :: "job list" where
  "counter_jobs = variant_jobs cmd_loop_counter arg_loop_counter envs_loop_counter aot_variant_freq"

definition run_mvvm_loop_counter :: "(nat \<Rightarrow> world) \<Rightarrow> string list list res" where
  "run_mvvm_loop_counter ws =
     rbind (pool_results run_job ws counter_jobs) (\<lambda>results1.
     rbind (sort_outputs ''Execution time:'' counter_bin 7 aot_variant_freq results1 []
       ([], replicate (length aot_variant_freq) [])) (\<lambda>st.
     Inr (zip_bins st)))"

definition run_mvvm_profile :: "(nat \<Rightarrow> world) \<Rightarrow> unit res" where
  "run_mvvm_profile ws =
     rbind (pool_results (\<lambda>(aot, arg, env). run_profile aot arg env []) ws
       (map (\<lambda>i. (cmd_loop_counter ! i @ ''-ckpt-loop-pgo.aot'', arg_loop_counter ! i, envs_loop_counter ! i))
         [0..<length cmd_loop_counter])) (\<lambda>results1. Inr ())"

definition run_mvvm_snapshot :: "(nat \<Rightarrow> world) \<Rightarrow> string list list res" where
  "run_mvvm_snapshot ws =
     rbind (pool_results run_checkpoint_job ws counter_jobs) (\<lambda>results1.
     rbind (sort_outputs ''Snapshot Overhead:'' counter_bin 7 aot_variant_freq results1 []
       ([], replicate (length aot_variant_freq) [])) (\<lambda>st.
     Inr (zip_bins st)))"

definition write_to_csv_loop_counter :: "string list list \<Rightarrow> string \<Rightarrow> string res" where
  "write_to_csv_loop_counter mvvm_results old =
     rbind (rmap (columns 10) mvvm_results) (\<lambda>rows. Inr (append_csv (''name'' # aot_variant_freq) rows old))"

definition counter_row_of :: "string list \<Rightarrow> counter_row res" where
  "counter_row_of row =
     rbind (py_index row 0) (\<lambda>name. rbind (float_at row 1) (\<lambda>c1. rbind (float_at row 2) (\<lambda>c4.
     rbind (float_at row 3) (\<lambda>c8. rbind (float_at row 4) (\<lambda>c16. rbind (float_at row 5) (\<lambda>c20.
     rbind (float_at row 6) (\<lambda>c30. rbind (float_at row 7) (\<lambda>pgo. rbind (float_at row 8) (\<lambda>aot.
     rbind (float_at row 9) (\<lambda>pure. Inr (name, c1, c4, c8, c16, c20, c30, pgo, aot, pure)))))))))))"

definition read_from_csv_loop_counter :: "string \<Rightarrow> counter_row list res" where
  "read_from_csv_loop_counter csv_text = read_table counter_row_of csv_text"

definition snapshot_row_of :: "string list \<Rightarrow> snapshot_row res" where
  "snapshot_row_of row =
     rbind (py_index row 0) (\<lambda>name. rbind (float_at row 1) (\<lambda>c1. rbind (float_at row 2) (\<lambda>c4.
     rbind (float_at row 3) (\<lambda>c8. rbind (float_at row 4) (\<lambda>c16. rbind (float_at row 5) (\<lambda>c20.
     rbind (float_at row 6) (\<lambda>c30. Inr (name, c1, c4, c8, c16, c20, c30))))))))"

definition read_from_csv_snapshot :: "string \<Rightarrow> snapshot_row list res" where
  "read_from_csv_snapshot csv_text = read_table snapshot_row_of csv_text"

section \<open>Which variants a label names\<close>

lemma before_dot: "CHR ''.'' \<notin> set pre \<Longrightarrow> takeWhile (\<lambda>c. c \<noteq> CHR ''.'') (pre @ CHR ''.'' # s) = pre"
  by (induction pre) auto

text \<open>
  A label is a stem without a dot, \<^verbatim>\<open>.aot\<close>, and arguments in which it does not occur; a
  variant is in the label when the stem ends in the variant's own.
\<close>

lemma contains_variant:
  assumes "CHR ''.'' \<notin> set pre" and "CHR ''.'' \<notin> set q" and "\<not> py_contains rest ''.aot''"
  shows "py_contains (pre @ ''.aot'' @ rest) (q @ ''.aot'') \<longleftrightarrow> py_endswith (pre @ ''.aot'') (q @ ''.aot'')"
proof
  assume "py_contains (pre @ ''.aot'' @ rest) (q @ ''.aot'')"
  then obtain u v where uv: "pre @ ''.aot'' @ rest = u @ q @ ''.aot'' @ v" by (auto simp: py_contains_iff)
  show "py_endswith (pre @ ''.aot'') (q @ ''.aot'')"
  proof (cases "CHR ''.'' \<in> set u")
    case False
    then have "CHR ''.'' \<notin> set (u @ q)" using assms(2) by simp
    then have "takeWhile (\<lambda>c. c \<noteq> CHR ''.'') ((u @ q) @ CHR ''.'' # ''aot'' @ v) = u @ q"
      by (rule before_dot)
    moreover have "takeWhile (\<lambda>c. c \<noteq> CHR ''.'') (pre @ CHR ''.'' # ''aot'' @ rest) = pre"
      using assms(1) by (rule before_dot)
    ultimately have "pre = u @ q" using uv by simp
    then show ?thesis by (simp add: py_endswith_def)
  next
    case True
    then obtain u1 u2 where u: "u = u1 @ CHR ''.'' # u2" "CHR ''.'' \<notin> set u1" by (metis split_list_first)
    have "pre = u1" using arg_cong [OF uv, of "takeWhile (\<lambda>c. c \<noteq> CHR ''.'')"] assms(1) u by (simp add: before_dot)
    with uv u have eq: "''aot'' @ rest = u2 @ q @ ''.aot'' @ v" by simp
    have "\<exists>l r. rest = l @ ''.aot'' @ r"
    proof (cases "3 \<le> length (u2 @ q)")
      case True
      have "rest = drop 3 (''aot'' @ rest)" by simp
      also have "\<dots> = drop 3 (u2 @ q) @ ''.aot'' @ v" using True unfolding eq by simp
      finally show ?thesis by blast
    next
      case False
      have "(''aot'' @ rest) ! length (u2 @ q) = CHR ''.''" unfolding eq by (simp add: nth_append)
      with False show ?thesis by (cases "u2 @ q" rule: list.exhaust) (auto simp: less_Suc_eq numeral_3_eq_3 nth_Cons split: nat.splits)
    qed
    with assms(3) show ?thesis by (simp add: py_contains_iff)
  qed
next
  assume "py_endswith (pre @ ''.aot'') (q @ ''.aot'')"
  then have "pre @ ''.aot'' = take (length (pre @ ''.aot'') - length (q @ ''.aot'')) (pre @ ''.aot'') @ q @ ''.aot''"
    unfolding py_endswith_def by (metis append_take_drop_id)
  then obtain u where "pre @ ''.aot'' = u @ q @ ''.aot''" by blast
  then have "pre @ ''.aot'' @ rest = u @ (q @ ''.aot'') @ rest" by (metis append.assoc)
  then show "py_contains (pre @ ''.aot'' @ rest) (q @ ''.aot'')" unfolding py_contains_iff by blast
qed


lemma endswith_append:
  "py_endswith (x @ a) p \<longleftrightarrow>
    (if length p \<le> length a then py_endswith a p
     else py_endswith x (take (length p - length a) p) \<and> drop (length p - length a) p = a)"
proof (cases "length p \<le> length a")
  case False
  then obtain p1 p2 where p: "p = p1 @ p2" "length p2 = length a"
    by (metis append_take_drop_id diff_diff_cancel length_drop nat_le_linear)
  then show ?thesis using False by (auto simp: py_endswith_def)
qed (auto simp: py_endswith_def)

lemma endswith_last: "py_endswith x p \<Longrightarrow> p \<noteq> [] \<Longrightarrow> last x = last p"
  by (metis drop_eq_Nil last_drop not_le py_endswith_def)

text \<open>So a label is in the list of its own variant and in no other.\<close>

definition stems :: "string list" where
  "stems = map (\<lambda>a. take (length a - 4) a) aot_variant_freq"

lemma freq_stems: "aot_variant_freq = map (\<lambda>q. q @ ''.aot'') stems"
  by (simp add: stems_def aot_variant_freq_def)

lemma stems_no_dot: "q \<in> set stems \<Longrightarrow> CHR ''.'' \<notin> set q"
  by (auto simp: stems_def aot_variant_freq_def)

definition plain_name :: "string \<Rightarrow> bool" where
  "plain_name x \<longleftrightarrow> x \<noteq> [] \<and> CHR ''.'' \<notin> set x \<and> last x \<notin> set ''148603oe''"

lemma variant_in:
  assumes "plain_name x" and "\<not> py_contains rest ''.aot''" and "a \<in> set aot_variant_freq" and "v \<in> set aot_variant_freq"
  shows "py_contains (x @ a @ rest) v \<longleftrightarrow> v = a \<or> v = ''.aot''"
proof -
  obtain qa qv where q: "a = qa @ ''.aot''" "v = qv @ ''.aot''" "qa \<in> set stems" "qv \<in> set stems"
    using assms(3,4) unfolding freq_stems by auto
  have "py_contains (x @ a @ rest) v \<longleftrightarrow> py_endswith (x @ a) v"
    using contains_variant [of "x @ qa" qv rest] assms(1,2) q stems_no_dot by (simp add: plain_name_def)
  also have "\<dots> \<longleftrightarrow> v = a \<or> v = ''.aot''"
  proof (cases "length v \<le> length a \<or> drop (length v - length a) v \<noteq> a")
    case True
    have "\<forall>a\<in>set aot_variant_freq. \<forall>v\<in>set aot_variant_freq. (length v \<le> length a \<or> drop (length v - length a) v \<noteq> a) \<longrightarrow>
      (if length v \<le> length a then py_endswith a v else False) = (v = a \<or> v = ''.aot'')"
      by code_simp
    with True assms(3,4) show ?thesis unfolding endswith_append by metis
  next
    case False
    have "\<forall>a\<in>set aot_variant_freq. \<forall>v\<in>set aot_variant_freq. length a < length v \<and> drop (length v - length a) v = a \<longrightarrow>
      v \<noteq> a \<and> v \<noteq> ''.aot'' \<and> take (length v - length a) v \<noteq> [] \<and> last (take (length v - length a) v) \<in> set ''148603oe''"
      by code_simp
    with False assms(1,3,4) show ?thesis using endswith_last [of x] unfolding endswith_append plain_name_def
      by (metis not_le)
  qed
  finally show ?thesis .
qed

lemma hits_variant:
  assumes "plain_name x" and "\<not> py_contains rest ''.aot''" and "n < 9"
  shows "hits counter_bin aot_variant_freq (x @ aot_variant_freq ! n @ rest) = [n]"
proof -
  define e where "e = x @ aot_variant_freq ! n @ rest"
  have "length aot_variant_freq = 9" by (simp add: aot_variant_freq_def)
  then have "aot_variant_freq ! n \<in> set aot_variant_freq" using assms(3) by simp
  then have "py_contains e v \<longleftrightarrow> v = aot_variant_freq ! n \<or> v = ''.aot''" if "v \<in> set aot_variant_freq" for v
    unfolding e_def using variant_in [OF assms(1,2)] that by blast
  then have "\<forall>v\<in>set aot_variant_freq. py_contains e v \<longleftrightarrow> v = aot_variant_freq ! n \<or> v = ''.aot''" by blast
  moreover have "n \<in> set [0..<9]" using assms(3) by simp
  then have "n = 0 \<or> n = 1 \<or> n = 2 \<or> n = 3 \<or> n = 4 \<or> n = 5 \<or> n = 6 \<or> n = 7 \<or> n = 8" using assms(3) by arith
  ultimately have "hits counter_bin aot_variant_freq e = [n]"
    by (elim disjE; simp add: aot_variant_freq_def hits_def counter_bin_def)
  then show ?thesis by (simp add: e_def)
qed

lemma exec_name_rest:
  "exec_name env (c @ a) arg = (env @ '' '' @ c) @ a @ (if arg = [] then [] else '' '' @ py_join '' '' arg)"
  by (cases arg) (simp_all add: exec_name_def)

definition counter_round :: "job list" where
  "counter_round = concat (map (\<lambda>i. map (\<lambda>a. (cmd_loop_counter ! i @ a, arg_loop_counter ! i, envs_loop_counter ! i))
     aot_variant_freq) [0..<length cmd_loop_counter])"

lemma counter_jobs_rounds: "counter_jobs = concat (replicate trial counter_round)"
  by (simp add: counter_jobs_def variant_jobs_def counter_round_def)

lemma counter_names:
  "\<forall>i\<in>set [0..<17]. plain_name (envs_loop_counter ! i @ '' '' @ cmd_loop_counter ! i) \<and>
     \<not> py_contains (if arg_loop_counter ! i = [] then [] else '' '' @ py_join '' '' (arg_loop_counter ! i)) ''.aot''"
  by code_simp

lemma hits_job:
  assumes "i < 17" and "n < 9"
  shows "hits counter_bin aot_variant_freq
    (job_label (cmd_loop_counter ! i @ aot_variant_freq ! n, arg_loop_counter ! i, envs_loop_counter ! i)) = [n]"
  unfolding job_label_def prod.case exec_name_rest
  using counter_names assms by (intro hits_variant) auto

lemma lengths_loop_counter: "length cmd_loop_counter = 17" "length aot_variant_freq = 9"
  by (simp_all add: cmd_loop_counter_def aot_variant_freq_def)

lemma concat_const: "concat (map (\<lambda>i. ys) xs) = concat (replicate (length xs) ys)"
  by (induction xs) simp_all

lemma map_concat_replicate: "map f (concat (replicate m xs)) = concat (replicate m (map f xs))"
  by (induction m) simp_all

lemma counter_round_hits:
  "map (hits counter_bin aot_variant_freq) (map job_label counter_round) =
   map (\<lambda>b. [b]) (concat (replicate 17 [0..<9]))"
proof -
  let ?job = "\<lambda>i a. (cmd_loop_counter ! i @ a, arg_loop_counter ! i, envs_loop_counter ! i)"
  have row: "map (\<lambda>a. hits counter_bin aot_variant_freq (job_label (?job i a))) aot_variant_freq = map (\<lambda>b. [b]) [0..<9]"
    if "i < 17" for i
    using hits_job [OF that] lengths_loop_counter by (intro nth_equalityI) simp_all
  have "map (hits counter_bin aot_variant_freq) (map job_label counter_round) =
      concat (map (\<lambda>i. map (\<lambda>a. hits counter_bin aot_variant_freq (job_label (?job i a))) aot_variant_freq) [0..<17])"
    by (simp add: counter_round_def map_concat lengths_loop_counter o_def)
  also have "\<dots> = concat (map (\<lambda>i. map (\<lambda>b. [b]) [0..<9]) [0..<17])"
    using row by (intro arg_cong [where f = concat] map_cong) auto
  also have "\<dots> = map (\<lambda>b. [b]) (concat (replicate 17 [0..<9]))"
    by (simp only: concat_const map_concat_replicate length_upt diff_zero)
  finally show ?thesis .
qed

lemma concat_replicate_mult: "concat (replicate m (concat (replicate k xs))) = concat (replicate (m * k) xs)"
  by (induction m) (simp_all add: replicate_add)

lemma counter_jobs_hits:
  "map (hits counter_bin aot_variant_freq) (map job_label counter_jobs) =
   map (\<lambda>b. [b]) (concat (replicate 34 [0..<9]))"
proof -
  have "map (hits counter_bin aot_variant_freq) (map job_label counter_jobs) =
      concat (replicate trial (map (\<lambda>b. [b]) (concat (replicate 17 [0..<9]))))"
    by (simp only: counter_jobs_rounds map_concat_replicate counter_round_hits)
  also have "\<dots> = map (\<lambda>b. [b]) (concat (replicate trial (concat (replicate 17 [0..<9]))))"
    by (simp only: map_concat_replicate)
  finally show ?thesis by (simp only: concat_replicate_mult) (simp add: trial_def)
qed

lemma length_counter_jobs: "length counter_jobs = 9 * 34"
  using arg_cong [OF counter_jobs_hits, of length] by (simp add: length_concat sum_list_replicate)

lemma nth_concat_equal:
  "\<forall>xs\<in>set xss. length xs = w \<Longrightarrow> r < length xss \<Longrightarrow> n < w \<Longrightarrow> concat xss ! (w * r + n) = xss ! r ! n"
proof (induction xss arbitrary: r)
  case (Cons xs xss)
  show ?case
  proof (cases r)
    case (Suc q)
    with Cons.prems have "concat xss ! (w * q + n) = xss ! q ! n" by (intro Cons.IH) auto
    then show ?thesis using Suc Cons.prems(1) by (simp add: nth_append algebra_simps)
  qed (use Cons.prems in \<open>simp add: nth_append\<close>)
qed simp

text \<open>The \<open>n\<close>-th job of the \<open>r\<close>-th workload.\<close>

lemma counter_jobs_nth:
  assumes "r < 34" and "n < 9"
  shows "counter_jobs ! (9 * r + n) =
    (cmd_loop_counter ! (r mod 17) @ aot_variant_freq ! n, arg_loop_counter ! (r mod 17), envs_loop_counter ! (r mod 17))"
proof -
  let ?row = "\<lambda>i. map (\<lambda>a. (cmd_loop_counter ! i @ a, arg_loop_counter ! i, envs_loop_counter ! i)) aot_variant_freq"
  let ?xss = "map ?row [0..<17] @ map ?row [0..<17]"
  have "counter_jobs = concat ?xss"
    by (simp add: counter_jobs_rounds counter_round_def trial_def lengths_loop_counter numeral_2_eq_2 del: upt_rec_numeral)
  then have "counter_jobs ! (9 * r + n) = ?xss ! r ! n"
    using assms nth_concat_equal [of ?xss 9 r n] by (auto simp: lengths_loop_counter simp del: upt_rec_numeral)
  also have "?xss ! r = ?row (r mod 17)"
    using assms(1) by (auto simp: nth_append mod_if simp del: upt_rec_numeral)
  finally show ?thesis using assms(2) by (simp add: lengths_loop_counter)
qed

section \<open>The rows\<close>

text \<open>When every output has a line with the key, the time noted for it is its own.\<close>

definition has_time :: "string \<Rightarrow> string \<Rightarrow> bool" where
  "has_time key s \<longleftrightarrow> list_ex (\<lambda>line. py_contains line key) (py_split_on newline s)"

lemma run_times_own: "list_all (has_time key) ss \<Longrightarrow> run_times key ss t = map (\<lambda>s. last_time key s []) ss"
proof (induction ss arbitrary: t)
  case (Cons s ss)
  then have "filter (\<lambda>line. py_contains line key) (py_split_on newline s) \<noteq> []"
    by (auto simp: has_time_def list_ex_iff filter_empty_conv)
  then have "last_time key s t = last_time key s []" by (simp add: last_time_def split: list.split)
  with Cons show ?case by (simp add: Let_def)
qed simp

definition counter_rows :: "string \<Rightarrow> string list \<Rightarrow> string list list" where
  "counter_rows key ss =
     map (\<lambda>r. job_label (counter_jobs ! (9 * r + 7)) # map (\<lambda>n. last_time key (ss ! (9 * r + n)) []) [0..<9]) [0..<34]"

lemma sort_counter_outputs:
  assumes "CHR '' '' \<in> set key" and "length ss = 9 * 34" and "list_all (has_time key) ss"
  shows "rbind (sort_outputs key counter_bin 7 aot_variant_freq (zip (map job_label counter_jobs) (map PStr ss)) []
      ([], replicate (length aot_variant_freq) [])) (\<lambda>st. Inr (zip_bins st)) = Inr (counter_rows key ss)"
proof -
  let ?bs = "concat (replicate 34 [0..<9])" and ?labels = "map job_label counter_jobs"
  have "sort_outputs key counter_bin 7 aot_variant_freq (zip ?labels (map PStr ss)) [] ([], replicate 9 []) =
      Inr ([] @ bin_column ?bs ?labels 7, map (\<lambda>n. replicate 9 [] ! n @ bin_column ?bs (run_times key ss []) n) [0..<9])"
    using counter_jobs_hits assms length_counter_jobs by (intro sort_outputs_columns) auto
  moreover have "bin_column ?bs ?labels 7 = map (\<lambda>r. ?labels ! (9 * r + 7)) [0..<34]"
    by (rule bin_column_rounds) (simp_all add: length_counter_jobs)
  moreover have "replicate 9 [] ! n @ bin_column ?bs (run_times key ss []) n =
      map (\<lambda>r. last_time key (ss ! (9 * r + n)) []) [0..<34]" if "n < 9" for n
  proof -
    have "bin_column ?bs (run_times key ss []) n = map (\<lambda>r. run_times key ss [] ! (9 * r + n)) [0..<34]"
      by (rule bin_column_rounds) (use assms(2) that in simp_all)
    also have "\<dots> = map (\<lambda>r. last_time key (ss ! (9 * r + n)) []) [0..<34]"
      unfolding run_times_own [OF assms(3)] using assms(2) that by (intro map_cong) auto
    finally show ?thesis using that by simp
  qed
  then have "map (\<lambda>n. replicate 9 [] ! n @ bin_column ?bs (run_times key ss []) n) [0..<9] =
      map (\<lambda>n. map (\<lambda>r. last_time key (ss ! (9 * r + n)) []) [0..<34]) [0..<9]"
    by (intro map_cong) auto
  ultimately have "sort_outputs key counter_bin 7 aot_variant_freq (zip ?labels (map PStr ss)) [] ([], replicate 9 []) =
      Inr (map (\<lambda>r. ?labels ! (9 * r + 7)) [0..<34],
        map (\<lambda>n. map (\<lambda>r. last_time key (ss ! (9 * r + n)) []) [0..<34]) [0..<9])"
    by (simp only: append_Nil)
  moreover have "zip_bins (map (\<lambda>r. ?labels ! (9 * r + 7)) [0..<34],
      map (\<lambda>n. map (\<lambda>r. last_time key (ss ! (9 * r + n)) []) [0..<34]) [0..<9]) = counter_rows key ss"
    by (subst zip_bins_equal [where m = 34]) (auto simp: counter_rows_def length_counter_jobs simp del: upt_rec_numeral)
  ultimately show ?thesis by (simp add: lengths_loop_counter del: upt_rec_numeral)
qed

end
