(* ===== verification/Restore.thy ===== *)
theory Restore
  imports RunCommands
begin

text \<open>
  The functions of \<^verbatim>\<open>src/artifact/common_util.py\<close> that start a process, watch it, and stop it
  after 20 seconds: \<^verbatim>\<open>run_restore\<close> and the two for CRIU, with the functions that combine a
  checkpoint and a restore. The watching loop is the same in the three; it is \<open>poll_loop\<close>,
  with fuel, and \<open>poll_loop_fuel\<close> shows that 235 rounds are enough when the clock is
  steady. Text is decoded as UTF-8, the encoding of the locale the scripts are run in.
\<close>

section \<open>Watching a process\<close>

text \<open>\<^verbatim>\<open>terminate\<close>, one second of grace, \<^verbatim>\<open>kill\<close>.\<close>

definition stop_process :: "unit io" where
  "stop_process =
     io_bind (io_do Terminate) (\<lambda>_.
     io_bind (proc_wait 1) (\<lambda>ended. if ended then io_return () else io_seq [Kill, Wait]))"

fun poll_loop :: "nat \<Rightarrow> rat \<Rightarrow> unit io" where
  "poll_loop 0 start_time = io_raise OutOfFuel"
| "poll_loop (Suc n) start_time =
     io_bind proc_poll (\<lambda>ended.
       if ended then io_return ()
       else io_bind clock_time (\<lambda>now.
         if fl64 (now - start_time) > 20 then stop_process
         else io_bind (io_do (Sleep (1 / 10))) (\<lambda>_. poll_loop n start_time)))"

text \<open>\<^verbatim>\<open>proc.communicate()\<close> of a process opened with \<^verbatim>\<open>text=True\<close>.\<close>

definition communicate_text :: "(string \<times> string) io" where
  "communicate_text =
     io_bind proc_communicate (\<lambda>(out, err).
     io_bind (io_lift (text_mode out)) (\<lambda>stdout.
     io_bind (io_lift (text_mode err)) (\<lambda>stderr. io_return (stdout, stderr))))"

definition run_restore :: "nat \<Rightarrow> string \<Rightarrow> string list \<Rightarrow> string \<Rightarrow> (string \<times> string) io" where
  "run_restore fuel aot_file arg env =
     (let cmd = ''./MVVM_restore -t ./bench/'' @ aot_file in
      io_bind (io_do (Print cmd)) (\<lambda>_.
      io_bind (subprocess_popen (py_split cmd) None) (\<lambda>_.
      io_bind clock_time (\<lambda>start_time.
      io_bind (poll_loop fuel start_time) (\<lambda>_.
      io_bind communicate_text (\<lambda>(output, stderr).
      io_return (exec_name env aot_file arg, output)))))))"

text \<open>The pairs of the rounds: the label of the last and the outputs of all.\<close>

definition combine :: "(string \<times> 'a) list \<Rightarrow> (string \<times> 'a list) io" where
  "combine rs = (if rs = [] then io_raise UnboundLocalError else io_return (fst (last rs), map snd rs))"

definition run_checkpoint_restore :: "nat \<Rightarrow> string \<Rightarrow> string list \<Rightarrow> string \<Rightarrow> (string \<times> string list) io" where
  "run_checkpoint_restore fuel aot_file arg env =
     io_bind (io_for (\<lambda>_.
       io_bind (run_checkpoint aot_file arg env) (\<lambda>checkpoint_result.
       io_bind (run_restore fuel aot_file arg env) (\<lambda>restore_result.
       io_return (fst checkpoint_result, snd checkpoint_result @ snd restore_result)))) [0..<trial]) combine"

section \<open>CRIU and QEMU\<close>

definition run_criu_checkpoint :: "nat \<Rightarrow> string \<Rightarrow> string \<Rightarrow> string list \<Rightarrow> string \<Rightarrow> (string \<times> string) io" where
  "run_criu_checkpoint fuel aot_file folder arg env =
     (let file_name = py_replace aot_file ''.aot'' [];
          cmd = pwd @ ''/bench/'' @ folder @ ''/build/'' @ file_name @ '' '' @ py_join '' '' arg in
      io_bind (io_lift (env_dict env)) (\<lambda>env_arg.
      io_bind (io_do (Print cmd)) (\<lambda>_.
      io_bind (run_subprocess (py_split cmd) env_arg) (\<lambda>pid.
      io_bind (io_seq [Sleep 1, System (''mkdir -p /tmp/'' @ file_name @ env)]) (\<lambda>_.
      (let criu_cmd = ''/usr/sbin/criu dump -t '' @ str_int pid @ '' -D /tmp/'' @ file_name @ env @ '' --shell-job -v'' in
      io_bind (subprocess_popen (py_split criu_cmd) (Some env_arg)) (\<lambda>_.
      io_bind clock_time (\<lambda>start_time.
      io_bind (poll_loop fuel start_time) (\<lambda>_.
      io_bind communicate_text (\<lambda>(stdout, output).
      io_return (exec_name env aot_file arg, output)))))))))))"

definition run_criu_restore :: "nat \<Rightarrow> string \<Rightarrow> string list \<Rightarrow> string \<Rightarrow> (string \<times> string) io" where
  "run_criu_restore fuel aot_file arg env =
     (let file_name = py_replace aot_file ''.aot'' [];
          cmd = ''/usr/sbin/criu restore -D /tmp/'' @ file_name @ env @ '' --shell-job -v'' in
      io_bind (io_do (Print cmd)) (\<lambda>_.
      io_bind (io_lift (env_dict env)) (\<lambda>env_arg.
      io_bind (subprocess_popen (py_split cmd) (Some env_arg)) (\<lambda>_.
      io_bind clock_time (\<lambda>start_time.
      io_bind (poll_loop fuel start_time) (\<lambda>_.
      io_bind communicate_text (\<lambda>(stdout, output).
      io_return (exec_name env aot_file arg, output))))))))"

definition run_criu_checkpoint_restore ::
  "nat \<Rightarrow> string \<Rightarrow> string \<Rightarrow> string list \<Rightarrow> string \<Rightarrow> (string \<times> string list) io" where
  "run_criu_checkpoint_restore fuel aot_file folder arg env =
     io_bind (io_for (\<lambda>_.
       io_bind (run_criu_checkpoint fuel aot_file folder arg env) (\<lambda>checkpoint_result.
       io_bind (run_criu_restore fuel aot_file arg env) (\<lambda>restore_result.
       io_return (fst checkpoint_result, snd checkpoint_result @ snd restore_result)))) [0..<trial]) combine"

definition run_qemu_checkpoint :: "string \<Rightarrow> string \<Rightarrow> string list \<Rightarrow> string \<Rightarrow> (string \<times> py_text) io" where
  "run_qemu_checkpoint aot_file folder arg env =
     (let file_name = py_replace aot_file ''.aot'' [];
          cmd = ''../artifact/prepare_checkpoint.sh env '' @ env @ '' '' @ pwd @ ''/bench/'' @ folder @ ''/build/'' @
                file_name @ '' '' @ py_join '' '' arg in
      io_bind (io_do (Print cmd)) (\<lambda>_.
      io_bind (io_lift (env_dict env)) (\<lambda>env_arg.
      io_bind (subprocess_popen (py_split cmd) (Some env_arg)) (\<lambda>_.
      io_bind proc_communicate (\<lambda>(stdout, stderr).
      io_bind (io_lift (decode_or_bytes stdout)) (\<lambda>output.
      io_return (exec_name env aot_file arg, output)))))))"

definition run_qemu_checkpoint_restore ::
  "string \<Rightarrow> string \<Rightarrow> string list \<Rightarrow> string \<Rightarrow> (string \<times> py_text list) io" where
  "run_qemu_checkpoint_restore aot_file folder arg env =
     io_bind (io_for (\<lambda>_.
       io_bind (io_seq [System ''nohup ../artifact/qemu_migrate_client.sh &'',
                        System ''nohup ../artifact/qemu_migrate_server.sh &'', Sleep 20]) (\<lambda>_.
       io_bind (run_qemu_checkpoint aot_file folder arg env) (\<lambda>checkpoint_result.
       io_bind (io_do (System ''pkill -f qemu-system-x86_64'')) (\<lambda>_.
       io_return checkpoint_result)))) [0..<trial]) combine"

section \<open>The watching loop ends\<close>

text \<open>
  The clock never goes back, and a sleep takes its time up to a tenth (the resolution of the
  clock and of its floats).
\<close>

definition steady_clock :: "world \<Rightarrow> bool" where
  "steady_clock w \<longleftrightarrow> (\<forall>t e. w_clock w t \<le> w_clock w (t @ [e])) \<and>
     (\<forall>t s. 0 \<le> s \<longrightarrow> w_clock w t + 9 / 10 * s \<le> w_clock w (t @ [Sleep s]))"

definition round_events :: "sys_event list" where
  "round_events = [Poll, Clock, Sleep (1 / 10)]"

lemma poll_round:
  "poll_loop (Suc n) start w t =
    (if w_ended w (t @ [Poll]) then (Inr (), t @ [Poll])
     else if fl64 (w_clock w (t @ [Poll, Clock]) - start) > 20 then stop_process w (t @ [Poll, Clock])
     else poll_loop n start w (t @ round_events))"
  by (simp add: io_bind_def io_return_def proc_poll_def clock_time_def io_do_def round_events_def)

declare poll_loop.simps(2) [simp del]

lemma stop_process_eq:
  "stop_process w t =
    (if w_ended w (t @ [Terminate, WaitFor 1]) then (Inr (), t @ [Terminate, WaitFor 1])
     else (Inr (), t @ [Terminate, WaitFor 1, Kill, Wait]))"
  by (simp add: stop_process_def io_bind_def io_return_def io_do_def proc_wait_def io_seq_def)

lemma fl64_over: "21 \<le> x \<Longrightarrow> 20 < fl64 x"
proof -
  assume x: "21 \<le> x"
  have "pow2 (- 1022) \<le> pow2 0" by (rule pow2_mono) simp
  with x have "pow2 (- 1022) \<le> x" by simp
  then have "x * (1 - pow2 (- 53)) \<le> fl64 x" by (rule fl64.fl_lower)
  moreover have "21 * (1 - pow2 (- 53)) \<le> x * (1 - pow2 (- 53))"
    using x by (intro mult_right_mono) (simp_all add: pow2_def)
  moreover have "20 < 21 * (1 - pow2 (- 53))" by (simp add: pow2_def)
  ultimately show ?thesis by linarith
qed

text \<open>
  The loop as a whole: some rounds, in each of which the process was found running and the
  time limit not reached, and one of three endings.
\<close>

definition ending :: "world \<Rightarrow> rat \<Rightarrow> trace \<Rightarrow> sys_event list \<Rightarrow> bool" where
  "ending w start t es \<longleftrightarrow>
     (es = [Poll] \<and> w_ended w (t @ [Poll])) \<or>
     (\<not> w_ended w (t @ [Poll]) \<and> 20 < fl64 (w_clock w (t @ [Poll, Clock]) - start) \<and>
      (if w_ended w (t @ [Poll, Clock, Terminate, WaitFor 1])
       then es = [Poll, Clock, Terminate, WaitFor 1]
       else es = [Poll, Clock, Terminate, WaitFor 1, Kill, Wait]))"

lemma poll_loop_result:
  "poll_loop n start w t = (r, t') \<Longrightarrow> r \<noteq> Inl OutOfFuel \<Longrightarrow>
   r = Inr () \<and> (\<exists>k es. k < n \<and> t' = t @ concat (replicate k round_events) @ es \<and>
     ending w start (t @ concat (replicate k round_events)) es)"
proof (induction n arbitrary: t)
  case 0
  then show ?case by (simp add: io_raise_def)
next
  case (Suc n)
  show ?case
  proof (cases "w_ended w (t @ [Poll])")
    case True
    with Suc.prems(1) have "r = Inr ()" "t' = t @ [Poll]" by (simp_all add: poll_round)
    with True show ?thesis by (intro conjI exI [of _ "0::nat"] exI [of _ "[Poll]"]) (simp_all add: ending_def)
  next
    case run: False
    show ?thesis
    proof (cases "fl64 (w_clock w (t @ [Poll, Clock]) - start) > 20")
      case True
      with run Suc.prems(1) show ?thesis
        by (intro conjI exI [of _ "0::nat"] exI [of _ "drop (length t) t'"])
           (auto simp: poll_round stop_process_eq ending_def split: if_splits)
    next
      case False
      with run Suc.prems(1) have "poll_loop n start w (t @ round_events) = (r, t')" by (simp add: poll_round)
      from Suc.IH [OF this Suc.prems(2)] obtain k es where "r = Inr ()" "k < n"
        "t' = t @ round_events @ concat (replicate k round_events) @ es"
        "ending w start (t @ round_events @ concat (replicate k round_events)) es" by auto
      then show ?thesis by (intro conjI exI [of _ "Suc k"] exI [of _ es]) simp_all
    qed
  qed
qed

lemma poll_loop_steady:
  assumes "steady_clock w"
  shows "start + 21 \<le> w_clock w t + 9 / 100 * of_nat n \<Longrightarrow> fst (poll_loop (Suc n) start w t) \<noteq> Inl OutOfFuel"
proof (induction n arbitrary: t)
  case 0
  have "w_clock w t \<le> w_clock w (t @ [Poll])" "w_clock w (t @ [Poll]) \<le> w_clock w (t @ [Poll, Clock])"
    using assms unfolding steady_clock_def by (blast, metis append_Cons append_Nil append_assoc)
  with 0 have "20 < fl64 (w_clock w (t @ [Poll, Clock]) - start)" by (intro fl64_over) simp
  then show ?case by (simp add: poll_round stop_process_eq)
next
  case (Suc n)
  have "w_clock w t \<le> w_clock w (t @ [Poll])" "w_clock w (t @ [Poll]) \<le> w_clock w (t @ [Poll, Clock])"
    using assms unfolding steady_clock_def by (blast, metis append_Cons append_Nil append_assoc)
  moreover have "0 \<le> s \<Longrightarrow> w_clock w u + 9 / 10 * s \<le> w_clock w (u @ [Sleep s])" for s u
    using assms unfolding steady_clock_def by blast
  from this [of "1 / 10" "t @ [Poll, Clock]"]
  have "w_clock w (t @ [Poll, Clock]) + 9 / 100 \<le> w_clock w (t @ round_events)"
    by (simp add: round_events_def)
  ultimately have "start + 21 \<le> w_clock w (t @ round_events) + 9 / 100 * of_nat n"
    using Suc.prems by (simp add: algebra_simps add_divide_distrib)
  from Suc.IH [OF this] show ?case
    by (simp add: poll_round [of "Suc n"] stop_process_eq)
qed

lemma poll_loop_fuel:
  assumes "steady_clock w" and "235 \<le> n"
  shows "fst (poll_loop n (w_clock w t) w t) \<noteq> Inl OutOfFuel"
proof -
  obtain m where m: "n = Suc m" using assms(2) by (cases n) auto
  then have "234 \<le> m" using assms(2) by simp
  then have "(234::rat) \<le> of_nat m" by (metis of_nat_le_iff of_nat_numeral)
  then show ?thesis using poll_loop_steady [OF assms(1), of "w_clock w t" t m] m by simp
qed

text \<open>More fuel changes nothing once the loop ends.\<close>

lemma poll_loop_more:
  "fst (poll_loop n start w t) \<noteq> Inl OutOfFuel \<Longrightarrow> poll_loop (n + m) start w t = poll_loop n start w t"
proof (induction n arbitrary: t)
  case 0
  then show ?case by (simp add: io_raise_def)
next
  case (Suc n)
  then show ?case by (auto simp: poll_round split: if_splits)
qed

lemma poll_loop_ends:
  assumes "steady_clock w" and "235 \<le> n"
  shows "\<exists>k es. k < 235 \<and> poll_loop n (w_clock w t) w t = (Inr (), t @ concat (replicate k round_events) @ es) \<and>
    ending w (w_clock w t) (t @ concat (replicate k round_events)) es"
proof -
  obtain m where "n = 235 + m" using assms(2) le_Suc_ex by blast
  then have eq: "poll_loop n (w_clock w t) w t = poll_loop 235 (w_clock w t) w t"
    using poll_loop_more [of 235 "w_clock w t" w t m] poll_loop_fuel [OF assms(1), of 235] by simp
  obtain r t' where p: "poll_loop 235 (w_clock w t) w t = (r, t')" by (cases "poll_loop 235 (w_clock w t) w t")
  then have "r \<noteq> Inl OutOfFuel" using poll_loop_fuel [OF assms(1), of 235 t] by auto
  from poll_loop_result [OF p this] eq p show ?thesis by auto
qed

text \<open>The time in which a process is watched, for the trace that ends with the reading of the clock.\<close>

lemma run_restore_run:
  "run_restore fuel aot_file arg env w t =
    (let cmd = ''./MVVM_restore -t ./bench/'' @ aot_file; t1 = t @ [Print cmd, Popen (py_split cmd) None]; t2 = t1 @ [Clock] in
     if \<not> w_started w t1 then (Inl FileNotFoundError, t1)
     else case poll_loop fuel (w_clock w t2) w t2 of
         (Inl e, t3) \<Rightarrow> (Inl e, t3)
       | (Inr _, t3) \<Rightarrow>
           (rbind (text_mode (fst (w_streams w (t3 @ [Communicate])))) (\<lambda>out.
            rbind (text_mode (snd (w_streams w (t3 @ [Communicate])))) (\<lambda>err. Inr (exec_name env aot_file arg, out))),
            t3 @ [Communicate]))"
  by (auto simp: run_restore_def io_bind_def io_do_def io_return_def io_lift_def subprocess_popen_def clock_time_def
      communicate_text_def proc_communicate_def rbind_def Let_def split: prod.split sum.split)

end
