(* ===== verification/RemoteRuns.thy ===== *)
theory RemoteRuns
  imports RunCommands
begin

text \<open>
  The functions of \<^verbatim>\<open>src/artifact/common_util.py\<close> that migrate a running process between two
  machines: each is a fixed sequence of shell commands with sleeps, after which the log files
  are read. The model is that sequence, as events, with the result.
\<close>

section \<open>Overhead of a migration\<close>

text \<open>\<^verbatim>\<open>cat\<close> of the logs at the end of a run, and the label.\<close>

definition collect_logs :: "string \<Rightarrow> string \<Rightarrow> string list \<Rightarrow> string \<Rightarrow> (string \<times> py_text) io" where
  "collect_logs cmd aot_file arg env =
     io_bind (subprocess_run (py_split cmd) None) (\<lambda>(stdout, stderr).
     io_bind (io_lift (decode_or_bytes stdout)) (\<lambda>output.
     io_return (exec_name env aot_file arg, output)))"

definition log_file :: "string \<Rightarrow> nat \<Rightarrow> string" where
  "log_file aot_file i = ''./bench/'' @ aot_file @ str_int (int i) @ ''.log''"

definition run_checkpoint_restore_burst_overhead ::
  "string \<Rightarrow> string list \<Rightarrow> string \<Rightarrow> string \<Rightarrow> string \<Rightarrow> (string \<times> py_text) list io" where
  "run_checkpoint_restore_burst_overhead aot_file arg env extra1 extra2 =
     io_for (\<lambda>i.
       (let restore = ''script -f -q /dev/null -c 'ssh -t '' @ burst @ '' ./MVVM_restore -t ./bench/'' @ aot_file @ '' '' @
              extra2 @ ''' &'';
            checkpoint = ''./MVVM_checkpoint -t ./bench/'' @ aot_file @ '' '' @ dash_args arg @ '' -e '' @ env @ '' '' @
              extra1 @ '' > '' @ log_file aot_file i @ '' &''
        in io_bind (io_seq
             [System restore, Print restore, System ''sleep 40'',
              System checkpoint, Print checkpoint, System ''sleep 20'',
              System ''pkill -SIGINT -f MVVM_checkpoint'',
              System ''sleep 60'',
              System (''ssh '' @ burst @ '' pkill -f MVVM_restore'')]) (\<lambda>_.
           collect_logs (''cat '' @ log_file aot_file i) aot_file arg env))) [0..<trial]"

text \<open>Here the command that runs appends to the log (\<open>>>\<close>) and the printed one does not.\<close>

definition run_checkpoint_restore_slowtier_overhead ::
  "string \<Rightarrow> string list \<Rightarrow> string \<Rightarrow> string \<Rightarrow> string \<Rightarrow> (string \<times> py_text) list io" where
  "run_checkpoint_restore_slowtier_overhead aot_file arg env extra1 extra2 =
     io_for (\<lambda>i.
       (let restore = ''ssh -t '' @ slowtier @ '' '' @ pwd @ ''/build/MVVM_restore -t '' @ pwd @ ''/build/bench/'' @ aot_file @
              '' '' @ extra2 @ '' &'';
            checkpoint = ''./MVVM_checkpoint -t ./bench/'' @ aot_file @ '' '' @ dash_args arg @ '' -e '' @ env @ '' '' @ extra1
        in io_bind (io_seq
             [System restore, Print restore, System ''sleep 15'',
              System (checkpoint @ '' >> '' @ log_file aot_file i @ '' &''),
              Print (checkpoint @ '' > '' @ log_file aot_file i @ '' &''),
              System ''sleep 10'',
              System ''pkill -SIGINT -f MVVM_checkpoint'',
              System (''ssh '' @ slowtier @ '' pkill -f MVVM_restore''),
              System ''sleep 5'']) (\<lambda>_.
           collect_logs (''cat '' @ log_file aot_file i) aot_file arg env))) [0..<trial]"

section \<open>Migration to the slow tier\<close>

definition run_checkpoint_restore_slowtier ::
  "string \<Rightarrow> string list \<Rightarrow> string \<Rightarrow> string list \<Rightarrow> string \<Rightarrow> string \<Rightarrow> string \<Rightarrow> string \<Rightarrow>
     (string \<times> py_text) list io" where
  "run_checkpoint_restore_slowtier aot_file arg aot_file1 arg1 env extra1 extra2 extra3 =
     io_bind (io_seq
       [System ''rm ./*.out'',
        System (''ssh -t '' @ slowtier @ '' rm '' @ pwd @ ''/build/*.out''),
        System (''script -q /dev/null -c 'ssh -t '' @ slowtier @ '' '' @ pwd @ ''/build/MVVM_restore -t '' @ pwd @
          ''/build/bench/'' @ aot_file1 @ '' '' @ extra2 @ ''' >> MVVM_restore.1.out &''),
        System (''ssh -t '' @ slowtier @ '' '' @ pwd @ ''/artifact/run_with_cpu_monitoring_nocommand.sh MVVM_restore &''),
        System (''script -q /dev/null -c './MVVM_restore -t ./bench/'' @ aot_file1 @ '' '' @ extra3 @ ''' >> MVVM_restore.out &''),
        System ''../artifact/run_with_cpu_monitoring_nocommand.sh MVVM_restore &'',
        System ''sleep 15'',
        System (''../artifact/run_with_cpu_monitoring.sh ./MVVM_checkpoint -t ./bench/'' @ aot_file1 @ '' '' @ dash_args arg1 @
          '' -e '' @ env @ '' '' @ extra1 @ '' &''),
        System ''sleep 10'',
        System ''pkill -SIGINT -f MVVM_checkpoint'',
        System ''mv MVVM_checkpoint.out MVVM_checkpoint.1.out'',
        System ''mv MVVM_checkpoint.ps.out MVVM_checkpoint.ps.1.out'',
        System (''../artifact/run_with_cpu_monitoring.sh ./MVVM_checkpoint -t ./bench/'' @ aot_file @ '' '' @ dash_args arg @
          '' -e '' @ env),
        System (''ssh -t '' @ slowtier @ '' pkill -SIGINT -f MVVM_restore''),
        System ''sleep 100'',
        System (''scp -r '' @ slowtier @ '':'' @ pwd @ ''/build/MVVM_restore.ps.out ./MVVM_restore.ps.1.out'')]) (\<lambda>_.
     io_bind (collect_logs ''cat ./MVVM_checkpoint.out ./MVVM_checkpoint.1.out ./MVVM_restore.1.out ./MVVM_restore.out''
       aot_file arg env) (\<lambda>r. io_return [r]))"

section \<open>Migration for a burst\<close>

definition exec_with_log :: "string \<Rightarrow> unit io" where
  "exec_with_log cmd = io_seq [Print cmd, System cmd]"

definition exec_all :: "string list \<Rightarrow> unit io" where
  "exec_all cmds = io_bind (io_for exec_with_log cmds) (\<lambda>_. io_return ())"

definition burst_restore :: "string \<Rightarrow> string \<Rightarrow> string \<Rightarrow> string" where
  "burst_restore aot extra n = ''script -f -q /dev/null -c 'ssh -t '' @ burst @ '' ./MVVM_restore -t ./bench/'' @ aot @ '' '' @
     extra @ ''' >> MVVM_restore.'' @ n @ ''.out &''"

definition local_restore :: "string \<Rightarrow> string \<Rightarrow> string \<Rightarrow> string" where
  "local_restore aot extra n = ''script -f -q /dev/null -c './MVVM_restore -t ./bench/'' @ aot @ '' '' @
     extra @ ''' >> MVVM_restore.'' @ n @ ''.out &''"

definition burst_energy :: "string \<Rightarrow> string \<Rightarrow> string" where
  "burst_energy what aot = ''ssh -t '' @ burst @ '' '' @ pwd_mac @ ''/artifact/run_with_energy_monitoring_mac.sh '' @ what @ '' '' @ aot @ '' &''"

definition local_energy :: "string \<Rightarrow> string \<Rightarrow> string" where
  "local_energy what aot = ''sudo ../artifact/run_with_energy_monitoring.sh '' @ what @ '' '' @ aot @ '' &''"

text \<open>The extra options of a command line.\<close>

type_synonym options = string

text \<open>
  The name \<^verbatim>\<open>sleep\<close> is not defined in the module, which imports \<^verbatim>\<open>time\<close>: the call after the
  first \<^verbatim>\<open>pkill -SIGINT MVVM_checkpoint\<close> raises \<^verbatim>\<open>NameError\<close>.
\<close>

definition run_checkpoint_restore_burst ::
  "string \<Rightarrow> string list \<Rightarrow> string \<Rightarrow> string list \<Rightarrow> string \<Rightarrow> options \<Rightarrow> options \<Rightarrow> options \<Rightarrow> options \<Rightarrow> options \<Rightarrow>
   options \<Rightarrow> options \<Rightarrow> options \<Rightarrow> options \<Rightarrow> (string \<times> py_text) list io" where
  "run_checkpoint_restore_burst aot_file arg aot_file1 arg1 env
       extra1 extra2 extra3 extra4 extra5 extra6 extra7 extra8 extra9 =
     io_bind (exec_all
       [''rm ./*.out'', ''sudo pkill MVVM_checkpoint'', ''sudo pkill MVVM_restore'',
        ''ssh -t '' @ burst @ '' pkill MVVM_checkpoint'',
        ''ssh -t '' @ burst @ '' pkill MVVM_restore'',
        ''ssh -t '' @ burst @ '' rm '' @ pwd_mac @ ''/build/*.out'',
        burst_restore aot_file1 extra2 ''0'', burst_energy ''MVVM_restore 0'' aot_file,
        local_restore aot_file1 extra3 ''1'', local_energy ''MVVM_restore 1'' aot_file,
        local_restore aot_file extra7 ''4'', local_energy ''MVVM_restore 4'' aot_file1,
        ''sleep 100'',
        ''./MVVM_checkpoint -t ./bench/'' @ aot_file1 @ '' '' @ dash_args arg1 @ '' -e '' @ env @ '' '' @ extra1 @
          '' > MVVM_checkpoint.0.out &'',
        local_energy ''MVVM_checkpoint 0'' aot_file,
        ''sleep 640'',
        ''script -f -q /dev/null -c 'ssh -t '' @ burst @ ''  ./MVVM_checkpoint -t ./bench/'' @ aot_file @ '' '' @ dash_args arg @
          '' -e '' @ env @ '' '' @ extra6 @ ''' > MVVM_checkpoint.1.out &'',
        burst_energy ''MVVM_checkpoint 1'' aot_file1,
        ''pkill -SIGINT MVVM_checkpoint'']) (\<lambda>_.
     io_bind (io_raise (NameError ''sleep'')) (\<lambda>_ :: unit.
     io_bind (exec_all
       [''pkill -SIGINT MVVM_checkpoint'',
        ''sleep 50'',
        ''ssh -t '' @ burst @ '' pkill -SIGINT MVVM_restore'',
        ''ssh -t '' @ burst @ '' pkill -SIGINT MVVM_checkpoint'',
        burst_restore aot_file1 extra4 ''2'', burst_energy ''MVVM_restore 2'' aot_file,
        burst_restore aot_file extra8 ''5'', burst_energy ''MVVM_restore 5'' aot_file1,
        ''sleep 50'',
        ''pkill -SIGINT MVVM_restore'',
        local_restore aot_file extra9 ''6'', local_energy ''MVVM_restore 6'' aot_file1,
        local_restore aot_file1 extra5 ''3'', local_energy ''MVVM_restore 3'' aot_file,
        ''sleep 50'',
        ''ssh -t '' @ burst @ '' pkill -SIGINT MVVM_restore'',
        ''sleep 1000'',
        ''scp '' @ burst @ '':'' @ pwd_mac @ ''/build/*.*.out ./'']) (\<lambda>_.
     io_bind (collect_logs
       (''cat ./MVVM_checkpoint.0.out ./MVVM_checkpoint.1.out ./MVVM_restore.0.out ./MVVM_restore.1.out '' @
        ''./MVVM_restore.2.out ./MVVM_restore.3.out ./MVVM_restore.4.out ./MVVM_restore.5.out ./MVVM_restore.6.out'')
       aot_file arg env) (\<lambda>r. io_return [r]))))"

section \<open>Running them\<close>

lemma exec_all_run: "exec_all cmds w t = (Inr (), t @ concat (map (\<lambda>c. [Print c, System c]) cmds))"
proof -
  have "io_for exec_with_log cmds w t = (Inr (map (\<lambda>_. ()) cmds), t @ concat (map (\<lambda>c. [Print c, System c]) cmds))"
    by (induction cmds arbitrary: t) (simp_all add: io_bind_def io_return_def exec_with_log_def io_seq_def)
  then show ?thesis by (simp add: exec_all_def io_bind_def io_return_def)
qed

lemma collect_logs_run:
  "collect_logs cmd aot_file arg env w t =
    (let t1 = t @ [Run (py_split cmd) None] in
     case w_run w t1 of None \<Rightarrow> (Inl FileNotFoundError, t1)
     | Some streams \<Rightarrow> (rbind (decode_or_bytes (fst streams)) (\<lambda>out. Inr (exec_name env aot_file arg, out)), t1))"
  by (auto simp: collect_logs_def io_bind_def io_lift_def io_return_def subprocess_run_def Let_def rbind_def
      split: option.split sum.split)

text \<open>What a migration has issued when it ends, whatever its result.\<close>

lemma burst_stops:
  "\<exists>es. run_checkpoint_restore_burst aot_file arg aot_file1 arg1 env e1 e2 e3 e4 e5 e6 e7 e8 e9 w t =
     (Inl (NameError ''sleep''), t @ es) \<and> last es = System ''pkill -SIGINT MVVM_checkpoint'' \<and>
     (\<forall>e \<in> set es. \<nexists>c v. e = Run c v)"
  unfolding run_checkpoint_restore_burst_def
  by (simp add: io_bind_def exec_all_run io_raise_def)

end
