(* ===== verification/FuncIndex.thy ===== *)
theory FuncIndex
  imports Shell
begin

text \<open>
  \<^verbatim>\<open>get_func_index\<close> of \<^verbatim>\<open>src/artifact/common_util.py\<close> and \<^verbatim>\<open>get_func_name\<close> of
  \<^verbatim>\<open>src/artifact/get_func_name.py\<close>: both read the lines with \<^verbatim>\<open>func\<close> that \<^verbatim>\<open>wasm2wat\<close> prints
  for a module, one to find the index of a function by its name, the other the name (and the
  index among the functions that are not imported) by its index. The output of the pipeline
  comes from the world.
\<close>

definition wat_func_lines :: "string \<Rightarrow> string io" where
  "wat_func_lines wasm =
     io_bind (subprocess_popen [''wasm2wat'', ''--enable-all'', wasm] None) (\<lambda>_.
     io_bind (subprocess_popen [''grep'', ''func''] None) (\<lambda>_.
     io_bind proc_communicate (\<lambda>(out, err). io_lift (utf_8 out))))"

definition kept_line :: "string \<Rightarrow> bool" where
  "kept_line x \<longleftrightarrow> \<not> py_contains x ''(type (;'' \<and> \<not> py_contains x ''(table (;'' \<and> \<not> py_contains x ''global.get''"

text \<open>\<^verbatim>\<open>for i in range(len(xs)): if P(xs[i]): return i\<close>, which ends with \<^verbatim>\<open>None\<close>.\<close>

fun first_index :: "('a \<Rightarrow> bool) \<Rightarrow> nat \<Rightarrow> 'a list \<Rightarrow> nat option" where
  "first_index P i [] = None"
| "first_index P i (x # xs) = (if P x then Some i else first_index P (Suc i) xs)"

definition func_index_of :: "string \<Rightarrow> string \<Rightarrow> nat option" where
  "func_index_of func output =
     (let output1 = filter kept_line (py_split_on newline output)
      in first_index (\<lambda>x. py_contains x func) 0 output1)"

definition get_func_index :: "string \<Rightarrow> string \<Rightarrow> nat option io" where
  "get_func_index func wasm = io_bind (wat_func_lines wasm) (\<lambda>output. io_return (func_index_of func output))"

definition func_name_of :: "int \<Rightarrow> string \<Rightarrow> (string \<times> int) option res" where
  "func_name_of func output =
     (let lines = py_split_on newline output;
          output1 = filter kept_line lines;
          import_count = length (filter (\<lambda>x. py_contains x ''(import '') lines)
      in if 0 \<le> func \<and> func < int (length output1)
         then rbind (py_index (py_split_on (CHR '' '') (output1 ! nat func)) 3) (\<lambda>name.
              Inr (Some (name, func - int import_count)))
         else Inr None)"

definition get_func_name :: "int \<Rightarrow> string \<Rightarrow> (string \<times> int) option io" where
  "get_func_name func wasm = io_bind (wat_func_lines wasm) (\<lambda>output. io_lift (func_name_of func output))"

text \<open>
  The main program of \<^verbatim>\<open>get_func_name.py\<close>: \<^verbatim>\<open>argv[2:]\<close> are indices; unpacking a \<^verbatim>\<open>None\<close>
  raises \<^verbatim>\<open>TypeError\<close>, and nothing is printed before all names are found.
\<close>

definition get_func_name_main :: "string list \<Rightarrow> unit io" where
  "get_func_name_main argv =
     io_bind (io_lift (py_index argv 1)) (\<lambda>wasm.
     io_bind (io_for (\<lambda>a.
       io_bind (io_lift (py_int a)) (\<lambda>idx.
       io_bind (get_func_name idx wasm) (\<lambda>r.
       case r of None \<Rightarrow> io_raise TypeError | Some p \<Rightarrow> io_return p))) (drop 2 argv)) (\<lambda>names.
     io_seq (map (\<lambda>(name, aot_idx). Print (name @ '' '' @ str_int aot_idx)) names)))"

section \<open>What they find\<close>

lemma first_index_Some:
  "first_index P k xs = Some i \<longleftrightarrow>
     k \<le> i \<and> i < k + length xs \<and> P (xs ! (i - k)) \<and> (\<forall>j < i - k. \<not> P (xs ! j))"
proof (induction xs arbitrary: k)
  case (Cons x xs)
  show ?case
  proof (cases "P x")
    case True
    then show ?thesis by (auto simp: nth_Cons' intro: le_antisym)
  next
    case False
    have "(k < i \<and> i < Suc (k + length xs) \<and> P (xs ! (i - Suc k)) \<and> (\<forall>j < i - Suc k. \<not> P (xs ! j))) \<longleftrightarrow>
       (k \<le> i \<and> i < Suc (k + length xs) \<and> P ((x # xs) ! (i - k)) \<and> (\<forall>j < i - k. \<not> P ((x # xs) ! j)))"
    proof (cases "k < i")
      case True
      then obtain d where d: "i - k = Suc d" "i - Suc k = d" by (metis Suc_diff_Suc diff_Suc_eq_diff_pred diff_Suc_1)
      show ?thesis using True False unfolding d by (auto simp: All_less_Suc2)
    qed (use False in \<open>auto simp: nth_Cons'\<close>)
    with False Cons [of "Suc k"] show ?thesis by (simp add: Suc_le_eq)
  qed
qed auto

lemma first_index_None: "first_index P k xs = None \<longleftrightarrow> (\<forall>x \<in> set xs. \<not> P x)"
  by (induction xs arbitrary: k) auto

lemma func_index_then_name:
  assumes "func_index_of func output = Some i"
  shows "\<exists>line. line \<in> set (py_split_on newline output) \<and> py_contains line func \<and> kept_line line \<and>
    func_name_of (int i) output = rbind (py_index (py_split_on (CHR '' '') line) 3) (\<lambda>name.
      Inr (Some (name, int i - int (length (filter (\<lambda>x. py_contains x ''(import '') (py_split_on newline output))))))"
proof -
  let ?kept = "filter kept_line (py_split_on newline output)"
  have i: "i < length ?kept" "py_contains (?kept ! i) func"
    using assms by (simp_all add: func_index_of_def first_index_Some)
  then have "?kept ! i \<in> set (py_split_on newline output)" "kept_line (?kept ! i)" using nth_mem by force+
  with i show ?thesis by (intro exI [of _ "?kept ! i"]) (simp add: func_name_of_def Let_def)
qed

text \<open>Both programs issue the same events and fail in the same way.\<close>

lemma wat_func_lines_run:
  "wat_func_lines wasm w t =
    (let t1 = t @ [Popen [''wasm2wat'', ''--enable-all'', wasm] None]; t2 = t1 @ [Popen [''grep'', ''func''] None];
         t3 = t2 @ [Communicate] in
     if \<not> w_started w t1 then (Inl FileNotFoundError, t1)
     else if \<not> w_started w t2 then (Inl FileNotFoundError, t2)
     else (utf_8 (fst (w_streams w t3)), t3))"
  by (auto simp: wat_func_lines_def io_bind_def subprocess_popen_def proc_communicate_def io_lift_def Let_def
      split: prod.split)

lemma get_func_index_run:
  "get_func_index func wasm w t =
    (case wat_func_lines wasm w t of (Inl e, t1) \<Rightarrow> (Inl e, t1) | (Inr out, t1) \<Rightarrow> (Inr (func_index_of func out), t1))"
  by (auto simp: get_func_index_def io_bind_def io_return_def split: prod.split sum.split)

lemma get_func_name_run:
  "get_func_name func wasm w t =
    (case wat_func_lines wasm w t of (Inl e, t1) \<Rightarrow> (Inl e, t1) | (Inr out, t1) \<Rightarrow> (func_name_of func out, t1))"
  by (auto simp: get_func_name_def io_bind_def io_lift_def split: prod.split sum.split)

end
