(* ===== verification/NopMetadata.thy ===== *)
theory NopMetadata
  imports OptFiles
begin

text \<open>
  \<^verbatim>\<open>src/src/create_mvvm_metadata.py\<close>: from the line table that \<^verbatim>\<open>llvm-dwarfdump\<close> prints for an
  object file, the addresses of the statements in the magic column, and the \<^verbatim>\<open>.mvvm\<close> file that
  lists them. The dump is a parameter.
\<close>

definition MAGIC_NOP_COLUMN :: string where
  "MAGIC_NOP_COLUMN = ''514''"

text \<open>\<^verbatim>\<open>call_llvm_dwarfdump\<close>: the command that is run, and the name of the file it leaves.\<close>

definition call_llvm_dwarfdump :: "string \<Rightarrow> string \<times> string" where
  "call_llvm_dwarfdump object_file_name =
     (let dwarf_file_name = object_file_name @ ''.dwarf''
      in (''llvm-dwarfdump -a '' @ object_file_name @ '' > '' @ dwarf_file_name, dwarf_file_name))"

definition nop_line :: "string \<Rightarrow> bool" where
  "nop_line line \<longleftrightarrow>
     (let eles = py_split line in 5 \<le> length eles \<and> eles ! 2 = MAGIC_NOP_COLUMN \<and> py_contains line ''is_stmt'')"

fun nop_offsets :: "string list \<Rightarrow> string list \<Rightarrow> string list" where
  "nop_offsets [] offsets = offsets"
| "nop_offsets (line # lines) offsets =
     nop_offsets lines (if nop_line line then offsets @ [py_split line ! 0] else offsets)"

definition get_nop_offsets :: "string \<Rightarrow> string list" where
  "get_nop_offsets dwarf_text = nop_offsets (py_readlines dwarf_text) []"

definition mvvm_file :: "string list \<Rightarrow> string" where
  "mvvm_file offsets =
     ''x86_64'' @ [newline] @ ''nop'' @ [newline] @ str_int (int (length offsets)) @ [newline] @
     concat (map (\<lambda>e. e @ '' '') offsets) @ [newline]"

text \<open>
  The main program: the command, the printed line and the contents of the \<^verbatim>\<open>.mvvm\<close> file, or
  the exception. \<open>dwarf\<close> gives the text of the dump by its file name, if the tool left one.
\<close>

definition metadata_main :: "(string \<Rightarrow> string option) \<Rightarrow> string list \<Rightarrow> (string \<times> string \<times> string \<times> string) res" where
  "metadata_main dwarf argv =
     rbind (py_assert (length argv = 2) []) (\<lambda>_.
     rbind (py_index argv 1) (\<lambda>aot_name.
     let (command, dwarf_file_name) = call_llvm_dwarfdump (aot_name @ ''.o'') in
     case dwarf dwarf_file_name of
       None \<Rightarrow> Inl FileNotFoundError
     | Some text_of \<Rightarrow>
         (let offsets = get_nop_offsets text_of
          in Inr (command, str_int (int (length offsets)), aot_name @ ''.mvvm'', mvvm_file offsets))))"

section \<open>What it computes\<close>

lemma nop_offsets_eq: "nop_offsets ls acc = acc @ map (\<lambda>l. py_split l ! 0) (filter nop_line ls)"
  by (induction ls acc rule: nop_offsets.induct) auto

lemma get_nop_offsets_eq: "get_nop_offsets s = map (\<lambda>l. py_split l ! 0) (filter nop_line (py_readlines s))"
  by (simp add: get_nop_offsets_def nop_offsets_eq)

lemma nop_offsets_words: "list_all word (get_nop_offsets s)"
proof -
  have "word (py_split l ! 0)" if "nop_line l" for l
  proof -
    have "0 < length (py_split l)" using that by (auto simp: nop_line_def Let_def)
    then show ?thesis by (metis nth_mem py_split_words)
  qed
  then show ?thesis by (auto simp: get_nop_offsets_eq list_all_iff)
qed

lemma py_split_spaced: "list_all word ws \<Longrightarrow> py_split (concat (map (\<lambda>e. e @ '' '') ws) @ s) = ws @ py_split s"
  by (induction ws) (simp_all add: py_split_word_space)

lemma word_line_text: "word w \<Longrightarrow> line_text w"
  by (auto simp: word_def line_text_def is_space_def newline_def carriage_def)

text \<open>A reader of the file: the two fixed lines, the number, and the words of the last line.\<close>

lemma mvvm_file_lines:
  assumes "list_all word offsets"
  shows "py_readlines (mvvm_file offsets) =
    [''x86_64'' @ [newline], ''nop'' @ [newline], str_int (int (length offsets)) @ [newline],
     concat (map (\<lambda>e. e @ '' '') offsets) @ [newline]]"
proof -
  have "line_text (concat (map (\<lambda>e. e @ '' '') offsets))"
    using assms by (induction offsets) (auto simp: line_text_def dest!: word_line_text)
  moreover have "line_text ''x86_64''" "line_text ''nop''" by (simp_all add: line_text_def newline_def carriage_def)
  moreover have "mvvm_file offsets = unlines [''x86_64'', ''nop'', str_int (int (length offsets)), concat (map (\<lambda>e. e @ '' '') offsets)]"
    by (simp add: mvvm_file_def)
  ultimately show ?thesis by (simp only:) (subst py_readlines_unlines, auto)
qed

end
