(* ===== verification/Percentile.thy ===== *)
theory Percentile
  imports PyFloat
begin

text \<open>
  \<^verbatim>\<open>get_avg_99percent\<close> of \<^verbatim>\<open>src/artifact/common_util.py\<close>. The statistics of numpy are
  parameters: the record \<open>numpy\<close> has one function per call, on lists of numbers.
\<close>

record numpy =
  np_mean :: "rat list \<Rightarrow> rat"
  np_median :: "rat list \<Rightarrow> rat"
  np_std :: "rat list \<Rightarrow> rat"
  np_percentile :: "rat list \<Rightarrow> rat \<Rightarrow> rat"

text \<open>\<^verbatim>\<open>np.reshape(xs, (n, k))\<close> of \<open>n * k\<close> elements, and \<^verbatim>\<open>np.repeat(xs, k)\<close>.\<close>

fun reshape :: "nat \<Rightarrow> nat \<Rightarrow> 'a list \<Rightarrow> 'a list list" where
  "reshape 0 k xs = []"
| "reshape (Suc n) k xs = take k xs # reshape n k (drop k xs)"

definition np_repeat :: "'a list \<Rightarrow> nat \<Rightarrow> 'a list" where
  "np_repeat xs k = concat (map (replicate k) xs)"

definition get_avg_99percent :: "numpy \<Rightarrow> rat list \<Rightarrow> (rat list \<times> rat list) res" where
  "get_avg_99percent np data =
     (let group_size = 1000;
          num_groups = length data div group_size;
          grouped_data = reshape num_groups group_size (take (num_groups * group_size) data);
          avg_values = map (np_mean np) grouped_data;
          percentile99_values = map (\<lambda>g. np_percentile np g 99) grouped_data;
          avg_extended = np_repeat avg_values group_size;
          percentile99_extended = np_repeat percentile99_values group_size
      in rbind (py_index avg_values (- 1)) (\<lambda>avg_last.
         rbind (py_index percentile99_values (- 1)) (\<lambda>percentile99_last.
         Inr (avg_extended @ replicate (length data - length avg_extended) avg_last,
              percentile99_extended @ replicate (length data - length percentile99_extended) percentile99_last))))"

section \<open>What it computes\<close>

lemma length_reshape [simp]: "length (reshape n k xs) = n"
  by (induction n k xs rule: reshape.induct) auto

lemma reshape_nth: "i < n \<Longrightarrow> reshape n k xs ! i = take k (drop (i * k) xs)"
  by (induction n k xs arbitrary: i rule: reshape.induct) (auto simp: nth_Cons add.commute split: nat.split)

lemma length_np_repeat [simp]: "length (np_repeat xs k) = length xs * k"
  by (induction xs) (auto simp: np_repeat_def)

lemma np_repeat_nth: "i < length xs * k \<Longrightarrow> np_repeat xs k ! i = xs ! (i div k)"
proof (induction xs arbitrary: i)
  case (Cons x xs)
  show ?case
  proof (cases "i < k")
    case False
    then have "0 < k" using Cons.prems by (cases k) auto
    with False have "i div k = Suc ((i - k) div k)" by (simp add: le_div_geq)
    moreover have "np_repeat xs k ! (i - k) = xs ! ((i - k) div k)" using Cons False by auto
    ultimately show ?thesis using False by (simp add: np_repeat_def nth_append)
  qed (simp add: np_repeat_def nth_append)
qed simp

text \<open>The group of an index: its thousand, the rest after the last full thousand with that one.\<close>

definition sample_group :: "rat list \<Rightarrow> nat \<Rightarrow> rat list" where
  "sample_group data i =
     (let g = min (i div 1000) (length data div 1000 - 1) in take 1000 (drop (g * 1000) data))"

lemma extended_nth:
  assumes "1000 \<le> length data" and "i < length data"
  shows "(let vs = map f (reshape (length data div 1000) 1000 (take (length data div 1000 * 1000) data)) in
      (np_repeat vs 1000 @ replicate (length data - length (np_repeat vs 1000)) (last vs)) ! i) = f (sample_group data i)"
proof -
  let ?n = "length data div 1000"
  let ?gs = "reshape ?n 1000 (take (?n * 1000) data)" and ?vs = "map f (reshape (length data div 1000) 1000 (take (length data div 1000 * 1000) data))"
  have n: "0 < ?n" using assms(1) by (simp add: div_greater_zero_iff)
  have nth: "?vs ! j = f (take 1000 (drop (j * 1000) data))" if "j < ?n" for j
  proof -
    have "j * 1000 + 1000 \<le> ?n * 1000" using that by (metis Suc_leI add.commute mult_Suc mult_le_mono1)
    then show ?thesis using that by (simp add: reshape_nth drop_take min_def)
  qed
  have "?vs \<noteq> []" using n by (metis length_map length_reshape list.size(3) less_irrefl)
  then have last: "last ?vs = ?vs ! (?n - 1)" by (simp add: last_conv_nth)
  show ?thesis
  proof (cases "i < ?n * 1000")
    case True
    then have "i div 1000 < ?n" by (simp add: div_less_iff_less_mult)
    with True nth show ?thesis by (simp add: nth_append np_repeat_nth sample_group_def Let_def min_def)
  next
    case False
    then have "?n \<le> i div 1000" by (simp add: not_less less_eq_div_iff_mult_less_eq)
    then have min: "min (i div 1000) (?n - 1) = ?n - 1" by simp
    have "i - ?n * 1000 < length data - ?n * 1000" using False assms(2) by auto
    then show ?thesis using False nth [of "?n - 1"] n
      by (simp add: nth_append last sample_group_def Let_def min)
  qed
qed

lemma get_avg_99percent_short: "length data < 1000 \<Longrightarrow> get_avg_99percent np data = Inl IndexError"
  by (simp add: get_avg_99percent_def)

lemma get_avg_99percent_long:
  assumes "1000 \<le> length data"
  shows "\<exists>avgs p99s. get_avg_99percent np data = Inr (avgs, p99s) \<and>
    length avgs = length data \<and> length p99s = length data \<and>
    (\<forall>i < length data. avgs ! i = np_mean np (sample_group data i) \<and>
       p99s ! i = np_percentile np (sample_group data i) 99)"
proof -
  let ?n = "length data div 1000"
  let ?gs = "reshape ?n 1000 (take (?n * 1000) data)"
  have n: "0 < ?n" using assms by (simp add: div_greater_zero_iff)
  have ne: "map f ?gs \<noteq> []" for f :: "rat list \<Rightarrow> rat" using n by (metis length_map length_reshape list.size(3) less_irrefl)
  have le: "?n * 1000 \<le> length data" by simp
  show ?thesis
    using extended_nth [OF assms, of _ "np_mean np"] extended_nth [OF assms, of _ "\<lambda>g. np_percentile np g 99"] le
    by (simp add: get_avg_99percent_def Let_def py_index_last [OF ne])
qed

end
