(* ===== verification/TimeParse.thy ===== *)
theory TimeParse
  imports PyFloat
begin

text \<open>
  The parsers of clock times: \<^verbatim>\<open>parse_time\<close> and \<^verbatim>\<open>parse_time_no_msec\<close> of
  \<^verbatim>\<open>src/artifact/common_util.py\<close>, and the treatment of the \<^verbatim>\<open>elapsed\<close> line of \<^verbatim>\<open>/usr/bin/time\<close>
  in \<^verbatim>\<open>src/artifact/bench_comparison.py\<close>, which the five benchmarks of that file repeat.
\<close>

section \<open>parse_time\<close>

text \<open>\<^verbatim>\<open>seconds, milliseconds = map(int, s.split("."))\<close>\<close>

definition two_ints :: "string \<Rightarrow> (int \<times> int) res" where
  "two_ints s = rbind (rmap py_int (py_split_on (CHR ''.'') s)) (\<lambda>is.
     case is of [a, b] \<Rightarrow> Inr (a, b) | _ \<Rightarrow> Inl ValueError)"

definition parse_time :: "string \<Rightarrow> rat res" where
  "parse_time time_string =
     (let components = py_split_on (CHR '':'') time_string in
      rbind (rbind (py_index components 0) py_int) (\<lambda>hours.
      rbind (rbind (py_index components 1) py_int) (\<lambda>minutes.
      rbind (rbind (py_index components 2) two_ints) (\<lambda>(seconds, milliseconds).
      Inr (fl64 (fl64 (of_int (hours * 3600 + minutes * 60 + seconds)) + fl64 (of_int milliseconds / 1000)))))))"

definition parse_time_no_msec :: "string \<Rightarrow> int res" where
  "parse_time_no_msec time_string =
     (let components = py_split_on (CHR '':'') time_string in
      rbind (rbind (py_index components 0) py_int) (\<lambda>hours.
      rbind (rbind (py_index components 1) py_int) (\<lambda>minutes.
      rbind (rbind (py_index components 2) py_int) (\<lambda>seconds.
      let total_seconds = hours * 3600 + minutes * 60 + seconds in
      if total_seconds < 10000 then Inl ValueError else Inr total_seconds))))"

section \<open>The elapsed line\<close>

text \<open>
  \<^verbatim>\<open>minutes, seconds = line.split()[2].replace("elapsed", "").split(":")\<close> and what follows in the
  first \<^verbatim>\<open>try\<close>.
\<close>

definition elapsed_word :: "string \<Rightarrow> string res" where
  "elapsed_word line = rbind (py_index (py_split line) 2) (\<lambda>w. Inr (py_replace w ''elapsed'' []))"

definition minutes_seconds :: "string \<Rightarrow> rat res" where
  "minutes_seconds line =
     rbind (elapsed_word line) (\<lambda>w.
     case py_split_on (CHR '':'') w of
       [minutes, seconds] \<Rightarrow>
         (case py_split_on (CHR ''.'') seconds of
            [secs, milliseconds] \<Rightarrow>
              rbind (py_int minutes) (\<lambda>m. rbind (py_int secs) (\<lambda>s. rbind (py_int milliseconds) (\<lambda>ms.
              Inr (fl64 (fl64 (of_int (m * 60 + s)) + fl64 (of_int ms / 1000))))))
          | _ \<Rightarrow> Inl ValueError)
     | _ \<Rightarrow> Inl ValueError)"

text \<open>
  \<^verbatim>\<open>datetime.strptime(w, "%H:%M:%S")\<close>: one or two digits in each field, hours below 24, minutes
  below 60, seconds at most 61, which \<^verbatim>\<open>time()\<close> narrows to below 60.
\<close>

definition clock_field :: "string \<Rightarrow> nat \<Rightarrow> bool" where
  "clock_field s bound \<longleftrightarrow> length s \<in> {1, 2} \<and> list_all (\<lambda>c. digit_val c \<noteq> None) s \<and>
     (case read_nat s of None \<Rightarrow> False | Some n \<Rightarrow> n < bound)"

definition hours_minutes_seconds :: "string \<Rightarrow> bool" where
  "hours_minutes_seconds w =
     (case py_split_on (CHR '':'') w of
        [h, m, s] \<Rightarrow> clock_field h 24 \<and> clock_field m 60 \<and> clock_field s 60
      | _ \<Rightarrow> False)"

text \<open>
  One line with \<^verbatim>\<open>elapsed\<close>: the new value of \<^verbatim>\<open>exec_time\<close>. \<open>None\<close> as the old value is the unbound
  variable. A time with hours is recognised and not used: \<^verbatim>\<open>exec_time\<close> keeps its old value.
\<close>

definition elapsed_time :: "string \<Rightarrow> rat option \<Rightarrow> rat option res" where
  "elapsed_time line exec_time =
     (case minutes_seconds line of
        Inr t \<Rightarrow> Inr (Some t)
      | Inl _ \<Rightarrow>
          if (case elapsed_word line of Inr w \<Rightarrow> hours_minutes_seconds w | Inl _ \<Rightarrow> False)
          then Inr exec_time
          else rbind (py_index (py_split line) 0) (\<lambda>w.
               rbind (py_float (py_replace w ''user'' [])) (\<lambda>t. Inr (Some t))))"

section \<open>What they compute\<close>

lemma colon_not_in_int: "CHR '':'' \<notin> set (str_int i)" "CHR ''.'' \<notin> set (str_int i)"
proof -
  have "c \<in> set (str_int i) \<Longrightarrow> c = CHR ''-'' \<or> digit_val c \<noteq> None" for c
    using str_nat_digits by (auto simp: str_int_def split: if_splits)
  moreover have "digit_val (CHR '':'') = None" "digit_val (CHR ''.'') = None" by (simp_all add: digit_val_def)
  ultimately show "CHR '':'' \<notin> set (str_int i)" "CHR ''.'' \<notin> set (str_int i)" by fastforce+
qed

lemma split_colons:
  "CHR '':'' \<notin> set s \<Longrightarrow> py_split_on (CHR '':'') (str_int a @ '':'' @ s) = [str_int a, s]"
  "CHR '':'' \<notin> set s \<Longrightarrow> py_split_on (CHR '':'') (str_int a @ '':'' @ str_int b @ '':'' @ s) = [str_int a, str_int b, s]"
  using colon_not_in_int by (simp_all add: py_split_on_cons py_split_on_single)

lemma split_point: "py_split_on (CHR ''.'') (str_int a @ ''.'' @ str_int b) = [str_int a, str_int b]"
  using colon_not_in_int by (simp add: py_split_on_cons py_split_on_single)

lemma parse_time_value:
  "parse_time (str_int h @ '':'' @ str_int m @ '':'' @ str_int s @ ''.'' @ str_int ms) =
     Inr (fl64 (fl64 (of_int (h * 3600 + m * 60 + s)) + fl64 (of_int ms / 1000)))"
proof -
  have "CHR '':'' \<notin> set (str_int s @ ''.'' @ str_int ms)" using colon_not_in_int by simp
  from split_colons(2) [OF this] show ?thesis
    by (simp add: parse_time_def two_ints_def split_point [simplified])
qed

text \<open>The text of one run of \<^verbatim>\<open>/usr/bin/time\<close>, in the form \<^verbatim>\<open>minutes:seconds.centiseconds\<close>.\<close>

definition elapsed_line :: "string \<Rightarrow> string \<Rightarrow> int \<Rightarrow> int \<Rightarrow> int \<Rightarrow> string \<Rightarrow> string" where
  "elapsed_line user system m s c rest =
     user @ ''user '' @ system @ ''system '' @ str_int m @ '':'' @ str_int s @ ''.'' @ str_int c @ ''elapsed '' @ rest"

lemma py_replace_skip:
  "(\<And>c. c \<in> set w \<Longrightarrow> c \<noteq> hd old) \<Longrightarrow> old \<noteq> [] \<Longrightarrow> py_replace (w @ s) old new = w @ py_replace s old new"
proof (induction w)
  case (Cons c w)
  then have "\<not> py_startswith (c # w @ s) old" by (cases old) auto
  with Cons show ?case by simp
qed simp

lemma py_replace_suffix: "(\<And>c. c \<in> set w \<Longrightarrow> c \<noteq> hd old) \<Longrightarrow> old \<noteq> [] \<Longrightarrow> py_replace (w @ old) old new = w @ new"
proof -
  assume *: "\<And>c. c \<in> set w \<Longrightarrow> c \<noteq> hd old" "old \<noteq> []"
  obtain d ds where old: "old = d # ds" using *(2) by (cases old) auto
  have "py_replace old old new = new" by (simp add: old py_startswith_def)
  with py_replace_skip [of w old old new, OF *] show ?thesis by simp
qed

lemma str_int_letters: "c \<in> set (str_int i) \<Longrightarrow> c \<noteq> CHR ''e'' \<and> c \<noteq> CHR ''u''"
proof -
  assume "c \<in> set (str_int i)"
  then have "c = CHR ''-'' \<or> digit_val c \<noteq> None"
    using str_nat_digits by (auto simp: str_int_def split: if_splits)
  moreover have "digit_val (CHR ''e'') = None" "digit_val (CHR ''u'') = None" by (simp_all add: digit_val_def)
  ultimately show ?thesis by auto
qed

lemma word_append: "(\<And>c. c \<in> set v \<Longrightarrow> \<not> is_space c) \<Longrightarrow> word w \<Longrightarrow> word (v @ w)"
  by (auto simp: word_def)

lemma elapsed_line_words:
  assumes "\<And>c. c \<in> set user \<Longrightarrow> \<not> is_space c" and "\<And>c. c \<in> set system \<Longrightarrow> \<not> is_space c"
  shows "py_split (elapsed_line user system m s c rest) =
    (user @ ''user'') # (system @ ''system'') #
    (str_int m @ '':'' @ str_int s @ ''.'' @ str_int c @ ''elapsed'') # py_split rest"
proof -
  have letters: "word ''user''" "word ''system''" by (simp_all add: word_def is_space_def)
  have t: "word (str_int m @ '':'' @ str_int s @ ''.'' @ str_int c @ ''elapsed'')"
  proof -
    have "\<not> is_space (CHR '':'')" "\<not> is_space (CHR ''.'')" and "word ''elapsed''"
      by (simp_all add: word_def is_space_def)
    then show ?thesis using str_int_no_space
      by (intro word_append) auto
  qed
  have u: "word (user @ ''user'')" "word (system @ ''system'')"
    using word_append letters assms by blast+
  have line: "elapsed_line user system m s c rest =
      (user @ ''user'') @ CHR '' '' # ((system @ ''system'') @ CHR '' '' #
      ((str_int m @ '':'' @ str_int s @ ''.'' @ str_int c @ ''elapsed'') @ CHR '' '' # rest))"
    by (simp add: elapsed_line_def)
  show ?thesis
    unfolding line py_split_word_space [OF u(1) is_space_blank] py_split_word_space [OF u(2) is_space_blank]
      py_split_word_space [OF t is_space_blank] ..
qed

lemma elapsed_line_word:
  assumes "\<And>c. c \<in> set user \<Longrightarrow> \<not> is_space c" and "\<And>c. c \<in> set system \<Longrightarrow> \<not> is_space c"
  shows "elapsed_word (elapsed_line user system m s c rest) = Inr (str_int m @ '':'' @ str_int s @ ''.'' @ str_int c)"
proof -
  let ?w = "str_int m @ '':'' @ str_int s @ ''.'' @ str_int c"
  have "py_replace (?w @ ''elapsed'') ''elapsed'' [] = ?w @ []"
    by (rule py_replace_suffix) (auto dest: str_int_letters)
  then show ?thesis
    by (simp add: elapsed_word_def elapsed_line_words [OF assms])
qed

lemma elapsed_line_time:
  assumes "\<And>c. c \<in> set user \<Longrightarrow> \<not> is_space c" and "\<And>c. c \<in> set system \<Longrightarrow> \<not> is_space c"
  shows "minutes_seconds (elapsed_line user system m s c rest) =
    Inr (fl64 (fl64 (of_int (m * 60 + s)) + fl64 (of_int c / 1000)))"
proof -
  have "CHR '':'' \<notin> set (str_int s @ ''.'' @ str_int c)" using colon_not_in_int by simp
  from split_colons(1) [OF this, of m] show ?thesis
    by (simp add: minutes_seconds_def elapsed_line_word [OF assms] split_point [simplified])
qed

end
