(* ===== verification/Plots.thy ===== *)
theory Plots
  imports "HOL-Library.Multiset" Averages Percentile Csv
begin

text \<open>
  The four plots of \<^verbatim>\<open>src/artifact/common_util.py\<close>: \<^verbatim>\<open>plot\<close>, \<^verbatim>\<open>plot_loop_counter\<close>,
  \<^verbatim>\<open>plot_loop_counter_snapshot\<close> and \<^verbatim>\<open>plot_whole\<close>. What a plot function computes is the list of
  the drawing calls it makes; the medians and deviations come from numpy, a parameter. Cap
  sizes, markers and line styles are constants of the calls and left out.
\<close>

section \<open>Drawing calls\<close>

datatype draw =
    Font nat
  | Figure nat nat
  | Bar rat rat rat rat string string
  | ErrorBar "rat list" "rat list" string
  | Subplots
  | Line "rat list" "rat list" string
  | XLabel string
  | XTickLabelsRotated "string list" nat
  | Title string
  | Show
  | XTicks "rat list"
  | XTickLabels "string list" nat
  | YLabel string
  | TightLayout
  | Legend string
  | SaveFig string

text \<open>\<^verbatim>\<open>workload.split(" ")[1].replace(".aot", "")\<close>, and the grouping of rows by it.\<close>

definition plot_key :: "string \<Rightarrow> string res" where
  "plot_key workload = rbind (py_index (py_split_on (CHR '' '') workload) 1) (\<lambda>w. Inr (py_replace w ''.aot'' []))"

definition group_by_key :: "('r \<Rightarrow> string) \<Rightarrow> ('r \<Rightarrow> 'v) \<Rightarrow> 'r list \<Rightarrow> (string \<times> 'v list) list res" where
  "group_by_key name val rows =
     rbind (rmap (\<lambda>r. rbind (plot_key (name r)) (\<lambda>k. Inr (k, val r))) rows) (\<lambda>kvs. Inr (group_rows fst snd kvs))"

type_synonym stats = "(string \<times> rat \<times> rat) list"

definition column :: "nat \<Rightarrow> rat list list \<Rightarrow> rat list" where
  "column j rows = map (\<lambda>row. row ! j) rows"

definition summarize :: "numpy \<Rightarrow> string list \<Rightarrow> rat list list \<Rightarrow> stats" where
  "summarize np labels columns = map (\<lambda>(l, c). (l, np_median np c, np_std np c)) (zip labels columns)"

section \<open>Bars per policy\<close>

definition policy_labels :: "string list" where
  "policy_labels = [''pure'', ''aot'', ''stack'', ''loop'', ''loop_dirty'']"

definition policy_times :: "policy_row \<Rightarrow> rat list" where
  "policy_times r = (case r of (workload, aot, pure, stack, loop, loop_dirty) \<Rightarrow> [pure, aot, stack, loop, loop_dirty])"

definition policy_color :: "string \<Rightarrow> string res" where
  "policy_color label =
     (case map_of [(''pure'', ''green''), (''aot'', ''cyan''), (''stack'', ''purple''), (''loop'', ''brown''),
        (''loop_dirty'', ''red'')] label of None \<Rightarrow> Inl KeyError | Some c \<Rightarrow> Inr c)"

definition policy_statistics :: "numpy \<Rightarrow> policy_row list \<Rightarrow> (string \<times> stats) list res" where
  "policy_statistics np results =
     rbind (group_by_key fst policy_times results) (\<lambda>workloads.
     Inr (map (\<lambda>(workload, times). (workload, summarize np policy_labels (map (\<lambda>j. column j times) [0..<5]))) workloads))"

text \<open>\<^verbatim>\<open>sorted(stats, key=lambda x: -x[1])\<close> is stable.\<close>

definition by_median :: "stats \<Rightarrow> stats" where
  "by_median stats = sort_key (\<lambda>x. - fst (snd x)) stats"

definition stat_bars :: "rat \<Rightarrow> rat \<Rightarrow> bool \<Rightarrow> stats \<Rightarrow> draw list res" where
  "stat_bars x bar_width labelled stats =
     rmap (\<lambda>(label, median, std). rbind (policy_color label) (\<lambda>c.
       Inr (Bar x median bar_width std c (if labelled then label else [])))) (by_median stats)"

definition plot :: "numpy \<Rightarrow> policy_row list \<Rightarrow> string \<Rightarrow> draw list res" where
  "plot np results file_name =
     rbind (policy_statistics np results) (\<lambda>statistics.
     let bar_width = fl64 (7 / 10) in
     rbind (rmap (\<lambda>(i, (workload, stats)). stat_bars (of_nat i) bar_width (i = 0) stats) (enumerate 0 statistics)) (\<lambda>bars.
     Inr ([Font 18, Figure 20 10] @ concat bars @
          [XTicks (map of_nat [0..<length statistics]), XTickLabels (map fst statistics) 18,
           YLabel ''Execution Time (s)'', TightLayout, Legend ''upper right'', SaveFig file_name])))"

section \<open>Lines per workload\<close>

definition normalize :: "rat \<Rightarrow> rat list \<Rightarrow> rat list" where
  "normalize divisor xs = map (\<lambda>x. fl64 (x / divisor)) xs"

definition counter_labels :: "string list" where
  "counter_labels =
     [''ckptloopcounter1'', ''ckptloopcounter4'', ''ckptloopcounter8'', ''ckptloopcounter16'', ''ckptloopcounter20'',
      ''ckptloopcounter30'', ''ckptlooppgo'', ''aot'', ''pure'']"

definition counter_times :: "counter_row \<Rightarrow> rat list" where
  "counter_times r =
     (case r of (workload, c1, c4, c8, c16, c20, c30, pgo, aot, pure) \<Rightarrow> [c1, c4, c8, c16, c20, c30, pgo, aot, pure])"

text \<open>
  Every column is divided by the median of one of them; numpy divides by zero without an
  exception, into values the model does not have.
\<close>

definition line_statistics :: "numpy \<Rightarrow> string list \<Rightarrow> nat \<Rightarrow> nat \<Rightarrow> rat list list \<Rightarrow> stats res" where
  "line_statistics np labels n base rows =
     (let divisor = np_median np (column base rows) in
      if divisor = 0 then Inl Unsupported
      else Inr (summarize np labels (map (\<lambda>j. normalize divisor (column j rows)) [0..<n])))"

definition plot_loop_counter :: "numpy \<Rightarrow> counter_row list \<Rightarrow> string \<Rightarrow> draw list res" where
  "plot_loop_counter np results file_name =
     rbind (group_by_key fst counter_times results) (\<lambda>workloads.
     rbind (rmap (\<lambda>(workload, times). rbind (line_statistics np counter_labels 9 8 times) (\<lambda>s. Inr (workload, s))) workloads)
       (\<lambda>statistics.
     let xpos = [1, 4, 8, 16, 20, 30, 40, 50, 60] in
     Inr ([Font 18, Figure 20 10] @
          map (\<lambda>(workload, stats). ErrorBar (take (length stats) xpos) (map (\<lambda>(label, median, std). median) stats) workload) statistics @
          [XTicks xpos, YLabel ''Execution Time (s)'', TightLayout, Legend ''upper right'', SaveFig file_name])))"

definition snapshot_times :: "snapshot_row \<Rightarrow> rat list" where
  "snapshot_times r = (case r of (workload, c1, c4, c8, c16, c20, c30) \<Rightarrow> [c1, c4, c8, c16, c20, c30])"

definition plot_loop_counter_snapshot :: "numpy \<Rightarrow> snapshot_row list \<Rightarrow> string \<Rightarrow> draw list res" where
  "plot_loop_counter_snapshot np results file_name =
     rbind (group_by_key fst snapshot_times results) (\<lambda>workloads.
     rbind (rmap (\<lambda>(workload, times). rbind (line_statistics np (take 6 counter_labels) 6 0 times) (\<lambda>s. Inr (workload, s))) workloads)
       (\<lambda>statistics.
     let xpos = [1, 4, 8, 16, 20, 30] in
     Inr ([Font 18, Figure 20 10] @
          map (\<lambda>(workload, stats). ErrorBar (take (length stats) xpos) (map (\<lambda>(label, median, std). median) stats) workload) statistics @
          [XTicks xpos, YLabel ''Snapshot Time (s)'', TightLayout, Legend ''upper right'', SaveFig file_name])))"

section \<open>Three machines in one plot\<close>

definition whole_row :: "string list \<Rightarrow> policy_row res" where
  "whole_row row =
     rbind (py_index row 0) (\<lambda>name. rbind (float_at row 1) (\<lambda>a. rbind (float_at row 2) (\<lambda>b. rbind (float_at row 3) (\<lambda>c.
     rbind (float_at row 5) (\<lambda>d. rbind (float_at row 6) (\<lambda>e. Inr (name, a, b, c, d, e)))))))"

text \<open>
  \<open>file_text\<close> gives the contents of a file that exists. The tick positions and labels after the
  loop are those of the last file; with no file they are unbound.
\<close>

definition whole_bars :: "numpy \<Rightarrow> nat \<Rightarrow> string \<Rightarrow> ((string \<times> stats) list \<times> draw list) res" where
  "whole_bars np idx csv_text =
     rbind (read_table whole_row csv_text) (\<lambda>results.
     rbind (policy_statistics np results) (\<lambda>statistics.
     let bar_width = fl64 (fl64 (7 / 10) / 3) in
     rbind (rmap (\<lambda>(i, (workload, stats)).
         stat_bars (fl64 (of_nat i + fl64 (bar_width * of_nat idx))) bar_width (i = 0 \<and> idx = 0) stats)
       (enumerate 0 statistics)) (\<lambda>bars. Inr (statistics, concat bars))))"

definition plot_whole :: "numpy \<Rightarrow> (string \<Rightarrow> string option) \<Rightarrow> string list \<Rightarrow> string \<Rightarrow> draw list res" where
  "plot_whole np file_text results file_name =
     rbind (rmap (\<lambda>(idx, result).
         case file_text result of None \<Rightarrow> Inl FileNotFoundError | Some csv_text \<Rightarrow> whole_bars np idx csv_text)
       (enumerate 0 results)) (\<lambda>drawn.
     if drawn = [] then Inl UnboundLocalError
     else let statistics = fst (last drawn); bar_width = fl64 (fl64 (7 / 10) / 3) in
     Inr ([Font 20, Figure 20 10] @ concat (map snd drawn) @
          [XTicks (map (\<lambda>i. fl64 (of_nat i + bar_width)) [0..<length statistics]), XTickLabels (map fst statistics) 20,
           YLabel ''Execution Time (s)'', TightLayout, Legend ''upper right'', SaveFig file_name]))"

section \<open>What is drawn\<close>

lemma group_by_key_ok:
  assumes "\<And>r. r \<in> set rows \<Longrightarrow> plot_key (name r) = Inr (key r)"
  shows "group_by_key name val rows =
    Inr (map (\<lambda>k. (k, map val (filter (\<lambda>r. key r = k) rows))) (firsts (map key rows)))"
proof -
  have "rmap (\<lambda>r. rbind (plot_key (name r)) (\<lambda>k. Inr (k, val r))) rows = Inr (map (\<lambda>r. (key r, val r)) rows)"
    by (rule rmap_pure) (simp add: assms)
  then show ?thesis by (simp add: group_by_key_def group_eq o_def filter_map)
qed

lemma by_median_props:
  "mset (by_median stats) = mset stats"
  "sorted (map (\<lambda>x. - fst (snd x)) (by_median stats))"
  "length (by_median stats) = length stats"
  by (simp_all add: by_median_def)

lemma policy_labels_length: "length policy_labels = 5"
  by (simp add: policy_labels_def)

lemma policy_color_ok: "l \<in> set policy_labels \<Longrightarrow> \<exists>c. policy_color l = Inr c"
  by (auto simp: policy_labels_def policy_color_def)

definition color_of :: "string \<Rightarrow> string" where
  "color_of l = (case policy_color l of Inl _ \<Rightarrow> [] | Inr c \<Rightarrow> c)"

lemma stat_bars_ok:
  assumes "fst ` set stats \<subseteq> set policy_labels"
  shows "stat_bars x w labelled stats =
    Inr (map (\<lambda>(l, m, s). Bar x m w s (color_of l) (if labelled then l else [])) (by_median stats))"
proof -
  have "set (by_median stats) = set stats" by (simp add: by_median_def)
  then have "policy_color l = Inr (color_of l)" if "(l, m, s) \<in> set (by_median stats)" for l m s
    using that assms policy_color_ok [of l] by (force simp: color_of_def)
  then show ?thesis unfolding stat_bars_def by (intro rmap_pure) auto
qed

lemma summarize_labels: "length columns = length labels \<Longrightarrow> map fst (summarize np labels columns) = labels"
  by (simp add: summarize_def case_prod_unfold o_def)

end
