(* ===== verification/BenchComparison.thy ===== *)
theory BenchComparison
  imports BenchJobs TimeParse Plots
begin

text \<open>
  \<^verbatim>\<open>src/artifact/bench_comparison.py\<close>: MVVM against hcontainer, the two QEMUs and the native
  build. The times of MVVM come from its own output and stay strings; the other four read the
  \<^verbatim>\<open>elapsed\<close> line of \<^verbatim>\<open>/usr/bin/time\<close> and yield numbers. How a float is written is the parameter
  \<open>float_repr\<close>. Then the file of results, its reader, and the plot of two such files.
\<close>

section \<open>The runs\<close>

definition cmd_comparison :: "string list" where
  "cmd_comparison =
     [''linpack'', ''llama'', ''bt'', ''cg'', ''ft'', ''lu'', ''mg'', ''sp'', ''redis'', ''hdastar'']"

definition folder_comparison :: "string list" where
  "folder_comparison =
     [''linpack'', ''llama'', ''nas'', ''nas'', ''nas'', ''nas'', ''nas'', ''nas'', ''redis'',
      ''hdastar'']"

definition arg_comparison :: "string list list" where
  "arg_comparison =
     [[], [''stories110M.bin'', ''-z'', ''tokenizer.bin'', ''-t'', ''0.0''], [], [], [], [], [], [], [],
      [''maze-6404.txt'', ''8'']]"

definition envs_comparison :: "string list" where
  "envs_comparison =
     [''a=b'', ''OMP_NUM_THREADS=1'', ''OMP_NUM_THREADS=1'', ''OMP_NUM_THREADS=1'',
      ''OMP_NUM_THREADS=1'', ''OMP_NUM_THREADS=1'', ''OMP_NUM_THREADS=1'', ''OMP_NUM_THREADS=1'',
      ''a=b'', ''a=b'']"

definition comparison_jobs :: "string \<Rightarrow> job list" where
  "comparison_jobs suffix = variant_jobs cmd_comparison arg_comparison envs_comparison [suffix]"

text \<open>
  \<^verbatim>\<open>exec_time\<close> is unbound (\<open>None\<close>) until a line has set it, and keeps its value from one output
  to the next.
\<close>

fun mvvm_times :: "(string \<times> py_text) list \<Rightarrow> string option \<Rightarrow> (string \<times> string) list res" where
  "mvvm_times [] exec_time = Inr []"
| "mvvm_times ((exec_label, output) # results1) exec_time =
     rbind (as_str output) (\<lambda>s.
     rbind (rfold (\<lambda>line t. if py_contains line ''Execution time:''
         then rbind (py_index (py_split_on (CHR '' '') line) (- 2)) (\<lambda>w. Inr (Some w)) else Inr t)
       (py_split_on newline s) exec_time) (\<lambda>exec_time.
     case exec_time of
       None \<Rightarrow> Inl UnboundLocalError
     | Some t \<Rightarrow> rbind (mvvm_times results1 exec_time) (\<lambda>rest. Inr ((exec_label, t) # rest))))"

definition run_mvvm_comparison :: "(nat \<Rightarrow> world) \<Rightarrow> (string \<times> string) list res" where
  "run_mvvm_comparison ws =
     rbind (pool_results run_job ws (comparison_jobs ''.aot'')) (\<lambda>results1. mvvm_times results1 None)"

text \<open>Every line with \<^verbatim>\<open>elapsed\<close> adds a result.\<close>

fun elapsed_lines :: "string \<Rightarrow> string list \<Rightarrow> rat option \<Rightarrow> ((string \<times> rat) list \<times> rat option) res" where
  "elapsed_lines exec_label [] exec_time = Inr ([], exec_time)"
| "elapsed_lines exec_label (line # lines) exec_time =
     (if py_contains line ''elapsed''
      then rbind (elapsed_time line exec_time) (\<lambda>exec_time.
        case exec_time of
          None \<Rightarrow> Inl UnboundLocalError
        | Some t \<Rightarrow> rbind (elapsed_lines exec_label lines exec_time) (\<lambda>(rest, exec_time).
            Inr ((exec_label, t) # rest, exec_time)))
      else elapsed_lines exec_label lines exec_time)"

fun elapsed_times :: "(string \<times> py_text) list \<Rightarrow> rat option \<Rightarrow> (string \<times> rat) list res" where
  "elapsed_times [] exec_time = Inr []"
| "elapsed_times ((exec_label, output) # results1) exec_time =
     rbind (as_str output) (\<lambda>s.
     rbind (elapsed_lines exec_label (py_split_on newline s) exec_time) (\<lambda>(results, exec_time).
     rbind (elapsed_times results1 exec_time) (\<lambda>rest. Inr (results @ rest))))"

text \<open>The jobs of the four: the file, its folder, arguments and environment.\<close>

type_synonym folder_job = "string \<times> string \<times> string list \<times> string"

definition folder_jobs :: "folder_job list" where
  "folder_jobs =
     concat (replicate trial (map (\<lambda>i. (cmd_comparison ! i, folder_comparison ! i, arg_comparison ! i, envs_comparison ! i))
       [0..<length cmd_comparison]))"

definition run_hcontainer_comparison :: "(nat \<Rightarrow> world) \<Rightarrow> (string \<times> rat) list res" where
  "run_hcontainer_comparison ws =
     rbind (pool_results (\<lambda>(aot, folder, arg, env). run_hcontainer aot folder arg env) ws folder_jobs)
       (\<lambda>results1. elapsed_times results1 None)"

definition run_qemu_x86_64_comparison :: "(nat \<Rightarrow> world) \<Rightarrow> (string \<times> rat) list res" where
  "run_qemu_x86_64_comparison ws =
     rbind (pool_results (\<lambda>(aot, folder, arg, env). run_qemu_x86_64 aot folder arg env) ws folder_jobs)
       (\<lambda>results1. elapsed_times results1 None)"

definition run_qemu_aarch64_comparison :: "(nat \<Rightarrow> world) \<Rightarrow> (string \<times> rat) list res" where
  "run_qemu_aarch64_comparison ws =
     rbind (pool_results (\<lambda>(aot, folder, arg, env). run_qemu_aarch64 aot folder arg env) ws folder_jobs)
       (\<lambda>results1. elapsed_times results1 None)"

definition run_native_comparison :: "(nat \<Rightarrow> world) \<Rightarrow> (string \<times> rat) list res" where
  "run_native_comparison ws =
     rbind (pool_results (\<lambda>(aot, folder, arg, env). run_native aot folder arg env) ws folder_jobs)
       (\<lambda>results1. elapsed_times results1 None)"

section \<open>The file\<close>

definition header_comparison :: "string list" where
  "header_comparison = [''name'', ''mvvm'', ''hcontainer'', ''qemu_x86_64'', ''qemu_aach64'', ''native'']"

definition write_to_csv_comparison ::
    "(rat \<Rightarrow> string) \<Rightarrow> (string \<times> string) list \<Rightarrow> (string \<times> rat) list \<Rightarrow> (string \<times> rat) list \<Rightarrow>
     (string \<times> rat) list \<Rightarrow> (string \<times> rat) list \<Rightarrow> string \<Rightarrow> string res" where
  "write_to_csv_comparison float_repr mvvm_results hcontainer_results qemu_x86_64_results qemu_aarch64_results
       native_results old =
     rbind (rmap (\<lambda>(idx, row).
         rbind (py_index hcontainer_results (int idx)) (\<lambda>h.
         rbind (py_index qemu_x86_64_results (int idx)) (\<lambda>x.
         rbind (py_index qemu_aarch64_results (int idx)) (\<lambda>a.
         rbind (py_index native_results (int idx)) (\<lambda>n.
         Inr [fst row, snd row, float_repr (snd h), float_repr (snd x), float_repr (snd a), float_repr (snd n)])))))
       (enumerate 0 mvvm_results)) (\<lambda>rows.
     Inr (append_csv header_comparison rows old))"

definition comparison_row_of :: "string list \<Rightarrow> comparison_row res" where
  "comparison_row_of row =
     rbind (py_index row 0) (\<lambda>name. rbind (float_at row 1) (\<lambda>a. rbind (float_at row 2) (\<lambda>b. rbind (float_at row 3) (\<lambda>c.
     rbind (float_at row 4) (\<lambda>d. rbind (float_at row 5) (\<lambda>e. Inr (name, a, b, c, d, e)))))))"

definition read_from_csv_comparison :: "string \<Rightarrow> comparison_row list res" where
  "read_from_csv_comparison csv_text = read_table comparison_row_of csv_text"

section \<open>The plot\<close>

definition comparison_times :: "comparison_row \<Rightarrow> rat list" where
  "comparison_times r =
     (case r of (workload, mvvm_values, hcontainer_values, qemu_x86_64_values, qemu_aarch64_values, native_values) \<Rightarrow>
        [native_values, hcontainer_values, mvvm_values, qemu_x86_64_values, qemu_aarch64_values])"

definition comparison_labels :: "string list" where
  "comparison_labels = [''native'', ''hcontainer'', ''mvvm'', ''qemu_x86_64'', ''qemu_aarch64'']"

definition comparison_colors :: "string list" where
  "comparison_colors = [''cyan'', ''blue'', ''red'', ''brown'', ''purple'']"

definition comparison_statistics :: "numpy \<Rightarrow> comparison_row list \<Rightarrow> (string \<times> stats) list res" where
  "comparison_statistics np results =
     rbind (group_by_key fst comparison_times (filter (\<lambda>r. counted_workload (fst r)) results)) (\<lambda>workloads.
     Inr (map (\<lambda>(workload, times). (workload, summarize np comparison_labels (map (\<lambda>j. column j times) [0..<5]))) workloads))"

text \<open>The two bars of the \<open>j\<close>-th system: the first file's has the label, once.\<close>

definition bar_pair :: "nat \<Rightarrow> rat \<Rightarrow> stats \<Rightarrow> stats \<Rightarrow> nat \<Rightarrow> draw list" where
  "bar_pair i bar_width stats stats1 j =
     (let (label, median, std) = stats ! j; (label1, median1, std1) = stats1 ! j; color = comparison_colors ! j in
      [Bar (fl64 (of_nat i + fl64 (bar_width * of_nat (2 * j)))) median bar_width std color (if i = 0 then label else []),
       Bar (fl64 (of_nat i + fl64 (bar_width * of_nat (2 * j + 1)))) median1 bar_width std1 color []])"

definition comparison_bars :: "nat \<Rightarrow> rat \<Rightarrow> string \<Rightarrow> stats \<Rightarrow> (string \<times> stats) list \<Rightarrow> draw list res" where
  "comparison_bars i bar_width workload stats statistics1 =
     (case map_of statistics1 workload of
        None \<Rightarrow> Inl KeyError
      | Some stats1 \<Rightarrow> Inr (concat (map (bar_pair i bar_width stats stats1) [0..<5])))"

definition plot_comparison :: "numpy \<Rightarrow> comparison_row list \<Rightarrow> comparison_row list \<Rightarrow> draw list res" where
  "plot_comparison np results results1 =
     rbind (comparison_statistics np results) (\<lambda>statistics.
     rbind (comparison_statistics np results1) (\<lambda>statistics1.
     let bar_width = fl64 (fl64 (7 / 10) / 8) in
     rbind (rmap (\<lambda>(i, (workload, stats)). comparison_bars i bar_width workload stats statistics1) (enumerate 0 statistics))
       (\<lambda>bars.
     Inr ([TightLayout, Font 20, Figure 20 10] @ concat bars @
          [XTicks (map (\<lambda>i. fl64 (of_nat i + fl64 (bar_width * 4))) [0..<length statistics]),
           XTickLabels (map fst statistics) 20, YLabel ''Execution time (s)'', Legend [], Legend ''upper right'',
           SaveFig ''performance_comparison.pdf'']))))"

section \<open>Reading the elapsed time\<close>

text \<open>An output whose one \<^verbatim>\<open>elapsed\<close> line is \<open>line\<close>.\<close>

definition one_elapsed :: "string \<Rightarrow> string \<Rightarrow> bool" where
  "one_elapsed line s \<longleftrightarrow> filter (\<lambda>l. py_contains l ''elapsed'') (py_split_on newline s) = [line]"

lemma elapsed_lines_one:
  "filter (\<lambda>l. py_contains l ''elapsed'') lines = [line] \<Longrightarrow>
   elapsed_lines exec_label lines t =
     rbind (elapsed_time line t) (\<lambda>t1. case t1 of None \<Rightarrow> Inl UnboundLocalError | Some v \<Rightarrow> Inr ([(exec_label, v)], Some v))"
proof (induction lines)
  case (Cons l lines)
  show ?case
  proof (cases "py_contains l ''elapsed''")
    case True
    with Cons.prems have l: "l = line" "filter (\<lambda>l. py_contains l ''elapsed'') lines = []" by simp_all
    have "elapsed_lines exec_label ls t = Inr ([], t)" if "filter (\<lambda>l. py_contains l ''elapsed'') ls = []" for ls t
      using that by (induction ls) (auto split: if_splits)
    with True l show ?thesis by (cases "elapsed_time line t") (simp_all split: option.split)
  qed (use Cons in simp)
qed simp

lemma elapsed_times_Cons:
  "one_elapsed line s \<Longrightarrow> elapsed_times ((exec_label, PStr s) # results1) t =
     rbind (elapsed_time line t) (\<lambda>t1. case t1 of
        None \<Rightarrow> Inl UnboundLocalError
      | Some v \<Rightarrow> rbind (elapsed_times results1 (Some v)) (\<lambda>rest. Inr ((exec_label, v) # rest)))"
  by (cases "elapsed_time line t") (auto simp: one_elapsed_def elapsed_lines_one rbind_assoc split: option.split)

text \<open>\<open>timed s v\<close>: minutes, seconds and a fraction, which the script reads as \<open>v\<close>.\<close>

definition timed :: "string \<Rightarrow> rat \<Rightarrow> bool" where
  "timed s v \<longleftrightarrow> (case filter (\<lambda>l. py_contains l ''elapsed'') (py_split_on newline s) of
     [line] \<Rightarrow> minutes_seconds line = Inr v | _ \<Rightarrow> False)"

text \<open>\<open>hourly s\<close>: hours, minutes and seconds.\<close>

definition hourly :: "string \<Rightarrow> bool" where
  "hourly s \<longleftrightarrow> (case filter (\<lambda>l. py_contains l ''elapsed'') (py_split_on newline s) of
     [line] \<Rightarrow> (case elapsed_word line of Inr w \<Rightarrow> hours_minutes_seconds w | Inl _ \<Rightarrow> False) | _ \<Rightarrow> False)"

lemma timed_elapsed: "timed s v \<Longrightarrow> elapsed_times ((e, PStr s) # rs) t =
    rbind (elapsed_times rs (Some v)) (\<lambda>rest. Inr ((e, v) # rest))"
proof -
  assume "timed s v"
  then obtain line where "one_elapsed line s" "minutes_seconds line = Inr v"
    by (auto simp: timed_def one_elapsed_def split: list.splits)
  then show ?thesis by (simp add: elapsed_times_Cons elapsed_time_def del: elapsed_times.simps)
qed

lemma elapsed_times_own:
  "list_all2 timed ss vs \<Longrightarrow> length labels = length ss \<Longrightarrow>
   elapsed_times (zip labels (map PStr ss)) t = Inr (zip labels vs)"
proof (induction arbitrary: labels t rule: list_all2_induct)
  case (Cons s ss v vs)
  then obtain e labels' where "labels = e # labels'" by (cases labels) auto
  with Cons show ?case by (simp add: timed_elapsed del: elapsed_times.simps)
qed simp

lemma hms_not_minutes: "hours_minutes_seconds w \<Longrightarrow> elapsed_word line = Inr w \<Longrightarrow> \<exists>e. minutes_seconds line = Inl e"
  by (auto simp: hours_minutes_seconds_def minutes_seconds_def split: list.splits)

lemma hourly_elapsed:
  assumes "hourly s"
  shows "elapsed_times ((e, PStr s) # rs) None = Inl UnboundLocalError"
    and "elapsed_times ((e, PStr s) # rs) (Some v) = rbind (elapsed_times rs (Some v)) (\<lambda>rest. Inr ((e, v) # rest))"
proof -
  obtain line w where line: "one_elapsed line s" "elapsed_word line = Inr w" "hours_minutes_seconds w"
    using assms by (auto simp: hourly_def one_elapsed_def split: list.splits sum.splits)
  from hms_not_minutes [OF line(3,2)] obtain err where "minutes_seconds line = Inl err" ..
  then have "elapsed_time line t = Inr t" for t using line by (simp add: elapsed_time_def)
  then show "elapsed_times ((e, PStr s) # rs) None = Inl UnboundLocalError"
    "elapsed_times ((e, PStr s) # rs) (Some v) = rbind (elapsed_times rs (Some v)) (\<lambda>rest. Inr ((e, v) # rest))"
    by (simp_all add: elapsed_times_Cons [OF line(1)] del: elapsed_times.simps)
qed

section \<open>Rows and bars\<close>

text \<open>The rows of a file of results: one for every time of MVVM, if no other list is shorter.\<close>

definition comparison_fields :: "(rat \<Rightarrow> string) \<Rightarrow> (string \<times> string) list \<Rightarrow> (string \<times> rat) list \<Rightarrow> (string \<times> rat) list \<Rightarrow>
    (string \<times> rat) list \<Rightarrow> (string \<times> rat) list \<Rightarrow> string list list" where
  "comparison_fields float_repr ms hs xs as ns =
     map (\<lambda>k. [fst (ms ! k), snd (ms ! k), float_repr (snd (hs ! k)), float_repr (snd (xs ! k)),
       float_repr (snd (as ! k)), float_repr (snd (ns ! k))]) [0..<length ms]"

lemma write_comparison:
  assumes "length ms \<le> length hs" "length ms \<le> length xs" "length ms \<le> length as" "length ms \<le> length ns"
  shows "write_to_csv_comparison float_repr ms hs xs as ns old =
    Inr (append_csv header_comparison (comparison_fields float_repr ms hs xs as ns) old)"
proof -
  let ?row = "\<lambda>(idx, row). [fst row, snd row, float_repr (snd (hs ! idx)), float_repr (snd (xs ! idx)),
      float_repr (snd (as ! idx)), float_repr (snd (ns ! idx))]"
  have "write_to_csv_comparison float_repr ms hs xs as ns old =
      rbind (Inr (map ?row (enumerate 0 ms))) (\<lambda>rows. Inr (append_csv header_comparison rows old))"
    unfolding write_to_csv_comparison_def using assms
    by (intro arg_cong [where f = "\<lambda>r. rbind r _"] rmap_pure) (auto simp: in_set_enumerate_eq py_index_def)
  moreover have "map ?row (enumerate 0 ms) = comparison_fields float_repr ms hs xs as ns"
    unfolding comparison_fields_def by (intro nth_equalityI) (auto simp: nth_enumerate_eq split: prod.split)
  ultimately show ?thesis by simp
qed

lemma write_comparison_short: "hs = [] \<Longrightarrow> ms \<noteq> [] \<Longrightarrow> write_to_csv_comparison float_repr ms hs xs as ns old = Inl IndexError"
  by (cases ms) (simp_all add: write_to_csv_comparison_def py_index_def enumerate_Suc_eq)

lemma comparison_row_ok:
  assumes "py_float a = Inr va" "py_float b = Inr vb" "py_float c = Inr vc" "py_float d = Inr vd" "py_float e = Inr ve"
  shows "comparison_row_of [name, a, b, c, d, e] = Inr (name, va, vb, vc, vd, ve)"
  using assms by (simp add: comparison_row_of_def float_at_def py_index_def)

lemma comparison_row_header: "comparison_row_of header_comparison = Inl ValueError"
proof -
  have "py_float ''mvvm'' = Inl ValueError" by code_simp
  then show ?thesis by (simp add: comparison_row_of_def header_comparison_def float_at_def py_index_def)
qed

lemma comparison_bars_cases:
  "comparison_bars i w workload stats statistics1 =
     (if workload \<in> set (map fst statistics1)
      then Inr (concat (map (bar_pair i w stats (the (map_of statistics1 workload))) [0..<5])) else Inl KeyError)"
  by (auto simp: comparison_bars_def map_of_eq_None_iff split: option.split dest: map_of_SomeD)
     (metis domI dom_map_of_conv_image_fst image_iff)

end
