(* ===== verification/RunSpec.thy ===== *)
theory RunSpec
  imports BenchLoopCounter Restore RemoteRuns FuncIndex NopMetadata Percentile BenchComparison
begin

text \<open>
  The properties of the functions that run commands, watch processes and read what the tools
  print. Each follows from the lemmas of its component; the first section has what they share
  on the words of a command.
\<close>

section \<open>Words of a command\<close>

definition words_in :: "string \<Rightarrow> string list \<Rightarrow> bool" where
  "words_in s ws \<longleftrightarrow> (\<forall>r. py_split (s @ '' '' @ r) = ws @ py_split r)"

lemma words_in_Nil: "words_in [] []"
  by (simp add: words_in_def py_split_space)

lemma words_in_word: "word w \<Longrightarrow> words_in w [w]"
  by (simp add: words_in_def py_split_word_space)

lemma words_in_append: "words_in s ws \<Longrightarrow> words_in r vs \<Longrightarrow> words_in (s @ '' '' @ r) (ws @ vs)"
  by (simp add: words_in_def)

lemma words_in_join: "list_all2 words_in ss wss \<Longrightarrow> words_in (py_join '' '' ss) (concat wss)"
proof (induction ss wss rule: list_all2_induct)
  case (Cons s ss ws wss)
  then show ?case using words_in_append [of s ws "py_join '' '' ss" "concat wss"] by (cases ss) auto
qed (simp add: words_in_Nil)

lemma words_in_words: "list_all word ws \<Longrightarrow> words_in (py_join '' '' ws) ws"
proof -
  assume "list_all word ws"
  then have "list_all2 words_in ws (map (\<lambda>w. [w]) ws)"
    by (auto simp: list_all2_conv_all_nth list_all_length words_in_word)
  from words_in_join [OF this] show ?thesis by simp
qed

lemma words_in_dash: "list_all word arg \<Longrightarrow> words_in (dash_args arg) (concat (map (\<lambda>x. [''-a'', x]) arg))"
proof -
  assume arg: "list_all word arg"
  have "word ''-a''" by (simp add: word_def is_space_def)
  then have "list_all2 words_in (map (\<lambda>x. ''-a '' @ x) arg) (map (\<lambda>x. [''-a'', x]) arg)"
    using arg words_in_append [OF words_in_word words_in_word, of "''-a''"]
    by (auto simp: list_all2_conv_all_nth list_all_length)
  from words_in_join [OF this] show ?thesis by (simp add: dash_args_def)
qed

lemma words_in_end: "words_in s ws \<Longrightarrow> py_split s = ws"
proof -
  assume "words_in s ws"
  then have "py_split (s @ '' '') = ws" by (auto simp: words_in_def py_split_def dest!: spec [where x = "[]"])
  moreover have "split_ws_aux acc (s @ '' '') = split_ws_aux acc s" for acc
    by (induction acc s rule: split_ws_aux.induct) auto
  ultimately show ?thesis by (simp add: py_split_def)
qed

lemma py_split_strip: "py_split (py_strip s) = py_split s"
proof -
  have front: "split_ws_aux [] (dropWhile is_space s) = split_ws_aux [] s" for s
    by (induction s) auto
  have snoc: "split_ws_aux acc (s @ [c]) = split_ws_aux acc s" if "is_space c" for acc s c
    using that by (induction acc s rule: split_ws_aux.induct) auto
  have rear: "split_ws_aux [] (rev (dropWhile is_space (rev s))) = split_ws_aux [] s" for s
    by (induction s rule: rev_induct) (auto simp: snoc)
  show ?thesis by (simp add: py_split_def py_strip_def strip_by_def lstrip_by_def rstrip_by_def front rear)
qed

lemma word_dashes: "word ''-t''" "word ''-e''" "word ''./MVVM_checkpoint''" "word ''/usr/bin/time''"
  by (simp_all add: word_def is_space_def)

lemma word_prefix: "word w \<Longrightarrow> \<not> list_ex is_space p \<Longrightarrow> word (p @ w)"
  by (auto simp: word_def list_ex_iff)

section \<open>Commands\<close>

lemma run_command_split:
  assumes "word aot_file" and "list_all word arg" and "word env"
  shows "py_split (''./MVVM_checkpoint -t ./bench/'' @ aot_file @ '' '' @ dash_args arg @ '' -e '' @ env @ '' '' @ extra) =
    [''./MVVM_checkpoint'', ''-t'', ''./bench/'' @ aot_file] @ concat (map (\<lambda>x. [''-a'', x]) arg) @ [''-e'', env] @ py_split extra"
proof -
  have f: "word (''./bench/'' @ aot_file)" by (rule word_prefix [OF assms(1)]) (simp add: is_space_def)
  have "words_in (''./MVVM_checkpoint'' @ '' '' @ ''-t'' @ '' '' @ (''./bench/'' @ aot_file) @ '' '' @ dash_args arg @
      '' '' @ ''-e'' @ '' '' @ env)
    ([''./MVVM_checkpoint''] @ [''-t''] @ [''./bench/'' @ aot_file] @ concat (map (\<lambda>x. [''-a'', x]) arg) @ [''-e''] @ [env])"
    by (intro words_in_append words_in_word words_in_dash word_dashes f assms)
  then show ?thesis by (simp add: words_in_def)
qed

text \<open>A world in which every process succeeds and prints \<^verbatim>\<open>ok\<close>.\<close>

definition quiet_world :: world where
  "quiet_world = \<lparr>w_run = \<lambda>t. Some (''ok'', []), w_started = \<lambda>t. True, w_streams = \<lambda>t. ([], []), w_ended = \<lambda>t. True,
     w_clock = \<lambda>t. 0, w_pid = \<lambda>t. 1\<rparr>"

text \<open>
  C17. \<^verbatim>\<open>run\<close> prints its command and runs it once: the file under \<^verbatim>\<open>./bench/\<close>, every argument
  after an \<^verbatim>\<open>-a\<close> of its own, the environment, then the extra options, in this order and nothing
  else. The result is the label \<^verbatim>\<open>env file args\<close> with the decoded standard output, or
  \<^verbatim>\<open>FileNotFoundError\<close> when there is no such program.
\<close>

theorem run_argv:
  assumes "word aot_file" and "list_all word arg" and "word env"
  shows "\<exists>cmd. (let t1 = t @ [Print cmd, Run ([''./MVVM_checkpoint'', ''-t'', ''./bench/'' @ aot_file] @
      concat (map (\<lambda>x. [''-a'', x]) arg) @ [''-e'', env] @ py_split extra) None] in
    run aot_file arg env extra w t =
      (case w_run w t1 of
         None \<Rightarrow> Inl FileNotFoundError
       | Some (out, err) \<Rightarrow> rbind (decode_or_bytes out) (\<lambda>output. Inr (py_join '' '' (env # aot_file # arg), output)), t1))"
  using plain.act_run [where j = "(aot_file, arg, env, extra)" and w = w and t = t, unfolded plain.issued_def]
  unfolding run_command_split [OF assms, symmetric] Let_def
  by (intro exI) (auto simp: rbind_def exec_name_def split: option.split sum.split)

theorem run_argv_witness:
  "\<exists>cmd. (let t1 = [] @ [Print cmd, Run ([''./MVVM_checkpoint'', ''-t'', ''./bench/'' @ ''bc.aot''] @
      concat (map (\<lambda>x. [''-a'', x]) [''-g20'', ''-vn300'']) @ [''-e'', ''a=b''] @ py_split ''-c 5'') None] in
    run ''bc.aot'' [''-g20'', ''-vn300''] ''a=b'' ''-c 5'' quiet_world [] =
      (case w_run quiet_world t1 of
         None \<Rightarrow> Inl FileNotFoundError
       | Some (out, err) \<Rightarrow> rbind (decode_or_bytes out) (\<lambda>output.
           Inr (py_join '' '' (''a=b'' # ''bc.aot'' # [''-g20'', ''-vn300'']), output)), t1))"
  by (rule run_argv) (simp_all add: word_def is_space_def)

lemma native_command_split:
  assumes "word file_name" and "word folder" and "list_all word arg"
  shows "py_split (py_strip (''/usr/bin/time '' @ pwd @ ''/bench/'' @ folder @ ''/build/'' @ file_name @ '' '' @ py_join '' '' arg)) =
    [''/usr/bin/time'', pwd @ ''/bench/'' @ folder @ ''/build/'' @ file_name] @ arg"
proof -
  have "word ((pwd @ ''/bench/'' @ folder @ ''/build/'') @ file_name)"
    using assms(1,2) by (intro word_prefix) (auto simp: pwd_def is_space_def word_def list_ex_iff)
  then have "words_in (''/usr/bin/time'' @ '' '' @ ((pwd @ ''/bench/'' @ folder @ ''/build/'') @ file_name) @ '' '' @ py_join '' '' arg)
    ([''/usr/bin/time''] @ [(pwd @ ''/bench/'' @ folder @ ''/build/'') @ file_name] @ arg)"
    by (intro words_in_append words_in_word words_in_words word_dashes assms)
  from words_in_end [OF this] show ?thesis by (simp add: py_split_strip)
qed

text \<open>
  C18. \<^verbatim>\<open>run_native\<close> runs the native binary under \<^verbatim>\<open>/usr/bin/time\<close> with the arguments as they are
  and exactly one environment variable, the two sides of \<^verbatim>\<open>=\<close>; it reports standard error,
  where the times are. An environment without exactly one \<^verbatim>\<open>=\<close> raises \<^verbatim>\<open>ValueError\<close> before
  anything is run.
\<close>

theorem run_native_env:
  assumes "word file_name" and "word folder" and "list_all word arg"
  shows "\<exists>cmd. run_native file_name folder arg env w t =
    (case py_split_on (CHR ''='') env of
       [k, v] \<Rightarrow>
         (let t1 = t @ [Print cmd, Run ([''/usr/bin/time'', pwd @ ''/bench/'' @ folder @ ''/build/'' @ file_name] @ arg) (Some [(k, v)])] in
          (case w_run w t1 of
             None \<Rightarrow> Inl FileNotFoundError
           | Some (out, err) \<Rightarrow> rbind (decode_or_bytes err) (\<lambda>output. Inr (exec_name env file_name arg, output)), t1))
     | _ \<Rightarrow> (Inl ValueError, t @ [Print cmd]))"
proof (cases "\<exists>d. env_dict env = Inr d")
  case True
  then obtain k v where kv: "py_split_on (CHR ''='') env = [k, v]"
    by (auto simp: env_dict_def split: list.splits)
  have "env_dict env = Inr [(k, v)]" by (simp add: env_dict_def kv)
  with native.act_run [where j = "(file_name, folder, arg, env)" and w = w and t = t, unfolded native.issued_def] True
  show ?thesis unfolding kv native_command_split [OF assms, symmetric] Let_def
    by (intro exI) (auto simp: rbind_def split: option.split sum.split)
next
  case False
  then have "env_dict env = Inl ValueError"
    by (auto simp: env_dict_def split: list.splits)
  then have "\<exists>cmd. run_native file_name folder arg env w t = (Inl ValueError, t @ [Print cmd])"
    by (auto simp: run_native_def Let_def io_bind_def io_do_def io_lift_def)
  then obtain cmd where cmd: "run_native file_name folder arg env w t = (Inl ValueError, t @ [Print cmd])" ..
  have "py_split_on (CHR ''='') env \<noteq> [k, v]" for k v using False by (auto simp: env_dict_def)
  then show ?thesis unfolding cmd by (intro exI [of _ cmd]) (simp split: list.split)
qed

theorem run_native_env_witness:
  "\<exists>cmd. run_native ''bt'' ''nas'' [] ''a=b=c'' quiet_world [] =
    (case py_split_on (CHR ''='') ''a=b=c'' of
       [k, v] \<Rightarrow>
         (let t1 = [] @ [Print cmd, Run ([''/usr/bin/time'', pwd @ ''/bench/'' @ ''nas'' @ ''/build/'' @ ''bt''] @ []) (Some [(k, v)])] in
          (case w_run quiet_world t1 of
             None \<Rightarrow> Inl FileNotFoundError
           | Some (out, err) \<Rightarrow> rbind (decode_or_bytes err) (\<lambda>output. Inr (exec_name ''a=b=c'' ''bt'' [], output)), t1))
     | _ \<Rightarrow> (Inl ValueError, [] @ [Print cmd]))"
  by (rule run_native_env) (simp_all add: word_def is_space_def)

section \<open>Watching\<close>

text \<open>
  C19. With a clock that does not stand still, \<^verbatim>\<open>run_restore\<close> always returns, after at most 235
  rounds of its loop. In every round the process was found running within its 20 seconds; at the
  end it was found ended, or the limit was reached and it was terminated, and killed if the
  second of grace did not end it. Only then is its output collected, once.
\<close>

theorem run_restore_ends:
  assumes "steady_clock w" and "235 \<le> fuel" and "word aot_file"
    and started: "w_started w (t @ [Print (''./MVVM_restore -t ./bench/'' @ aot_file),
      Popen [''./MVVM_restore'', ''-t'', ''./bench/'' @ aot_file] None])"
  shows "\<exists>k es. let t2 = t @ [Print (''./MVVM_restore -t ./bench/'' @ aot_file),
        Popen [''./MVVM_restore'', ''-t'', ''./bench/'' @ aot_file] None, Clock];
        t3 = t2 @ concat (replicate k [Poll, Clock, Sleep (1 / 10)]) @ es @ [Communicate] in
      k < 235 \<and> ending w (w_clock w t2) (t2 @ concat (replicate k [Poll, Clock, Sleep (1 / 10)])) es \<and>
      run_restore fuel aot_file arg env w t =
        (rbind (text_mode (fst (w_streams w t3))) (\<lambda>out.
         rbind (text_mode (snd (w_streams w t3))) (\<lambda>err. Inr (exec_name env aot_file arg, out))), t3)"
proof -
  have split: "py_split (''./MVVM_restore -t ./bench/'' @ aot_file) = [''./MVVM_restore'', ''-t'', ''./bench/'' @ aot_file]"
  proof -
    have "word ''./MVVM_restore''" by (simp add: word_def is_space_def)
    moreover have "word (''./bench/'' @ aot_file)" by (rule word_prefix [OF assms(3)]) (simp add: is_space_def)
    ultimately have "words_in (''./MVVM_restore'' @ '' '' @ ''-t'' @ '' '' @ (''./bench/'' @ aot_file))
        ([''./MVVM_restore''] @ [''-t''] @ [''./bench/'' @ aot_file])"
      by (intro words_in_append words_in_word word_dashes)
    from words_in_end [OF this] show ?thesis by simp
  qed
  let ?t2 = "t @ [Print (''./MVVM_restore -t ./bench/'' @ aot_file),
      Popen [''./MVVM_restore'', ''-t'', ''./bench/'' @ aot_file] None, Clock]"
  obtain k es where k: "k < 235"
    "poll_loop fuel (w_clock w ?t2) w ?t2 = (Inr (), ?t2 @ concat (replicate k round_events) @ es)"
    "ending w (w_clock w ?t2) (?t2 @ concat (replicate k round_events)) es"
    using poll_loop_ends [OF assms(1,2), of ?t2] by blast
  show ?thesis
    using k started unfolding run_restore_run split round_events_def Let_def
    by (intro exI [of _ k] exI [of _ es]) (simp only: append_assoc append_Cons append_Nil, simp)
qed

text \<open>A clock that a sleep moves by its time and nothing else, and a process that never ends.\<close>

definition slept :: "sys_event list \<Rightarrow> rat" where
  "slept t = sum_list (map (\<lambda>e. case e of Sleep s \<Rightarrow> max 0 s | _ \<Rightarrow> 0) t)"

definition hanging_world :: world where
  "hanging_world = \<lparr>w_run = \<lambda>t. None, w_started = \<lambda>t. True, w_streams = \<lambda>t. (''out'', []), w_ended = \<lambda>t. False,
     w_clock = slept, w_pid = \<lambda>t. 1\<rparr>"

lemma hanging_steady: "steady_clock hanging_world"
  by (auto simp: steady_clock_def hanging_world_def slept_def max_def split: sys_event.split)

theorem run_restore_ends_witness:
  "\<exists>k es. let t2 = [] @ [Print (''./MVVM_restore -t ./bench/'' @ ''bc.aot''),
        Popen [''./MVVM_restore'', ''-t'', ''./bench/'' @ ''bc.aot''] None, Clock];
        t3 = t2 @ concat (replicate k [Poll, Clock, Sleep (1 / 10)]) @ es @ [Communicate] in
      k < 235 \<and> ending hanging_world (w_clock hanging_world t2) (t2 @ concat (replicate k [Poll, Clock, Sleep (1 / 10)])) es \<and>
      run_restore 235 ''bc.aot'' [] ''a=b'' hanging_world [] =
        (rbind (text_mode (fst (w_streams hanging_world t3))) (\<lambda>out.
         rbind (text_mode (snd (w_streams hanging_world t3))) (\<lambda>err. Inr (exec_name ''a=b'' ''bc.aot'' [], out))), t3)"
  by (rule run_restore_ends) (rule hanging_steady, simp_all add: hanging_world_def word_def is_space_def)


section \<open>Times\<close>







text \<open>
  C23. The comparison's four runs that read \<^verbatim>\<open>elapsed\<close> lines: when every job ends and reports one
  line with minutes and seconds, there is one result per job, in the order of the jobs, with the
  label and the time of that job.
\<close>

theorem comparison_times_own:
  assumes "(act, bench) \<in> {(run_hcontainer, run_hcontainer_comparison), (run_qemu_x86_64, run_qemu_x86_64_comparison),
      (run_qemu_aarch64, run_qemu_aarch64_comparison), (run_native, run_native_comparison)}"
    and "length ss = length folder_jobs" and "list_all2 timed ss vs"
    and "\<And>k file_name folder arg env. k < length folder_jobs \<Longrightarrow> folder_jobs ! k = (file_name, folder, arg, env) \<Longrightarrow>
      fst (act file_name folder arg env (ws k) []) = Inr (exec_name env file_name arg, PStr (ss ! k))"
  shows "bench ws = Inr (zip (map (\<lambda>(file_name, folder, arg, env). exec_name env file_name arg) folder_jobs) vs)"
proof -
  let ?labels = "map (\<lambda>(file_name, folder, arg, env). exec_name env file_name arg) folder_jobs"
  have "pool_results (\<lambda>(aot, folder, arg, env). act aot folder arg env) ws folder_jobs =
      Inr (map (\<lambda>(k, (file_name, folder, arg, env)). (exec_name env file_name arg, PStr (ss ! k))) (enumerate 0 folder_jobs))"
    unfolding pool_results_def using assms(4) by (intro rmap_pure) (auto simp: in_set_enumerate_eq split: prod.splits)
  also have "map (\<lambda>(k, (file_name, folder, arg, env)). (exec_name env file_name arg, PStr (ss ! k))) (enumerate 0 folder_jobs) =
      zip ?labels (map PStr ss)"
    using assms(2) by (intro nth_equalityI) (auto simp: nth_enumerate_eq split: prod.split)
  finally have "rbind (pool_results (\<lambda>(aot, folder, arg, env). act aot folder arg env) ws folder_jobs)
      (\<lambda>results1. elapsed_times results1 None) = Inr (zip ?labels vs)"
    using elapsed_times_own [OF assms(3), of ?labels None] assms(2) by simp
  then show ?thesis
    using assms(1) by (auto simp: run_hcontainer_comparison_def run_qemu_x86_64_comparison_def
        run_qemu_aarch64_comparison_def run_native_comparison_def)
qed

definition timed_world :: world where
  "timed_world = \<lparr>w_run = \<lambda>t. Some ([], ''0.00user 0.00system 1:02.50elapsed''), w_started = \<lambda>t. True,
     w_streams = \<lambda>t. ([], []), w_ended = \<lambda>t. True, w_clock = \<lambda>t. 0, w_pid = \<lambda>t. 1\<rparr>"

lemma timed_line: "timed ''0.00user 0.00system 1:02.50elapsed'' (fl64 (fl64 62 + fl64 (50 / 1000)))"
proof -
  have "filter (\<lambda>l. py_contains l ''elapsed'') (py_split_on newline ''0.00user 0.00system 1:02.50elapsed'') =
      [''0.00user 0.00system 1:02.50elapsed'']" by code_simp
  moreover have "elapsed_word ''0.00user 0.00system 1:02.50elapsed'' = Inr ''1:02.50''" by code_simp
  moreover have "py_split_on (CHR '':'') ''1:02.50'' = [''1'', ''02.50'']" "py_split_on (CHR ''.'') ''02.50'' = [''02'', ''50'']"
    "py_int ''1'' = Inr 1" "py_int ''02'' = Inr 2" "py_int ''50'' = Inr 50" by code_simp+
  ultimately show ?thesis by (simp add: timed_def minutes_seconds_def)
qed

lemma timed_world_runs:
  "fst (run_qemu_x86_64 file_name folder arg env timed_world t) =
    Inr (exec_name env file_name arg, PStr ''0.00user 0.00system 1:02.50elapsed'')"
proof -
  have "ascii ''0.00user 0.00system 1:02.50elapsed''" by code_simp
  then show ?thesis
    using qemu_x86.result_output [where j = "(file_name, folder, arg, env)" and w = timed_world and t = t and
        streams = "([], ''0.00user 0.00system 1:02.50elapsed'')"]
    by (simp add: timed_world_def)
qed

theorem comparison_times_own_witness:
  "run_qemu_x86_64_comparison (\<lambda>k. timed_world) =
    Inr (zip (map (\<lambda>(file_name, folder, arg, env). exec_name env file_name arg) folder_jobs)
      (replicate (length folder_jobs) (fl64 (fl64 62 + fl64 (50 / 1000)))))"
proof (rule comparison_times_own [where act = run_qemu_x86_64 and bench = run_qemu_x86_64_comparison and
      ss = "replicate (length folder_jobs) ''0.00user 0.00system 1:02.50elapsed''"])
  show "list_all2 timed (replicate (length folder_jobs) ''0.00user 0.00system 1:02.50elapsed'')
      (replicate (length folder_jobs) (fl64 (fl64 62 + fl64 (50 / 1000))))"
    using timed_line by (simp add: list_all2_conv_all_nth)
qed (simp_all add: timed_world_runs)




section \<open>Reading what the tools print\<close>

text \<open>
  C25. \<^verbatim>\<open>get_avg_99percent\<close> gives every sample the mean and the 99th percentile of its own thousand;
  the samples after the last full thousand get those of that thousand. Fewer than a thousand
  samples raise \<^verbatim>\<open>IndexError\<close>.
\<close>

theorem avg_99_groups:
  assumes "1000 \<le> length data" and "length short < 1000"
  shows "get_avg_99percent np short = Inl IndexError \<and>
    (\<exists>avgs p99s. get_avg_99percent np data = Inr (avgs, p99s) \<and>
      length avgs = length data \<and> length p99s = length data \<and>
      (\<forall>i < length data. avgs ! i = np_mean np (sample_group data i) \<and>
         p99s ! i = np_percentile np (sample_group data i) 99))"
  using get_avg_99percent_long [OF assms(1)] get_avg_99percent_short [OF assms(2)] by blast

theorem avg_99_groups_witness:
  "get_avg_99percent \<lparr>np_mean = hd, np_median = hd, np_std = last, np_percentile = \<lambda>xs p. last xs\<rparr> [1, 2] = Inl IndexError \<and>
    (\<exists>avgs p99s. get_avg_99percent \<lparr>np_mean = hd, np_median = hd, np_std = last, np_percentile = \<lambda>xs p. last xs\<rparr>
        (replicate 1500 7) = Inr (avgs, p99s) \<and>
      length avgs = length (replicate 1500 (7::rat)) \<and> length p99s = length (replicate 1500 (7::rat)) \<and>
      (\<forall>i < length (replicate 1500 (7::rat)).
         avgs ! i = np_mean \<lparr>np_mean = hd, np_median = hd, np_std = last, np_percentile = \<lambda>xs p. last xs\<rparr> (sample_group (replicate 1500 7) i) \<and>
         p99s ! i = np_percentile \<lparr>np_mean = hd, np_median = hd, np_std = last, np_percentile = \<lambda>xs p. last xs\<rparr> (sample_group (replicate 1500 7) i) 99))"
  by (rule avg_99_groups) simp_all

text \<open>
  C26. The two readers of a module's functions agree: the index that \<^verbatim>\<open>get_func_index\<close> finds is the
  index of a line with the name, it is the first one, and \<^verbatim>\<open>get_func_name\<close> at that index takes the
  name from that line and counts the imports off the index.
\<close>

theorem func_index_name_agree:
  assumes "fst (get_func_index func wasm w t) = Inr (Some i)"
  shows "\<exists>output line. fst (wat_func_lines wasm w t) = Inr output \<and> line \<in> set (py_split_on newline output) \<and>
    py_contains line func \<and> kept_line line \<and> filter kept_line (py_split_on newline output) ! i = line \<and>
    (\<forall>j < i. \<not> py_contains (filter kept_line (py_split_on newline output) ! j) func) \<and>
    fst (get_func_name (int i) wasm w t) = rbind (py_index (py_split_on (CHR '' '') line) 3) (\<lambda>name.
      Inr (Some (name, int i - int (length (filter (\<lambda>x. py_contains x ''(import '') (py_split_on newline output))))))"
proof -
  obtain dump t1 where out: "wat_func_lines wasm w t = (Inr dump, t1)" "func_index_of func dump = Some i"
    using assms by (auto simp: get_func_index_run split: prod.splits sum.splits)
  let ?kept = "filter kept_line (py_split_on newline dump)"
  have i: "i < length ?kept" "py_contains (?kept ! i) func" "\<forall>j < i. \<not> py_contains (?kept ! j) func"
    using out(2) by (simp_all add: func_index_of_def first_index_Some)
  then have "?kept ! i \<in> set (py_split_on newline dump)" "kept_line (?kept ! i)" using nth_mem by force+
  with i out show ?thesis
    by (intro exI [of _ dump] exI [of _ "?kept ! i"]) (simp add: get_func_name_run func_name_of_def Let_def)
qed

definition wat_world :: world where
  "wat_world = \<lparr>w_run = \<lambda>t. None, w_started = \<lambda>t. True,
     w_streams = \<lambda>t. (''  (import x (func $fd))'' @ [newline] @ ''  (func $main (type 0)'', []),
     w_ended = \<lambda>t. True, w_clock = \<lambda>t. 0, w_pid = \<lambda>t. 1\<rparr>"

lemma wat_world_main: "fst (get_func_index ''$main'' ''m.wasm'' wat_world []) = Inr (Some 1)"
  by code_simp

theorem func_index_name_agree_witness:
  "\<exists>output line. fst (wat_func_lines ''m.wasm'' wat_world []) = Inr output \<and> line \<in> set (py_split_on newline output) \<and>
    py_contains line ''$main'' \<and> kept_line line \<and> filter kept_line (py_split_on newline output) ! 1 = line \<and>
    (\<forall>j < 1. \<not> py_contains (filter kept_line (py_split_on newline output) ! j) ''$main'') \<and>
    fst (get_func_name (int 1) ''m.wasm'' wat_world []) = rbind (py_index (py_split_on (CHR '' '') line) 3) (\<lambda>name.
      Inr (Some (name, int 1 - int (length (filter (\<lambda>x. py_contains x ''(import '') (py_split_on newline output))))))"
  by (rule func_index_name_agree) (rule wat_world_main)



end
