(* ===== verification/BenchSpec.thy ===== *)
theory BenchSpec
  imports BenchLoopCounter BenchComparison Averages Plots
begin

text \<open>
  The properties of the benchmark scripts as a whole: what ends up in the rows of a run, whether
  the file of results can be read back, and what is averaged and drawn.
\<close>

section \<open>Rows of a run\<close>

text \<open>
  C28. The two runs of \<^verbatim>\<open>bench_loop_counter.py\<close>: when each of the 306 jobs ends with an output that
  has a line with the key, there are 34 rows, one per trial and workload. The row starts with the
  label of the workload's plain job, and its \<open>n\<close>-th time is the one printed by that same
  workload's job for the \<open>n\<close>-th variant: no time is lost, doubled or put under another variant.
\<close>

theorem loop_counter_rows:
  assumes "(act, key, bench) \<in> {(run_job, ''Execution time:'', run_mvvm_loop_counter),
      (run_checkpoint_job, ''Snapshot Overhead:'', run_mvvm_snapshot)}"
    and "length ss = length counter_jobs" and "list_all (has_time key) ss"
    and "\<And>k. k < length counter_jobs \<Longrightarrow> prints act (ss ! k) (ws k) (counter_jobs ! k)"
  shows "bench ws = Inr (map (\<lambda>r. job_label (counter_jobs ! (9 * r + 7)) # map (\<lambda>n. last_time key (ss ! (9 * r + n)) []) [0..<9]) [0..<34]) \<and>
    (\<forall>r < 34. \<forall>n < 9. counter_jobs ! (9 * r + n) = (cmd_loop_counter ! (r mod 17) @ aot_variant_freq ! n,
       arg_loop_counter ! (r mod 17), envs_loop_counter ! (r mod 17)))"
proof -
  have key: "CHR '' '' \<in> set key" using assms(1) by auto
  have len: "length ss = 9 * 34" using assms(2) length_counter_jobs by simp
  have "pool_results act ws counter_jobs = Inr (zip (map job_label counter_jobs) (map PStr ss))"
    using assms(2,4) by (intro pool_results_str) simp_all
  then have "bench ws = Inr (counter_rows key ss)"
    using assms(1) sort_counter_outputs [OF key len assms(3)]
    by (auto simp: run_mvvm_loop_counter_def run_mvvm_snapshot_def)
  then show ?thesis using counter_jobs_nth unfolding counter_rows_def by blast
qed

definition busy_world :: world where
  "busy_world = \<lparr>w_run = \<lambda>t. Some (''Execution time: 1.5 s'', []), w_started = \<lambda>t. True, w_streams = \<lambda>t. ([], []),
     w_ended = \<lambda>t. True, w_clock = \<lambda>t. 0, w_pid = \<lambda>t. 1\<rparr>"

lemma busy_prints: "prints run_job ''Execution time: 1.5 s'' busy_world job"
proof -
  obtain aot arg env where job: "job = (aot, arg, env)" by (cases job)
  have "ascii ''Execution time: 1.5 s''" by code_simp
  then show ?thesis unfolding job by (intro prints_run [where err = "[]"]) (simp_all add: busy_world_def)
qed

lemma busy_has_time: "has_time ''Execution time:'' ''Execution time: 1.5 s''"
  by code_simp

theorem loop_counter_rows_witness:
  "run_mvvm_loop_counter (\<lambda>k. busy_world) = Inr (map (\<lambda>r. job_label (counter_jobs ! (9 * r + 7)) #
      map (\<lambda>n. last_time ''Execution time:'' (replicate (length counter_jobs) ''Execution time: 1.5 s'' ! (9 * r + n)) []) [0..<9]) [0..<34])"
proof (rule conjunct1 [OF loop_counter_rows [where act = run_job]])
  show "list_all (has_time ''Execution time:'') (replicate (length counter_jobs) ''Execution time: 1.5 s'')"
    using busy_has_time by (simp add: list_all_length)
  show "prints run_job (replicate (length counter_jobs) ''Execution time: 1.5 s'' ! k) busy_world (counter_jobs ! k)"
    if "k < length counter_jobs" for k
    using busy_prints [of "counter_jobs ! k"] that by (simp only: nth_replicate)
qed simp_all

text \<open>
  C29. The three \<^verbatim>\<open>bench_policy\<close> scripts never have a row: whatever their jobs print,
  \<^verbatim>\<open>run_mvvm\<close> raises or returns the empty list. The table of variants lacks
  \<^verbatim>\<open>-ckpt-loop-dirty.aot\<close>, so the last of the zipped lists stays empty.
\<close>

theorem policy_never_rows:
  "\<forall>rows \<in> {run_mvvm_policy ws, run_mvvm_policy_mac ws, run_mvvm_policy_multithread ws}.
     rows = Inr [] \<or> (\<exists>e. rows = Inl e)"
proof -
  have *: "rbind r (\<lambda>results1. rbind (sort_outputs key bin 0 aot_variant results1 [] ([], replicate 6 []))
      (\<lambda>st. Inr (zip_bins st))) \<in> {Inr []} \<union> range Inl"
    if "\<And>e a. a \<in> set aot_variant \<Longrightarrow> bin e a \<noteq> Some 5" for r key bin
    using no_rows [where bin = bin and m = 5 and named = 0, OF _ that]
    by (cases r) (auto simp: rbind_def split: sum.splits)
  show ?thesis
    using * [of policy_bin] * [of policy_bin_mac] * [of policy_bin_multithread] policy_bin_unused
    unfolding run_mvvm_policy_def run_mvvm_policy_mac_def run_mvvm_policy_multithread_def by blast
qed

theorem policy_never_rows_witness:
  "run_mvvm_policy (\<lambda>k. busy_world) = Inr [] \<or> (\<exists>e. run_mvvm_policy (\<lambda>k. busy_world) = Inl e)"
  using policy_never_rows [of "\<lambda>k. busy_world"] by blast

section \<open>Files of results\<close>

text \<open>
  C30. A file that \<^verbatim>\<open>bench_policy.py\<close> writes anew is read back row by row: the name and the values of
  five of the six columns of times; the column of \<^verbatim>\<open>ckpt-every-dirty\<close> is left out.
\<close>

theorem policy_file_read_back:
  assumes "\<And>row. row \<in> set rows \<Longrightarrow> length row = 7 \<and> table_row row \<and> cells v row"
  shows "rbind (write_to_csv_policy rows []) read_from_csv_policy =
    Inr (map (\<lambda>row. (row ! 0, v (row ! 1), v (row ! 2), v (row ! 3), v (row ! 5), v (row ! 6))) rows)"
proof -
  have "rmap (columns 7) rows = Inr (map (take 7) rows)" using assms by (intro written_rows) auto
  moreover have "map (take 7) rows = rows" using assms by (intro map_idI) simp
  moreover have "table_row header_policy" by (simp add: table_row_def header_policy_def carriage_def)
  moreover have "list_all table_row rows" using assms by (simp add: list_all_iff)
  moreover have "rmap policy_row_of rows = Inr (map (\<lambda>row. (row ! 0, v (row ! 1), v (row ! 2), v (row ! 3), v (row ! 5), v (row ! 6))) rows)"
    using assms by (intro rmap_pure policy_row_ok) auto
  ultimately show ?thesis
    by (simp add: write_to_csv_policy_def read_from_csv_policy_def read_table_once)
qed

theorem policy_file_read_back_witness:
  "rbind (write_to_csv_policy [''a=b bc.aot'' # replicate 6 ''2''] []) read_from_csv_policy =
    Inr (map (\<lambda>row. (row ! 0, (\<lambda>_. 2) (row ! 1), (\<lambda>_. 2) (row ! 2), (\<lambda>_. 2) (row ! 3), (\<lambda>_. 2) (row ! 5), (\<lambda>_. 2) (row ! 6)))
      [''a=b bc.aot'' # replicate 6 ''2''])"
  by (rule policy_file_read_back) (auto simp: table_row_def carriage_def cells_def list_all_iff py_float_2)

text \<open>
  C31. What \<^verbatim>\<open>bench_policy_multithread.py\<close> writes, its own reader cannot read: the rows have six
  fields and the reader takes a seventh, so that any row of numbers raises \<^verbatim>\<open>IndexError\<close>.
\<close>

theorem multithread_file_unreadable:
  assumes "rows \<noteq> []" and "\<And>row. row \<in> set rows \<Longrightarrow> length row = 7 \<and> table_row row \<and> cells v row"
  shows "\<exists>file. write_to_csv_multithread rows [] = Inr file \<and> read_from_csv_multithread file = Inl IndexError"
proof -
  have cols: "rmap (columns 6) rows = Inr (map (take 6) rows)" using assms(2) by (intro written_rows) auto
  have header: "table_row header_multithread" by (simp add: table_row_def header_multithread_def carriage_def)
  have rows: "list_all table_row (map (take 6) rows)"
    using assms(2) by (auto simp: list_all_iff table_row_def dest: in_set_takeD)
  obtain r rest where r: "rows = r # rest" using assms(1) by (cases rows) auto
  then have "length r = 7" "cells v r" using assms(2) by auto
  then have "length (take 6 r) = 6" "cells v (take 6 r)"
    by (cases r; auto simp: cells_def list_all_iff dest: in_set_takeD)+
  then have "policy_row_of (take 6 r) = Inl IndexError" by (rule policy_row_short)
  with r have "rmap policy_row_of (map (take 6) rows) = Inl IndexError" by simp
  with read_table_once [OF header rows] have "read_table policy_row_of (append_csv header_multithread (map (take 6) rows) []) = Inl IndexError"
    by (rule trans)
  with cols show ?thesis by (simp add: write_to_csv_multithread_def read_from_csv_multithread_def)
qed

theorem multithread_file_unreadable_witness:
  "\<exists>file. write_to_csv_multithread [''a=b bc.aot'' # replicate 6 ''2''] [] = Inr file \<and>
    read_from_csv_multithread file = Inl IndexError"
  by (rule multithread_file_unreadable [where v = "\<lambda>_. 2"])
     (auto simp: table_row_def carriage_def cells_def list_all_iff py_float_2)

lemma second_header:
  assumes "table_row header" and "list_all table_row rows" and "list_all table_row rows'"
    and "row header = Inl ValueError" and "\<And>r. r \<in> set rows \<Longrightarrow> \<exists>x. row r = Inr x"
  shows "read_table row (append_csv header rows' (append_csv header rows [])) = Inl ValueError"
proof -
  have "\<exists>xs. rmap row rows = Inr xs" using assms(5) by (induction rows) fastforce+
  then show ?thesis using read_table_twice [OF assms(1-3), of row] assms(4) by auto
qed

text \<open>
  C32. The scripts append: when one of them runs again with its file still there, the second
  header is read as a row, and reading raises \<^verbatim>\<open>ValueError\<close>, whatever the rows of numbers were.
\<close>

theorem second_run_unreadable:
  assumes "\<And>row. row \<in> set rows \<union> set rows' \<Longrightarrow> length row = 7 \<and> table_row row"
    and "\<And>row. row \<in> set rows \<Longrightarrow> cells v row"
  shows "rbind (rbind (write_to_csv_policy rows []) (write_to_csv_policy rows')) read_from_csv_policy = Inl ValueError"
proof -
  have cols: "rmap (columns 7) rs = Inr rs" if "set rs \<subseteq> set rows \<union> set rows'" for rs
  proof -
    have "rmap (columns 7) rs = Inr (map (take 7) rs)" using assms(1) that by (intro written_rows) auto
    moreover have "map (take 7) rs = rs" using assms(1) that by (intro map_idI) auto
    ultimately show ?thesis by simp
  qed
  have "table_row header_policy" by (simp add: table_row_def header_policy_def carriage_def)
  moreover have "list_all table_row rows" "list_all table_row rows'" using assms(1) by (auto simp: list_all_iff)
  moreover have "\<exists>x. policy_row_of r = Inr x" if "r \<in> set rows" for r
    using policy_row_ok [of r v] assms that by auto
  ultimately have "read_table policy_row_of (append_csv header_policy rows' (append_csv header_policy rows [])) = Inl ValueError"
    using policy_row_header(1) by (intro second_header)
  then show ?thesis using cols [of rows] cols [of rows'] by (simp add: write_to_csv_policy_def read_from_csv_policy_def)
qed

theorem second_run_unreadable_witness:
  "rbind (rbind (write_to_csv_policy [''a=b bc.aot'' # replicate 6 ''2''] [])
      (write_to_csv_policy [''a=b bc.aot'' # replicate 6 ''2''])) read_from_csv_policy = Inl ValueError"
  by (rule second_run_unreadable [where v = "\<lambda>_. 2"])
     (auto simp: table_row_def carriage_def cells_def list_all_iff py_float_2)

section \<open>Averages\<close>



text \<open>
  The average of the baseline is exactly one, rounding errors included, for each of the four
  functions and every number of rows that a float can count.
\<close>

lemma baseline_average_one:
  assumes "length rs \<le> 2 ^ 53" and "length cs \<le> 2 ^ 53" and "length ss \<le> 2 ^ 53"
    and "rs \<noteq> []" and "filter (\<lambda>r. counted_workload (fst r)) rs \<noteq> []" and "cs \<noteq> []" and "ss \<noteq> []"
  shows "map_of (calculate_averages rs) ''pure'' = Some 1 \<and>
    map_of (calculate_averages_comparison rs) ''native'' = Some 1 \<and>
    map_of (calculate_loop_counter_averages cs) ''pure'' = Some 1 \<and>
    map_of (calculate_loop_counter_snapshot_averages ss) ''ckptloopcounter1'' = Some 1"
proof -
  have "length (filter (\<lambda>r. counted_workload (fst r)) rs) \<le> 2 ^ 53"
    using length_filter_le [of "\<lambda>r. counted_workload (fst r)" rs] assms(1) by (rule order_trans)
  then show ?thesis
    unfolding calculate_averages_def calculate_averages_comparison_def calculate_loop_counter_averages_def
      calculate_loop_counter_snapshot_averages_def
    using assms by (intro conjI average_baseline [OF _ policy_keys(1)] average_baseline [OF _ policy_keys(2)]
        average_baseline [OF _ policy_keys(3)] average_baseline [OF _ policy_keys(4)] policy_baselines) simp_all
qed

lemma baseline_average_one_witness:
  "map_of (calculate_averages [(''a=b bc.aot'', 2, 3, 4, 5, 6)]) ''pure'' = Some 1 \<and>
    map_of (calculate_averages_comparison [(''a=b bc.aot'', 2, 3, 4, 5, 6)]) ''native'' = Some 1 \<and>
    map_of (calculate_loop_counter_averages [(''a=b bc.aot'', 1, 2, 3, 4, 5, 6, 7, 8, 9)]) ''pure'' = Some 1 \<and>
    map_of (calculate_loop_counter_snapshot_averages [(''a=b bc.aot'', 1, 2, 3, 4, 5, 6)]) ''ckptloopcounter1'' = Some 1"
proof (rule baseline_average_one)
  have "counted_workload ''a=b bc.aot''" by code_simp
  then show "filter (\<lambda>r. counted_workload (fst r)) [(''a=b bc.aot'', 2::rat, 3::rat, 4::rat, 5::rat, 6::rat)] \<noteq> []" by simp
qed simp_all

section \<open>Plots\<close>

text \<open>
  \<^verbatim>\<open>plot\<close> draws, for every workload in the order of its first row, five bars at the same place
  from the highest median to the lowest (ties in the order of the policies), each in the colour
  of its policy, and names the policies once, with the bars of the first workload.
\<close>

lemma plot_bars:
  assumes "\<And>r. r \<in> set results \<Longrightarrow> plot_key (fst r) = Inr (key r)"
  shows "\<exists>bars. plot np results file_name = Inr ([Font 18, Figure 20 10] @ concat bars @
      [XTicks (map of_nat [0..<length bars]), XTickLabels (firsts (map key results)) 18, YLabel ''Execution Time (s)'',
       TightLayout, Legend ''upper right'', SaveFig file_name]) \<and>
    bars = map (\<lambda>(i, w). map (\<lambda>(l, median, std). Bar (of_nat i) median (fl64 (7 / 10)) std (color_of l) (if i = 0 then l else []))
        (by_median (summarize np policy_labels
          (map (\<lambda>j. column j (map policy_times (filter (\<lambda>r. key r = w) results))) [0..<5]))))
      (enumerate 0 (firsts (map key results))) \<and>
    (\<forall>stats. mset (by_median stats) = mset stats \<and> sorted (map (\<lambda>x. - fst (snd x)) (by_median stats)))"
proof -
  let ?stats = "\<lambda>w. summarize np policy_labels (map (\<lambda>j. column j (map policy_times (filter (\<lambda>r. key r = w) results))) [0..<5])"
  let ?ws = "firsts (map key results)"
  let ?bars = "\<lambda>(i, w). map (\<lambda>(l, median, std). Bar (of_nat i) median (fl64 (7 / 10)) std (color_of l) (if i = 0 then l else []))
    (by_median (?stats w))"
  have stats: "policy_statistics np results = Inr (map (\<lambda>w. (w, ?stats w)) ?ws)"
    by (simp add: policy_statistics_def group_by_key_ok [OF assms] o_def)
  have labels: "fst ` set (?stats w) \<subseteq> set policy_labels" for w
    using summarize_labels [of "map (\<lambda>j. column j (map policy_times (filter (\<lambda>r. key r = w) results))) [0..<5]" policy_labels np]
    by (metis (no_types, lifting) diff_zero length_map length_upt list.set_map order_refl policy_labels_length)
  have "rmap (\<lambda>(i, (workload, stats)). stat_bars (of_nat i) (fl64 (7 / 10)) (i = 0) stats)
      (enumerate 0 (map (\<lambda>w. (w, ?stats w)) ?ws)) =
    Inr (map (\<lambda>(i, (workload, stats)). map (\<lambda>(l, median, std). Bar (of_nat i) median (fl64 (7 / 10)) std (color_of l)
      (if i = 0 then l else [])) (by_median stats)) (enumerate 0 (map (\<lambda>w. (w, ?stats w)) ?ws)))"
    by (rule rmap_pure) (auto simp: in_set_enumerate_eq stat_bars_ok [OF labels])
  moreover have "map (\<lambda>(i, (workload, stats)). map (\<lambda>(l, median, std). Bar (of_nat i) median (fl64 (7 / 10)) std (color_of l)
      (if i = 0 then l else [])) (by_median stats)) (enumerate 0 (map (\<lambda>w. (w, ?stats w)) ?ws)) = map ?bars (enumerate 0 ?ws)"
    by (intro nth_equalityI) (auto simp: nth_enumerate_eq)
  ultimately show ?thesis
    using by_median_props(1,2) by (simp add: plot_def stats Let_def o_def)
qed

lemma bc_key: "plot_key ''a=b bc.aot'' = Inr ''bc''"
  by code_simp

lemma plot_bars_witness:
  "\<exists>bars. plot \<lparr>np_mean = hd, np_median = hd, np_std = last, np_percentile = \<lambda>xs p. last xs\<rparr>
      [(''a=b bc.aot'', 1, 2, 3, 4, 5)] ''x.pdf'' = Inr ([Font 18, Figure 20 10] @ concat bars @
      [XTicks (map of_nat [0..<length bars]), XTickLabels (firsts (map (\<lambda>_. ''bc'') [(''a=b bc.aot'', 1::rat, 2::rat, 3::rat, 4::rat, 5::rat)])) 18,
       YLabel ''Execution Time (s)'', TightLayout, Legend ''upper right'', SaveFig ''x.pdf''])"
  using plot_bars [of "[(''a=b bc.aot'', 1, 2, 3, 4, 5)]" "\<lambda>_. ''bc''"
      "\<lparr>np_mean = hd, np_median = hd, np_std = last, np_percentile = \<lambda>xs p. last xs\<rparr>" "''x.pdf''"] bc_key
  by auto

end
