(* ===== verification/CorePool.thy ===== *)
theory CorePool
  imports Shell PyDict "HOL-Library.Multiset"
begin

text \<open>
  \<^verbatim>\<open>devcontainer/bench.py\<close>: a pool of worker processes that share eight cores. The main process
  takes a core from a shared list under a mutex, or waits for one, and submits a job; a job
  gives its core back under the same mutex when its command has ended.

  The state is what the processes share (the mutex, the list of cores, what has been printed), the
  point the main process has reached with the items it has left to do, and the jobs, each with
  its core, its command and the point it has reached. The functions \<open>main_next\<close> and \<open>runner_next\<close>
  are one atomic step of the main process and of a job, \<open>None\<close> when it has to wait, and \<open>pool_step\<close>
  is their interleaving by an unknown scheduler. What the commands print is the parameter \<open>job_world\<close>.
\<close>

section \<open>Commands and variants\<close>

definition BUILDDIR :: string where "BUILDDIR = ''/workspaces/MVVM/build''"
definition RUNNER_WORKDIR :: string where "RUNNER_WORKDIR = BUILDDIR @ ''/bench''"
definition MAX_COMPILE_THREADS :: int where "MAX_COMPILE_THREADS = 16"

definition make_many :: "string list \<Rightarrow> string" where
  "make_many tests =
     (let names = map (\<lambda>test. test @ ''_bench_compile'') tests in
      let names = py_join '' '' names in
      ''cd '' @ BUILDDIR @ ''/bench && make -j'' @ str_int MAX_COMPILE_THREADS @ '' '' @ names)"

text \<open>\<open>files\<close> is what \<^verbatim>\<open>os.listdir\<close> returns.\<close>

definition get_variants :: "string list \<Rightarrow> string \<Rightarrow> string list" where
  "get_variants files test =
     (let aot_files = filter (\<lambda>f. py_endswith f ''.aot'') files in
      let variants = filter (\<lambda>f. py_startswith f test) aot_files in
      map (\<lambda>f. hd (py_split_on (CHR ''.'') f)) variants)"

definition get_numa_node :: "int \<Rightarrow> int option" where
  "get_numa_node core = (if core < 14 then Some 0 else if 14 \<le> core \<and> core < 28 then Some 1 else None)"

definition str_node :: "int option \<Rightarrow> string" where
  "str_node n = (case n of None \<Rightarrow> ''None'' | Some i \<Rightarrow> str_int i)"

definition numactl :: "int option \<Rightarrow> int \<Rightarrow> string \<Rightarrow> string" where
  "numactl numa_node core command =
     ''numactl --cpunodebind='' @ str_node numa_node @ '' --membind='' @ str_node numa_node @
     '' --physcpubind='' @ str_int core @ '' '' @ command"

definition bench_arg :: "string list \<Rightarrow> string" where
  "bench_arg args = fold (\<lambda>e arg. arg @ '' -a '' @ e) args []"

definition bench_command :: "string list \<Rightarrow> string \<Rightarrow> string" where
  "bench_command args v = ''../MVVM_checkpoint -t '' @ v @ ''.aot '' @ bench_arg args"

text \<open>\<^verbatim>\<open>str.splitlines\<close> on Latin-1 text.\<close>

definition line_break :: "char \<Rightarrow> bool" where
  "line_break c \<longleftrightarrow> c \<in> {CHR 0x0A, CHR 0x0B, CHR 0x0C, CHR 0x0D, CHR 0x1C, CHR 0x1D, CHR 0x1E, CHR 0x85}"

fun splitlines_aux :: "string \<Rightarrow> string \<Rightarrow> string list" where
  "splitlines_aux acc [] = (if acc = [] then [] else [rev acc])"
| "splitlines_aux acc (c # cs) =
     (if c = carriage \<and> cs \<noteq> [] \<and> hd cs = newline then splitlines_aux acc cs
      else if line_break c then rev acc # splitlines_aux [] cs
      else splitlines_aux (c # acc) cs)"

definition py_splitlines :: "string \<Rightarrow> string list" where
  "py_splitlines s = splitlines_aux [] s"

definition last_ten :: "string list \<Rightarrow> string list" where
  "last_ten xs = drop (length xs - 10) xs"

section \<open>The state\<close>

datatype pool_event =
    Variants "string list"
  | NoCores
  | Submitted int int string
  | Started int string
  | Finished int string
  | JobError int string string

record shared =
  sh_locked :: bool
  sh_cores :: "int list"
  sh_log :: "pool_event list"

text \<open>
  A job: in the queue of the pool; about to change directory; about to take the mutex for the first
  time, holding it, about to run its command; with the result of the command, about to take the
  mutex again, holding it, with its core given back; returned, or ended by an exception.
\<close>

datatype runner_pc =
    RQueued
  | RChdir
  | RWantStart
  | RStarted
  | RCommand
  | RWantFinish int string string
  | RAppend int string string
  | RReport int string string
  | RDone string string
  | RFailed py_error

record job =
  j_core :: int
  j_command :: string
  j_pc :: runner_pc

text \<open>
  The main process: between two items; about to take the mutex, or holding it, with its counter of
  rounds; holding it with no core left; without it in \<^verbatim>\<open>sleep\<close>; holding it with a core, about to submit
  with the core; in \<^verbatim>\<open>pool.join\<close>; done with the pool; ended by an exception with the core it had taken.
\<close>

datatype main_pc =
    MNext
  | MAcquire nat
  | MCheck nat
  | MWait nat
  | MSleep nat
  | MRelease int
  | MSubmit int
  | MJoin
  | MEnd
  | MRaised int py_error

datatype pool_item = Announce "string list" | Submit int string string

record pool_state =
  p_shared :: shared
  p_main :: main_pc
  p_todo :: "pool_item list"
  p_async :: "(string \<times> nat list) list"
  p_jobs :: "job list"

text \<open>Whether the directory exists, and exit code, output and errors of each job's command.\<close>

record job_world =
  jw_dir :: "nat \<Rightarrow> bool"
  jw_exec :: "nat \<Rightarrow> string \<Rightarrow> int \<times> string \<times> string"

section \<open>A job\<close>

definition run_command_and_get_stdout_and_stderr :: "job_world \<Rightarrow> nat \<Rightarrow> string \<Rightarrow> (int \<times> string \<times> string) res" where
  "run_command_and_get_stdout_and_stderr W k command =
     (case jw_exec W k command of (code, out, err) \<Rightarrow>
        rbind (utf_8 out) (\<lambda>out. rbind (utf_8 err) (\<lambda>err. Inr (code, out, err))))"

definition report_job :: "int \<Rightarrow> string \<Rightarrow> int \<Rightarrow> string \<Rightarrow> string \<Rightarrow> pool_event list" where
  "report_job core command code out err =
     Finished core command #
     (if code \<noteq> 0 then [JobError code err (py_join [newline] (last_ten (py_splitlines out)))] else [])"

definition runner_next :: "job_world \<Rightarrow> nat \<Rightarrow> job \<Rightarrow> shared \<Rightarrow> (job \<times> shared) option" where
  "runner_next W k j sh = (case j_pc j of
       RQueued \<Rightarrow> None
     | RChdir \<Rightarrow> Some (j\<lparr>j_pc := if jw_dir W k then RWantStart else RFailed FileNotFoundError\<rparr>, sh)
     | RWantStart \<Rightarrow> if sh_locked sh then None else Some (j\<lparr>j_pc := RStarted\<rparr>, sh\<lparr>sh_locked := True\<rparr>)
     | RStarted \<Rightarrow> Some (j\<lparr>j_pc := RCommand\<rparr>,
         sh\<lparr>sh_locked := False, sh_log := sh_log sh @ [Started (j_core j) (j_command j)]\<rparr>)
     | RCommand \<Rightarrow>
         (let command = numactl (get_numa_node (j_core j)) (j_core j) (j_command j) in
          Some (j\<lparr>j_command := command,
            j_pc := (case run_command_and_get_stdout_and_stderr W k command of
                Inl e \<Rightarrow> RFailed e
              | Inr (code, out, err) \<Rightarrow> RWantFinish code out err)\<rparr>, sh))
     | RWantFinish code out err \<Rightarrow>
         if sh_locked sh then None else Some (j\<lparr>j_pc := RAppend code out err\<rparr>, sh\<lparr>sh_locked := True\<rparr>)
     | RAppend code out err \<Rightarrow>
         Some (j\<lparr>j_pc := RReport code out err\<rparr>, sh\<lparr>sh_cores := sh_cores sh @ [j_core j]\<rparr>)
     | RReport code out err \<Rightarrow> Some (j\<lparr>j_pc := RDone out err\<rparr>,
         sh\<lparr>sh_locked := False, sh_log := sh_log sh @ report_job (j_core j) (j_command j) code out err\<rparr>)
     | RDone out err \<Rightarrow> None
     | RFailed e \<Rightarrow> None)"

definition job_ended :: "job \<Rightarrow> bool" where
  "job_ended j = (case j_pc j of RDone out err \<Rightarrow> True | RFailed e \<Rightarrow> True | _ \<Rightarrow> False)"

definition job_running :: "job \<Rightarrow> bool" where
  "job_running j \<longleftrightarrow> j_pc j \<noteq> RQueued \<and> \<not> job_ended j"

section \<open>The main process\<close>

text \<open>\<^verbatim>\<open>d[k] = []\<close>, and \<^verbatim>\<open>d[k].append(x)\<close> on an ordinary dictionary.\<close>

definition dict_reset :: "'k \<Rightarrow> ('k \<times> 'v list) list \<Rightarrow> ('k \<times> 'v list) list" where
  "dict_reset k d = dict_update k (\<lambda>_. []) [] d"

definition dict_at_append :: "'k \<Rightarrow> 'v \<Rightarrow> ('k \<times> 'v list) list \<Rightarrow> ('k \<times> 'v list) list res" where
  "dict_at_append k x d = (if k \<in> set (dict_keys d) then Inr (dict_append k x d) else Inl KeyError)"

definition add_log :: "pool_event list \<Rightarrow> pool_state \<Rightarrow> pool_state" where
  "add_log es s = s\<lparr>p_shared := (p_shared s)\<lparr>sh_log := sh_log (p_shared s) @ es\<rparr>\<rparr>"

definition set_lock :: "bool \<Rightarrow> pool_state \<Rightarrow> pool_state" where
  "set_lock b s = s\<lparr>p_shared := (p_shared s)\<lparr>sh_locked := b\<rparr>\<rparr>"

definition submit_job :: "int \<Rightarrow> int \<Rightarrow> string \<Rightarrow> string \<Rightarrow> pool_state \<Rightarrow> pool_state" where
  "submit_job core r v command s =
     (case dict_at_append v (length (p_jobs s)) (p_async s) of
        Inl e \<Rightarrow> add_log [Submitted r core v] s\<lparr>p_main := MRaised core e\<rparr>
      | Inr async \<Rightarrow> add_log [Submitted r core v]
          s\<lparr>p_main := MNext, p_todo := tl (p_todo s), p_async := async,
            p_jobs := p_jobs s @ [\<lparr>j_core = core, j_command = command, j_pc = RQueued\<rparr>]\<rparr>)"

definition main_next :: "pool_state \<Rightarrow> pool_state option" where
  "main_next s = (case p_main s of
       MNext \<Rightarrow> Some (case p_todo s of
           [] \<Rightarrow> s\<lparr>p_main := MJoin\<rparr>
         | Announce vs # todo \<Rightarrow>
             add_log [Variants vs] s\<lparr>p_todo := todo, p_async := fold dict_reset vs (p_async s)\<rparr>
         | Submit r v command # todo \<Rightarrow> s\<lparr>p_main := MAcquire 0\<rparr>)
     | MAcquire counter \<Rightarrow>
         if sh_locked (p_shared s) then None else Some (set_lock True s\<lparr>p_main := MCheck counter\<rparr>)
     | MCheck counter \<Rightarrow>
         Some (if sh_cores (p_shared s) = []
           then add_log (if counter mod 60 = 0 then [NoCores] else []) s\<lparr>p_main := MWait (counter + 1)\<rparr>
           else s\<lparr>p_main := MRelease (last (sh_cores (p_shared s))),
             p_shared := (p_shared s)\<lparr>sh_cores := butlast (sh_cores (p_shared s))\<rparr>\<rparr>)
     | MWait counter \<Rightarrow> Some (set_lock False s\<lparr>p_main := MSleep counter\<rparr>)
     | MSleep counter \<Rightarrow> Some (s\<lparr>p_main := MAcquire counter\<rparr>)
     | MRelease core \<Rightarrow> Some (set_lock False s\<lparr>p_main := MSubmit core\<rparr>)
     | MSubmit core \<Rightarrow>
         (case p_todo s of
            Submit r v command # todo \<Rightarrow> Some (submit_job core r v command s)
          | _ \<Rightarrow> None)
     | MJoin \<Rightarrow> if list_all job_ended (p_jobs s) then Some (s\<lparr>p_main := MEnd\<rparr>) else None
     | MEnd \<Rightarrow> None
     | MRaised core e \<Rightarrow> None)"

text \<open>
  The items of \<^verbatim>\<open>bench\<close>: for each benchmark its variants, then a job for each repetition and each
  variant. The directory is listed once for each benchmark: \<open>ls i\<close> is the \<open>i\<close>-th listing.
\<close>

definition test_items :: "string list \<Rightarrow> string list \<Rightarrow> int \<Rightarrow> pool_item list" where
  "test_items variants args repeat =
     Announce variants # concat (map (\<lambda>r. map (\<lambda>v. Submit r v (bench_command args v)) variants) [0..repeat - 1])"

definition bench_items :: "(nat \<Rightarrow> string list) \<Rightarrow> (string \<times> string list) list \<Rightarrow> int \<Rightarrow> pool_item list" where
  "bench_items ls benchmarks repeat =
     concat (map (\<lambda>(i, (test, args)). test_items (get_variants (ls i) test) args repeat) (enumerate 0 benchmarks))"

definition initial_cores :: "int list" where
  "initial_cores = [14..14 + 8 - 1]"

definition bench_start :: "pool_item list \<Rightarrow> pool_state" where
  "bench_start items =
     \<lparr>p_shared = \<lparr>sh_locked = False, sh_cores = initial_cores, sh_log = []\<rparr>, p_main = MNext,
      p_todo = items, p_async = [], p_jobs = []\<rparr>"

section \<open>Interleaving\<close>

text \<open>The pool has \<open>n\<close> workers, and starts its jobs in the order in which they came.\<close>

inductive pool_step :: "job_world \<Rightarrow> nat \<Rightarrow> pool_state \<Rightarrow> pool_state \<Rightarrow> bool" for W n where
  main: "main_next s = Some s' \<Longrightarrow> pool_step W n s s'"
| start: "k < length (p_jobs s) \<Longrightarrow> j_pc (p_jobs s ! k) = RQueued \<Longrightarrow>
    \<forall>i<k. j_pc (p_jobs s ! i) \<noteq> RQueued \<Longrightarrow> length (filter job_running (p_jobs s)) < n \<Longrightarrow>
    pool_step W n s (s\<lparr>p_jobs := (p_jobs s)[k := (p_jobs s ! k)\<lparr>j_pc := RChdir\<rparr>]\<rparr>)"
| run: "k < length (p_jobs s) \<Longrightarrow> runner_next W k (p_jobs s ! k) (p_shared s) = Some (j, sh) \<Longrightarrow>
    pool_step W n s (s\<lparr>p_shared := sh, p_jobs := (p_jobs s)[k := j]\<rparr>)"

text \<open>The same step with the choice of the scheduler written out.\<close>

datatype choice = Main | Start nat | Job nat

fun perform :: "job_world \<Rightarrow> nat \<Rightarrow> choice \<Rightarrow> pool_state \<Rightarrow> pool_state option" where
  "perform W n Main s = main_next s"
| "perform W n (Start k) s =
     (if k < length (p_jobs s) \<and> j_pc (p_jobs s ! k) = RQueued \<and>
         list_all (\<lambda>j. j_pc j \<noteq> RQueued) (take k (p_jobs s)) \<and> length (filter job_running (p_jobs s)) < n
      then Some (s\<lparr>p_jobs := (p_jobs s)[k := (p_jobs s ! k)\<lparr>j_pc := RChdir\<rparr>]\<rparr>) else None)"
| "perform W n (Job k) s =
     (if k < length (p_jobs s) then
        (case runner_next W k (p_jobs s ! k) (p_shared s) of
           None \<Rightarrow> None
         | Some (j, sh) \<Rightarrow> Some (s\<lparr>p_shared := sh, p_jobs := (p_jobs s)[k := j]\<rparr>))
      else None)"

fun schedule :: "job_world \<Rightarrow> nat \<Rightarrow> choice list \<Rightarrow> pool_state \<Rightarrow> pool_state option" where
  "schedule W n [] s = Some s"
| "schedule W n (c # cs) s = Option.bind (perform W n c s) (schedule W n cs)"

lemma step_iff_perform: "pool_step W n s s' \<longleftrightarrow> (\<exists>c. perform W n c s = Some s')"
proof
  assume "pool_step W n s s'"
  then show "\<exists>c. perform W n c s = Some s'"
  proof cases
    case main
    then show ?thesis by (intro exI [of _ Main]) simp
  next
    case (start k)
    then show ?thesis by (intro exI [of _ "Start k"]) (auto simp: list_all_length)
  next
    case (run k j sh)
    then show ?thesis by (intro exI [of _ "Job k"]) simp
  qed
next
  assume "\<exists>c. perform W n c s = Some s'"
  then obtain c where "perform W n c s = Some s'" by blast
  then show "pool_step W n s s'"
    by (cases c) (auto split: if_splits option.splits simp: list_all_length intro: pool_step.intros)
qed

lemma schedule_reaches: "schedule W n cs s = Some s' \<Longrightarrow> (pool_step W n)\<^sup>*\<^sup>* s s'"
proof (induction cs arbitrary: s)
  case (Cons c cs)
  then obtain s1 where "perform W n c s = Some s1" "schedule W n cs s1 = Some s'" by (auto simp: bind_eq_Some_conv)
  then show ?case using Cons.IH step_iff_perform by (metis converse_rtranclp_into_rtranclp)
qed simp

lemma schedule_append: "schedule W n (cs @ ds) s = Option.bind (schedule W n cs s) (schedule W n ds)"
  by (induction cs arbitrary: s) (auto simp: bind_assoc split: Option.bind_split)

section \<open>The results\<close>

text \<open>\<open>r.get()\<close> returns what the job returned or raises what it raised; the jobs have ended by then.
  \<^verbatim>\<open>results\<close> gets an empty list whenever \<^verbatim>\<open>async_results\<close> does, so that until then it has the same keys.\<close>

definition job_get :: "job \<Rightarrow> (string \<times> string) res" where
  "job_get j = (case j_pc j of RDone out err \<Rightarrow> Inr (out, err) | RFailed e \<Rightarrow> Inl e | _ \<Rightarrow> Inl Unsupported)"

definition gather_variant :: "pool_state \<Rightarrow> string \<Rightarrow> (string \<times> (string \<times> string) list) list \<Rightarrow>
    (string \<times> (string \<times> string) list) list res" where
  "gather_variant s v results =
     (case map_of (p_async s) v of
        None \<Rightarrow> Inl KeyError
      | Some ks \<Rightarrow> rfold (\<lambda>k results. rbind (job_get (p_jobs s ! k)) (\<lambda>oe. dict_at_append v oe results)) ks results)"

definition bench_results :: "(nat \<Rightarrow> string list) \<Rightarrow> (string \<times> string list) list \<Rightarrow> pool_state \<Rightarrow>
    (string \<times> (string \<times> string) list) list res" where
  "bench_results ls benchmarks s =
     rfold (\<lambda>(i, (test, args)). rfold (gather_variant s) (get_variants (ls (length benchmarks + i)) test))
       (enumerate 0 benchmarks) (map (\<lambda>(v, ks). (v, [])) (p_async s))"

definition benchmarks :: "(string \<times> string list) list" where
  "benchmarks = [(''bt'', [])]"

end
