(* ===== verification/PoolInv.thy ===== *)
theory PoolInv
  imports CorePool
begin

text \<open>
  The two accounts of the core pool. The mutex and each of the eight cores are resources that are
  in one place at a time: with the main process, with a job, or in the shared state. The locale
  \<open>account\<close> says what a step must keep and shows that every reachable state is balanced; the
  interpretations are the mutex (one token) and the cores (a multiset). The rest of the theory
  relates a reachable state to the items the main process has been through, one after the other.
\<close>

section \<open>Conserved resources\<close>

lemma sum_list_replace:
  fixes f :: "'a \<Rightarrow> 'm :: comm_monoid_add"
  shows "k < length xs \<Longrightarrow> sum_list (map f (xs[k := x])) + f (xs ! k) = sum_list (map f xs) + f x"
proof (induction xs arbitrary: k)
  case (Cons y ys)
  then show ?case by (cases k) (auto simp: ac_simps)
qed simp

lemma sum_list_split:
  fixes f :: "'a \<Rightarrow> 'm :: comm_monoid_add"
  assumes "k < length xs"
  obtains r where "sum_list (map f xs) = f (xs ! k) + r" and "\<And>x. sum_list (map f (xs[k := x])) = f x + r"
proof -
  let ?r = "sum_list (map f (take k xs)) + sum_list (map f (drop (Suc k) xs))"
  have "sum_list (map f xs) = f (xs ! k) + ?r"
    using assms by (subst id_take_nth_drop [OF assms]) (simp add: ac_simps)
  moreover have "sum_list (map f (xs[k := x])) = f x + ?r" for x
    using assms by (simp add: upd_conv_take_nth_drop ac_simps)
  ultimately show thesis by (rule that)
qed

locale account =
  fixes share :: "job \<Rightarrow> 'm :: comm_monoid_add"
    and main_share :: "main_pc \<Rightarrow> 'm"
    and pot :: "shared \<Rightarrow> 'm"
    and total :: 'm
  assumes runner_keeps: "runner_next W k j sh = Some (j', sh') \<Longrightarrow> share j + (pot sh + r) = total \<Longrightarrow>
      share j' + (pot sh' + r) = total"
    and start_keeps: "j_pc j = RQueued \<Longrightarrow> share (j\<lparr>j_pc := RChdir\<rparr>) = share j"
    and main_keeps: "main_next s = Some s' \<Longrightarrow>
      main_share (p_main s) + (pot (p_shared s) + sum_list (map share (p_jobs s))) = total \<Longrightarrow>
      main_share (p_main s') + (pot (p_shared s') + sum_list (map share (p_jobs s'))) = total"
    and start_total: "main_share MNext + pot (p_shared (bench_start [])) = total"
begin

definition balanced :: "pool_state \<Rightarrow> bool" where
  "balanced s \<longleftrightarrow> main_share (p_main s) + (pot (p_shared s) + sum_list (map share (p_jobs s))) = total"

lemma step_balanced:
  assumes "pool_step W n s s'" and "balanced s"
  shows "balanced s'"
  using assms
proof (cases rule: pool_step.cases)
  case main
  then show ?thesis using assms(2) main_keeps unfolding balanced_def by blast
next
  case (start k)
  obtain r where "sum_list (map share (p_jobs s)) = share (p_jobs s ! k) + r"
    and "\<And>x. sum_list (map share ((p_jobs s)[k := x])) = share x + r"
    using sum_list_split [OF start(2), of share] by metis
  with start assms(2) show ?thesis by (simp add: balanced_def start_keeps)
next
  case (run k j sh)
  obtain r where split: "sum_list (map share (p_jobs s)) = share (p_jobs s ! k) + r"
    "\<And>x. sum_list (map share ((p_jobs s)[k := x])) = share x + r"
    using sum_list_split [OF run(2), of share] by metis
  from assms(2) have "share (p_jobs s ! k) + (pot (p_shared s) + (r + main_share (p_main s))) = total"
    by (simp add: balanced_def split ac_simps)
  from runner_keeps [OF run(3) this] show ?thesis
    by (simp add: run(1) balanced_def split ac_simps)
qed

lemma reachable_balanced: "(pool_step W n)\<^sup>*\<^sup>* (bench_start items) s \<Longrightarrow> balanced s"
proof (induction rule: rtranclp_induct)
  case base
  then show ?case using start_total by (simp add: balanced_def bench_start_def)
next
  case (step s s')
  then show ?case using step_balanced by blast
qed

end

section \<open>The mutex\<close>

definition job_holds_mutex :: "job \<Rightarrow> bool" where
  "job_holds_mutex j = (case j_pc j of RStarted \<Rightarrow> True | RAppend c out err \<Rightarrow> True
     | RReport c out err \<Rightarrow> True | _ \<Rightarrow> False)"

definition main_holds_mutex :: "main_pc \<Rightarrow> bool" where
  "main_holds_mutex m = (case m of MCheck c \<Rightarrow> True | MWait c \<Rightarrow> True | MRelease c \<Rightarrow> True | _ \<Rightarrow> False)"

lemmas runner_next_cases = runner_next_def job_holds_mutex_def main_holds_mutex_def Let_def

interpretation mutex: account "\<lambda>j. of_bool (job_holds_mutex j) :: nat" "\<lambda>m. of_bool (main_holds_mutex m)"
  "\<lambda>sh. of_bool (\<not> sh_locked sh)" "Suc 0"
proof (unfold_locales, goal_cases)
  case (1 W k j sh j' sh' r)
  then show ?case
    by (cases "j_pc j") (auto simp: runner_next_cases split: if_splits sum.splits)
next
  case (2 j)
  then show ?case by (simp add: job_holds_mutex_def)
next
  case (3 s s')
  then show ?case
    by (cases "p_main s") (auto simp: main_next_def submit_job_def add_log_def set_lock_def
        main_holds_mutex_def job_holds_mutex_def split: if_splits list.splits pool_item.splits sum.splits)
next
  case 4
  then show ?case by (simp add: bench_start_def main_holds_mutex_def)
qed

section \<open>The cores\<close>

text \<open>A job holds its core until it has given it back; one that an exception ended holds it for ever.\<close>

definition job_holds_core :: "job \<Rightarrow> bool" where
  "job_holds_core j = (case j_pc j of RReport c out err \<Rightarrow> False | RDone out err \<Rightarrow> False | _ \<Rightarrow> True)"

definition job_core :: "job \<Rightarrow> int multiset" where
  "job_core j = (if job_holds_core j then {#j_core j#} else {#})"

definition main_core :: "main_pc \<Rightarrow> int multiset" where
  "main_core m = (case m of MRelease c \<Rightarrow> {#c#} | MSubmit c \<Rightarrow> {#c#} | MRaised c e \<Rightarrow> {#c#} | _ \<Rightarrow> {#})"

lemma mset_butlast_last: "xs \<noteq> [] \<Longrightarrow> add_mset (last xs) (A + mset (butlast xs)) = A + mset xs"
  by (cases xs rule: rev_cases) simp_all

interpretation cores: account job_core main_core "\<lambda>sh. mset (sh_cores sh)" "mset initial_cores"
proof (unfold_locales, goal_cases)
  case (1 W k j sh j' sh' r)
  then show ?case
    by (cases "j_pc j") (auto simp: runner_next_def job_core_def job_holds_core_def Let_def split: if_splits sum.splits)
next
  case (2 j)
  then show ?case by (simp add: job_core_def job_holds_core_def)
next
  case (3 s s')
  then show ?case
    by (cases "p_main s") (auto simp: main_next_def submit_job_def add_log_def set_lock_def main_core_def
        job_core_def job_holds_core_def mset_butlast_last ac_simps
        split: if_splits list.splits pool_item.splits sum.splits)
next
  case 4
  then show ?case by (simp add: bench_start_def main_core_def)
qed

section \<open>The items, one after the other\<close>

text \<open>
  What the items mean without any concurrency: \<^verbatim>\<open>async_results\<close> and the commands in the order in which
  they are submitted. \<open>follows W k c j\<close>: the job \<open>j\<close> is at some point of running the command \<open>c\<close> as
  the \<open>k\<close>-th one.
\<close>

fun item_effect :: "pool_item \<Rightarrow> (string \<times> nat list) list \<times> string list \<Rightarrow> ((string \<times> nat list) list \<times> string list) res" where
  "item_effect (Announce vs) (async, cs) = Inr (fold dict_reset vs async, cs)"
| "item_effect (Submit r v command) (async, cs) =
     rbind (dict_at_append v (length cs) async) (\<lambda>async. Inr (async, cs @ [command]))"

definition job_output :: "job_world \<Rightarrow> nat \<Rightarrow> int \<Rightarrow> string \<Rightarrow> (int \<times> string \<times> string) res" where
  "job_output W k core command =
     (if jw_dir W k then run_command_and_get_stdout_and_stderr W k (numactl (get_numa_node core) core command)
      else Inl FileNotFoundError)"

definition follows :: "job_world \<Rightarrow> nat \<Rightarrow> string \<Rightarrow> job \<Rightarrow> bool" where
  "follows W k c j = (case j_pc j of
       RQueued \<Rightarrow> j_command j = c
     | RChdir \<Rightarrow> j_command j = c
     | RWantStart \<Rightarrow> j_command j = c \<and> jw_dir W k
     | RStarted \<Rightarrow> j_command j = c \<and> jw_dir W k
     | RCommand \<Rightarrow> j_command j = c \<and> jw_dir W k
     | RWantFinish code out err \<Rightarrow> job_output W k (j_core j) c = Inr (code, out, err)
     | RAppend code out err \<Rightarrow> job_output W k (j_core j) c = Inr (code, out, err)
     | RReport code out err \<Rightarrow> job_output W k (j_core j) c = Inr (code, out, err)
     | RDone out err \<Rightarrow> \<exists>code. job_output W k (j_core j) c = Inr (code, out, err)
     | RFailed e \<Rightarrow> job_output W k (j_core j) c = Inl e)"

definition todo_fits :: "pool_state \<Rightarrow> bool" where
  "todo_fits s = (case p_main s of
       MNext \<Rightarrow> True
     | MJoin \<Rightarrow> p_todo s = []
     | MEnd \<Rightarrow> p_todo s = [] \<and> list_all job_ended (p_jobs s)
     | MRaised core e \<Rightarrow> False
     | _ \<Rightarrow> (\<exists>r v c xs. p_todo s = Submit r v c # xs))"

definition on_plan :: "job_world \<Rightarrow> pool_item list \<Rightarrow> pool_state \<Rightarrow> bool" where
  "on_plan W items s \<longleftrightarrow> todo_fits s \<and>
     (\<exists>past cs. items = past @ p_todo s \<and> rfold item_effect past ([], []) = Inr (p_async s, cs) \<and>
        list_all2 (\<lambda>(k, c) j. follows W k c j) (enumerate 0 cs) (p_jobs s))"

lemma runner_follows: "runner_next W k j sh = Some (j', sh') \<Longrightarrow> follows W k c j \<Longrightarrow> follows W k c j' \<and> \<not> job_ended j"
  by (cases "j_pc j") (auto simp: runner_next_def follows_def job_output_def job_ended_def Let_def split: if_splits sum.splits)

lemma follows_update:
  assumes "list_all2 (\<lambda>(k, c) j. follows W k c j) (enumerate 0 cs) js" and "k < length js"
    and "\<And>c. follows W k c (js ! k) \<Longrightarrow> follows W k c j"
  shows "list_all2 (\<lambda>(k, c) j. follows W k c j) (enumerate 0 cs) (js[k := j])"
  using assms unfolding list_all2_conv_all_nth
  by (auto simp: nth_enumerate_eq nth_list_update)

lemma follows_add:
  assumes "list_all2 (\<lambda>(k, c) j. follows W k c j) (enumerate 0 cs) js" and "follows W (length js) c j"
  shows "list_all2 (\<lambda>(k, c) j. follows W k c j) (enumerate 0 (cs @ [c])) (js @ [j])"
  using assms list_all2_lengthD [OF assms(1)]
  by (auto simp: enumerate_append_eq intro!: list_all2_appendI)

lemma jobs_unended_update:
  "k < length js \<Longrightarrow> \<not> job_ended (js ! k) \<Longrightarrow> todo_fits s \<Longrightarrow> p_jobs s = js \<Longrightarrow>
   todo_fits (s\<lparr>p_shared := sh, p_jobs := js[k := j]\<rparr>)"
  by (auto simp: todo_fits_def list_all_length split: main_pc.splits)

text \<open>One item of the main process is one item of the plan.\<close>

lemma main_on_plan:
  assumes "main_next s = Some s'" and "on_plan W items s" and "rfold item_effect items ([], []) = Inr res"
  shows "on_plan W items s'"
proof -
  from assms(2) obtain past cs where plan: "todo_fits s" "items = past @ p_todo s"
    "rfold item_effect past ([], []) = Inr (p_async s, cs)"
    "list_all2 (\<lambda>(k, c) j. follows W k c j) (enumerate 0 cs) (p_jobs s)"
    by (auto simp: on_plan_def)
  show ?thesis
  proof (cases "\<exists>core. p_main s = MSubmit core")
    case True
    then obtain core r v c xs where at: "p_main s = MSubmit core" "p_todo s = Submit r v c # xs"
      using plan(1) by (auto simp: todo_fits_def)
    have len: "length cs = length (p_jobs s)" using list_all2_lengthD [OF plan(4)] by simp
    from assms(3) obtain async where async: "dict_at_append v (length cs) (p_async s) = Inr async"
      by (auto simp: plan(2,3) at(2) rfold_append elim!: rbind_InrE)
    have "s' = submit_job core r v c s" using assms(1) at by (simp add: main_next_def)
    then have s': "p_main s' = MNext" "p_todo s' = xs" "p_async s' = async"
      "p_jobs s' = p_jobs s @ [\<lparr>j_core = core, j_command = c, j_pc = RQueued\<rparr>]"
      using async by (simp_all add: submit_job_def len add_log_def at(2))
    have "rfold item_effect (past @ [Submit r v c]) ([], []) = Inr (async, cs @ [c])"
      by (simp add: rfold_append plan(3) async)
    moreover have "list_all2 (\<lambda>(k, c) j. follows W k c j) (enumerate 0 (cs @ [c])) (p_jobs s')"
      unfolding s'(4) by (rule follows_add [OF plan(4)]) (simp add: follows_def)
    ultimately show ?thesis
      unfolding on_plan_def s'(2,3) using plan(2) at(2) s'(1) by (auto simp: todo_fits_def)
  next
    case False
    show ?thesis
    proof (cases "p_main s = MNext \<and> (\<exists>vs xs. p_todo s = Announce vs # xs)")
      case True
      then obtain vs xs where at: "p_main s = MNext" "p_todo s = Announce vs # xs" by auto
      have "rfold item_effect (past @ [Announce vs]) ([], []) = Inr (fold dict_reset vs (p_async s), cs)"
        by (simp add: rfold_append plan(3))
      then show ?thesis
        using assms(1) plan(2,4) at by (auto simp: main_next_def on_plan_def todo_fits_def add_log_def)
    next
      case other: False
      have "p_todo s' = p_todo s \<and> p_async s' = p_async s \<and> p_jobs s' = p_jobs s \<and> todo_fits s'"
        using assms(1) plan(1) False other
        by (cases "p_main s") (auto simp: main_next_def todo_fits_def add_log_def set_lock_def
            split: if_splits list.splits pool_item.splits)
      then show ?thesis using plan unfolding on_plan_def by metis
    qed
  qed
qed

lemma step_on_plan:
  assumes "pool_step W n s s'" and "on_plan W items s" and "rfold item_effect items ([], []) = Inr res"
  shows "on_plan W items s'"
  using assms(1)
proof (cases rule: pool_step.cases)
  case main
  then show ?thesis using main_on_plan assms(2,3) by blast
next
  case (start k)
  then have "follows W k c (p_jobs s ! k) \<Longrightarrow> follows W k c ((p_jobs s ! k)\<lparr>j_pc := RChdir\<rparr>)" for c
    by (simp add: follows_def)
  moreover have "todo_fits s'"
    using jobs_unended_update [where s = s and sh = "p_shared s", OF start(2)] start assms(2) by (simp add: on_plan_def job_ended_def)
  ultimately show ?thesis
    using assms(2) start(1,2) unfolding on_plan_def by (auto intro: follows_update)
next
  case (run k j sh)
  obtain past cs where plan: "items = past @ p_todo s" "rfold item_effect past ([], []) = Inr (p_async s, cs)"
    "list_all2 (\<lambda>(k, c) j. follows W k c j) (enumerate 0 cs) (p_jobs s)" "todo_fits s"
    using assms(2) by (auto simp: on_plan_def)
  have "follows W k (cs ! k) (p_jobs s ! k)"
    using list_all2_nthD2 [OF plan(3) run(2)] list_all2_lengthD [OF plan(3)] run(2) by (simp add: nth_enumerate_eq)
  from runner_follows [OF run(3) this] have "todo_fits s'"
    using jobs_unended_update [OF run(2) _ plan(4)] run(1) by blast
  moreover have "list_all2 (\<lambda>(k, c) j. follows W k c j) (enumerate 0 cs) (p_jobs s')"
    using follows_update [OF plan(3) run(2)] runner_follows [OF run(3)] run(1) by simp
  ultimately show ?thesis using plan(1,2) run(1) unfolding on_plan_def by auto
qed

lemma reachable_on_plan:
  assumes "(pool_step W n)\<^sup>*\<^sup>* (bench_start items) s" and "rfold item_effect items ([], []) = Inr res"
  shows "on_plan W items s"
  using assms(1)
proof (induction rule: rtranclp_induct)
  case base
  then show ?case by (simp add: on_plan_def bench_start_def todo_fits_def)
next
  case (step s s')
  then show ?case using step_on_plan assms(2) by blast
qed

end
