(* ===== verification/PoolLive.thy ===== *)
theory PoolLive
  imports PoolInv
begin

text \<open>
  Progress of the core pool. Every step but a round of waiting brings the pool nearer to its end,
  measured by \<open>work_left\<close>, and in every reachable state without an error such a step is possible,
  after at most one round of the main process. So the pool can always be completed.
\<close>

section \<open>The work that is left\<close>

definition job_work :: "job \<Rightarrow> nat" where
  "job_work j = (case j_pc j of RQueued \<Rightarrow> 9 | RChdir \<Rightarrow> 8 | RWantStart \<Rightarrow> 7 | RStarted \<Rightarrow> 6 | RCommand \<Rightarrow> 5
     | RWantFinish c out err \<Rightarrow> 4 | RAppend c out err \<Rightarrow> 3 | RReport c out err \<Rightarrow> 2 | RDone out err \<Rightarrow> 0 | RFailed e \<Rightarrow> 0)"

definition main_work :: "main_pc \<Rightarrow> nat" where
  "main_work m = (case m of MNext \<Rightarrow> 30 | MWait c \<Rightarrow> 22 | MSleep c \<Rightarrow> 21 | MAcquire c \<Rightarrow> 20 | MCheck c \<Rightarrow> 19
     | MRelease c \<Rightarrow> 18 | MSubmit c \<Rightarrow> 17 | MJoin \<Rightarrow> 5 | MEnd \<Rightarrow> 0 | MRaised c e \<Rightarrow> 0)"

definition work_left :: "pool_state \<Rightarrow> nat" where
  "work_left s = main_work (p_main s) + 300 * length (p_todo s) + 20 * sum_list (map job_work (p_jobs s))"

lemma work_left_job:
  assumes "k < length (p_jobs s)" and "job_work j < job_work (p_jobs s ! k)"
  shows "work_left (s\<lparr>p_shared := sh, p_jobs := (p_jobs s)[k := j]\<rparr>) + 20 \<le> work_left s"
proof -
  obtain r where "sum_list (map job_work (p_jobs s)) = job_work (p_jobs s ! k) + r"
    "\<And>x. sum_list (map job_work ((p_jobs s)[k := x])) = job_work x + r"
    using sum_list_split [OF assms(1), of job_work] by metis
  then show ?thesis using assms(2) by (simp add: work_left_def)
qed

text \<open>A step of the main process, unless it finds no core.\<close>

lemma main_work_less:
  "main_next s = Some s' \<Longrightarrow> todo_fits s' \<Longrightarrow>
   \<not> (\<exists>c. p_main s = MCheck c \<and> sh_cores (p_shared s) = []) \<Longrightarrow> work_left s' < work_left s"
  by (cases "p_main s") (auto simp: main_next_def submit_job_def add_log_def set_lock_def work_left_def main_work_def
      job_work_def todo_fits_def split: if_splits list.splits pool_item.splits sum.splits)

lemma main_can_move:
  "todo_fits s \<Longrightarrow> (\<forall>c. p_main s \<noteq> MAcquire c) \<or> \<not> sh_locked (p_shared s) \<Longrightarrow>
   p_main s \<noteq> MEnd \<Longrightarrow> p_main s = MJoin \<longrightarrow> list_all job_ended (p_jobs s) \<Longrightarrow> \<exists>s'. main_next s = Some s'"
  by (cases "p_main s") (auto simp: main_next_def todo_fits_def)

text \<open>A step of a job that runs and does not wait for the mutex.\<close>

lemma runner_can_move:
  assumes "job_running j" and "sh_locked sh \<longrightarrow> job_holds_mutex j"
  shows "\<exists>j' sh'. runner_next W k j sh = Some (j', sh') \<and> job_work j' < job_work j"
  using assms by (cases "j_pc j")
    (auto simp: job_running_def job_ended_def job_holds_mutex_def runner_next_def job_work_def Let_def split: sum.splits)

lemma run_step:
  assumes "k < length (p_jobs s)" and "job_running (p_jobs s ! k)"
    and "sh_locked (p_shared s) \<longrightarrow> job_holds_mutex (p_jobs s ! k)"
  shows "\<exists>s'. pool_step W n s s' \<and> work_left s' + 20 \<le> work_left s"
proof -
  obtain j sh where step: "runner_next W k (p_jobs s ! k) (p_shared s) = Some (j, sh)" "job_work j < job_work (p_jobs s ! k)"
    using runner_can_move [OF assms(2,3)] by blast
  show ?thesis
    using pool_step.run [OF assms(1) step(1)] work_left_job [OF assms(1) step(2)] by blast
qed

text \<open>With a free mutex, some job can move until all have ended.\<close>

lemma some_job_moves:
  assumes "0 < n" and "\<not> sh_locked (p_shared s)" and "\<not> list_all job_ended (p_jobs s)"
  shows "\<exists>s'. pool_step W n s s' \<and> work_left s' + 20 \<le> work_left s"
proof (cases "\<exists>k < length (p_jobs s). job_running (p_jobs s ! k)")
  case True
  then show ?thesis using run_step assms(2) by blast
next
  case False
  define k where "k = (LEAST k. k < length (p_jobs s) \<and> j_pc (p_jobs s ! k) = RQueued)"
  have "\<exists>k. k < length (p_jobs s) \<and> j_pc (p_jobs s ! k) = RQueued"
    using False assms(3) by (auto simp: list_all_length job_running_def)
  then have k: "k < length (p_jobs s)" "j_pc (p_jobs s ! k) = RQueued"
    unfolding k_def by (metis (mono_tags, lifting) LeastI)+
  have first: "\<forall>i<k. j_pc (p_jobs s ! i) \<noteq> RQueued"
    using not_less_Least [where P = "\<lambda>k. k < length (p_jobs s) \<and> j_pc (p_jobs s ! k) = RQueued"] k(1)
    unfolding k_def by (meson less_trans)
  have idle: "filter job_running (p_jobs s) = []"
    using False by (auto simp: filter_empty_conv in_set_conv_nth)
  have "job_work ((p_jobs s ! k)\<lparr>j_pc := RChdir\<rparr>) < job_work (p_jobs s ! k)"
    by (simp add: job_work_def k(2))
  from work_left_job [OF k(1) this, of "p_shared s"] pool_step.start [OF k first, of n W] show ?thesis
    using assms(1) by (auto simp: idle)
qed

text \<open>Someone holds a mutex that is taken, and the cores that are not in the list.\<close>

lemma sum_list_none: "\<forall>x\<in>set xs. f x = (0 :: 'm :: comm_monoid_add) \<Longrightarrow> sum_list (map f xs) = 0"
  by (induction xs) auto

lemma mutex_owner:
  assumes "mutex.balanced s" and "sh_locked (p_shared s)"
  shows "main_holds_mutex (p_main s) \<or> (\<exists>k < length (p_jobs s). job_holds_mutex (p_jobs s ! k))"
proof (rule ccontr)
  assume not: "\<not> ?thesis"
  then have "sum_list (map (\<lambda>j. of_bool (job_holds_mutex j) :: nat) (p_jobs s)) = 0"
    by (intro sum_list_none) (auto simp: in_set_conv_nth)
  with assms not show False by (simp add: mutex.balanced_def)
qed

lemma mutex_free:
  "mutex.balanced s \<Longrightarrow> main_holds_mutex (p_main s) \<Longrightarrow> k < length (p_jobs s) \<Longrightarrow> \<not> job_holds_mutex (p_jobs s ! k)"
  by (auto simp: mutex.balanced_def)

lemma initial_cores_eq: "initial_cores = [14, 15, 16, 17, 18, 19, 20, 21]"
  by code_simp

lemma cores_owner:
  assumes "cores.balanced s" and "sh_cores (p_shared s) = []" and "main_core (p_main s) = {#}"
  shows "\<exists>j \<in> set (p_jobs s). job_holds_core j"
proof (rule ccontr)
  assume "\<not> ?thesis"
  then have "sum_list (map job_core (p_jobs s)) = {#}"
    by (intro sum_list_none) (auto simp: job_core_def)
  with assms have "mset initial_cores = {#}" by (simp add: cores.balanced_def)
  then show False by (simp add: initial_cores_eq)
qed

section \<open>Progress\<close>

definition all_outputs_good :: "job_world \<Rightarrow> bool" where
  "all_outputs_good W \<longleftrightarrow> (\<forall>k core c. \<exists>r. job_output W k core c = Inr r)"

text \<open>A job that has ended has then given its core back.\<close>

lemma ended_returned:
  assumes "on_plan W items s" and "all_outputs_good W" and "j \<in> set (p_jobs s)" and "job_ended j"
  shows "\<not> job_holds_core j"
proof -
  from assms(1,3) obtain k c where "follows W k c j"
    by (auto simp: on_plan_def in_set_conv_nth list_all2_conv_all_nth nth_enumerate_eq)
  with assms(2,4) show ?thesis
    by (auto simp: job_ended_def follows_def job_holds_core_def all_outputs_good_def split: runner_pc.splits)
      (metis Inr_not_Inl)
qed

lemma progress:
  assumes plan: "on_plan W items s" "rfold item_effect items ([], []) = Inr res" and good: "all_outputs_good W" "0 < n"
    and inv: "mutex.balanced s" "cores.balanced s" and unfinished: "p_main s \<noteq> MEnd"
  shows "\<exists>s'. (pool_step W n)\<^sup>*\<^sup>* s s' \<and> work_left s' < work_left s"
proof -
  have fits: "todo_fits s" using plan(1) by (simp add: on_plan_def)
  have main_moves: ?thesis if "main_next s = Some s'" "\<not> (\<exists>c. p_main s = MCheck c \<and> sh_cores (p_shared s) = [])" for s'
    using main_work_less [OF that(1) _ that(2)] main_on_plan [OF that(1) plan] pool_step.main [OF that(1)]
    by (auto simp: on_plan_def)
  have job_moves: ?thesis if "pool_step W n s s' \<and> work_left s' + 20 \<le> work_left s" for s'
    using that by (intro exI [of _ s']) auto
  show ?thesis
  proof (cases "\<exists>c. p_main s = MCheck c \<and> sh_cores (p_shared s) = []")
    case True
    then obtain c where at: "p_main s = MCheck c" "sh_cores (p_shared s) = []" by auto
    define s1 where "s1 = add_log (if c mod 60 = 0 then [NoCores] else []) s\<lparr>p_main := MWait (c + 1)\<rparr>"
    define s2 where "s2 = set_lock False s1\<lparr>p_main := MSleep (c + 1)\<rparr>"
    have "main_next s = Some s1" using at by (simp add: main_next_def s1_def)
    moreover have "main_next s1 = Some s2" by (simp add: main_next_def s1_def s2_def add_log_def)
    ultimately have path: "(pool_step W n)\<^sup>*\<^sup>* s s2"
      by (meson pool_step.main r_into_rtranclp rtranclp.rtrancl_into_rtrancl)
    have same: "p_jobs s2 = p_jobs s" "\<not> sh_locked (p_shared s2)" "work_left s2 = work_left s + 2"
      by (simp_all add: s1_def s2_def add_log_def set_lock_def work_left_def main_work_def at)
    obtain j where "j \<in> set (p_jobs s)" "job_holds_core j"
      using cores_owner [OF inv(2) at(2)] at(1) by (auto simp: main_core_def)
    then have "\<not> list_all job_ended (p_jobs s2)"
      using ended_returned [OF plan(1) good(1)] same(1) by (auto simp: list_all_iff)
    from some_job_moves [OF good(2) same(2) this, of W] obtain s3 where
      "pool_step W n s2 s3" "work_left s3 + 20 \<le> work_left s2" by blast
    with path same(3) show ?thesis
      by (intro exI [of _ s3]) (auto intro: rtranclp.rtrancl_into_rtrancl)
  next
    case enough: False
    show ?thesis
    proof (cases "((\<forall>c. p_main s \<noteq> MAcquire c) \<or> \<not> sh_locked (p_shared s)) \<and>
        (p_main s = MJoin \<longrightarrow> list_all job_ended (p_jobs s))")
      case True
      then show ?thesis using main_can_move [OF fits] unfinished main_moves enough by blast
    next
      case False
      show ?thesis
      proof (cases "sh_locked (p_shared s)")
        case True
        have "\<not> main_holds_mutex (p_main s)" using False True by (auto simp: main_holds_mutex_def)
        then obtain k where "k < length (p_jobs s)" "job_holds_mutex (p_jobs s ! k)"
          using mutex_owner [OF inv(1) True] by blast
        moreover from this have "job_running (p_jobs s ! k)"
          by (auto simp: job_running_def job_ended_def job_holds_mutex_def split: runner_pc.splits)
        ultimately show ?thesis using run_step job_moves by blast
      next
        case free: False
        with False show ?thesis using some_job_moves [OF good(2) free] job_moves by blast
      qed
    qed
  qed
qed

text \<open>So the pool can be completed from every reachable state.\<close>

lemma completion:
  assumes "(pool_step W n)\<^sup>*\<^sup>* (bench_start items) s" and "rfold item_effect items ([], []) = Inr res"
    and "all_outputs_good W" and "0 < n"
  shows "\<exists>s'. (pool_step W n)\<^sup>*\<^sup>* s s' \<and> p_main s' = MEnd"
  using assms(1)
proof (induction "work_left s" arbitrary: s rule: less_induct)
  case less
  show ?case
  proof (cases "p_main s = MEnd")
    case False
    from progress [OF reachable_on_plan [OF less.prems assms(2)] assms(2-4)
        mutex.reachable_balanced [OF less.prems] cores.reachable_balanced [OF less.prems] False]
    obtain s1 where "(pool_step W n)\<^sup>*\<^sup>* s s1" "work_left s1 < work_left s" by blast
    with less show ?thesis by (meson rtranclp_trans)
  qed auto
qed

lemma end_cores:
  assumes "on_plan W items s" and "all_outputs_good W" and "cores.balanced s" and "p_main s = MEnd"
  shows "mset (sh_cores (p_shared s)) = mset initial_cores"
proof -
  have "list_all job_ended (p_jobs s)" using assms(1,4) by (simp add: on_plan_def todo_fits_def)
  then have "sum_list (map job_core (p_jobs s)) = {#}"
    using ended_returned [OF assms(1,2)] by (intro sum_list_none) (auto simp: job_core_def list_all_iff)
  with assms(3,4) show ?thesis by (simp add: cores.balanced_def main_core_def)
qed

end
