(* ===== verification/PoolResults.thy ===== *)
theory PoolResults
  imports PoolLive
begin

text \<open>
  What the core pool returns. The dictionaries of \<^verbatim>\<open>bench\<close> in closed form, for items that announce
  no variant twice: each variant with the positions of its jobs, and then with their results.
\<close>

section \<open>Dictionaries over a fixed list of keys\<close>

lemma dict_append_table:
  "distinct ks \<Longrightarrow> k \<in> set ks \<Longrightarrow>
   dict_at_append k x (map (\<lambda>u. (u, f u)) ks) = Inr (map (\<lambda>u. (u, (f(k := f k @ [x])) u)) ks)"
proof -
  assume ks: "distinct ks" "k \<in> set ks"
  then have "dict_append k x (map (\<lambda>u. (u, f u)) ks) = map (\<lambda>u. (u, (f(k := f k @ [x])) u)) ks"
    by (induction ks) auto
  with ks(2) show ?thesis by (simp add: dict_at_append_def dict_keys_def o_def)
qed

lemma dict_reset_new:
  "distinct vs \<Longrightarrow> set vs \<inter> fst ` set d = {} \<Longrightarrow> fold dict_reset vs d = d @ map (\<lambda>v. (v, [])) vs"
proof (induction vs arbitrary: d)
  case (Cons v vs)
  have "dict_reset v d = d @ [(v, [])]"
    using Cons.prems(2) unfolding dict_reset_def by (induction d) auto
  moreover have "fold dict_reset vs (d @ [(v, [])]) = (d @ [(v, [])]) @ map (\<lambda>v. (v, [])) vs"
    using Cons.prems by (intro Cons.IH) auto
  ultimately show ?case by simp
qed simp

section \<open>Items\<close>

fun announced :: "pool_item list \<Rightarrow> string list" where
  "announced [] = []"
| "announced (Announce vs # xs) = vs @ announced xs"
| "announced (Submit r v c # xs) = announced xs"

fun submits :: "pool_item list \<Rightarrow> (string \<times> string) list" where
  "submits [] = []"
| "submits (Announce vs # xs) = submits xs"
| "submits (Submit r v c # xs) = (v, c) # submits xs"

definition positions :: "string \<Rightarrow> (string \<times> string) list \<Rightarrow> nat list" where
  "positions v subs = filter (\<lambda>k. fst (subs ! k) = v) [0..<length subs]"

lemma announced_append [simp]: "announced (xs @ ys) = announced xs @ announced ys"
  by (induction xs rule: announced.induct) auto

lemma submits_append [simp]: "submits (xs @ ys) = submits xs @ submits ys"
  by (induction xs rule: submits.induct) auto

lemma positions_snoc: "positions v (subs @ [(u, c)]) = positions v subs @ (if u = v then [length subs] else [])"
proof -
  have "filter (\<lambda>k. fst ((subs @ [(u, c)]) ! k) = v) [0..<length subs] = positions v subs"
    unfolding positions_def by (intro filter_cong) (auto simp: nth_append)
  then show ?thesis by (simp add: positions_def)
qed

lemma positions_none: "v \<notin> fst ` set subs \<Longrightarrow> positions v subs = []"
  by (force simp: positions_def filter_empty_conv)

lemma sorted_positions: "sorted_wrt (<) (positions v subs)"
  by (simp add: positions_def sorted_wrt_filter)

lemma length_positions: "length (positions v subs) = length (filter (\<lambda>s. fst s = v) subs)"
  by (induction subs rule: rev_induct) (auto simp: positions_snoc, simp add: positions_def)

text \<open>Every variant is announced before its first job.\<close>

fun orderly :: "string set \<Rightarrow> pool_item list \<Rightarrow> bool" where
  "orderly V [] = True"
| "orderly V (Announce vs # xs) = orderly (V \<union> set vs) xs"
| "orderly V (Submit r v c # xs) = (v \<in> V \<and> orderly V xs)"

lemma orderly_append: "orderly V (xs @ ys) \<longleftrightarrow> orderly V xs \<and> orderly (V \<union> set (announced xs)) ys"
  by (induction V xs rule: orderly.induct) (auto simp: Un_assoc)

lemma orderly_submits: "orderly V xs \<Longrightarrow> fst ` set (submits xs) \<subseteq> V \<union> set (announced xs)"
  by (induction V xs rule: orderly.induct) auto

lemma plan_closed:
  "orderly {} items \<Longrightarrow> distinct (announced items) \<Longrightarrow>
   rfold item_effect items ([], []) =
     Inr (map (\<lambda>v. (v, positions v (submits items))) (announced items), map snd (submits items))"
proof (induction items rule: rev_induct)
  case (snoc x items)
  then have IH: "rfold item_effect items ([], []) =
      Inr (map (\<lambda>v. (v, positions v (submits items))) (announced items), map snd (submits items))"
    and old: "orderly {} items" by (auto simp: orderly_append)
  show ?case
  proof (cases x)
    case (Announce vs)
    with snoc.prems(2) have new: "distinct vs" "set vs \<inter> set (announced items) = {}" by auto
    with orderly_submits [OF old] have "v \<in> set vs \<Longrightarrow> positions v (submits items) = []" for v
      by (intro positions_none) auto
    with new IH Announce show ?thesis
      by (auto simp: rfold_append o_def image_image dict_reset_new)
  next
    case (Submit r v c)
    with snoc.prems have "distinct (announced items)" "v \<in> set (announced items)" by (auto simp: orderly_append)
    with IH Submit show ?thesis
      by (auto simp: rfold_append dict_append_table positions_snoc)
  qed
qed simp

section \<open>The items of the benchmarks\<close>

definition variants_of :: "string list \<Rightarrow> (string \<times> string list) list \<Rightarrow> string list" where
  "variants_of files bs = concat (map (\<lambda>(test, args). get_variants files test) bs)"

lemma bench_items_const:
  assumes "\<And>i. ls i = files"
  shows "bench_items ls bs r = concat (map (\<lambda>(test, args). test_items (get_variants files test) args r) bs)"
proof -
  have "map (\<lambda>(i, (test, args)). test_items (get_variants (ls i) test) args r) (enumerate i bs) =
    map (\<lambda>(test, args). test_items (get_variants files test) args r) bs" for i
    by (induction bs arbitrary: i) (auto simp: assms)
  then show ?thesis by (simp add: bench_items_def)
qed

lemma announced_rounds: "announced (concat (map (\<lambda>r. map (\<lambda>v. Submit r v (f v)) vs) rs)) = []"
proof -
  have "announced (map (\<lambda>v. Submit r v (f v)) vs) = []" for r by (induction vs) auto
  then show ?thesis by (induction rs) auto
qed

lemma submits_rounds:
  "submits (concat (map (\<lambda>r. map (\<lambda>v. Submit r v (f v)) vs) rs)) = concat (map (\<lambda>r. map (\<lambda>v. (v, f v)) vs) rs)"
proof -
  have "submits (map (\<lambda>v. Submit r v (f v)) vs) = map (\<lambda>v. (v, f v)) vs" for r by (induction vs) auto
  then show ?thesis by (induction rs) auto
qed

lemma test_items_parts:
  "announced (test_items vs args r) = vs"
  "submits (test_items vs args r) = concat (map (\<lambda>i. map (\<lambda>v. (v, bench_command args v)) vs) [0..r - 1])"
  by (simp_all add: test_items_def announced_rounds submits_rounds)

lemma orderly_rounds: "set vs \<subseteq> V \<Longrightarrow> orderly V (concat (map (\<lambda>r. map (\<lambda>v. Submit r v (f v)) vs) rs))"
proof -
  assume "set vs \<subseteq> V"
  then have "orderly V (map (\<lambda>v. Submit r v (f v)) vs)" for r by (induction vs) auto
  then show ?thesis by (induction rs) (auto simp: orderly_append announced_rounds [where rs = "[r]" for r, simplified])
qed

lemma items_parts:
  "announced (concat (map (\<lambda>(test, args). test_items (get_variants files test) args r) bs)) = variants_of files bs"
  "orderly V (concat (map (\<lambda>(test, args). test_items (get_variants files test) args r) bs))"
  by (induction bs arbitrary: V)
    (auto simp: variants_of_def test_items_parts orderly_append, simp add: test_items_def orderly_rounds)

lemma submits_of_variant:
  assumes "distinct (variants_of files bs)" and "(test, args) \<in> set bs" and "v \<in> set (get_variants files test)"
  shows "filter (\<lambda>s. fst s = v) (submits (concat (map (\<lambda>(test, args). test_items (get_variants files test) args r) bs))) =
    replicate (nat r) (v, bench_command args v)"
proof -
  have none: "v \<notin> set (variants_of files bs) \<Longrightarrow>
      filter (\<lambda>s. fst s = v) (submits (concat (map (\<lambda>(test, args). test_items (get_variants files test) args r) bs))) = []" for bs
    using orderly_submits [OF items_parts(2) [of "{}" files r bs]] by (auto simp: items_parts filter_empty_conv)
  have single: "distinct vs \<Longrightarrow> v \<in> set vs \<Longrightarrow> filter (\<lambda>s. fst s = v) (map (\<lambda>v. (v, bench_command args v)) vs) = [(v, bench_command args v)]"
    for vs args by (induction vs) (auto simp: filter_empty_conv)
  have rounds: "filter (\<lambda>s. fst s = v) (concat (map (\<lambda>i. map (\<lambda>v. (v, bench_command args v)) vs) is)) =
      replicate (length is) (v, bench_command args v)" if "distinct vs" "v \<in> set vs" for vs args and "is" :: "int list"
    using single [OF that] by (induction "is") auto
  obtain bs1 bs2 where bs: "bs = bs1 @ (test, args) # bs2" using assms(2) by (meson split_list)
  then have "variants_of files bs = variants_of files bs1 @ get_variants files test @ variants_of files bs2"
    by (simp add: variants_of_def)
  then have "v \<notin> set (variants_of files bs1)" "v \<notin> set (variants_of files bs2)" "distinct (get_variants files test)"
    using assms(1,3) by auto
  with none assms(3) show ?thesis by (simp add: bs test_items_parts rounds)
qed

section \<open>Gathering\<close>

lemma rfold_concat: "rfold (\<lambda>xs. rfold f xs) xss s = rfold f (concat xss) s"
  by (induction xss arbitrary: s) (auto simp: rfold_append intro!: arg_cong2 [where f = rbind])

lemma gather_jobs:
  assumes "distinct ks" and "v \<in> set ks" and "\<forall>k \<in> set js. job_get (p_jobs s ! k) = Inr (out k)"
  shows "rfold (\<lambda>k results. rbind (job_get (p_jobs s ! k)) (\<lambda>oe. dict_at_append v oe results)) js (map (\<lambda>u. (u, f u)) ks) =
    Inr (map (\<lambda>u. (u, (f(v := f v @ map out js)) u)) ks)"
  using assms(3)
proof (induction js arbitrary: f)
  case (Cons k js)
  then show ?case by (simp add: dict_append_table [OF assms(1,2)])
qed simp

lemma gather_all:
  assumes "distinct ks" and "p_async s = map (\<lambda>v. (v, pos v)) ks"
    and "\<forall>v \<in> set ks. \<forall>k \<in> set (pos v). job_get (p_jobs s ! k) = Inr (out k)"
  shows "distinct vs \<Longrightarrow> set vs \<subseteq> set ks \<Longrightarrow> \<forall>v \<in> set vs. f v = [] \<Longrightarrow>
    rfold (gather_variant s) vs (map (\<lambda>u. (u, f u)) ks) =
    Inr (map (\<lambda>u. (u, if u \<in> set vs then map out (pos u) else f u)) ks)"
proof (induction vs arbitrary: f)
  case (Cons v vs)
  have "map_of (p_async s) v = Some (pos v)"
    using Cons.prems(2) by (simp add: assms(2) map_of_map_restrict restrict_map_def)
  then have "gather_variant s v (map (\<lambda>u. (u, f u)) ks) = Inr (map (\<lambda>u. (u, (f(v := map out (pos v))) u)) ks)"
    using gather_jobs [OF assms(1), of v "pos v" s out f] assms(3) Cons.prems by (simp add: gather_variant_def)
  moreover have "rfold (gather_variant s) vs (map (\<lambda>u. (u, (f(v := map out (pos v))) u)) ks) =
      Inr (map (\<lambda>u. (u, if u \<in> set vs then map out (pos u) else (f(v := map out (pos v))) u)) ks)"
    using Cons.prems by (intro Cons.IH) auto
  ultimately show ?case using Cons.prems(1) by auto
qed simp

lemma bench_results_const:
  assumes "\<And>i. ls i = files"
  shows "bench_results ls bs s = rfold (gather_variant s) (variants_of files bs) (map (\<lambda>(v, ks). (v, [])) (p_async s))"
proof -
  have "rfold (\<lambda>(i, (test, args)). rfold (gather_variant s) (get_variants files test)) (enumerate i bs) d =
      rfold (gather_variant s) (variants_of files bs) d" for i d
    by (induction bs arbitrary: i d) (auto simp: variants_of_def rfold_append intro!: arg_cong2 [where f = rbind])
  then show ?thesis by (simp add: bench_results_def assms)
qed

lemma own_command:
  assumes "filter (\<lambda>s. fst s = v) subs = replicate m (v, c)" and "k < length subs" and "fst (subs ! k) = v"
  shows "snd (subs ! k) = c"
proof -
  have "subs ! k \<in> set (filter (\<lambda>s. fst s = v) subs)" using assms(2,3) by simp
  then show ?thesis unfolding assms(1) by (auto split: if_splits)
qed

text \<open>Every job has one of the eight cores, from its submission on.\<close>

lemma cores_update:
  assumes "k < length js" and "j_core j = j_core (js ! k)" and "\<forall>j \<in> set js. j_core j \<in> A"
  shows "\<forall>j \<in> set (js[k := j]). j_core j \<in> A"
  using assms set_update_subset_insert [of js k j] by (metis insert_iff nth_mem subsetD)

lemma step_job_cores:
  assumes "pool_step W n s s'" and "cores.balanced s" and "\<forall>j \<in> set (p_jobs s). j_core j \<in> set initial_cores"
  shows "\<forall>j \<in> set (p_jobs s'). j_core j \<in> set initial_cores"
  using assms(1)
proof (cases rule: pool_step.cases)
  case main
  have "core \<in> set initial_cores" if "p_main s = MSubmit core" for core
  proof -
    have "add_mset core (mset (sh_cores (p_shared s)) + sum_list (map job_core (p_jobs s))) = mset initial_cores"
      using assms(2) that by (simp add: cores.balanced_def main_core_def)
    then have "core \<in># mset initial_cores" by (metis union_single_eq_member)
    then show ?thesis by simp
  qed
  with main assms(3) show ?thesis
    by (cases "p_main s") (auto simp: main_next_def submit_job_def add_log_def set_lock_def
        split: if_splits list.splits pool_item.splits sum.splits)
next
  case (start k)
  show ?thesis
    using cores_update [OF start(2) _ assms(3), of "(p_jobs s ! k)\<lparr>j_pc := RChdir\<rparr>"] start(1) by simp
next
  case (run k j sh)
  have "j_core j = j_core (p_jobs s ! k)"
    using run(3) by (cases "j_pc (p_jobs s ! k)") (auto simp: runner_next_def Let_def split: if_splits)
  with run(1) show ?thesis using cores_update [OF run(2) _ assms(3)] by simp
qed

lemma reachable_job_cores:
  "(pool_step W n)\<^sup>*\<^sup>* (bench_start items) s \<Longrightarrow> \<forall>j \<in> set (p_jobs s). j_core j \<in> set initial_cores"
proof (induction rule: rtranclp_induct)
  case base
  then show ?case by (simp add: bench_start_def)
next
  case (step s s')
  then show ?case using step_job_cores cores.reachable_balanced by blast
qed

end
