(* ===== verification/PoolSpec.thy ===== *)
theory PoolSpec
  imports PoolResults
begin

text \<open>
  The properties of the core pool, C34 and C35: what holds in every reachable state, and what a
  completed run returns.
\<close>

section \<open>Every core and the mutex have one owner\<close>

lemma initial_cores_set: "set initial_cores = {14..21}"
  unfolding initial_cores_def set_upto by simp

lemma sum_list_two:
  fixes f :: "'a \<Rightarrow> 'b multiset"
  assumes "i < k" and "k < length xs"
  shows "f (xs ! i) + f (xs ! k) \<subseteq># sum_list (map f xs)"
proof -
  have "k - Suc i < length (drop (Suc i) xs)" using assms by simp
  then have "f (drop (Suc i) xs ! (k - Suc i)) \<subseteq># sum_list (map f (drop (Suc i) xs))"
    by (metis mset_subset_eq_add_left sum_list_split)
  moreover have "sum_list (map f xs) = sum_list (map f (take i xs)) + (f (xs ! i) + sum_list (map f (drop (Suc i) xs)))"
    using assms by (subst id_take_nth_drop [of i xs]) simp_all
  ultimately show ?thesis using assms by (simp add: subset_mset.add_increasing)
qed

lemma exclusive_cores:
  assumes "cores.balanced s"
  shows "distinct (sh_cores (p_shared s))" and "set (sh_cores (p_shared s)) \<subseteq> set initial_cores"
    and "k < length (p_jobs s) \<Longrightarrow> job_holds_core (p_jobs s ! k) \<Longrightarrow>
      j_core (p_jobs s ! k) \<in> set initial_cores - set (sh_cores (p_shared s))"
    and "i < k \<Longrightarrow> k < length (p_jobs s) \<Longrightarrow> job_holds_core (p_jobs s ! i) \<Longrightarrow> job_holds_core (p_jobs s ! k) \<Longrightarrow>
      j_core (p_jobs s ! i) \<noteq> j_core (p_jobs s ! k)"
proof -
  let ?cs = "sh_cores (p_shared s)" and ?js = "p_jobs s"
  have total: "main_core (p_main s) + (mset ?cs + sum_list (map job_core ?js)) = mset initial_cores"
    using assms by (simp add: cores.balanced_def)
  have once: "count A c \<le> 1" if "A \<subseteq># mset initial_cores" for A c
    using mset_subset_eq_count [OF that, of c] by (simp add: initial_cores_eq split: if_splits)
  have part: "mset ?cs + sum_list (map job_core ?js) \<subseteq># mset initial_cores"
    by (metis total mset_subset_eq_add_right)
  have list: "mset ?cs \<subseteq># mset initial_cores" using part by (metis mset_subset_eq_add_left subset_mset.order_trans)
  show "set ?cs \<subseteq> set initial_cores" using set_mset_mono [OF list] by simp
  have "count (mset ?cs) c \<le> 1" for c by (rule once [OF list])
  then show "distinct ?cs"
    by (metis count_mset_0_iff distinct_count_atmost_1 le_Suc_eq le_zero_eq One_nat_def)
  show "j_core (?js ! k) \<in> set initial_cores - set ?cs" if k: "k < length ?js" "job_holds_core (?js ! k)"
  proof -
    have "{#j_core (?js ! k)#} \<subseteq># sum_list (map job_core ?js)"
      using k sum_list_split [OF k(1), of job_core] by (metis job_core_def mset_subset_eq_add_left)
    then have sub: "mset ?cs + {#j_core (?js ! k)#} \<subseteq># mset initial_cores"
      using part by (meson subset_mset.add_left_mono subset_mset.order_trans)
    have "count (mset ?cs + {#j_core (?js ! k)#}) (j_core (?js ! k)) \<le> 1" by (rule once [OF sub])
    then have "j_core (?js ! k) \<notin> set ?cs" by (simp add: count_mset_0_iff)
    moreover have "j_core (?js ! k) \<in> set initial_cores" using set_mset_mono [OF sub] by simp
    ultimately show ?thesis by simp
  qed
  show "j_core (?js ! i) \<noteq> j_core (?js ! k)"
    if "i < k" "k < length ?js" "job_holds_core (?js ! i)" "job_holds_core (?js ! k)"
  proof
    assume same: "j_core (?js ! i) = j_core (?js ! k)"
    have "job_core (?js ! i) + job_core (?js ! k) \<subseteq># mset initial_cores"
      using sum_list_two [OF that(1,2), of job_core] part
      by (meson mset_subset_eq_add_right subset_mset.order_trans)
    from once [OF this, of "j_core (?js ! k)"] show False using that same by (simp add: job_core_def)
  qed
qed

text \<open>
  C34. In every reachable state of \<^verbatim>\<open>bench\<close>, whatever the scheduler, the number of workers and the jobs
  do: the cores in the list are different ones of the eight, two jobs that have not yet given their core
  back never have the same core, nor is it in the list (also that of a job that an exception has ended,
  which is therefore lost), and at most one process is inside a section guarded by the mutex.
\<close>

theorem pool_cores:
  assumes "(pool_step W n)\<^sup>*\<^sup>* (bench_start (bench_items ls bs repeat)) s"
  shows "distinct (sh_cores (p_shared s)) \<and> set (sh_cores (p_shared s)) \<subseteq> {14..21} \<and>
    (\<forall>k < length (p_jobs s). job_holds_core (p_jobs s ! k) \<longrightarrow>
       j_core (p_jobs s ! k) \<in> {14..21} - set (sh_cores (p_shared s)) \<and>
       (\<forall>i < k. job_holds_core (p_jobs s ! i) \<longrightarrow> j_core (p_jobs s ! i) \<noteq> j_core (p_jobs s ! k))) \<and>
    length (filter job_holds_mutex (p_jobs s)) + of_bool (main_holds_mutex (p_main s)) =
      of_bool (sh_locked (p_shared s))"
proof -
  note range = initial_cores_set
  have "length (filter job_holds_mutex js) = sum_list (map (\<lambda>j. of_bool (job_holds_mutex j)) js)" for js
    by (induction js) auto
  then have "length (filter job_holds_mutex (p_jobs s)) + of_bool (main_holds_mutex (p_main s)) =
      of_bool (sh_locked (p_shared s))"
    using mutex.reachable_balanced [OF assms] by (auto simp: mutex.balanced_def split: if_splits)
  with exclusive_cores [OF cores.reachable_balanced [OF assms], unfolded range] show ?thesis by auto
qed

text \<open>
  Two jobs with one worker: the first has the core 21 and waits for the mutex, which the main process
  holds with the core 20 for the second.
\<close>

definition two_benchmarks :: "(string \<times> string list) list" where
  "two_benchmarks = [(''bt'', []), (''cg'', [''1''])]"

definition two_files :: "string list" where
  "two_files = [''bt.aot'', ''cg.aot'', ''cg.wasm'']"

definition ok_world :: job_world where
  "ok_world = \<lparr>jw_dir = (\<lambda>k. True), jw_exec = (\<lambda>k c. (0, ''ok'', []))\<rparr>"

definition two_state :: "int list \<Rightarrow> bool \<Rightarrow> main_pc \<Rightarrow> pool_item list \<Rightarrow> runner_pc \<Rightarrow> pool_state" where
  "two_state core_list locked m todo pc =
     \<lparr>p_shared = \<lparr>sh_locked = locked, sh_cores = core_list,
        sh_log = Variants [''bt''] # Submitted 0 21 ''bt'' # (if m = MNext then [] else [Variants [''cg'']])\<rparr>,
      p_main = m, p_todo = todo, p_async = (''bt'', [0]) # (if m = MNext then [] else [(''cg'', [])]),
      p_jobs = [\<lparr>j_core = 21, j_command = ''../MVVM_checkpoint -t bt.aot '', j_pc = pc\<rparr>]\<rparr>"

lemma two_items:
  "bench_items (\<lambda>_. two_files) two_benchmarks 1 =
     [Announce [''bt''], Submit 0 ''bt'' ''../MVVM_checkpoint -t bt.aot '',
      Announce [''cg''], Submit 0 ''cg'' ''../MVVM_checkpoint -t cg.aot  -a 1'']"
  by code_simp

lemma two_first:
  "schedule ok_world 1 [Main, Main, Main, Main, Main, Main] (bench_start
     [Announce [''bt''], Submit 0 ''bt'' ''../MVVM_checkpoint -t bt.aot '',
      Announce [''cg''], Submit 0 ''cg'' ''../MVVM_checkpoint -t cg.aot  -a 1'']) =
   Some (two_state [14, 15, 16, 17, 18, 19, 20] False MNext
     [Announce [''cg''], Submit 0 ''cg'' ''../MVVM_checkpoint -t cg.aot  -a 1''] RQueued)"
  by code_simp

lemma two_job:
  "schedule ok_world 1 [Start 0, Job 0] (two_state [14, 15, 16, 17, 18, 19, 20] False MNext
     [Announce [''cg''], Submit 0 ''cg'' ''../MVVM_checkpoint -t cg.aot  -a 1''] RQueued) =
   Some (two_state [14, 15, 16, 17, 18, 19, 20] False MNext
     [Announce [''cg''], Submit 0 ''cg'' ''../MVVM_checkpoint -t cg.aot  -a 1''] RWantStart)"
  by code_simp

lemma two_second:
  "schedule ok_world 1 [Main, Main, Main, Main] (two_state [14, 15, 16, 17, 18, 19, 20] False MNext
     [Announce [''cg''], Submit 0 ''cg'' ''../MVVM_checkpoint -t cg.aot  -a 1''] RWantStart) =
   Some (two_state [14, 15, 16, 17, 18, 19] True (MRelease 20)
     [Submit 0 ''cg'' ''../MVVM_checkpoint -t cg.aot  -a 1''] RWantStart)"
  by code_simp

lemma two_run:
  "(pool_step ok_world 1)\<^sup>*\<^sup>* (bench_start (bench_items (\<lambda>_. two_files) two_benchmarks 1))
     (two_state [14, 15, 16, 17, 18, 19] True (MRelease 20)
       [Submit 0 ''cg'' ''../MVVM_checkpoint -t cg.aot  -a 1''] RWantStart)"
  unfolding two_items
  using schedule_reaches [OF two_first] schedule_reaches [OF two_job] schedule_reaches [OF two_second]
  by (meson rtranclp_trans)

theorem pool_cores_witness:
  "\<exists>s. (pool_step ok_world 1)\<^sup>*\<^sup>* (bench_start (bench_items (\<lambda>_. two_files) two_benchmarks 1)) s \<and>
     p_main s = MRelease 20 \<and> map j_core (p_jobs s) = [21] \<and> sh_cores (p_shared s) = [14, 15, 16, 17, 18, 19] \<and>
     distinct (sh_cores (p_shared s)) \<and> j_core (p_jobs s ! 0) \<notin> set (sh_cores (p_shared s)) \<and>
     length (filter job_holds_mutex (p_jobs s)) + of_bool (main_holds_mutex (p_main s)) = of_bool (sh_locked (p_shared s))"
  using pool_cores [OF two_run] two_run
  by (intro exI [of _ "two_state [14, 15, 16, 17, 18, 19] True (MRelease 20)
    [Submit 0 ''cg'' ''../MVVM_checkpoint -t cg.aot  -a 1''] RWantStart"])
    (auto simp: two_state_def job_holds_core_def)

section \<open>The pool completes and returns every result\<close>

definition result_of :: "job_world \<Rightarrow> string \<Rightarrow> nat \<Rightarrow> string \<times> string \<Rightarrow> bool" where
  "result_of W command k oe \<longleftrightarrow>
     (\<exists>core \<in> {14..21}. \<exists>code. job_output W k core command = Inr (code, fst oe, snd oe))"

text \<open>A job that followed the plan to the end has the result of its command.\<close>

lemma ended_results:
  assumes "(pool_step W n)\<^sup>*\<^sup>* (bench_start items) s" and "orderly {} items" and "distinct (announced items)"
    and "all_outputs_good W" and "p_main s = MEnd"
  shows "p_async s = map (\<lambda>v. (v, positions v (submits items))) (announced items)"
    and "k < length (submits items) \<Longrightarrow> \<exists>oe. job_get (p_jobs s ! k) = Inr oe \<and> result_of W (snd (submits items ! k)) k oe"
proof -
  note plan = plan_closed [OF assms(2,3)]
  from reachable_on_plan [OF assms(1) plan] have on: "on_plan W items s" .
  then have ended: "p_todo s = []" "list_all job_ended (p_jobs s)" using assms(5) by (simp_all add: on_plan_def todo_fits_def)
  with on ended(1) plan have async: "p_async s = map (\<lambda>v. (v, positions v (submits items))) (announced items)"
    and jobs: "list_all2 (\<lambda>(k, c) j. follows W k c j) (enumerate 0 (map snd (submits items))) (p_jobs s)"
    by (auto simp: on_plan_def)
  show "p_async s = map (\<lambda>v. (v, positions v (submits items))) (announced items)" by (rule async)
  assume k: "k < length (submits items)"
  from jobs k have "follows W k (snd (submits items ! k)) (p_jobs s ! k)" and len: "k < length (p_jobs s)"
    by (auto simp: list_all2_conv_all_nth nth_enumerate_eq)
  moreover have "job_ended (p_jobs s ! k)" using ended(2) len by (simp add: list_all_length)
  moreover have "j_core (p_jobs s ! k) \<in> {14..21}"
    using reachable_job_cores [OF assms(1)] len by (simp add: initial_cores_set)
  ultimately show "\<exists>oe. job_get (p_jobs s ! k) = Inr oe \<and> result_of W (snd (submits items ! k)) k oe"
    using assms(4) unfolding all_outputs_good_def
    by (cases "j_pc (p_jobs s ! k)") (auto simp: follows_def job_ended_def job_get_def result_of_def, metis Inr_not_Inl)
qed

lemma sorted_results:
  assumes "\<And>k. k \<in> set ks \<Longrightarrow> job_get (p_jobs s ! k) = Inr (out k) \<and> result_of W c k (out k)"
  shows "list_all2 (result_of W c) ks (map out ks)"
  using assms by (auto simp: list_all2_conv_all_nth)

text \<open>
  C35. If the directory does not change, no variant belongs to two tests, every command ends with
  output that decodes, and there is a worker, then \<^verbatim>\<open>bench\<close> can always be completed, from whatever
  state a scheduler has brought it to. It then has all eight cores back, and returns, in the order of
  the tests and their variants, for each variant one result for each repetition: the output of its own
  command on one of the eight cores, in the order in which its jobs were submitted.
\<close>

theorem pool_completes:
  assumes run: "(pool_step W n)\<^sup>*\<^sup>* (bench_start (bench_items ls bs repeat)) s"
    and world: "all_outputs_good W" "0 < n"
    and dir: "\<And>i. ls i = files" "distinct (variants_of files bs)"
  shows "\<exists>s' results. (pool_step W n)\<^sup>*\<^sup>* s s' \<and> p_main s' = MEnd \<and> mset (sh_cores (p_shared s')) = mset [14..21] \<and>
    bench_results ls bs s' = Inr results \<and> map fst results = variants_of files bs \<and>
    (\<forall>(test, args) \<in> set bs. \<forall>v \<in> set (get_variants files test). \<exists>ks outs. map_of results v = Some outs \<and>
       length outs = nat repeat \<and> sorted_wrt (<) ks \<and> list_all2 (result_of W (bench_command args v)) ks outs)"
proof -
  let ?items = "bench_items ls bs repeat" and ?vs = "variants_of files bs"
  have parts: "announced ?items = ?vs" "orderly {} ?items"
    by (simp_all add: bench_items_const [OF dir(1)] items_parts)
  note plan = plan_closed [OF parts(2), unfolded parts(1), OF dir(2)]
  obtain s' where s': "(pool_step W n)\<^sup>*\<^sup>* s s'" "p_main s' = MEnd"
    using completion [OF run plan world] by blast
  with run have reach: "(pool_step W n)\<^sup>*\<^sup>* (bench_start ?items) s'" by (meson rtranclp_trans)
  note cores = end_cores [OF reachable_on_plan [OF reach plan] world(1) cores.reachable_balanced [OF reach] s'(2)]
  note ended = ended_results [OF reach parts(2) _ world(1) s'(2), unfolded parts(1), OF dir(2)]
  define out where "out k = (SOME oe. job_get (p_jobs s' ! k) = Inr oe \<and> result_of W (snd (submits ?items ! k)) k oe)" for k
  have out: "job_get (p_jobs s' ! k) = Inr (out k) \<and> result_of W (snd (submits ?items ! k)) k (out k)"
    if "k < length (submits ?items)" for k
    unfolding out_def by (rule someI_ex [OF ended(2) [OF that]])
  define results where "results = map (\<lambda>v. (v, map out (positions v (submits ?items)))) ?vs"
  have "bench_results ls bs s' = rfold (gather_variant s') ?vs (map (\<lambda>v. (v, [])) ?vs)"
    by (simp add: bench_results_const [OF dir(1)] ended(1) o_def)
  also have "\<dots> = Inr results"
    using gather_all [OF dir(2) ended(1), of out ?vs "\<lambda>_. []"] dir(2) out
    by (simp add: results_def positions_def cong: map_cong)
  finally have gathered: "bench_results ls bs s' = Inr results" .
  have each: "\<exists>ks outs. map_of results v = Some outs \<and> length outs = nat repeat \<and> sorted_wrt (<) ks \<and>
      list_all2 (result_of W (bench_command args v)) ks outs"
    if "(test, args) \<in> set bs" "v \<in> set (get_variants files test)" for test args v
  proof (intro exI conjI)
    let ?ks = "positions v (submits ?items)"
    have own: "filter (\<lambda>s. fst s = v) (submits ?items) = replicate (nat repeat) (v, bench_command args v)"
      unfolding bench_items_const [OF dir(1)] by (rule submits_of_variant [OF dir(2) that])
    have "v \<in> set ?vs" using that by (auto simp: variants_of_def)
    then show "map_of results v = Some (map out ?ks)"
      by (simp add: results_def map_of_map_restrict restrict_map_def)
    show "length (map out ?ks) = nat repeat" by (simp add: length_positions own)
    show "sorted_wrt (<) ?ks" by (rule sorted_positions)
    show "list_all2 (result_of W (bench_command args v)) ?ks (map out ?ks)"
      by (intro sorted_results) (use out own_command [OF own] in \<open>fastforce simp: positions_def\<close>)
  qed
  have "map fst results = ?vs" by (simp add: results_def o_def)
  with s' cores gathered each show ?thesis
    by (intro exI [of _ s'] exI [of _ results]) (auto simp: initial_cores_def)
qed

lemma ok_world_good: "all_outputs_good ok_world"
  by (simp add: all_outputs_good_def job_output_def ok_world_def run_command_and_get_stdout_and_stderr_def utf_8_ascii
      ascii_def)

lemma two_variants: "variants_of two_files two_benchmarks = [''bt'', ''cg'']"
  by code_simp

lemma two_cg: "get_variants two_files ''cg'' = [''cg'']"
  by code_simp

theorem pool_completes_witness:
  "\<exists>s' results. (pool_step ok_world 1)\<^sup>*\<^sup>*
       (two_state [14, 15, 16, 17, 18, 19] True (MRelease 20)
         [Submit 0 ''cg'' ''../MVVM_checkpoint -t cg.aot  -a 1''] RWantStart) s' \<and>
     p_main s' = MEnd \<and> bench_results (\<lambda>_. two_files) two_benchmarks s' = Inr results \<and>
     map fst results = [''bt'', ''cg''] \<and> (\<exists>outs. map_of results ''cg'' = Some outs \<and> length outs = 1)"
proof -
  have "distinct (variants_of two_files two_benchmarks)" by (simp add: two_variants)
  from pool_completes [OF two_run ok_world_good zero_less_one refl this] obtain s' results where r:
    "(pool_step ok_world 1)\<^sup>*\<^sup>* (two_state [14, 15, 16, 17, 18, 19] True (MRelease 20)
       [Submit 0 ''cg'' ''../MVVM_checkpoint -t cg.aot  -a 1''] RWantStart) s'"
    "p_main s' = MEnd" "bench_results (\<lambda>_. two_files) two_benchmarks s' = Inr results"
    "map fst results = variants_of two_files two_benchmarks"
    "\<forall>(test, args) \<in> set two_benchmarks. \<forall>v \<in> set (get_variants two_files test). \<exists>ks outs.
       map_of results v = Some outs \<and> length outs = nat 1 \<and> sorted_wrt (<) ks \<and>
       list_all2 (result_of ok_world (bench_command args v)) ks outs" by blast
  have "(''cg'', [''1'']) \<in> set two_benchmarks" by (simp add: two_benchmarks_def)
  from bspec [OF r(5) this, unfolded prod.case two_cg]
  obtain outs where "map_of results ''cg'' = Some outs" "length outs = 1" by auto
  with r(1-3) r(4) [unfolded two_variants] show ?thesis by (intro exI conjI)
qed

section \<open>A test name that begins another\<close>

text \<open>
  With \<^verbatim>\<open>cc\<close> and \<^verbatim>\<open>cc_sv\<close>, two of the tests that are commented out, \<^verbatim>\<open>cc_sv.aot\<close> is a variant of both:
  the entry of the first run is thrown away when the second test announces it, and the job of the
  second run is all that is left of the two.
\<close>

lemma cc_variants:
  "get_variants [''cc.aot'', ''cc_sv.aot''] ''cc'' = [''cc'', ''cc_sv'']"
  "get_variants [''cc.aot'', ''cc_sv.aot''] ''cc_sv'' = [''cc_sv'']"
  by code_simp+

lemma cc_items:
  "bench_items (\<lambda>_. [''cc.aot'', ''cc_sv.aot'']) [(''cc'', []), (''cc_sv'', [])] 1 =
     [Announce [''cc'', ''cc_sv''], Submit 0 ''cc'' ''../MVVM_checkpoint -t cc.aot '',
      Submit 0 ''cc_sv'' ''../MVVM_checkpoint -t cc_sv.aot '',
      Announce [''cc_sv''], Submit 0 ''cc_sv'' ''../MVVM_checkpoint -t cc_sv.aot '']"
  by (simp add: bench_items_def cc_variants test_items_def bench_command_def bench_arg_def)

lemma shared_variant_lost:
  "rfold item_effect (bench_items (\<lambda>_. [''cc.aot'', ''cc_sv.aot'']) [(''cc'', []), (''cc_sv'', [])] 1) ([], []) =
     Inr ([(''cc'', [0]), (''cc_sv'', [2])], [''../MVVM_checkpoint -t cc.aot '',
       ''../MVVM_checkpoint -t cc_sv.aot '', ''../MVVM_checkpoint -t cc_sv.aot ''])"
  unfolding cc_items by (simp add: dict_at_append_def dict_keys_def dict_reset_def)

end
