(* ===== verification/Clusters.thy ===== *)
theory Clusters
  imports Plots
begin

text \<open>
  The plots with a cluster of bars for each workload, which the scripts draw one like the other:
  the rows are grouped by a shortened name, each column of a group becomes a median and a
  deviation, and the bars of a group stand side by side, named with the first group only.
\<close>

text \<open>\<^verbatim>\<open>workload.replace(...).replace(...) ... .strip()\<close>\<close>

definition clean_key :: "(string \<times> string) list \<Rightarrow> string \<Rightarrow> string" where
  "clean_key replaced workload = py_strip (fold (\<lambda>(old, new) s. py_replace s old new) replaced workload)"

definition removed :: "string list \<Rightarrow> (string \<times> string) list" where
  "removed olds = map (\<lambda>old. (old, [])) olds"

type_synonym cells = "(rat \<times> rat) list"

definition column_stats :: "numpy \<Rightarrow> nat \<Rightarrow> rat list list \<Rightarrow> cells" where
  "column_stats np n rows = map (\<lambda>j. (np_median np (column j rows), np_std np (column j rows))) [0..<n]"

definition cluster_statistics ::
  "numpy \<Rightarrow> (string \<Rightarrow> string) \<Rightarrow> nat \<Rightarrow> (string \<times> rat list) list \<Rightarrow> (string \<times> cells) list" where
  "cluster_statistics np key n rows =
     map (\<lambda>(workload, cells). (workload, column_stats np n cells)) (group_rows (\<lambda>r. key (fst r)) snd rows)"

text \<open>A bar: how many widths it is moved to the right, its column, its colour and its name.\<close>

type_synonym style = "nat \<times> nat \<times> string \<times> string"

definition cluster_bar :: "rat \<Rightarrow> nat \<Rightarrow> cells \<Rightarrow> style \<Rightarrow> draw" where
  "cluster_bar bar_width i stats style =
     (case style of (offset, j, color, label) \<Rightarrow>
        Bar (fl64 (of_nat i + fl64 (of_nat offset * bar_width))) (fst (stats ! j)) bar_width (snd (stats ! j)) color
          (if i = 0 then label else []))"

definition cluster_bars :: "rat \<Rightarrow> style list \<Rightarrow> (string \<times> cells) list \<Rightarrow> draw list" where
  "cluster_bars bar_width styles statistics =
     concat (map (\<lambda>(i, (workload, stats)). map (cluster_bar bar_width i stats) styles) (enumerate 0 statistics))"

definition ticks :: "rat \<Rightarrow> 'a list \<Rightarrow> draw" where
  "ticks shift statistics = XTicks (map (\<lambda>i. fl64 (of_nat i + shift)) [0..<length statistics])"

definition short_names :: "(string \<times> 'a) list \<Rightarrow> string list" where
  "short_names statistics = map (\<lambda>(x, stats). py_replace x ''a=b'' []) statistics"

section \<open>What is drawn\<close>

text \<open>The rows of one workload.\<close>

definition rows_of :: "(string \<Rightarrow> string) \<Rightarrow> (string \<times> 'v) list \<Rightarrow> string \<Rightarrow> 'v list" where
  "rows_of key rows w = map snd (filter (\<lambda>r. key (fst r) = w) rows)"

lemma cluster_statistics_eq:
  "cluster_statistics np key n rows =
     map (\<lambda>w. (w, column_stats np n (rows_of key rows w))) (firsts (map (\<lambda>r. key (fst r)) rows))"
  by (simp add: cluster_statistics_def group_eq rows_of_def o_def)

lemma length_cluster_bars [simp]: "length (cluster_bars w styles statistics) = length statistics * length styles"
proof -
  have "length (cluster_bars w styles statistics) =
      sum_list (map (\<lambda>_. length styles) (enumerate 0 statistics))"
    by (simp add: cluster_bars_def length_concat o_def case_prod_unfold)
  then show ?thesis by (simp add: sum_list_triv)
qed

end
