(* ===== verification/UseCases.thy ===== *)
theory UseCases
  imports BenchJobs TimeParse Clusters RemoteRuns
begin

text \<open>
  What \<^verbatim>\<open>src/artifact/usecase_burst_computing.py\<close> and
  \<^verbatim>\<open>src/artifact/usecase_optimistic_computing.py\<close> have in common: the loop body in a \<^verbatim>\<open>try\<close> whose
  exception is swallowed, the log of a run as a state machine, the times at which its samples
  are drawn, the log of the processor usage, and the file and the bars of the three tiers.
\<close>

section \<open>Swallowed exceptions\<close>

text \<open>
  \<^verbatim>\<open>try: s1; s2; ... except: print(line)\<close>: the statements before the one that raises keep their
  effects. \<open>Unsupported\<close> is no exception of the program and is passed on.
\<close>

fun attempt :: "('s \<Rightarrow> 's res) list \<Rightarrow> 's \<Rightarrow> 's res" where
  "attempt [] s = Inr s"
| "attempt (f # fs) s =
     (case f s of Inr s1 \<Rightarrow> attempt fs s1 | Inl e \<Rightarrow> if e = Unsupported then Inl Unsupported else Inr s)"

text \<open>\<^verbatim>\<open>xs[i].append(x)\<close> on a list of lists, \<^verbatim>\<open>xs.pop(i)\<close> and \<^verbatim>\<open>sum(xs)\<close>, added from the left.\<close>

definition append_at :: "nat \<Rightarrow> 'a \<Rightarrow> 'a list list \<Rightarrow> 'a list list res" where
  "append_at i x xs = (if i < length xs then Inr (xs[i := xs ! i @ [x]]) else Inl IndexError)"

definition py_pop :: "'a list \<Rightarrow> int \<Rightarrow> 'a list res" where
  "py_pop xs i =
     (let k = if i < 0 then i + int (length xs) else i in
      if 0 \<le> k \<and> k < int (length xs) then Inr (take (nat k) xs @ drop (Suc (nat k)) xs) else Inl IndexError)"

definition float_sum :: "rat list \<Rightarrow> rat" where
  "float_sum xs = fold (\<lambda>x s. fl64 (s + x)) xs 0"

text \<open>\<^verbatim>\<open>line.split(" ")[i]\<close> and \<^verbatim>\<open>float\<close> of it.\<close>

definition word_at :: "string \<Rightarrow> int \<Rightarrow> string res" where
  "word_at line i = py_index (py_split_on (CHR '' '') line) i"

definition float_word :: "string \<Rightarrow> int \<Rightarrow> rat res" where
  "float_word line i = rbind (word_at line i) py_float"

text \<open>\<^verbatim>\<open>parse_time(line.split(" ")[1].replace("]", ""))\<close>\<close>

definition clock_word :: "string \<Rightarrow> rat res" where
  "clock_word line = rbind (word_at line 1) (\<lambda>w. parse_time (py_replace w '']'' []))"

section \<open>The log of a run\<close>

text \<open>
  The phase the log is in, the times of the marks that ended the phases, and the samples of each
  phase, for the two tasks.
\<close>

record run_log =
  log_state :: nat
  log_time :: "rat list"
  log_exec :: "rat list list"
  log_exec1 :: "rat list list"

definition empty_log :: "nat \<Rightarrow> nat \<Rightarrow> run_log" where
  "empty_log n m = \<lparr>log_state = 0, log_time = [], log_exec = replicate n [], log_exec1 = replicate m []\<rparr>"

definition next_phase :: "rat \<Rightarrow> run_log \<Rightarrow> run_log" where
  "next_phase t st = st\<lparr>log_time := log_time st @ [t], log_state := log_state st + 1\<rparr>"

definition add_sample :: "nat \<Rightarrow> rat \<Rightarrow> run_log \<Rightarrow> run_log res" where
  "add_sample i x st = rbind (append_at i x (log_exec st)) (\<lambda>xs. Inr (st\<lparr>log_exec := xs\<rparr>))"

definition add_sample1 :: "nat \<Rightarrow> rat \<Rightarrow> run_log \<Rightarrow> run_log res" where
  "add_sample1 i x st = rbind (append_at i x (log_exec1 st)) (\<lambda>xs. Inr (st\<lparr>log_exec1 := xs\<rparr>))"

section \<open>The times of the samples\<close>

text \<open>
  \<^verbatim>\<open>for x in i: time_spots.append(time_spots[-1] + x)\<close>, and the time at which phase \<open>k\<close>, with
  samples \<open>xs\<close>, began: \<^verbatim>\<open>time[k] - sum(xs) - base\<close>.
\<close>

definition add_spots :: "rat list \<Rightarrow> rat list \<Rightarrow> rat list res" where
  "add_spots xs spots = rfold (\<lambda>x ts. rbind (py_index ts (- 1)) (\<lambda>t. Inr (ts @ [fl64 (t + x)]))) xs spots"

definition phase_start :: "rat list \<Rightarrow> rat \<Rightarrow> nat \<Rightarrow> rat list \<Rightarrow> rat res" where
  "phase_start marks base k xs =
     rbind (py_index marks (int k)) (\<lambda>t. Inr (fl64 (fl64 (t - float_sum xs) - base)))"

section \<open>The log of the processor usage\<close>

record usage =
  u_times :: "rat list"
  u_cpu :: "rat list"
  u_memory :: "rat list"

definition no_usage :: usage where
  "no_usage = \<lparr>u_times = [], u_cpu = [], u_memory = []\<rparr>"

text \<open>
  A line with \<^verbatim>\<open>2024\<close> is the date of a new process, other lines are samples, half a second apart.
  The bound of 10 is the percentage from which a sample counts; \<open>idle\<close> is what happens below.
\<close>

definition date_step :: "int \<Rightarrow> string \<Rightarrow> usage \<Rightarrow> usage res" where
  "date_step offset line u =
     rbind (rbind (word_at line 3) parse_time_no_msec) (\<lambda>t.
     Inr \<lparr>u_times = u_times u @ [of_int (t - offset)], u_cpu = u_cpu u @ [0], u_memory = u_memory u @ [0]\<rparr>)"

definition cpu_step :: "rat \<Rightarrow> usage \<Rightarrow> usage res" where
  "cpu_step v u = Inr (u\<lparr>u_cpu := u_cpu u @ [v]\<rparr>)"

definition memory_step :: "string \<Rightarrow> usage \<Rightarrow> usage res" where
  "memory_step line u = rbind (float_word line 5) (\<lambda>v. Inr (u\<lparr>u_memory := u_memory u @ [v]\<rparr>))"

definition tick_step :: "usage \<Rightarrow> usage res" where
  "tick_step u = rbind (py_index (u_times u) (- 1)) (\<lambda>t. Inr (u\<lparr>u_times := u_times u @ [fl64 (fl64 t + 1 / 2)]\<rparr>))"

definition wait_step :: "usage \<Rightarrow> usage res" where
  "wait_step u =
     rbind (py_index (u_times u) (- 1)) (\<lambda>t. Inr (u\<lparr>u_times := butlast (u_times u) @ [fl64 (fl64 t + 1 / 2)]\<rparr>))"

definition usage_line :: "int \<Rightarrow> (usage \<Rightarrow> usage res) \<Rightarrow> string \<Rightarrow> usage \<Rightarrow> usage res" where
  "usage_line offset idle line u =
     (if py_contains line ''2024'' then attempt [date_step offset line] u
      else case float_word line 2 of
          Inl e \<Rightarrow> if e = Unsupported then Inl Unsupported else Inr u
        | Inr v \<Rightarrow> if 10 < v then attempt [cpu_step v, memory_step line, tick_step] u else attempt [idle] u)"

definition usage_lines :: "int \<Rightarrow> (usage \<Rightarrow> usage res) \<Rightarrow> string list \<Rightarrow> usage \<Rightarrow> usage res" where
  "usage_lines offset idle lines u = rfold (usage_line offset idle) lines u"

section \<open>The three tiers\<close>

definition tier_jobs :: "string list \<Rightarrow> string list list \<Rightarrow> string list \<Rightarrow> job list" where
  "tier_jobs cmd arg envs = map (\<lambda>i. (cmd ! i @ ''.aot'', arg ! i, envs ! i)) [0..<length cmd]"

text \<open>The file: \<^verbatim>\<open>slowtier[idx][1]\<close> and \<^verbatim>\<open>snapshot[idx][1]\<close> belong to the row of the same index.\<close>

definition header_tiers :: "string list" where
  "header_tiers = [''name'', ''fasttier'', ''slowtier'', ''snapshot Time'']"

definition write_tiers ::
  "(string \<times> string) list \<Rightarrow> (string \<times> string) list \<Rightarrow> (string \<times> string) list \<Rightarrow> string \<Rightarrow> string res" where
  "write_tiers fasttier slowtiers snapshot old =
     rbind (rmap (\<lambda>(idx, row).
         rbind (py_index slowtiers (int idx)) (\<lambda>s.
         rbind (py_index snapshot (int idx)) (\<lambda>n. Inr [fst row, snd row, snd s, snd n])))
       (enumerate 0 fasttier)) (\<lambda>rows.
     Inr (append_csv header_tiers rows old))"

definition read_tiers :: "string \<Rightarrow> string list list" where
  "read_tiers csv_text = drop 1 (csv_rows csv_text)"

definition tier_key :: "string \<Rightarrow> string" where
  "tier_key workload =
     clean_key (removed [''OMP_NUM_THREADS='', ''-g15'', ''-n300'', '' -f '', ''-vn300'', ''maze-6404.txt'', ''stories110M.bin'',
       ''-z tokenizer.bin -t 0.0'', ''ORBvoc.txt'', ''TUM3.yaml'', ''./associations/fr1_xyz.txt'', ''./'']) workload"

definition tier_row :: "string list \<Rightarrow> (string \<times> string list) res" where
  "tier_row row = (case row of [workload, fasttier, slow, snapshot] \<Rightarrow> Inr (workload, [fasttier, slow, snapshot]) | _ \<Rightarrow> Inl ValueError)"

text \<open>
  The cells are turned into numbers by numpy, the parameter \<open>as_float\<close>. The three bars of a
  workload: the fast tier, the slow tier and the snapshot.
\<close>

definition tier_statistics :: "numpy \<Rightarrow> (string \<Rightarrow> rat res) \<Rightarrow> string list list \<Rightarrow> (string \<times> cells) list res" where
  "tier_statistics np as_float results =
     rbind (rmap tier_row results) (\<lambda>rows.
     rmap (\<lambda>(workload, times).
         rbind (rmap (\<lambda>j. rmap (\<lambda>cells. as_float (cells ! j)) times) [0..<3]) (\<lambda>columns.
         Inr (workload, map (\<lambda>c. (np_median np c, np_std np c)) columns)))
       (group_rows (\<lambda>(workload, cells). tier_key workload) snd rows))"

definition tier_styles :: "style list" where
  "tier_styles = [(0, 0, ''blue'', ''fasttier''), (1, 1, ''green'', ''slowtier''), (2, 2, ''red'', ''snapshot'')]"

definition plot_tiers :: "numpy \<Rightarrow> (string \<Rightarrow> rat res) \<Rightarrow> string list list \<Rightarrow> string \<Rightarrow> draw list res" where
  "plot_tiers np as_float results pdf =
     rbind (tier_statistics np as_float results) (\<lambda>statistics.
     let bar_width = fl64 (fl64 (7 / 10) / 3) in
     Inr ([Font 14, Figure 15 7] @ cluster_bars bar_width tier_styles statistics @
          [YLabel ''Time(s)'', ticks bar_width statistics, XTickLabels (short_names statistics) 10, Legend [], TightLayout,
           Show, SaveFig pdf]))"

section \<open>Lemmas\<close>

lemma add_spots_length: "ts \<noteq> [] \<Longrightarrow> \<exists>ys. add_spots xs ts = Inr (ts @ ys) \<and> length ys = length xs"
proof (induction xs arbitrary: ts)
  case (Cons x xs)
  from Cons.IH [of "ts @ [fl64 (last ts + x)]"] obtain ys
    where "add_spots xs (ts @ [fl64 (last ts + x)]) = Inr ((ts @ [fl64 (last ts + x)]) @ ys)" "length ys = length xs" by auto
  with Cons.prems show ?case by (auto simp: add_spots_def py_index_last intro: exI [of _ "fl64 (last ts + x) # ys"])
qed (simp add: add_spots_def)

lemma py_pop_length:
  "- int (length xs) \<le> i \<Longrightarrow> i < int (length xs) \<Longrightarrow> \<exists>ys. py_pop xs i = Inr ys \<and> length ys = length xs - 1"
  by (auto simp: py_pop_def Let_def)

lemma phase_start_ok: "k < length marks \<Longrightarrow> \<exists>s. phase_start marks base k xs = Inr s"
  by (simp add: phase_start_def)

text \<open>The lines that add a value to the processor list, whatever happens to them afterwards.\<close>

definition dated :: "string \<Rightarrow> bool" where
  "dated line \<longleftrightarrow> py_contains line ''2024'' \<and> (case rbind (word_at line 3) parse_time_no_msec of Inr t \<Rightarrow> True | Inl e \<Rightarrow> False)"

definition sampled :: "string \<Rightarrow> bool" where
  "sampled line \<longleftrightarrow> \<not> py_contains line ''2024'' \<and> (case float_word line 2 of Inr v \<Rightarrow> 10 < v | Inl e \<Rightarrow> False)"

definition counted :: "string list \<Rightarrow> string list" where
  "counted lines = filter (\<lambda>line. dated line \<or> sampled line) lines"

text \<open>A sample has its memory column, and a log begins with a date.\<close>

definition whole_sample :: "string \<Rightarrow> bool" where
  "whole_sample line \<longleftrightarrow> (sampled line \<longrightarrow> (case float_word line 5 of Inr v \<Rightarrow> True | Inl e \<Rightarrow> False))"

definition idle_step :: "(usage \<Rightarrow> usage res) \<Rightarrow> bool" where
  "idle_step idle \<longleftrightarrow> (\<forall>u u'. idle u = Inr u' \<longrightarrow>
     u_cpu u' = u_cpu u \<and> u_memory u' = u_memory u \<and> length (u_times u') = length (u_times u))"

lemma idle_steps: "idle_step Inr" "idle_step wait_step"
  by (auto simp: idle_step_def wait_step_def py_index_def elim!: rbind_InrE split: if_splits)

lemma usage_line_cpu:
  assumes "idle_step idle" and "usage_line offset idle line u = Inr u'"
  shows "length (u_cpu u') = length (u_cpu u) + length (counted [line])"
proof (cases "py_contains line ''2024''")
  case True
  with assms show ?thesis
    by (cases "rbind (word_at line 3) parse_time_no_msec")
       (auto simp: usage_line_def date_step_def counted_def dated_def sampled_def split: if_splits)
next
  case False
  show ?thesis
  proof (cases "float_word line 2")
    case (Inl e)
    with assms False show ?thesis
      by (auto simp: usage_line_def counted_def dated_def sampled_def split: if_splits)
  next
    case (Inr v)
    then have c: "length (counted [line]) = (if 10 < v then 1 else 0)"
      using False by (simp add: counted_def dated_def sampled_def)
    show ?thesis
    proof (cases "10 < v")
      case True
      with assms(2) False Inr show ?thesis unfolding c
        by (auto simp: usage_line_def cpu_step_def memory_step_def tick_step_def rbind_def split: if_splits sum.splits)
    next
      case idle: False
      with assms False Inr show ?thesis unfolding c
        by (auto simp: usage_line_def idle_step_def split: if_splits sum.splits)
    qed
  qed
qed

lemma usage_line_times:
  assumes "idle_step idle" and "usage_line offset idle line u = Inr u'" and "whole_sample line"
    and "sampled line \<Longrightarrow> u_times u \<noteq> []"
  shows "length (u_times u') = length (u_times u) + length (counted [line])"
    and "length (u_memory u') = length (u_memory u) + length (counted [line])"
proof -
  have "length (u_times u') = length (u_times u) + length (counted [line]) \<and>
    length (u_memory u') = length (u_memory u) + length (counted [line])"
  proof (cases "py_contains line ''2024''")
    case True
    with assms(2) show ?thesis
      by (cases "rbind (word_at line 3) parse_time_no_msec")
         (auto simp: usage_line_def date_step_def counted_def dated_def sampled_def split: if_splits)
  next
    case False
    show ?thesis
    proof (cases "float_word line 2")
      case (Inl e)
      with assms(2) False show ?thesis
        by (auto simp: usage_line_def counted_def dated_def sampled_def split: if_splits)
    next
      case (Inr v)
      then have c: "length (counted [line]) = (if 10 < v then 1 else 0)"
        using False by (simp add: counted_def dated_def sampled_def)
      show ?thesis
      proof (cases "10 < v")
        case True
        with False Inr have "sampled line" by (simp add: sampled_def)
        with assms(3,4) obtain m where "float_word line 5 = Inr m" "u_times u \<noteq> []"
          by (auto simp: whole_sample_def split: sum.splits)
        with assms(2) True False Inr show ?thesis unfolding c
          by (auto simp: usage_line_def cpu_step_def memory_step_def tick_step_def py_index_last)
      next
        case idle: False
        with assms(1,2) False Inr show ?thesis unfolding c
          by (auto simp: usage_line_def idle_step_def split: if_splits sum.splits)
      qed
    qed
  qed
  then show "length (u_times u') = length (u_times u) + length (counted [line])"
    "length (u_memory u') = length (u_memory u) + length (counted [line])" by simp_all
qed

lemma counted_Cons: "counted (l # ls) = counted [l] @ counted ls"
  by (simp add: counted_def)

lemma counted_append [simp]: "counted (ls @ ms) = counted ls @ counted ms"
  by (simp add: counted_def)

lemma usage_lines_cpu:
  assumes "idle_step idle"
  shows "usage_lines offset idle lines u = Inr u' \<Longrightarrow> length (u_cpu u') = length (u_cpu u) + length (counted lines)"
proof (induction lines arbitrary: u)
  case (Cons l lines)
  then obtain u1 where u1: "usage_line offset idle l u = Inr u1" "usage_lines offset idle lines u1 = Inr u'"
    by (auto simp: usage_lines_def elim: rbind_InrE)
  from usage_line_cpu [OF assms u1(1)] Cons.IH [OF u1(2)] show ?case
    unfolding counted_Cons [of l lines] by simp
qed (simp add: usage_lines_def counted_def)

definition clean_usage :: "string list \<Rightarrow> bool" where
  "clean_usage lines \<longleftrightarrow> list_all whole_sample lines \<and> (case counted lines of [] \<Rightarrow> True | l # ls \<Rightarrow> dated l)"

lemma usage_lines_times:
  assumes "idle_step idle"
  shows "usage_lines offset idle lines u = Inr u' \<Longrightarrow> list_all whole_sample lines \<Longrightarrow>
    u_times u \<noteq> [] \<or> clean_usage lines \<Longrightarrow>
    length (u_times u') = length (u_times u) + length (counted lines) \<and>
    length (u_memory u') = length (u_memory u) + length (counted lines)"
proof (induction lines arbitrary: u)
  case (Cons l lines)
  then obtain u1 where u1: "usage_line offset idle l u = Inr u1" "usage_lines offset idle lines u1 = Inr u'"
    by (auto simp: usage_lines_def elim: rbind_InrE)
  have first: "sampled l \<Longrightarrow> u_times u \<noteq> []"
    using Cons.prems(3) by (auto simp: clean_usage_def counted_def sampled_def dated_def)
  from usage_line_times [OF assms u1(1) _ first] Cons.prems(2)
  have len: "length (u_times u1) = length (u_times u) + length (counted [l])"
    "length (u_memory u1) = length (u_memory u) + length (counted [l])" by simp_all
  have "u_times u1 \<noteq> [] \<or> clean_usage lines"
  proof (cases "counted [l] = []")
    case True
    with Cons.prems(2,3) len show ?thesis
      by (auto simp: clean_usage_def counted_Cons [of l lines])
  next
    case False
    with len(1) show ?thesis by (cases "u_times u1") (auto simp: neq_Nil_conv)
  qed
  with Cons.IH [OF u1(2)] Cons.prems(2) len show ?case
    unfolding counted_Cons [of l lines] by simp
qed (simp add: usage_lines_def counted_def)

end
