(* ===== verification/BurstUse.thy ===== *)
theory BurstUse
  imports UseCases
begin

text \<open>
  \<^verbatim>\<open>src/artifact/usecase_burst_computing.py\<close>: the runs of the two tasks on the fast and the slow
  tier and with a snapshot, the file and the bars of the three, and the figures over time, which
  \<^verbatim>\<open>plot_time\<close> makes from the logs of a run that migrates between the tiers.
\<close>

section \<open>The runs\<close>

definition ip_burst :: "string list" where "ip_burst = [''128.114.53.32'', ''128.114.59.134'']"
definition port_burst :: int where "port_burst = 12347"
definition port2_burst :: int where "port2_burst = 12346"
definition new_port_burst :: int where "new_port_burst = 1235"
definition new_port1_burst :: int where "new_port1_burst = 1238"
definition new_port2_burst :: int where "new_port2_burst = 1236"
definition new_port12_burst :: int where "new_port12_burst = 14440"

definition cmd_burst :: "string list" where "cmd_burst = [''redis'', ''rgbd_tum'']"
definition folder_burst :: "string list" where "folder_burst = [''redis'', ''ORB_SLAM2'']"

definition arg_burst :: "string list list" where
  "arg_burst = [[], [''./ORBvoc.txt'', ''./TUM3.yaml'', ''./'', ''./associations/fr3_office_val.txt'']]"

definition envs_burst :: "string list" where "envs_burst = [''OMP_NUM_THREADS=1'', ''OMP_NUM_THREADS=1'']"

definition jobs_burst :: "job list" where
  "jobs_burst = tier_jobs cmd_burst arg_burst envs_burst"

definition get_cloud_result :: "(nat \<Rightarrow> world) \<Rightarrow> (string \<times> string) list res" where
  "get_cloud_result ws =
     rbind (pool_results run_job ws (concat (replicate trial jobs_burst))) (\<lambda>results1.
     rbind (found_times second_last ''Execution time:'' results1 (Some [])) (\<lambda>(results, exec_time). Inr results))"

definition get_edge_result :: "(string \<times> string) list io" where
  "get_edge_result =
     io_bind (io_for (\<lambda>(aot, arg, env). run_burst aot arg env []) (concat (replicate trial jobs_burst))) (\<lambda>results1.
     io_lift (rbind (found_times second_last ''Execution time:'' results1 (Some [])) (\<lambda>(results, exec_time). Inr results)))"

text \<open>\<^verbatim>\<open>f"-o {ip[k]} -s {port}"\<close> and \<^verbatim>\<open>f"-i {ip[k]} -e {port}"\<close>\<close>

definition out_option :: "string list \<Rightarrow> nat \<Rightarrow> int \<Rightarrow> string" where
  "out_option ips k p = ''-o '' @ ips ! k @ '' -s '' @ str_int p"

definition in_option :: "string list \<Rightarrow> nat \<Rightarrow> int \<Rightarrow> string" where
  "in_option ips k p = ''-i '' @ ips ! k @ '' -e '' @ str_int p"

text \<open>Every line with the key adds a result.\<close>

definition snapshot_times_of :: "string \<times> py_text \<Rightarrow> (string \<times> string) list res" where
  "snapshot_times_of result =
     (case result of (exec_label, output) \<Rightarrow>
        rbind (as_str output) (\<lambda>s.
        rmap (\<lambda>line. rbind (word_at line (- 2)) (\<lambda>w. Inr (exec_label, w)))
          (filter (\<lambda>line. py_contains line ''Snapshot time:'') (py_split_on newline s))))"

definition get_snapshot_overhead_burst :: "(string \<times> string) list io" where
  "get_snapshot_overhead_burst =
     io_bind (io_for (\<lambda>(aot, arg, env).
         io_bind (run_checkpoint_restore_burst_overhead aot arg env (out_option ip_burst 1 port_burst) (in_option ip_burst 1 port_burst))
           (\<lambda>results1. io_lift (rbind (rmap snapshot_times_of results1) (\<lambda>rs. Inr (concat rs)))))
       jobs_burst) (\<lambda>results.
     io_return (concat results))"

definition get_burst_compute :: "(string \<times> py_text) list io" where
  "get_burst_compute =
     run_checkpoint_restore_burst (cmd_burst ! 0 @ ''.aot'') (arg_burst ! 0) (cmd_burst ! 1 @ ''.aot'') (arg_burst ! 1) (envs_burst ! 0)
       (out_option ip_burst 1 port_burst)
       (in_option ip_burst 1 port_burst @ '' '' @ out_option ip_burst 0 new_port_burst)
       (in_option ip_burst 0 new_port_burst @ '' '' @ out_option ip_burst 1 new_port1_burst)
       (in_option ip_burst 1 new_port1_burst @ '' '' @ out_option ip_burst 0 port_burst)
       (in_option ip_burst 0 port_burst)
       (out_option ip_burst 0 port2_burst)
       (in_option ip_burst 0 port2_burst @ '' '' @ out_option ip_burst 1 new_port2_burst)
       (in_option ip_burst 1 new_port2_burst @ '' '' @ out_option ip_burst 0 new_port12_burst)
       (in_option ip_burst 0 new_port12_burst)"

section \<open>The file and the bars\<close>

definition write_to_csv_burst ::
  "(string \<times> string) list \<Rightarrow> (string \<times> string) list \<Rightarrow> (string \<times> string) list \<Rightarrow> string \<Rightarrow> string res" where
  "write_to_csv_burst fasttier slowtiers snapshot old = write_tiers fasttier slowtiers snapshot old"

definition read_from_csv_burst :: "string \<Rightarrow> string list list" where
  "read_from_csv_burst csv_text = read_tiers csv_text"

text \<open>The file name that \<^verbatim>\<open>plot\<close> takes is not used; the rows are a global variable.\<close>

definition plot_burst :: "numpy \<Rightarrow> (string \<Rightarrow> rat res) \<Rightarrow> string list list \<Rightarrow> string \<Rightarrow> draw list res" where
  "plot_burst np as_float results file_name = plot_tiers np as_float results ''burst_compute.pdf''"

section \<open>The log\<close>

text \<open>
  Phases 0 to 4 belong to the first task and from 5 on \<^verbatim>\<open>Iteration\<close> lines belong to the second;
  \<^verbatim>\<open>ttrack\<close> lines are always put into \<^verbatim>\<open>exec_time\<close>, which raises \<^verbatim>\<open>IndexError\<close> from phase 5.
\<close>

definition iteration_step :: "string \<Rightarrow> run_log \<Rightarrow> run_log res" where
  "iteration_step line st =
     (if py_contains line ''Iteration'' then
        rbind (float_word line (- 2)) (\<lambda>to_append.
        if 0 < to_append
        then if log_state st < 5 then add_sample (log_state st) to_append st else add_sample1 (log_state st - 5) to_append st
        else Inr st)
      else Inr st)"

definition ttrack_step :: "string \<Rightarrow> run_log \<Rightarrow> run_log res" where
  "ttrack_step line st =
     (if py_contains line ''ttrack'' then
        rbind (rbind (word_at line (- 1)) (\<lambda>w. py_float (py_replace w [CHR 0x5C, CHR ''r''] []))) (\<lambda>to_append.
        if 0 < to_append then add_sample (log_state st) (fl64 (to_append + 1)) st else Inr st)
      else Inr st)"

definition snapshot_step :: "string \<Rightarrow> run_log \<Rightarrow> run_log res" where
  "snapshot_step line st =
     (if py_contains line ''Snapshot '' then
        rbind (clock_word line) (\<lambda>t. rbind (float_word line (- 2)) (\<lambda>d. Inr (next_phase (fl64 (t - d)) st)))
      else Inr st)"

definition execution_step :: "string \<Rightarrow> run_log \<Rightarrow> run_log res" where
  "execution_step line st =
     (if py_contains line ''Execution '' then rbind (clock_word line) (\<lambda>t. Inr (next_phase t st)) else Inr st)"

definition burst_line :: "string \<Rightarrow> run_log \<Rightarrow> run_log res" where
  "burst_line line st = attempt [iteration_step line, ttrack_step line, snapshot_step line, execution_step line] st"

definition burst_log :: "string \<Rightarrow> run_log res" where
  "burst_log reu = rfold burst_line (py_split_on newline (py_replace reu [CHR 0x5C, CHR ''n''] [newline])) (empty_log 5 4)"

section \<open>The figure of the trials\<close>

text \<open>
  The times of the samples of one task, whose phases \<open>execs\<close> begin at the mark \<open>first\<close>: per
  phase the samples are added up from its beginning, then the element \<^verbatim>\<open>len(i) - 1\<close> of the whole
  list is dropped, and the beginning of the next phase is added.
\<close>

definition burst_group :: "rat list \<Rightarrow> rat \<Rightarrow> nat \<Rightarrow> rat list list \<Rightarrow> nat \<Rightarrow> rat list \<Rightarrow> rat list res" where
  "burst_group marks base first execs idx spots =
     rbind (add_spots (execs ! idx) spots) (\<lambda>spots.
     rbind (py_pop spots (int (length (execs ! idx)) - 1)) (\<lambda>spots.
     if idx \<noteq> length execs - 1
     then rbind (phase_start marks base (idx + 1 + first) (execs ! (idx + 1))) (\<lambda>s. Inr (spots @ [s]))
     else Inr spots))"

definition burst_spots :: "rat list \<Rightarrow> rat \<Rightarrow> nat \<Rightarrow> rat list list \<Rightarrow> rat list res" where
  "burst_spots marks base first execs =
     rbind (phase_start marks base first (execs ! 0)) (\<lambda>s.
     rfold (burst_group marks base first execs) [0..<length execs] [s])"

definition burst_trials :: "numpy \<Rightarrow> run_log \<Rightarrow> draw list res" where
  "burst_trials np st =
     (let marks = log_time st; exec_time = log_exec st; exec_time1 = log_exec1 st in
      rbind (rbind (py_index marks 0) (\<lambda>t. Inr (fl64 (t - float_sum (exec_time ! 0))))) (\<lambda>base.
      rbind (burst_spots marks base 0 exec_time) (\<lambda>time_spots.
      rbind (burst_spots marks base 5 exec_time1) (\<lambda>time_spots1.
      rbind (get_avg_99percent np (concat exec_time)) (\<lambda>(avg_extended, percentile99_extended).
      rbind (get_avg_99percent np (concat exec_time1)) (\<lambda>(avg_exec_time1, percentile_99_exec_time1).
      Inr [Subplots, Line time_spots avg_extended ''blue'', Line time_spots1 avg_exec_time1 ''r'',
           XLabel ''Time (s)'', YLabel ''Average Trial Time (s)'', SaveFig ''burst.pdf'']))))))"

section \<open>The figures of the processor\<close>

text \<open>
  Four loops. The first two split each file into lines; the last two take a whole file for a
  line. The times of the first go with \<^verbatim>\<open>cpu1\<close>, those of the second, ten seconds earlier, with
  \<^verbatim>\<open>cpu\<close>; the last two add to the times of the first and to \<^verbatim>\<open>cpu\<close>.
\<close>

definition lines_of :: "string list \<Rightarrow> string list" where
  "lines_of files = concat (map (py_split_on newline) files)"

definition burst_usage ::
  "string list \<Rightarrow> string list \<Rightarrow> string list \<Rightarrow> string list \<Rightarrow> (usage \<times> usage) res" where
  "burst_usage aot_energy aot_ps aot1_energy aot1_ps =
     rbind (usage_lines 0 Inr (lines_of aot_ps) no_usage) (\<lambda>a.
     rbind (usage_lines 10 Inr (lines_of aot_energy) no_usage) (\<lambda>b.
     rbind (usage_lines 0 Inr (aot1_ps @ aot1_energy)
         \<lparr>u_times = u_times a, u_cpu = u_cpu b, u_memory = u_memory b\<rparr>) (\<lambda>u.
     Inr (u, \<lparr>u_times = u_times b, u_cpu = u_cpu a, u_memory = u_memory a\<rparr>))))"

text \<open>
  The processor figure is drawn on the axes of the trials, as no new ones are made before; the
  energy lists are never filled.
\<close>

definition plot_time_burst ::
  "numpy \<Rightarrow> string \<Rightarrow> string list \<Rightarrow> string list \<Rightarrow> string list \<Rightarrow> string list \<Rightarrow> draw list res" where
  "plot_time_burst np reu aot_energy aot_ps aot1_energy aot1_ps =
     rbind (burst_log reu) (\<lambda>st.
     rbind (burst_trials np st) (\<lambda>trials.
     rbind (burst_usage aot_energy aot_ps aot1_energy aot1_ps) (\<lambda>(u, u1).
     Inr (trials @
       [Line (u_times u) (u_cpu u) ''b'', Line (u_times u1) (u_cpu u1) ''r'',
        XLabel ''Time (s)'', YLabel ''Average CPU (percentage)'', SaveFig ''burst_cpu.pdf'',
        Subplots, Line (u_times u) (u_memory u) ''b'', Line (u_times u1) (u_memory u1) ''r'',
        XLabel ''Time (s)'', YLabel ''Average Memory (B)'', SaveFig ''burst_memory.pdf'',
        Subplots, Line [] [] ''b'', Line [] [] ''r'',
        XLabel ''Time (s)'', YLabel ''Average Energy (B)'', SaveFig ''burst_energy.pdf'']))))"

section \<open>The log by its entries\<close>

text \<open>
  What a line says: a sample of either kind, the end of a phase, or nothing. In a line with at
  most one of the four keywords at most one of the four statements has an effect.
\<close>

datatype entry = Sample rat | Tracked rat | Mark rat | Noise

definition entry_if :: "('a \<Rightarrow> entry) \<Rightarrow> 'a res \<Rightarrow> entry" where
  "entry_if f r = (case r of Inl e \<Rightarrow> Noise | Inr x \<Rightarrow> f x)"

definition entry_of :: "string \<Rightarrow> entry" where
  "entry_of line =
     (if py_contains line ''Iteration'' then entry_if (\<lambda>v. if 0 < v then Sample v else Noise) (float_word line (- 2))
      else if py_contains line ''ttrack'' then
        entry_if (\<lambda>v. if 0 < v then Tracked (fl64 (v + 1)) else Noise)
          (rbind (word_at line (- 1)) (\<lambda>w. py_float (py_replace w [CHR 0x5C, CHR ''r''] [])))
      else if py_contains line ''Snapshot '' then
        entry_if Mark (rbind (clock_word line) (\<lambda>t. rbind (float_word line (- 2)) (\<lambda>d. Inr (fl64 (t - d)))))
      else if py_contains line ''Execution '' then entry_if Mark (clock_word line)
      else Noise)"

definition plain_line :: "string \<Rightarrow> bool" where
  "plain_line line \<longleftrightarrow>
     length (filter (py_contains line) [''Iteration'', ''ttrack'', ''Snapshot '', ''Execution '']) \<le> 1"

fun end_marks :: "entry list \<Rightarrow> rat list" where
  "end_marks [] = []"
| "end_marks (Mark t # es) = t # end_marks es"
| "end_marks (e # es) = end_marks es"

fun in_phase :: "nat \<Rightarrow> entry list \<Rightarrow> entry list" where
  "in_phase k [] = []"
| "in_phase k (Mark t # es) = (case k of 0 \<Rightarrow> [] | Suc j \<Rightarrow> in_phase j es)"
| "in_phase k (e # es) = (if k = 0 then e # in_phase k es else in_phase k es)"

fun samples :: "entry list \<Rightarrow> rat list" where
  "samples [] = []"
| "samples (Sample x # es) = x # samples es"
| "samples (e # es) = samples es"

fun all_samples :: "entry list \<Rightarrow> rat list" where
  "all_samples [] = []"
| "all_samples (Sample x # es) = x # all_samples es"
| "all_samples (Tracked x # es) = x # all_samples es"
| "all_samples (e # es) = all_samples es"

definition log_of :: "entry list \<Rightarrow> run_log" where
  "log_of es =
     \<lparr>log_state = length (end_marks es), log_time = end_marks es,
      log_exec = map (\<lambda>k. all_samples (in_phase k es)) [0..<5],
      log_exec1 = map (\<lambda>k. samples (in_phase (k + 5) es)) [0..<4]\<rparr>"

lemma end_marks_append [simp]: "end_marks (es @ fs) = end_marks es @ end_marks fs"
  by (induction es rule: end_marks.induct) simp_all

lemma samples_append [simp]: "samples (es @ fs) = samples es @ samples fs"
  by (induction es rule: samples.induct) simp_all

lemma all_samples_append [simp]: "all_samples (es @ fs) = all_samples es @ all_samples fs"
  by (induction es rule: all_samples.induct) simp_all

lemma in_phase_mark [simp]: "in_phase k (es @ [Mark t]) = in_phase k es"
  by (induction k es rule: in_phase.induct) (auto split: nat.split)

lemma in_phase_other:
  "(\<And>t. e \<noteq> Mark t) \<Longrightarrow> in_phase k (es @ [e]) = in_phase k es @ (if k = length (end_marks es) then [e] else [])"
proof (induction k es rule: in_phase.induct)
  case (1 k)
  then show ?case by (cases e) auto
qed (auto split: nat.split)

lemma log_of_noise: "log_of (es @ [Noise]) = log_of es"
  by (simp add: log_of_def in_phase_other)

lemma log_of_mark: "log_of (es @ [Mark t]) = next_phase t (log_of es)"
  by (simp add: log_of_def next_phase_def)

lemma append_at_map:
  "append_at i x (map f [0..<n]) = (if i < n then Inr (map (\<lambda>k. if k = i then f k @ [x] else f k) [0..<n]) else Inl IndexError)"
  by (auto simp: append_at_def intro: nth_equalityI simp: nth_list_update)

text \<open>A sample of the first kind goes to the lists of either task, the second only to the first task.\<close>

lemma log_of_sample:
  "(if log_state (log_of es) < 5 then add_sample (log_state (log_of es)) x (log_of es)
    else add_sample1 (log_state (log_of es) - 5) x (log_of es)) =
   (if length (end_marks es) < 9 then Inr (log_of (es @ [Sample x])) else Inl IndexError)"
proof (cases "length (end_marks es) < 5")
  case False
  then have "length (end_marks es) - 5 < 4 \<longleftrightarrow> length (end_marks es) < 9"
    and "k = length (end_marks es) - 5 \<longleftrightarrow> k + 5 = length (end_marks es)" for k by auto
  with False show ?thesis by (auto simp: log_of_def add_sample1_def append_at_map in_phase_other)
qed (auto simp: log_of_def add_sample_def append_at_map in_phase_other)

lemma log_of_tracked:
  "add_sample (log_state (log_of es)) x (log_of es) =
   (if length (end_marks es) < 5 then Inr (log_of (es @ [Tracked x])) else Inl IndexError)"
  by (auto simp: log_of_def add_sample_def append_at_map in_phase_other)

lemma log_of_late:
  "9 \<le> length (end_marks es) \<Longrightarrow> log_of (es @ [Sample x]) = log_of es"
  "5 \<le> length (end_marks es) \<Longrightarrow> log_of (es @ [Tracked x]) = log_of es"
  by (auto simp: log_of_def in_phase_other)

lemma burst_line_entry:
  assumes "plain_line line" and "burst_line line (log_of es) = Inr st"
  shows "st = log_of (es @ [entry_of line])"
proof -
  consider "py_contains line ''Iteration''" "\<not> py_contains line ''ttrack''" "\<not> py_contains line ''Snapshot ''" "\<not> py_contains line ''Execution ''"
    | "\<not> py_contains line ''Iteration''" "py_contains line ''ttrack''" "\<not> py_contains line ''Snapshot ''" "\<not> py_contains line ''Execution ''"
    | "\<not> py_contains line ''Iteration''" "\<not> py_contains line ''ttrack''" "py_contains line ''Snapshot ''" "\<not> py_contains line ''Execution ''"
    | "\<not> py_contains line ''Iteration''" "\<not> py_contains line ''ttrack''" "\<not> py_contains line ''Snapshot ''"
    using assms(1) by (auto simp: plain_line_def split: if_splits)
  then show ?thesis
  proof cases
    case 1
    then have steps: "burst_line line (log_of es) = attempt [iteration_step line] (log_of es)"
      by (simp add: burst_line_def ttrack_step_def snapshot_step_def execution_step_def split: sum.split)
    show ?thesis
    proof (cases "float_word line (- 2)")
      case (Inl e)
      with 1 assms(2) steps show ?thesis
        by (simp add: iteration_step_def entry_of_def entry_if_def log_of_noise split: if_splits)
    next
      case (Inr v)
      with 1 assms(2) steps log_of_sample [of es v] log_of_late(1) [of es v] show ?thesis
        by (auto simp: iteration_step_def entry_of_def entry_if_def log_of_noise split: if_splits)
    qed
  next
    case 2
    then have steps: "burst_line line (log_of es) = attempt [ttrack_step line] (log_of es)"
      by (simp add: burst_line_def iteration_step_def snapshot_step_def execution_step_def split: sum.split)
    show ?thesis
    proof (cases "rbind (word_at line (- 1)) (\<lambda>w. py_float (py_replace w [CHR 0x5C, CHR ''r''] []))")
      case (Inl e)
      with 2 assms(2) steps show ?thesis
        by (simp add: ttrack_step_def entry_of_def entry_if_def log_of_noise split: if_splits)
    next
      case (Inr v)
      with 2 assms(2) steps log_of_tracked [of es "fl64 (v + 1)"] log_of_late(2) [of es "fl64 (v + 1)"] show ?thesis
        by (auto simp: ttrack_step_def entry_of_def entry_if_def log_of_noise split: if_splits)
    qed
  next
    case 3
    then have steps: "burst_line line (log_of es) = attempt [snapshot_step line] (log_of es)"
      by (simp add: burst_line_def iteration_step_def ttrack_step_def execution_step_def split: sum.split)
    from assms(2) 3 show ?thesis unfolding steps
      by (cases "clock_word line"; cases "float_word line (- 2)")
         (auto simp: snapshot_step_def entry_of_def entry_if_def log_of_noise log_of_mark split: if_splits)
  next
    case 4
    then have steps: "burst_line line (log_of es) = attempt [execution_step line] (log_of es)"
      by (simp add: burst_line_def iteration_step_def ttrack_step_def snapshot_step_def split: sum.split)
    from assms(2) 4 show ?thesis unfolding steps
      by (cases "clock_word line")
         (auto simp: execution_step_def entry_of_def entry_if_def log_of_noise log_of_mark split: if_splits)
  qed
qed

lemma burst_lines_entries:
  "list_all plain_line lines \<Longrightarrow> rfold burst_line lines (log_of es) = Inr st \<Longrightarrow> st = log_of (es @ map entry_of lines)"
proof (induction lines arbitrary: es)
  case (Cons l lines)
  then obtain st1 where st1: "burst_line l (log_of es) = Inr st1" "rfold burst_line lines st1 = Inr st"
    by (auto elim: rbind_InrE)
  with burst_line_entry [OF _ st1(1)] Cons.prems(1) Cons.IH [of "es @ [entry_of l]"] show ?case by simp
qed simp

lemma empty_log_of: "empty_log 5 4 = log_of []"
  by (simp add: empty_log_def log_of_def map_replicate_const)

section \<open>As many times as samples\<close>

lemma burst_group_length:
  assumes "idx < length execs" and "length spots = Suc n" and "first + length execs \<le> length marks"
  shows "\<exists>ts. burst_group marks base first execs idx spots = Inr ts \<and>
    length ts = n + length (execs ! idx) + (if idx = length execs - 1 then 0 else 1)"
proof -
  obtain ys where ys: "add_spots (execs ! idx) spots = Inr (spots @ ys)" "length ys = length (execs ! idx)"
    using add_spots_length [of spots] assms(2) by fastforce
  obtain zs where zs: "py_pop (spots @ ys) (int (length (execs ! idx)) - 1) = Inr zs" "length zs = n + length (execs ! idx)"
    using py_pop_length [of "spots @ ys" "int (length (execs ! idx)) - 1"] ys(2) assms(2) by fastforce
  show ?thesis
  proof (cases "idx = length execs - 1")
    case True
    with ys zs show ?thesis by (simp add: burst_group_def)
  next
    case False
    with assms(1,3) obtain s where "phase_start marks base (idx + 1 + first) (execs ! (idx + 1)) = Inr s"
      using phase_start_ok [of "idx + 1 + first" marks] by fastforce
    with ys zs False show ?thesis by (simp add: burst_group_def)
  qed
qed

lemma burst_spots_length:
  assumes "execs \<noteq> []" and "first + length execs \<le> length marks"
  shows "\<exists>ts. burst_spots marks base first execs = Inr ts \<and> length ts = length (concat execs)"
proof -
  have first: "first < length marks" using assms by (cases execs) auto
  then obtain s where s: "phase_start marks base first (execs ! 0) = Inr s" using phase_start_ok by blast
  have "m \<le> length execs \<Longrightarrow> \<exists>ts. rfold (burst_group marks base first execs) [0..<m] [s] = Inr ts \<and>
      length ts = length (concat (take m execs)) + (if m = length execs then 0 else 1)" for m
  proof (induction m)
    case (Suc m)
    then obtain ts where ts: "rfold (burst_group marks base first execs) [0..<m] [s] = Inr ts"
      "length ts = Suc (length (concat (take m execs)))" by auto
    from burst_group_length [OF _ ts(2) assms(2), of m base] Suc.prems ts show ?case
      by (auto simp: rfold_append take_Suc_conv_app_nth)
  qed (use assms(1) in simp)
  from this [of "length execs"] s show ?thesis by (simp add: burst_spots_def)
qed

lemma burst_trials_drawn:
  assumes "length (log_exec b) = 5" and "length (log_exec1 b) = 4" and "9 \<le> length (log_time b)"
    and "1000 \<le> length (concat (log_exec b))" and "1000 \<le> length (concat (log_exec1 b))"
  shows "\<exists>ts ts1 avg avg1. burst_trials np b =
      Inr [Subplots, Line ts avg ''blue'', Line ts1 avg1 ''r'', XLabel ''Time (s)'', YLabel ''Average Trial Time (s)'', SaveFig ''burst.pdf''] \<and>
      length ts = length (concat (log_exec b)) \<and> length avg = length (concat (log_exec b)) \<and>
      length ts1 = length (concat (log_exec1 b)) \<and> length avg1 = length (concat (log_exec1 b))"
proof -
  let ?base = "fl64 (log_time b ! 0 - float_sum (log_exec b ! 0))"
  have ne: "log_exec b \<noteq> []" "log_exec1 b \<noteq> []" using assms(1,2) by auto
  obtain ts where ts: "burst_spots (log_time b) ?base 0 (log_exec b) = Inr ts" "length ts = length (concat (log_exec b))"
    using burst_spots_length [OF ne(1), of 0 "log_time b" ?base] assms(1,3) by auto
  obtain ts1 where ts1: "burst_spots (log_time b) ?base 5 (log_exec1 b) = Inr ts1" "length ts1 = length (concat (log_exec1 b))"
    using burst_spots_length [OF ne(2), of 5 "log_time b" ?base] assms(2,3) by auto
  obtain avg p where avg: "get_avg_99percent np (concat (log_exec b)) = Inr (avg, p)" "length avg = length (concat (log_exec b))"
    using get_avg_99percent_long [OF assms(4), of np] by blast
  obtain avg1 p1 where avg1: "get_avg_99percent np (concat (log_exec1 b)) = Inr (avg1, p1)" "length avg1 = length (concat (log_exec1 b))"
    using get_avg_99percent_long [OF assms(5), of np] by blast
  have "py_index (log_time b) 0 = Inr (log_time b ! 0)" using assms(3) by (cases "log_time b") simp_all
  then show ?thesis using ts ts1 avg avg1 by (simp add: burst_trials_def Let_def)
qed

end
