(* ===== verification/OptimisticUse.thy ===== *)
theory OptimisticUse
  imports BurstUse
begin

text \<open>
  \<^verbatim>\<open>src/artifact/usecase_optimistic_computing.py\<close>: the same three tiers with other tasks, and the
  figures over time of a run that migrates once. The module defines \<^verbatim>\<open>plot_time\<close> twice; the model
  is the second definition, the one in force.
\<close>

section \<open>The runs\<close>

definition ip_optimistic :: "string list" where "ip_optimistic = [''128.114.53.32'', ''128.114.59.234'']"
definition port_optimistic :: int where "port_optimistic = 12346"
definition new_port_optimistic :: int where "new_port_optimistic = 12353"

definition cmd_optimistic :: "string list" where "cmd_optimistic = [''bc'', ''bfs'']"
definition folder_optimistic :: "string list" where "folder_optimistic = [''gapbs'', ''gapbs'']"
definition arg_optimistic :: "string list list" where "arg_optimistic = [[''-g10'', ''-n100000''], [''-g10'', ''-n1000000'']]"
definition envs_optimistic :: "string list" where "envs_optimistic = [''OMP_NUM_THREADS=1'', ''OMP_NUM_THREADS=1'']"

definition jobs_optimistic :: "job list" where
  "jobs_optimistic = concat (replicate trial (tier_jobs cmd_optimistic arg_optimistic envs_optimistic))"

definition get_fasttier_result :: "(nat \<Rightarrow> world) \<Rightarrow> (string \<times> string) list res" where
  "get_fasttier_result ws =
     rbind (pool_results run_job ws jobs_optimistic) (\<lambda>results1.
     rbind (found_times second_last ''Execution time:'' results1 None) (\<lambda>(results, exec_time). Inr results))"

definition get_slowtier_result :: "(nat \<Rightarrow> world) \<Rightarrow> (string \<times> string) list res" where
  "get_slowtier_result ws =
     rbind (pool_results (\<lambda>(aot, arg, env). run_slowtier aot arg env []) ws jobs_optimistic) (\<lambda>results1.
     rbind (found_times second_last ''Execution time:'' results1 None) (\<lambda>(results, exec_time). Inr results))"

fun snapshot_rounds :: "job list \<Rightarrow> string option \<Rightarrow> (string \<times> string) list io" where
  "snapshot_rounds [] exec_time = io_return []"
| "snapshot_rounds ((aot, arg, env) # jobs) exec_time =
     io_bind (run_checkpoint_restore_slowtier_overhead aot arg env
       (out_option ip_optimistic 1 port_optimistic) (in_option ip_optimistic 1 port_optimistic)) (\<lambda>results1.
     io_bind (io_lift (found_times second_last ''Snapshot time:'' results1 exec_time)) (\<lambda>(results, exec_time).
     io_bind (snapshot_rounds jobs exec_time) (\<lambda>rest. io_return (results @ rest))))"

definition get_snapshot_overhead_optimistic :: "(string \<times> string) list io" where
  "get_snapshot_overhead_optimistic = snapshot_rounds jobs_optimistic None"

definition get_optimiztic_compute_overhead :: "(string \<times> py_text) list io" where
  "get_optimiztic_compute_overhead =
     run_checkpoint_restore_slowtier (cmd_optimistic ! 0 @ ''.aot'') (arg_optimistic ! 0)
       (cmd_optimistic ! 1 @ ''.aot'') (arg_optimistic ! 1) (envs_optimistic ! 0)
       (out_option ip_optimistic 1 port_optimistic)
       (in_option ip_optimistic 1 port_optimistic @ '' '' @ out_option ip_optimistic 0 new_port_optimistic)
       (in_option ip_optimistic 0 new_port_optimistic)"

section \<open>The file and the bars\<close>

definition write_to_csv_optimistic ::
  "(string \<times> string) list \<Rightarrow> (string \<times> string) list \<Rightarrow> (string \<times> string) list \<Rightarrow> string \<Rightarrow> string res" where
  "write_to_csv_optimistic fasttier slowtiers snapshot old = write_tiers fasttier slowtiers snapshot old"

definition read_from_csv_optimistic :: "string \<Rightarrow> string list list" where
  "read_from_csv_optimistic csv_text = read_tiers csv_text"

definition plot_optimistic :: "numpy \<Rightarrow> (string \<Rightarrow> rat res) \<Rightarrow> string list list \<Rightarrow> string \<Rightarrow> draw list res" where
  "plot_optimistic np as_float results file_name = plot_tiers np as_float results ''optimistic_computing.pdf''"

section \<open>The log\<close>

text \<open>\<^verbatim>\<open>reu.split("\\n")\<close>: the separator is a backslash and an \<^verbatim>\<open>n\<close>.\<close>

fun split_two :: "char \<Rightarrow> char \<Rightarrow> string \<Rightarrow> string \<Rightarrow> string list" where
  "split_two a b acc (c # d # s) =
     (if c = a \<and> d = b then rev acc # split_two a b [] s else split_two a b (c # acc) (d # s))"
| "split_two a b acc s = [rev acc @ s]"

definition trial_step :: "string \<Rightarrow> run_log \<Rightarrow> run_log res" where
  "trial_step line st =
     (if py_contains line ''Trial'' then
        rbind (rbind (word_at line (- 1)) (\<lambda>w. py_float (py_replace w [CHR 0x5C, CHR ''r''] []))) (\<lambda>to_append.
        if to_append < fl64 (1 / 1000) \<and> 0 < to_append then add_sample (log_state st) to_append st else Inr st)
      else Inr st)"

definition mark_step :: "string \<Rightarrow> run_log \<Rightarrow> run_log res" where
  "mark_step line st =
     (if py_contains line ''Snapshot '' \<or> py_contains line ''Execution ''
      then rbind (clock_word line) (\<lambda>t. Inr (next_phase t st)) else Inr st)"

definition optimistic_line :: "string \<Rightarrow> run_log \<Rightarrow> run_log res" where
  "optimistic_line line st = attempt [trial_step line, mark_step line] st"

definition optimistic_log :: "string \<Rightarrow> run_log res" where
  "optimistic_log reu = rfold optimistic_line (split_two (CHR 0x5C) (CHR ''n'') [] reu) (empty_log 4 0)"

section \<open>The figure of the trials\<close>

text \<open>
  The second task is phase 0. Phases 1, 2 and 3 follow each other in one list; after the first
  its beginning is dropped, after the second its end, and after the third the element before its
  beginning.
\<close>

definition optimistic_spots :: "rat list \<Rightarrow> rat \<Rightarrow> rat list list \<Rightarrow> rat list res" where
  "optimistic_spots marks base exec_time =
     rbind (phase_start marks base 1 (exec_time ! 1)) (\<lambda>s1.
     rbind (add_spots (exec_time ! 1) [s1]) (\<lambda>time_spots.
     rbind (py_pop time_spots 0) (\<lambda>time_spots.
     rbind (phase_start marks base 2 (exec_time ! 2)) (\<lambda>s2.
     rbind (add_spots (exec_time ! 2) (time_spots @ [s2])) (\<lambda>time_spots.
     rbind (py_pop time_spots (int (length time_spots) - 1)) (\<lambda>time_spots.
     let to_pop = int (length time_spots) in
     rbind (phase_start marks base 3 (exec_time ! 3)) (\<lambda>s3.
     rbind (add_spots (exec_time ! 3) (time_spots @ [s3])) (\<lambda>time_spots.
     py_pop time_spots (to_pop - 1)))))))))"

definition optimistic_trials :: "numpy \<Rightarrow> run_log \<Rightarrow> draw list res" where
  "optimistic_trials np st =
     (let marks = log_time st; exec_time = log_exec st in
      rbind (rbind (py_index marks 1) (\<lambda>t. Inr (fl64 (t - float_sum (exec_time ! 1))))) (\<lambda>base.
      rbind (phase_start marks base 0 (exec_time ! 0)) (\<lambda>s0.
      rbind (rbind (add_spots (exec_time ! 0) [s0]) (\<lambda>ts. py_pop ts 0)) (\<lambda>time_spots2.
      rbind (optimistic_spots marks base exec_time) (\<lambda>time_spots.
      rbind (get_avg_99percent np (exec_time ! 1 @ exec_time ! 2 @ exec_time ! 3)) (\<lambda>(avg_extended, percentile99_extended).
      rbind (get_avg_99percent np (exec_time ! 0)) (\<lambda>(avg_exec_time1, percentile_99_exec_time1).
      Inr [Subplots, Line time_spots avg_extended ''blue'', Line time_spots percentile99_extended ''purple'',
           Line time_spots2 avg_exec_time1 ''r'', Line time_spots2 percentile_99_exec_time1 ''pink'',
           XLabel ''Time (s)'', YLabel ''Average Trial Time (s)'', SaveFig ''optimistic.pdf''])))))))"

section \<open>The figures of the processor\<close>

text \<open>
  In the loop over the first checkpoint a sample below the bound moves the last time of the other
  list, which is still empty; in the other loops that of its own.
\<close>

definition checkpoint1_line :: "string \<Rightarrow> usage \<times> usage \<Rightarrow> (usage \<times> usage) res" where
  "checkpoint1_line line us =
     (case us of (c, c1) \<Rightarrow>
        if \<not> py_contains line ''2024'' \<and> (case float_word line 2 of Inr v \<Rightarrow> v \<le> 10 | Inl e \<Rightarrow> False)
        then rbind (attempt [wait_step] c) (\<lambda>c. Inr (c, c1))
        else rbind (usage_line 0 Inr line c1) (\<lambda>c1. Inr (c, c1)))"

definition optimistic_usage :: "string \<Rightarrow> string \<Rightarrow> string \<Rightarrow> string \<Rightarrow> (usage \<times> usage) res" where
  "optimistic_usage checkpoint checkpoint1 restore restore1 =
     rbind (rfold checkpoint1_line (py_split_on newline checkpoint1) (no_usage, no_usage)) (\<lambda>(c, c1).
     rbind (usage_lines 0 wait_step (py_split_on newline checkpoint) c) (\<lambda>c.
     rbind (usage_lines 0 wait_step (py_split_on newline restore1) c) (\<lambda>c.
     rbind (usage_lines 0 wait_step (py_split_on newline restore) c) (\<lambda>c. Inr (c, c1)))))"

definition plot_time_optimistic :: "numpy \<Rightarrow> string \<Rightarrow> string \<Rightarrow> string \<Rightarrow> string \<Rightarrow> string \<Rightarrow> draw list res" where
  "plot_time_optimistic np reu checkpoint checkpoint1 restore restore1 =
     rbind (optimistic_log reu) (\<lambda>st.
     rbind (optimistic_trials np st) (\<lambda>trials.
     rbind (optimistic_usage checkpoint checkpoint1 restore restore1) (\<lambda>(c, c1).
     Inr (trials @
       [Subplots, Line (u_times c) (u_cpu c) ''b'', Line (u_times c1) (u_cpu c1) ''r'',
        XLabel ''Time (s)'', YLabel ''Average CPU (percentage)'', SaveFig ''optimistic_cpu.pdf'',
        Subplots, Line (u_times c) (u_memory c) ''b'', Line (u_times c1) (u_memory c1) ''r'',
        XLabel ''Time (s)'', YLabel ''Average Memory (B)'', SaveFig ''optimistic_memory.pdf'']))))"

text \<open>The main program: the five files it reads, then the plot.\<close>

definition optimistic_main :: "numpy \<Rightarrow> (string \<Rightarrow> string option) \<Rightarrow> draw list res" where
  "optimistic_main np file_text =
     (let read = (\<lambda>f. case file_text f of None \<Rightarrow> Inl FileNotFoundError | Some s \<Rightarrow> Inr (universal_newlines s)) in
      rbind (read ''optimistic.txt'') (\<lambda>reu.
      rbind (read ''MVVM_checkpoint.ps.1.out'') (\<lambda>checkpoint1.
      rbind (read ''MVVM_checkpoint.ps.out'') (\<lambda>checkpoint.
      rbind (read ''MVVM_restore.ps.1.out'') (\<lambda>restore1.
      rbind (read ''MVVM_restore.ps.out'') (\<lambda>restore.
      plot_time_optimistic np reu checkpoint checkpoint1 restore restore1))))))"

section \<open>As many times as samples\<close>

lemma spots_from:
  "\<exists>ts. add_spots xs (us @ [s]) = Inr ts \<and> length ts = Suc (length us + length xs)"
  using add_spots_length [of "us @ [s]" xs] by auto

lemma first_dropped: "\<exists>ts. rbind (add_spots xs [s]) (\<lambda>ts. py_pop ts 0) = Inr ts \<and> length ts = length xs"
proof -
  obtain ts where "add_spots xs [s] = Inr ts" "length ts = Suc (length xs)" using spots_from [of xs "[]" s] by auto
  with py_pop_length [of ts 0] show ?thesis by auto
qed

lemma optimistic_spots_length:
  assumes "4 \<le> length marks"
  shows "\<exists>ts. optimistic_spots marks base exec_time = Inr ts \<and>
    length ts = length (exec_time ! 1 @ exec_time ! 2 @ exec_time ! 3)"
proof -
  obtain s1 where s1: "phase_start marks base 1 (exec_time ! 1) = Inr s1"
    using phase_start_ok [of 1 marks] assms by fastforce
  obtain s2 where s2: "phase_start marks base 2 (exec_time ! 2) = Inr s2"
    using phase_start_ok [of 2 marks] assms by fastforce
  obtain s3 where s3: "phase_start marks base 3 (exec_time ! 3) = Inr s3"
    using phase_start_ok [of 3 marks] assms by fastforce
  obtain a1 where a1: "add_spots (exec_time ! 1) [s1] = Inr a1" "length a1 = Suc (length (exec_time ! 1))"
    using spots_from [of _ "[]" s1] by auto
  obtain b1 where b1: "py_pop a1 0 = Inr b1" "length b1 = length (exec_time ! 1)"
    using py_pop_length [of a1 0] a1 by auto
  obtain a2 where a2: "add_spots (exec_time ! 2) (b1 @ [s2]) = Inr a2"
    "length a2 = Suc (length (exec_time ! 1) + length (exec_time ! 2))"
    using spots_from [of _ b1 s2] b1 by auto
  obtain b2 where b2: "py_pop a2 (int (length a2) - 1) = Inr b2" "length b2 = length (exec_time ! 1) + length (exec_time ! 2)"
    using py_pop_length [of a2 "int (length a2) - 1"] a2 by auto
  obtain a3 where a3: "add_spots (exec_time ! 3) (b2 @ [s3]) = Inr a3"
    "length a3 = Suc (length b2 + length (exec_time ! 3))"
    using spots_from [of _ b2 s3] by auto
  obtain b3 where b3: "py_pop a3 (int (length b2) - 1) = Inr b3" "length b3 = length b2 + length (exec_time ! 3)"
    using py_pop_length [of a3 "int (length b2) - 1"] a3 by auto
  have "optimistic_spots marks base exec_time = Inr b3"
    by (simp only: optimistic_spots_def s1 s2 s3 a1(1) b1(1) a2(1) b2(1) a3(1) b3(1) rbind_Inr Let_def)
  then show ?thesis using b3 b2 by simp
qed

lemma optimistic_trials_drawn:
  assumes "length (log_exec c) = 4" and "4 \<le> length (log_time c)"
    and "1000 \<le> length (log_exec c ! 0)" and "1000 \<le> length (concat (tl (log_exec c)))"
  shows "\<exists>ts ts2 avg avg2 p99 p992. optimistic_trials np c =
      Inr [Subplots, Line ts avg ''blue'', Line ts p99 ''purple'', Line ts2 avg2 ''r'', Line ts2 p992 ''pink'',
        XLabel ''Time (s)'', YLabel ''Average Trial Time (s)'', SaveFig ''optimistic.pdf''] \<and>
      length ts = length (concat (tl (log_exec c))) \<and> length avg = length (concat (tl (log_exec c))) \<and>
      length p99 = length (concat (tl (log_exec c))) \<and>
      length ts2 = length (log_exec c ! 0) \<and> length avg2 = length (log_exec c ! 0) \<and> length p992 = length (log_exec c ! 0)"
proof -
  let ?base = "fl64 (log_time c ! 1 - float_sum (log_exec c ! 1))"
  let ?rest = "log_exec c ! 1 @ log_exec c ! 2 @ log_exec c ! 3"
  have rest: "concat (tl (log_exec c)) = ?rest"
    using assms(1) by (auto simp: length_Suc_conv numeral_eq_Suc)
  obtain ts where ts: "optimistic_spots (log_time c) ?base (log_exec c) = Inr ts" "length ts = length ?rest"
    using optimistic_spots_length [OF assms(2)] by blast
  obtain s0 where s0: "phase_start (log_time c) ?base 0 (log_exec c ! 0) = Inr s0"
    using phase_start_ok [of 0 "log_time c"] assms(2) by fastforce
  obtain ts2 where ts2: "rbind (add_spots (log_exec c ! 0) [s0]) (\<lambda>ts. py_pop ts 0) = Inr ts2" "length ts2 = length (log_exec c ! 0)"
    using first_dropped by blast
  obtain avg p where avg: "get_avg_99percent np ?rest = Inr (avg, p)" "length avg = length ?rest" "length p = length ?rest"
    using get_avg_99percent_long [of ?rest np] assms(4) unfolding rest by blast
  obtain avg2 p2 where avg2: "get_avg_99percent np (log_exec c ! 0) = Inr (avg2, p2)" "length avg2 = length (log_exec c ! 0)"
    "length p2 = length (log_exec c ! 0)"
    using get_avg_99percent_long [OF assms(3), of np] by blast
  have one: "py_index (log_time c) 1 = Inr (log_time c ! 1)"
    using assms(2) py_index_nat [of "log_time c" 1] by simp
  have "optimistic_trials np c = Inr [Subplots, Line ts avg ''blue'', Line ts p ''purple'', Line ts2 avg2 ''r'', Line ts2 p2 ''pink'',
        XLabel ''Time (s)'', YLabel ''Average Trial Time (s)'', SaveFig ''optimistic.pdf'']"
    by (simp only: optimistic_trials_def Let_def one rbind_Inr ts s0 ts2 avg avg2 prod.case)
  then show ?thesis unfolding rest using ts ts2 avg avg2 by blast
qed

section \<open>The usage of the first checkpoint\<close>

lemma checkpoint1_lines:
  "rfold checkpoint1_line lines (no_usage, c1) = Inr (c, c1') \<Longrightarrow>
   c = no_usage \<and> (\<exists>kept. usage_lines 0 Inr kept c1 = Inr c1' \<and> counted kept = counted lines \<and> set kept \<subseteq> set lines)"
proof (induction lines arbitrary: c1)
  case Nil
  then show ?case by (auto simp: usage_lines_def intro: exI [of _ "[]"])
next
  case (Cons l lines)
  let ?idle = "\<not> py_contains l ''2024'' \<and> (case float_word l 2 of Inr v \<Rightarrow> v \<le> 10 | Inl e \<Rightarrow> False)"
  show ?case
  proof (cases ?idle)
    case True
    then have "checkpoint1_line l (no_usage, c1) = Inr (no_usage, c1)"
      by (simp add: checkpoint1_line_def wait_step_def no_usage_def)
    with Cons.prems have "rfold checkpoint1_line lines (no_usage, c1) = Inr (c, c1')" by simp
    from Cons.IH [OF this] obtain kept where kept: "c = no_usage" "usage_lines 0 Inr kept c1 = Inr c1'"
      "counted kept = counted lines" "set kept \<subseteq> set lines" by blast
    moreover have "counted (l # lines) = counted lines"
      using True by (auto simp: counted_def dated_def sampled_def split: sum.splits)
    ultimately show ?thesis by (intro conjI exI [of _ kept]) auto
  next
    case False
    have line: "checkpoint1_line l (no_usage, c1) = rbind (usage_line 0 Inr l c1) (\<lambda>c1. Inr (no_usage, c1))"
      using False by (simp only: checkpoint1_line_def prod.case if_False)
    obtain c2 where c2: "usage_line 0 Inr l c1 = Inr c2" "rfold checkpoint1_line lines (no_usage, c2) = Inr (c, c1')"
      using Cons.prems unfolding rfold.simps line by (cases "usage_line 0 Inr l c1") simp_all
    from Cons.IH [OF c2(2)] obtain kept where kept: "c = no_usage" "usage_lines 0 Inr kept c2 = Inr c1'"
      "counted kept = counted lines" "set kept \<subseteq> set lines" by blast
    have "usage_lines 0 Inr (l # kept) c1 = Inr c1'"
      using c2(1) kept(2) by (simp add: usage_lines_def)
    moreover have "counted (l # kept) = counted (l # lines)" using kept(3) by (simp add: counted_def)
    ultimately show ?thesis using kept(1,4) by (intro conjI exI [of _ "l # kept"]) auto
  qed
qed

lemma usage_lines_append:
  "usage_lines offset idle (ls @ ms) u = rbind (usage_lines offset idle ls u) (\<lambda>u. usage_lines offset idle ms u)"
  by (simp add: usage_lines_def rfold_append)

lemma clean_counted:
  assumes "clean_usage lines" and "counted kept = counted lines" and "set kept \<subseteq> set lines"
  shows "clean_usage kept"
  using assms by (auto simp: clean_usage_def list_all_iff)

end
