(* ===== verification/UseSpec.thy ===== *)
theory UseSpec
  imports OptimisticUse
begin

text \<open>
  The properties of the two use cases: what the log of a run is read as, that every sample has a
  time to be drawn at, and when the figures of the processor can be drawn at all.
\<close>

text \<open>
  C36. The burst log is read by its phases. When no line has two of the four keywords (and no
  number is infinite or nan), the result holds the times of the marks, as many as the state, and
  for each phase exactly the positive samples between its marks: both kinds in the first five
  phases, which belong to the first task, those of the iterations in the next four, which belong
  to the second. Lines that do not parse, and samples after the last phase, are ignored.
\<close>

theorem burst_log_phases:
  assumes "list_all plain_line (py_split_on newline (py_replace reu [CHR 0x5C, CHR ''n''] [newline]))"
    and "burst_log reu = Inr st"
  shows "st = log_of (map entry_of (py_split_on newline (py_replace reu [CHR 0x5C, CHR ''n''] [newline])))"
  using burst_lines_entries [OF assms(1), of "[]" st] assms(2) by (simp add: burst_log_def empty_log_of)

definition demo_log :: string where
  "demo_log = ''Iteration 2 ms'' @ [CHR 0x5C, CHR ''n''] @ ''[a 0:0:0.0] Execution 0''"

lemma demo_lines:
  "py_split_on newline (py_replace demo_log [CHR 0x5C, CHR ''n''] [newline]) = [''Iteration 2 ms'', ''[a 0:0:0.0] Execution 0'']"
  "list_all plain_line [''Iteration 2 ms'', ''[a 0:0:0.0] Execution 0'']"
  by code_simp+

lemma demo_entries:
  "entry_of ''Iteration 2 ms'' = Sample 2" "entry_of ''[a 0:0:0.0] Execution 0'' = Mark 0"
proof -
  have "py_contains ''Iteration 2 ms'' ''Iteration''" "word_at ''Iteration 2 ms'' (- 2) = Inr ''2''" by code_simp+
  then show "entry_of ''Iteration 2 ms'' = Sample 2"
    unfolding entry_of_def float_word_def by (simp add: py_float_2 entry_if_def)
  show "entry_of ''[a 0:0:0.0] Execution 0'' = Mark 0" by code_simp
qed

lemma demo_read: "\<exists>st. burst_log demo_log = Inr st"
proof -
  have "word_at ''Iteration 2 ms'' (- 2) = Inr ''2''" by code_simp
  then have f: "float_word ''Iteration 2 ms'' (- 2) = Inr 2" by (simp only: float_word_def rbind_Inr py_float_2)
  have c: "py_contains ''Iteration 2 ms'' ''Iteration''" "\<not> py_contains ''Iteration 2 ms'' ''ttrack''"
    "\<not> py_contains ''Iteration 2 ms'' ''Snapshot ''" "\<not> py_contains ''Iteration 2 ms'' ''Execution ''" by code_simp+
  have "\<exists>st. burst_line ''Iteration 2 ms'' (empty_log 5 4) = Inr st"
    unfolding burst_line_def iteration_step_def ttrack_step_def snapshot_step_def execution_step_def attempt.simps
    using f c by (auto simp: empty_log_def split: sum.split) (auto simp: add_sample_def append_at_def)
  moreover have "\<exists>st'. burst_line ''[a 0:0:0.0] Execution 0'' st = Inr st'" for st
  proof -
    have "\<not> py_contains ''[a 0:0:0.0] Execution 0'' ''Iteration''" "\<not> py_contains ''[a 0:0:0.0] Execution 0'' ''ttrack''"
      "\<not> py_contains ''[a 0:0:0.0] Execution 0'' ''Snapshot ''" "clock_word ''[a 0:0:0.0] Execution 0'' = Inr 0" by code_simp+
    then show ?thesis
      unfolding burst_line_def iteration_step_def ttrack_step_def snapshot_step_def execution_step_def attempt.simps
      by (auto split: sum.split)
  qed
  ultimately obtain st1 st2 where "burst_line ''Iteration 2 ms'' (empty_log 5 4) = Inr st1"
    "burst_line ''[a 0:0:0.0] Execution 0'' st1 = Inr st2" by blast
  then have "rfold burst_line [''Iteration 2 ms'', ''[a 0:0:0.0] Execution 0''] (empty_log 5 4) = Inr st2"
    by (simp only: rfold.simps rbind_Inr)
  then show ?thesis unfolding burst_log_def demo_lines(1) by blast
qed

theorem burst_log_phases_witness:
  "\<exists>st. burst_log demo_log = Inr st \<and> log_state st = 1 \<and> log_time st = [0] \<and> log_exec st = [[2], [], [], [], []] \<and>
    log_exec1 st = [[], [], [], []]"
proof -
  obtain st where st: "burst_log demo_log = Inr st" using demo_read ..
  have "st = log_of [Sample 2, Mark 0]"
    using burst_log_phases [OF _ st] unfolding demo_lines(1) using demo_lines(2) by (simp only: list.map demo_entries)
  moreover have "[0..<5] = [0, 1, 2, 3, 4::nat]" "[0..<4] = [0, 1, 2, 3::nat]" by code_simp+
  ultimately show ?thesis using st by (auto simp: log_of_def numeral_eq_Suc)
qed

text \<open>
  C37. Every sample of a complete log has a time. With nine marks in a burst log and four in an
  optimistic one, and with at least a thousand samples for each task, the figures of the trials
  are drawn, and each line has as many times as averages, as many as the task has samples, even
  where a phase has none: whichever elements the loops drop, there is one for each phase.
\<close>

theorem trial_lengths:
  assumes "length (log_exec b) = 5" and "length (log_exec1 b) = 4" and "9 \<le> length (log_time b)"
    and "1000 \<le> length (concat (log_exec b))" and "1000 \<le> length (concat (log_exec1 b))"
    and "length (log_exec c) = 4" and "4 \<le> length (log_time c)"
    and "1000 \<le> length (log_exec c ! 0)" and "1000 \<le> length (concat (tl (log_exec c)))"
  shows "(\<exists>ts ts1 avg avg1. burst_trials np b =
      Inr [Subplots, Line ts avg ''blue'', Line ts1 avg1 ''r'', XLabel ''Time (s)'', YLabel ''Average Trial Time (s)'', SaveFig ''burst.pdf''] \<and>
      length ts = length (concat (log_exec b)) \<and> length avg = length (concat (log_exec b)) \<and>
      length ts1 = length (concat (log_exec1 b)) \<and> length avg1 = length (concat (log_exec1 b))) \<and>
    (\<exists>ts ts2 avg avg2 p99 p992. optimistic_trials np c =
      Inr [Subplots, Line ts avg ''blue'', Line ts p99 ''purple'', Line ts2 avg2 ''r'', Line ts2 p992 ''pink'',
        XLabel ''Time (s)'', YLabel ''Average Trial Time (s)'', SaveFig ''optimistic.pdf''] \<and>
      length ts = length (concat (tl (log_exec c))) \<and> length avg = length (concat (tl (log_exec c))) \<and>
      length p99 = length (concat (tl (log_exec c))) \<and>
      length ts2 = length (log_exec c ! 0) \<and> length avg2 = length (log_exec c ! 0) \<and> length p992 = length (log_exec c ! 0))"
  using burst_trials_drawn [OF assms(1-5)] optimistic_trials_drawn [OF assms(6-9)] by (rule conjI)

theorem trial_lengths_witness:
  "\<exists>ts ts1 avg avg1. burst_trials \<lparr>np_mean = hd, np_median = hd, np_std = last, np_percentile = \<lambda>xs p. last xs\<rparr>
      \<lparr>log_state = 9, log_time = replicate 9 5000, log_exec = [replicate 1000 1, [], [], [], []],
        log_exec1 = [[], replicate 1000 2, [], []]\<rparr> =
      Inr [Subplots, Line ts avg ''blue'', Line ts1 avg1 ''r'', XLabel ''Time (s)'', YLabel ''Average Trial Time (s)'', SaveFig ''burst.pdf''] \<and>
      length ts = 1000 \<and> length avg = 1000 \<and> length ts1 = 1000 \<and> length avg1 = 1000"
  using trial_lengths [of "\<lparr>log_state = 9, log_time = replicate 9 5000, log_exec = [replicate 1000 1, [], [], [], []],
        log_exec1 = [[], replicate 1000 2, [], []]\<rparr>"
      "\<lparr>log_state = 4, log_time = replicate 4 5000, log_exec = [replicate 1000 1, [], replicate 1000 2, []], log_exec1 = []\<rparr>"
      "\<lparr>np_mean = hd, np_median = hd, np_std = last, np_percentile = \<lambda>xs p. last xs\<rparr>"]
  by simp

text \<open>
  C38. When the processor figures can be drawn. In clean logs, which begin with a date and whose
  samples are whole, the burst figures have as many times as values, in both of their lines,
  exactly when the processor logs of the first run have as many entries as its energy logs: the
  values of each were put with the times of the other. The optimistic figures always have as many.
\<close>

theorem usage_lengths:
  assumes "burst_usage aot_energy aot_ps aot1_energy aot1_ps = Inr (u, u1)"
    and "clean_usage (lines_of aot_energy)" and "clean_usage (lines_of aot_ps)" and "clean_usage (aot1_ps @ aot1_energy)"
    and "optimistic_usage checkpoint checkpoint1 restore restore1 = Inr (c, c1)"
    and "clean_usage (py_split_on newline checkpoint1)"
    and "clean_usage (py_split_on newline checkpoint @ py_split_on newline restore1 @ py_split_on newline restore)"
  shows "(length (u_times u) = length (u_cpu u) \<longleftrightarrow> length (counted (lines_of aot_ps)) = length (counted (lines_of aot_energy))) \<and>
    (length (u_times u1) = length (u_cpu u1) \<longleftrightarrow> length (counted (lines_of aot_ps)) = length (counted (lines_of aot_energy))) \<and>
    length (u_times c) = length (u_cpu c) \<and> length (u_times c) = length (u_memory c) \<and>
    length (u_times c1) = length (u_cpu c1) \<and> length (u_times c1) = length (u_memory c1)"
proof -
  obtain a b where ab: "usage_lines 0 Inr (lines_of aot_ps) no_usage = Inr a" "usage_lines 10 Inr (lines_of aot_energy) no_usage = Inr b"
      "usage_lines 0 Inr (aot1_ps @ aot1_energy) \<lparr>u_times = u_times a, u_cpu = u_cpu b, u_memory = u_memory b\<rparr> = Inr u"
      "u1 = \<lparr>u_times = u_times b, u_cpu = u_cpu a, u_memory = u_memory a\<rparr>"
    using assms(1) by (auto simp: burst_usage_def elim!: rbind_InrE)
  have whole: "list_all whole_sample ls" if "clean_usage ls" for ls using that by (simp add: clean_usage_def)
  note times = usage_lines_times [OF idle_steps(1)] and cpu = usage_lines_cpu [OF idle_steps(1)]
  have "length (u_times a) = length (counted (lines_of aot_ps))" "length (u_times b) = length (counted (lines_of aot_energy))"
    "length (u_times u) = length (u_times a) + length (counted (aot1_ps @ aot1_energy))"
    using times [OF ab(1) whole] times [OF ab(2) whole] times [OF ab(3) whole] assms(2-4) by (simp_all add: no_usage_def)
  moreover have "length (u_cpu a) = length (counted (lines_of aot_ps))" "length (u_cpu b) = length (counted (lines_of aot_energy))"
    "length (u_cpu u) = length (u_cpu b) + length (counted (aot1_ps @ aot1_energy))"
    using cpu [OF ab(1)] cpu [OF ab(2)] cpu [OF ab(3)] by (simp_all add: no_usage_def)
  ultimately have burst: "(length (u_times u) = length (u_cpu u) \<longleftrightarrow> length (counted (lines_of aot_ps)) = length (counted (lines_of aot_energy))) \<and>
    (length (u_times u1) = length (u_cpu u1) \<longleftrightarrow> length (counted (lines_of aot_ps)) = length (counted (lines_of aot_energy)))"
    using ab(4) by auto
  let ?ls = "py_split_on newline checkpoint @ py_split_on newline restore1 @ py_split_on newline restore"
  obtain c0 where c0: "rfold checkpoint1_line (py_split_on newline checkpoint1) (no_usage, no_usage) = Inr (c0, c1)"
      "usage_lines 0 wait_step ?ls c0 = Inr c"
    using assms(5) by (auto simp: optimistic_usage_def usage_lines_append elim!: rbind_InrE)
  obtain kept where kept: "c0 = no_usage" "usage_lines 0 Inr kept no_usage = Inr c1" "clean_usage kept"
    using checkpoint1_lines [OF c0(1)] clean_counted [OF assms(6)] by blast
  have "length (u_times c1) = length (u_cpu c1)" "length (u_times c1) = length (u_memory c1)"
    using times [OF kept(2) whole [OF kept(3)]] cpu [OF kept(2)] kept(3) by (simp_all add: no_usage_def)
  moreover have "length (u_times c) = length (u_cpu c)" "length (u_times c) = length (u_memory c)"
    using usage_lines_times [OF idle_steps(2) c0(2) whole [OF assms(7)]] usage_lines_cpu [OF idle_steps(2) c0(2)] assms(7) kept(1)
    by (simp_all add: no_usage_def)
  ultimately show ?thesis using burst by blast
qed

text \<open>A processor log with one date and no energy log: one time and no value, no time and one value.\<close>

definition date_log :: string where "date_log = ''Mon Jan 1 10:00:00 2024''"

lemma date_log_usage:
  "burst_usage [] [date_log] [] [] =
     Inr (\<lparr>u_times = [36000], u_cpu = [], u_memory = []\<rparr>, \<lparr>u_times = [], u_cpu = [0], u_memory = [0]\<rparr>)"
  "optimistic_usage date_log date_log [] [] =
     Inr (\<lparr>u_times = [36000], u_cpu = [0], u_memory = [0]\<rparr>, \<lparr>u_times = [36000], u_cpu = [0], u_memory = [0]\<rparr>)"
  by code_simp+

lemma date_log_clean:
  "clean_usage (lines_of [])" "clean_usage (lines_of [date_log])" "clean_usage ([] @ [])"
  "clean_usage (py_split_on newline date_log)"
  "clean_usage (py_split_on newline date_log @ py_split_on newline [] @ py_split_on newline [])"
  by code_simp+

theorem usage_lengths_witness:
  "length (u_times \<lparr>u_times = [36000], u_cpu = [], u_memory = []\<rparr>) \<noteq> length (u_cpu \<lparr>u_times = [36000], u_cpu = [], u_memory = []\<rparr>) \<and>
    length (counted (lines_of [date_log])) \<noteq> length (counted (lines_of []))"
  using usage_lengths [OF date_log_usage(1) date_log_clean(1,2,3) date_log_usage(2) date_log_clean(4,5)] by simp

end
