(* ===== verification/Latency.thy ===== *)
theory Latency
  imports BenchJobs Clusters
begin

text \<open>
  \<^verbatim>\<open>src/artifact/ckpt_restore_latency.py\<close>: the files of snapshot and recovery times and their three
  plots. The functions that run the benchmarks are commented out in the script. How a float is
  written is the parameter \<open>float_repr\<close>. \<^verbatim>\<open>write_to_csv\<close> opens the file with \<^verbatim>\<open>"w"\<close>, so that its
  contents are exactly what is written.
\<close>

section \<open>Constants\<close>

definition cmd_latency :: "string list" where
  "cmd_latency =
     [''linpack'', ''llama'', ''rgbd_tum'', ''bfs'', ''bc'', ''bfs'', ''cc'', ''cc_sv'', ''pr'',
      ''pr_spmv'', ''sssp'', ''tc'', ''bt'', ''cg'', ''ep'', ''ft'', ''lu'', ''mg'', ''sp'', ''redis'',
      ''hdastar'']"

definition folder_latency :: "string list" where
  "folder_latency =
     [''linpack'', ''llama'', ''ORB_SLAM2'', ''gapbs'', ''gapbs'', ''gapbs'', ''gapbs'', ''gapbs'',
      ''gapbs'', ''gapbs'', ''gapbs'', ''gapbs'', ''nas'', ''nas'', ''nas'', ''nas'', ''nas'', ''nas'',
      ''nas'', ''redis'', ''hdastar'']"

definition arg_latency :: "string list list" where
  "arg_latency =
     [[], [''stories110M.bin'', ''-z'', ''tokenizer.bin'', ''-t'', ''0.0''], [''./ORBvoc.txt'',
      ''./TUM3.yaml'', ''./'', ''./associations/fr1_xyz.txt''], [''-f'', ''./road.sg'', ''-n300''],
      [''-g20'', ''-vn300''], [''-g20'', ''-vn300''], [''-f'', ''./road.sg'', ''-n300''], [''-g20'',
      ''-vn300''], [''-g20'', ''-vn300''], [''-g20'', ''-vn300''], [''-g20'', ''-vn300''], [''-g20'',
      ''-n300''], [], [], [], [], [], [], [], [], [''maze-6404.txt'', ''8'']]"

definition envs_latency :: "string list" where
  "envs_latency =
     [''a=b'', ''OMP_NUM_THREADS=4'', ''a=b'', ''OMP_NUM_THREADS=4'', ''OMP_NUM_THREADS=4'',
      ''OMP_NUM_THREADS=4'', ''OMP_NUM_THREADS=4'', ''OMP_NUM_THREADS=4'', ''OMP_NUM_THREADS=4'',
      ''OMP_NUM_THREADS=4'', ''OMP_NUM_THREADS=4'', ''OMP_NUM_THREADS=4'', ''OMP_NUM_THREADS=4'',
      ''OMP_NUM_THREADS=4'', ''OMP_NUM_THREADS=4'', ''OMP_NUM_THREADS=4'', ''OMP_NUM_THREADS=4'',
      ''OMP_NUM_THREADS=4'', ''OMP_NUM_THREADS=4'', ''a=b'', ''a=b'']"

section \<open>Files\<close>

definition write_to_csv_raw :: "string \<Rightarrow> string" where
  "write_to_csv_raw data = ''name, output'' @ [newline] @ data"

definition header_latency :: "string list" where
  "header_latency = [''name'', ''snapshot time(s)'', ''recovery time(s)'']"

definition latency_cells :: "(rat \<Rightarrow> string) \<Rightarrow> string \<times> rat list \<Rightarrow> string list" where
  "latency_cells float_repr row = fst row # map float_repr (snd row)"

definition write_to_csv_profile :: "(rat \<Rightarrow> string) \<Rightarrow> (string \<times> rat list) list \<Rightarrow> string" where
  "write_to_csv_profile float_repr data = append_csv header_latency (map (latency_cells float_repr) data) []"

definition write_to_csv_latency :: "(rat \<Rightarrow> string) \<Rightarrow> (string \<times> rat list) list \<Rightarrow> string" where
  "write_to_csv_latency float_repr data = append_csv header_latency (map (latency_cells float_repr) data) []"

type_synonym latency_row = "string \<times> rat list"

definition latency_row_of :: "string list \<Rightarrow> latency_row res" where
  "latency_row_of row =
     rbind (py_index row 0) (\<lambda>name. rbind (float_at row 1) (\<lambda>a. rbind (float_at row 2) (\<lambda>b. Inr (name, [a, b]))))"

definition read_from_csv_latency :: "string \<Rightarrow> latency_row list res" where
  "read_from_csv_latency csv_text = read_table latency_row_of csv_text"

section \<open>Two bars\<close>

text \<open>
  \<^verbatim>\<open>plot_qemu\<close> leaves out the rows with two zeros; it and \<^verbatim>\<open>plot\<close> draw the two columns.
\<close>

definition two_bars ::
  "string \<Rightarrow> style list \<Rightarrow> (string \<times> cells) list \<Rightarrow> string \<Rightarrow> draw list" where
  "two_bars title styles statistics file_name =
     (let bar_width = fl64 (35 / 100) in
      [Figure 15 7] @ cluster_bars bar_width styles statistics @
      [XLabel ''Workload'', YLabel ''Time'', Title title, ticks (fl64 (bar_width / 2)) statistics,
       XTickLabelsRotated (short_names statistics) 45, Legend [], TightLayout, Show, SaveFig file_name])"

definition latency_qemu_key :: "string \<Rightarrow> string" where
  "latency_qemu_key workload =
     clean_key (removed [''OMP_NUM_THREADS='', ''-g20'', ''-n300'', '' -f '', ''-vn300'', ''maze-6404.txt'', ''stories110M.bin'',
       ''-z tokenizer.bin -t 0.0'']) workload"

definition plot_qemu :: "numpy \<Rightarrow> latency_row list \<Rightarrow> string \<Rightarrow> draw list" where
  "plot_qemu np result file_name =
     two_bars ''Median and Variation of Total and Down Times by Workload''
       [(0, 0, ''blue'', ''Total''), (1, 1, ''red'', ''Down'')]
       (cluster_statistics np latency_qemu_key 2 (filter (\<lambda>r. snd r ! 0 \<noteq> 0 \<or> snd r ! 1 \<noteq> 0) result)) file_name"

definition latency_key :: "string \<Rightarrow> string" where
  "latency_key workload =
     clean_key (removed [''OMP_NUM_THREADS='', ''-g15'', ''-n300'', '' -f '', ''-vn300'', ''maze-6404.txt'', ''stories110M.bin'',
       ''-z tokenizer.bin -t 0.0'']) workload"

definition plot_latency :: "numpy \<Rightarrow> latency_row list \<Rightarrow> string \<Rightarrow> draw list" where
  "plot_latency np result file_name =
     two_bars ''Median and Variation of Snapshot and Recovery Times by Workload''
       [(0, 0, ''blue'', ''Snapshot''), (1, 1, ''red'', ''Recovery'')]
       (cluster_statistics np latency_key 2 result) file_name"

section \<open>Three systems in one plot\<close>

text \<open>Only the names of the MVVM runs lose their \<^verbatim>\<open>.aot\<close>.\<close>

definition shortened :: "(string \<times> string) list" where
  "shortened =
     [(''OMP_NUM_THREADS=2'', []), (''OMP_NUM_THREADS=4'', []), (''hdastar'', ''hda''), (''stories15M.bin'', [])] @
     removed [''-g15'', ''-n300'', '' -f '', ''-vn300'', ''maze-6404.txt'', ''stories110M.bin'']"

definition whole_key_mvvm :: "string \<Rightarrow> string" where
  "whole_key_mvvm workload = clean_key (shortened @ removed [''.aot'', ''-z tokenizer.bin -t 0.0'']) workload"

definition whole_key_other :: "string \<Rightarrow> string" where
  "whole_key_other workload = clean_key (shortened @ removed [''-z tokenizer.bin -t 0.0'']) workload"

text \<open>
  \<^verbatim>\<open>snapshots, recoveries = zip(*workloads_criu[workload])\<close>: for a workload that is missing the
  \<^verbatim>\<open>defaultdict\<close> gives an empty list, and the two names have nothing to take.
\<close>

definition zip_stats :: "numpy \<Rightarrow> (string \<times> rat list list) list \<Rightarrow> string \<Rightarrow> cells res" where
  "zip_stats np workloads w =
     (let rows = dict_list workloads w in if rows = [] then Inl ValueError else Inr (column_stats np 2 rows))"

definition whole_statistics ::
  "numpy \<Rightarrow> latency_row list \<Rightarrow> latency_row list \<Rightarrow> latency_row list \<Rightarrow> (string \<times> cells) list res" where
  "whole_statistics np result_mvvm result_criu result_qemu =
     (let workloads = group_rows (\<lambda>r. whole_key_mvvm (fst r)) snd result_mvvm;
          workloads_criu = group_rows (\<lambda>r. whole_key_other (fst r)) snd result_criu;
          workloads_qemu = group_rows (\<lambda>r. whole_key_other (fst r)) snd result_qemu
      in rmap (\<lambda>(workload, rows).
           rbind (zip_stats np workloads_criu workload) (\<lambda>criu.
           rbind (zip_stats np workloads_qemu workload) (\<lambda>qemu.
           Inr (workload, column_stats np 2 rows @ criu @ qemu))))
         workloads)"

text \<open>The first bar is drawn twice; the second column of QEMU is not drawn.\<close>

definition whole_styles :: "style list" where
  "whole_styles =
     [(0, 0, ''blue'', ''MVVM Snapshot''), (0, 0, ''blue'', ''MVVM Snapshot''), (1, 1, ''red'', ''MVVM Recovery''),
      (2, 2, ''cyan'', ''CRIU Snapshot''), (3, 3, ''magenta'', ''CRIU Recovery''), (4, 4, ''green'', ''QEMU Total'')]"

definition plot_whole_latency ::
  "numpy \<Rightarrow> latency_row list \<Rightarrow> latency_row list \<Rightarrow> latency_row list \<Rightarrow> string \<Rightarrow> draw list res" where
  "plot_whole_latency np result_mvvm result_criu result_qemu file_name =
     rbind (whole_statistics np result_mvvm result_criu result_qemu) (\<lambda>statistics.
     let bar_width = fl64 (fl64 (7 / 10) / 4) in
     Inr ([Font 20, Figure 15 7] @ cluster_bars bar_width whole_styles statistics @
          [XLabel ''Workload'', YLabel ''Time'', ticks (fl64 (bar_width / 2)) statistics,
           XTickLabels (short_names statistics) 20, Legend [], TightLayout, SaveFig file_name]))"

text \<open>The main program; \<open>file_text\<close> gives the contents of a file that exists.\<close>

definition read_latency_file :: "(string \<Rightarrow> string option) \<Rightarrow> string \<Rightarrow> latency_row list res" where
  "read_latency_file file_text f =
     (case file_text f of None \<Rightarrow> Inl FileNotFoundError | Some s \<Rightarrow> read_from_csv_latency s)"

definition latency_main :: "numpy \<Rightarrow> (string \<Rightarrow> string option) \<Rightarrow> draw list res" where
  "latency_main np file_text =
     rbind (read_latency_file file_text ''ckpt_restore_latency.csv'') (\<lambda>mvvm_result.
     rbind (read_latency_file file_text ''ckpt_restore_latency_criu.csv'') (\<lambda>criu_result.
     rbind (read_latency_file file_text ''ckpt_restore_latency_qemu.csv'') (\<lambda>qemu_result.
     plot_whole_latency np mvvm_result criu_result qemu_result ''ckpt_restore_latency_whole.pdf'')))"

section \<open>Lemmas\<close>

text \<open>A result of a run as it is written: its name and two times that are written readably.\<close>

definition latency_result :: "(rat \<Rightarrow> string) \<Rightarrow> string \<times> rat list \<Rightarrow> bool" where
  "latency_result float_repr row \<longleftrightarrow> length (snd row) = 2 \<and> carriage \<notin> set (fst row) \<and>
     list_all (\<lambda>x. carriage \<notin> set (float_repr x) \<and> py_float (float_repr x) = Inr x) (snd row)"

interpretation latency: result_file header_latency "latency_cells float_repr" latency_row_of "\<lambda>r. r"
  "latency_result float_repr" for float_repr
proof
  show "table_row header_latency" by (simp add: table_row_def header_latency_def carriage_def)
next
  fix r assume good: "latency_result float_repr r"
  then show "table_row (latency_cells float_repr r)"
    by (auto simp: list_all_iff table_row_def latency_cells_def latency_result_def)
  from good obtain name a b where r: "r = (name, [a, b])"
    by (cases r) (auto simp: latency_result_def length_Suc_conv numeral_2_eq_2)
  with good show "latency_row_of (latency_cells float_repr r) = Inr r"
    by (simp add: latency_result_def latency_row_of_def latency_cells_def float_at_def numeral_2_eq_2)
qed

lemma latency_written_read:
  "list_all (latency_result float_repr) data \<Longrightarrow>
   read_from_csv_latency (write_to_csv_latency float_repr data) = Inr data"
  using latency.written_read [of float_repr data] by (simp add: read_from_csv_latency_def write_to_csv_latency_def)

lemma zip_stats_group:
  "zip_stats np (group_rows (\<lambda>r. key (fst r)) snd rows) w =
     (if w \<in> set (map (\<lambda>r. key (fst r)) rows) then Inr (column_stats np 2 (rows_of key rows w)) else Inl ValueError)"
  by (auto simp: zip_stats_def dict_list_group rows_of_def filter_empty_conv)

definition whole_cells :: "numpy \<Rightarrow> latency_row list \<Rightarrow> latency_row list \<Rightarrow> latency_row list \<Rightarrow> string \<Rightarrow> cells" where
  "whole_cells np mvvm criu qemu w =
     column_stats np 2 (rows_of whole_key_mvvm mvvm w) @ column_stats np 2 (rows_of whole_key_other criu w) @
     column_stats np 2 (rows_of whole_key_other qemu w)"

lemma whole_statistics_cases:
  "whole_statistics np mvvm criu qemu =
     (if set (map (\<lambda>r. whole_key_mvvm (fst r)) mvvm) \<subseteq>
        set (map (\<lambda>r. whole_key_other (fst r)) criu) \<inter> set (map (\<lambda>r. whole_key_other (fst r)) qemu)
      then Inr (map (\<lambda>w. (w, whole_cells np mvvm criu qemu w)) (firsts (map (\<lambda>r. whole_key_mvvm (fst r)) mvvm)))
      else Inl ValueError)"
proof -
  let ?M = "map (\<lambda>r. whole_key_mvvm (fst r)) mvvm" and ?C = "map (\<lambda>r. whole_key_other (fst r)) criu"
    and ?Q = "map (\<lambda>r. whole_key_other (fst r)) qemu"
  let ?f = "\<lambda>(workload, rows). rbind (zip_stats np (group_rows (\<lambda>r. whole_key_other (fst r)) snd criu) workload) (\<lambda>c.
    rbind (zip_stats np (group_rows (\<lambda>r. whole_key_other (fst r)) snd qemu) workload) (\<lambda>q.
    Inr (workload, column_stats np 2 rows @ c @ q)))"
  let ?ws = "map (\<lambda>w. (w, rows_of whole_key_mvvm mvvm w)) (firsts ?M)"
  have groups: "group_rows (\<lambda>r. whole_key_mvvm (fst r)) snd mvvm = ?ws" by (simp add: group_eq rows_of_def o_def)
  have f: "?f (w, rows) = (if w \<in> set ?C \<inter> set ?Q
      then Inr (w, column_stats np 2 rows @ column_stats np 2 (rows_of whole_key_other criu w) @ column_stats np 2 (rows_of whole_key_other qemu w))
      else Inl ValueError)" for w rows
    by (simp add: zip_stats_group)
  have stats: "whole_statistics np mvvm criu qemu = rmap ?f ?ws" unfolding whole_statistics_def Let_def groups ..
  show ?thesis
  proof (cases "set ?M \<subseteq> set ?C \<inter> set ?Q")
    case True
    have "rmap ?f ?ws = Inr (map (\<lambda>(w, rows). (w, column_stats np 2 rows @
        column_stats np 2 (rows_of whole_key_other criu w) @ column_stats np 2 (rows_of whole_key_other qemu w))) ?ws)"
    proof (rule rmap_pure)
      fix x assume "x \<in> set ?ws"
      then obtain w rows where "x = (w, rows)" "w \<in> set ?M" by auto
      with True f show "?f x = Inr ((\<lambda>(w, rows). (w, column_stats np 2 rows @
        column_stats np 2 (rows_of whole_key_other criu w) @ column_stats np 2 (rows_of whole_key_other qemu w))) x)" by auto
    qed
    with True show ?thesis unfolding stats by (simp add: whole_cells_def o_def)
  next
    case False
    then obtain w where w: "w \<in> set ?M" "w \<notin> set ?C \<inter> set ?Q" by auto
    have "rmap ?f ?ws = Inl ValueError"
    proof (rule rmap_error)
      show "(w, rows_of whole_key_mvvm mvvm w) \<in> set ?ws" using w(1) by simp
      show "?f (w, rows_of whole_key_mvvm mvvm w) = Inl ValueError" unfolding f using w(2) by (simp only: if_False)
    next
      fix y assume "y \<in> set ?ws"
      then obtain v rows where "y = (v, rows)" by auto
      then show "?f y = Inl ValueError \<or> (\<exists>z. ?f y = Inr z)" using f [of v rows] by (cases "v \<in> set ?C \<inter> set ?Q") auto
    qed
    with False show ?thesis unfolding stats by (simp only: if_False)
  qed
qed

end
