(* ===== verification/MemoryBench.thy ===== *)
theory MemoryBench
  imports BenchJobs Clusters Restore
begin

text \<open>
  \<^verbatim>\<open>src/artifact/memory_footprint_overhead.py\<close>: the memory a checkpointed process reports. The raw
  outputs are written before they are parsed; how a list of strings is written is the parameter
  \<open>list_repr\<close>. The list of environments is assigned twice with the same value.
\<close>

definition cmd_memory :: "string list" where
  "cmd_memory =
     [''linpack'', ''llama'', ''rgbd_tum'', ''bfs'', ''bc'', ''bfs'', ''cc'', ''cc_sv'', ''pr'',
      ''pr_spmv'', ''sssp'', ''tc'', ''bt'', ''cg'', ''ep'', ''ft'', ''lu'', ''mg'', ''sp'', ''redis'',
      ''hdastar'']"

definition folder_memory :: "string list" where
  "folder_memory =
     [''linpack'', ''llama'', ''ORB_SLAM2'', ''gapbs'', ''gapbs'', ''gapbs'', ''gapbs'', ''gapbs'',
      ''gapbs'', ''gapbs'', ''gapbs'', ''gapbs'', ''nas'', ''nas'', ''nas'', ''nas'', ''nas'', ''nas'',
      ''nas'', ''redis'', ''hdastar'']"

definition arg_memory :: "string list list" where
  "arg_memory =
     [[], [''stories110M.bin'', ''-z'', ''tokenizer.bin'', ''-t'', ''0.0''], [''./ORBvoc.txt'',
      ''./TUM3.yaml'', ''./'', ''./associations/fr1_xyz.txt''], [''-f'', ''./road.sg'', ''-n300''],
      [''-g20'', ''-vn300''], [''-g20'', ''-vn300''], [''-f'', ''./road.sg'', ''-n300''], [''-g20'',
      ''-vn300''], [''-g20'', ''-vn300''], [''-g20'', ''-vn300''], [''-g20'', ''-vn300''], [''-g20'',
      ''-n300''], [], [], [], [], [], [], [], [], [''maze-6404.txt'', ''8'']]"

definition envs_memory :: "string list" where
  "envs_memory =
     [''a=b'', ''OMP_NUM_THREADS=4'', ''a=b'', ''OMP_NUM_THREADS=4'', ''OMP_NUM_THREADS=4'',
      ''OMP_NUM_THREADS=4'', ''OMP_NUM_THREADS=4'', ''OMP_NUM_THREADS=4'', ''OMP_NUM_THREADS=4'',
      ''OMP_NUM_THREADS=4'', ''OMP_NUM_THREADS=4'', ''OMP_NUM_THREADS=4'', ''OMP_NUM_THREADS=4'',
      ''OMP_NUM_THREADS=4'', ''OMP_NUM_THREADS=4'', ''OMP_NUM_THREADS=4'', ''OMP_NUM_THREADS=4'',
      ''OMP_NUM_THREADS=4'', ''OMP_NUM_THREADS=4'', ''a=b'', ''a=b'']"

section \<open>The runs\<close>

definition memory_jobs :: "job list" where
  "memory_jobs = map (\<lambda>i. (cmd_memory ! i @ aot_variant ! 0, arg_memory ! i, envs_memory ! i)) [0..<length cmd_memory]"

text \<open>\<^verbatim>\<open>useage\<close> is unbound (\<open>None\<close>) until a line sets it.\<close>

definition memory_line :: "string \<Rightarrow> int option \<Rightarrow> int option res" where
  "memory_line line useage =
     (if py_contains line ''Memory usage'' then rbind (second_last line) (\<lambda>w. rbind (py_int w) (\<lambda>i. Inr (Some i))) else Inr useage)"

definition memory_output :: "string \<Rightarrow> string \<Rightarrow> (string \<times> int) list \<times> int option \<Rightarrow> ((string \<times> int) list \<times> int option) res" where
  "memory_output exec_label output st =
     (case st of (results, useage) \<Rightarrow>
        rbind (rfold memory_line (py_split_on newline output) useage) (\<lambda>useage.
        case useage of None \<Rightarrow> Inl UnboundLocalError | Some u \<Rightarrow> Inr (results @ [(exec_label, u)], useage)))"

definition header_memory :: "string list" where
  "header_memory = [''name'', ''memory usage(MB)'']"

definition write_to_csv_memory :: "('a \<Rightarrow> string) \<Rightarrow> (string \<times> 'a) list \<Rightarrow> string" where
  "write_to_csv_memory cell data = append_csv header_memory (map (\<lambda>(name, x). [name, cell x]) data) []"

text \<open>The contents of the raw file, and the results.\<close>

definition run_mvvm_memory :: "(string list \<Rightarrow> string) \<Rightarrow> nat \<Rightarrow> (nat \<Rightarrow> world) \<Rightarrow> (string \<times> (string \<times> int) list) res" where
  "run_mvvm_memory list_repr fuel ws =
     rbind (pool_results (\<lambda>(aot, arg, env). run_checkpoint_restore fuel aot arg env) ws memory_jobs) (\<lambda>results1.
     rbind (rfold (\<lambda>(exec_label, outputs). rfold (memory_output exec_label) outputs) results1 ([], None)) (\<lambda>(results, useage).
     Inr (write_to_csv_memory list_repr results1, results)))"

section \<open>The file and the plot\<close>

definition memory_row_of :: "string list \<Rightarrow> (string \<times> int) res" where
  "memory_row_of row = rbind (py_index row 0) (\<lambda>name. rbind (rbind (py_index row 1) py_int) (\<lambda>m. Inr (name, m)))"

definition read_from_csv_memory :: "string \<Rightarrow> (string \<times> int) list res" where
  "read_from_csv_memory csv_text = read_table_lf memory_row_of csv_text"

definition memory_key :: "string \<Rightarrow> string" where
  "memory_key workload =
     clean_key (removed [''OMP_NUM_THREADS='', ''-g20'', ''a=b'', ''./ORBvoc.txt, ./TUM3.yaml ./ ./associations/fr1_xyz.txt'',
       ''-n300'', '' -f '', ''-vn300'', ''maze-6404.txt'', ''stories110M.bin'', ''.aot'', ''-z tokenizer.bin -t 0.0'']) workload"

definition plot_memory :: "numpy \<Rightarrow> (string \<times> int) list \<Rightarrow> string \<Rightarrow> draw list" where
  "plot_memory np result file_name =
     (let statistics = cluster_statistics np memory_key 1
            (map (\<lambda>(workload, memory). (workload, [fl64 (fl64 (of_int memory / 1024) / 1024)])) result) in
      [Font 18, Figure 15 7] @ cluster_bars (fl64 (35 / 100)) [(0, 0, ''blue'', ''Memory Footprint'')] statistics @
      [XLabel ''Workload'', YLabel ''Memory Footprint (GB)'', ticks 0 statistics, XTickLabels (map fst statistics) 10,
       Legend [], TightLayout, SaveFig file_name, Show])"

definition memory_main :: "numpy \<Rightarrow> (string \<Rightarrow> string option) \<Rightarrow> draw list res" where
  "memory_main np file_text =
     (case file_text ''memmory_footprint_overhead.csv'' of
        None \<Rightarrow> Inl FileNotFoundError
      | Some s \<Rightarrow> rbind (read_from_csv_memory s) (\<lambda>results. Inr (plot_memory np results ''memmory_footprint_overhead.pdf'')))"

end
