(* ===== verification/MacWindows.thy ===== *)
theory MacWindows
  imports BenchJobs Clusters TimeParse
begin

text \<open>
  \<^verbatim>\<open>src/artifact/bench_mac.py\<close> and \<^verbatim>\<open>src/artifact/bench_windows.py\<close>: MVVM against the native build
  on one machine each, run one after the other, without a pool. How floats and bytes are written
  are the parameters \<open>float_repr\<close> and \<open>bytes_repr\<close>.
\<close>

section \<open>The Mac\<close>

definition cmd_mac :: "string list" where
  "cmd_mac =
     [''linpack'', ''rgbd_tum'', ''bc'', ''bfs'', ''cc'', ''cc_sv'', ''pr'', ''pr_spmv'', ''sssp'',
      ''tc'', ''bt'', ''cg'', ''ft'', ''lu'', ''mg'', ''sp'', ''redis'']"

definition folder_mac :: "string list" where
  "folder_mac =
     [''linpack'', ''ORB_SLAM2'', ''gapbs'', ''gapbs'', ''gapbs'', ''gapbs'', ''gapbs'', ''gapbs'',
      ''gapbs'', ''gapbs'', ''nas'', ''nas'', ''nas'', ''nas'', ''nas'', ''nas'', ''redis'']"

definition arg_mac :: "string list list" where
  "arg_mac =
     [[], [''./ORBvoc.txt'', ''./TUM3.yaml'', ''./'', ''./associations/fr1_xyz.txt''], [''-g20'',
      ''-vn300''], [''-g20'', ''-vn300''], [''-g20'', ''-vn300''], [''-g20'', ''-vn300''], [''-g20'',
      ''-vn300''], [''-g20'', ''-vn300''], [''-g20'', ''-vn300''], [''-g20'', ''-n1''], [], [], [], [],
      [], [], []]"

definition envs_mac :: "string list" where
  "envs_mac =
     [''a=b'', ''a=b'', ''OMP_NUM_THREADS=4'', ''OMP_NUM_THREADS=4'', ''OMP_NUM_THREADS=4'',
      ''OMP_NUM_THREADS=4'', ''OMP_NUM_THREADS=4'', ''OMP_NUM_THREADS=4'', ''OMP_NUM_THREADS=4'',
      ''OMP_NUM_THREADS=4'', ''OMP_NUM_THREADS=4'', ''OMP_NUM_THREADS=4'', ''OMP_NUM_THREADS=4'',
      ''OMP_NUM_THREADS=4'', ''OMP_NUM_THREADS=4'', ''OMP_NUM_THREADS=4'', ''a=b'']"

definition machine_jobs :: "string list \<Rightarrow> string \<Rightarrow> string list \<Rightarrow> string list list \<Rightarrow> string list \<Rightarrow>
    (string \<times> string \<times> string list \<times> string) list" where
  "machine_jobs cmd suffix folder arg envs =
     concat (replicate trial (map (\<lambda>i. (cmd ! i @ suffix, folder ! i, arg ! i, envs ! i)) [0..<length cmd]))"

text \<open>Every line with the key adds a result.\<close>

definition execution_times_of :: "string \<times> py_text \<Rightarrow> (string \<times> string) list res" where
  "execution_times_of result =
     (case result of (exec_label, output) \<Rightarrow>
        rbind (as_str output) (\<lambda>s.
        rmap (\<lambda>line. rbind (second_last_word line) (\<lambda>w. Inr (exec_label, w)))
          (filter (\<lambda>line. py_contains line ''Execution time:'') (py_split_on newline s))))"

definition run_machine ::
    "string list \<Rightarrow> string list \<Rightarrow> string list list \<Rightarrow> string list \<Rightarrow> (string \<times> string) list io" where
  "run_machine cmd folder arg envs =
     io_bind (io_for (\<lambda>(aot, folder, arg, env). run aot arg env []) (machine_jobs cmd ''.aot'' folder arg envs)) (\<lambda>results1.
     io_lift (rbind (rmap execution_times_of results1) (\<lambda>rs. Inr (concat rs))))"

definition run_mvvm_mac :: "(string \<times> string) list io" where
  "run_mvvm_mac = run_machine cmd_mac folder_mac arg_mac envs_mac"

text \<open>\<^verbatim>\<open>float(line.split()[i].replace("user", ""))\<close>, the word 2 being tried when the word 0 is no number.\<close>

definition user_word :: "string \<Rightarrow> int \<Rightarrow> rat res" where
  "user_word line i = rbind (py_index (py_split line) i) (\<lambda>w. py_float (py_replace w ''user'' []))"

definition user_line :: "string \<Rightarrow> rat option \<Rightarrow> rat option res" where
  "user_line line exec_time =
     (if py_contains line ''user'' then
        (case user_word line 0 of
           Inr t \<Rightarrow> Inr (Some t)
         | Inl e \<Rightarrow> if e = Unsupported then Inl Unsupported else rbind (user_word line 2) (\<lambda>t. Inr (Some t)))
      else Inr exec_time)"

definition user_output :: "string \<times> py_text \<Rightarrow> (string \<times> rat) list \<times> rat option \<Rightarrow> ((string \<times> rat) list \<times> rat option) res" where
  "user_output result st =
     (case (result, st) of ((exec_label, output), (results, exec_time)) \<Rightarrow>
        rbind (as_str output) (\<lambda>s.
        rbind (rfold user_line (py_split_on newline s) exec_time) (\<lambda>exec_time.
        case exec_time of None \<Rightarrow> Inl UnboundLocalError | Some t \<Rightarrow> Inr (results @ [(exec_label, t)], exec_time))))"

definition run_native_mac :: "(string \<times> rat) list io" where
  "run_native_mac =
     io_bind (io_for (\<lambda>(aot, folder, arg, env). run_native aot folder arg env)
       (machine_jobs cmd_mac [] folder_mac arg_mac envs_mac)) (\<lambda>results1.
     io_lift (rbind (rfold user_output results1 ([], None)) (\<lambda>(results, exec_time). Inr results)))"

definition header_machine :: "string list" where
  "header_machine = [''name'', ''mvvm'', ''native'']"

definition write_machine :: "('a \<Rightarrow> string) \<Rightarrow> (string \<times> string) list \<Rightarrow> (string \<times> 'a) list \<Rightarrow> string \<Rightarrow> string res" where
  "write_machine cell mvvm_results native_results old =
     rbind (rmap (\<lambda>(idx, row). rbind (py_index native_results (int idx)) (\<lambda>n. Inr [fst row, snd row, cell (snd n)]))
       (enumerate 0 mvvm_results)) (\<lambda>rows.
     Inr (append_csv header_machine rows old))"

definition write_to_csv_mac :: "(rat \<Rightarrow> string) \<Rightarrow> (string \<times> string) list \<Rightarrow> (string \<times> rat) list \<Rightarrow> string \<Rightarrow> string res" where
  "write_to_csv_mac float_repr mvvm_results native_results old = write_machine float_repr mvvm_results native_results old"

definition machine_row_of :: "string list \<Rightarrow> (string \<times> rat list) res" where
  "machine_row_of row =
     rbind (py_index row 0) (\<lambda>name. rbind (float_at row 1) (\<lambda>a. rbind (float_at row 2) (\<lambda>b. Inr (name, [a, b]))))"

definition read_from_csv_mac :: "string \<Rightarrow> (string \<times> rat list) list res" where
  "read_from_csv_mac csv_text = read_table machine_row_of csv_text"

definition machine_key :: "string \<Rightarrow> string" where
  "machine_key workload =
     clean_key (removed [''OMP_NUM_THREADS='', ''-g15'', ''-n300'', '' -f '', ''-vn300'', ''maze-6404.txt'', ''stories110M.bin'',
       ''-z tokenizer.bin -t 0.0'', ''ORBvoc.txt'', ''TUM3.yaml'', ''./associations/fr1_xyz.txt'', ''./'']) workload"

definition machine_bars :: "numpy \<Rightarrow> (string \<times> rat list) list \<Rightarrow> draw list" where
  "machine_bars np result =
     (let statistics = cluster_statistics np machine_key 2 result; bar_width = fl64 (fl64 (7 / 10) / 2) in
      [Font 14, Figure 15 7] @ cluster_bars bar_width [(0, 0, ''blue'', ''MVVM''), (1, 1, ''green'', ''Native'')] statistics @
      [YLabel ''Time(s)'', ticks bar_width statistics, XTickLabels (short_names statistics) 10, Legend [], TightLayout])"

definition plot_mac :: "numpy \<Rightarrow> (string \<times> rat list) list \<Rightarrow> string \<Rightarrow> draw list" where
  "plot_mac np result file_name = machine_bars np result @ [SaveFig file_name]"

definition mac_main :: "numpy \<Rightarrow> (string \<Rightarrow> string option) \<Rightarrow> draw list res" where
  "mac_main np file_text =
     (case file_text ''mac.csv'' of
        None \<Rightarrow> Inl FileNotFoundError
      | Some s \<Rightarrow> rbind (read_from_csv_mac s) (\<lambda>results. Inr (plot_mac np results ''mac.pdf'')))"

section \<open>Windows\<close>

definition cmd_windows :: "string list" where
  "cmd_windows =
     [''linpack'', ''llama'', ''rgbd_tum'', ''bt'', ''cg'', ''ep'', ''ft'', ''lu'', ''mg'', ''sp'',
      ''redis'']"

definition folder_windows :: "string list" where
  "folder_windows =
     [''linpack'', ''llama'', ''ORB_SLAM2'', ''nas'', ''nas'', ''nas'', ''nas'', ''nas'', ''nas'',
      ''nas'', ''redis'']"

definition arg_windows :: "string list list" where
  "arg_windows =
     [[], [''stories110M.bin'', ''-z'', ''tokenizer.bin'', ''-t'', ''0.0''], [''./ORBvoc.txt'',
      ''./TUM3.yaml'', ''./'', ''./associations/fr1_xyz.txt''], [], [], [], [], [], [], [], []]"

definition envs_windows :: "string list" where
  "envs_windows =
     [''a=b'', ''OMP_NUM_THREADS=1'', ''a=b'', ''OMP_NUM_THREADS=1'', ''OMP_NUM_THREADS=1'',
      ''OMP_NUM_THREADS=1'', ''OMP_NUM_THREADS=1'', ''OMP_NUM_THREADS=1'', ''OMP_NUM_THREADS=1'',
      ''OMP_NUM_THREADS=1'', ''a=b'']"

definition run_mvvm_windows :: "(string \<times> string) list io" where
  "run_mvvm_windows = run_machine cmd_windows folder_windows arg_windows envs_windows"

text \<open>
  One job in an executor of its own, which is left only when the job has ended: its result is
  added in any case, and an exception of it is raised unless the time was up before
  (\<open>timed_out\<close>). The list \<^verbatim>\<open>results1\<close>, which the second loop of \<^verbatim>\<open>run_native\<close> parses, stays empty,
  so that the results are the labels with the whole outputs.
\<close>

definition native_future :: "bool \<Rightarrow> string \<times> string \<times> string list \<times> string \<Rightarrow> (string \<times> py_text) list io" where
  "native_future timed_out job =
     (\<lambda>w t. case job of (aot, folder, arg, env) \<Rightarrow>
        (case run_native aot folder arg env w t of
           (r, t1) \<Rightarrow>
             if timed_out
             then (Inr (case r of Inr x \<Rightarrow> [x] | Inl e \<Rightarrow> []), t1 @ [Print ''Operation timed out''])
             else (case r of Inr x \<Rightarrow> (Inr [x], t1) | Inl e \<Rightarrow> (Inl e, t1))))"

definition run_native_windows :: "(nat \<Rightarrow> bool) \<Rightarrow> (string \<times> py_text) list io" where
  "run_native_windows timed_out =
     io_bind (io_for (\<lambda>(k, job). native_future (timed_out k) job)
       (enumerate 0 (machine_jobs cmd_windows [] folder_windows arg_windows envs_windows))) (\<lambda>results.
     io_return (concat results))"

definition text_cell :: "(string \<Rightarrow> string) \<Rightarrow> py_text \<Rightarrow> string" where
  "text_cell bytes_repr x = (case x of PStr s \<Rightarrow> s | PBytes b \<Rightarrow> bytes_repr b)"

definition write_to_csv_windows ::
    "(string \<Rightarrow> string) \<Rightarrow> (string \<times> string) list \<Rightarrow> (string \<times> py_text) list \<Rightarrow> string \<Rightarrow> string res" where
  "write_to_csv_windows bytes_repr mvvm_results native_results old =
     write_machine (text_cell bytes_repr) mvvm_results native_results old"

definition read_from_csv_windows :: "string \<Rightarrow> (string \<times> rat list) list res" where
  "read_from_csv_windows csv_text = read_table machine_row_of csv_text"

definition plot_windows :: "numpy \<Rightarrow> (string \<times> rat list) list \<Rightarrow> string \<Rightarrow> draw list" where
  "plot_windows np result file_name = machine_bars np result @ [Show, SaveFig file_name]"

text \<open>The main program; \<open>old\<close> is what the file held before.\<close>

definition windows_main :: "numpy \<Rightarrow> (string \<Rightarrow> string) \<Rightarrow> (nat \<Rightarrow> bool) \<Rightarrow> string \<Rightarrow> draw list io" where
  "windows_main np bytes_repr timed_out old =
     io_bind run_mvvm_windows (\<lambda>mvvm_results.
     io_bind (run_native_windows timed_out) (\<lambda>native_results.
     io_bind (io_lift (write_to_csv_windows bytes_repr mvvm_results native_results old)) (\<lambda>file.
     io_bind (io_lift (read_from_csv_windows file)) (\<lambda>results.
     io_return (plot_windows np results ''windows.pdf'')))))"

section \<open>Lemmas\<close>

text \<open>
  A pair of results, of MVVM as text and of the native build as a number, and the row it makes.
\<close>

type_synonym machine_pair = "(string \<times> string) \<times> (string \<times> rat)"

definition pair_cells :: "('a \<Rightarrow> string) \<Rightarrow> (string \<times> string) \<times> (string \<times> 'a) \<Rightarrow> string list" where
  "pair_cells cell p = [fst (fst p), snd (fst p), cell (snd (snd p))]"

definition pair_read :: "machine_pair \<Rightarrow> string \<times> rat list" where
  "pair_read p = (fst (fst p), [case py_float (snd (fst p)) of Inr v \<Rightarrow> v | Inl e \<Rightarrow> 0, snd (snd p)])"

definition good_pair :: "(rat \<Rightarrow> string) \<Rightarrow> machine_pair \<Rightarrow> bool" where
  "good_pair float_repr p \<longleftrightarrow> carriage \<notin> set (fst (fst p)) \<and> carriage \<notin> set (snd (fst p)) \<and>
     (case py_float (snd (fst p)) of Inr v \<Rightarrow> True | Inl e \<Rightarrow> False) \<and>
     carriage \<notin> set (float_repr (snd (snd p))) \<and> py_float (float_repr (snd (snd p))) = Inr (snd (snd p))"

lemma header_machine_table: "table_row header_machine"
  by (simp add: table_row_def header_machine_def carriage_def)

interpretation mac: result_file header_machine "pair_cells float_repr" machine_row_of pair_read "good_pair float_repr"
  for float_repr
proof
  show "table_row header_machine" by (rule header_machine_table)
qed (auto simp: table_row_def pair_cells_def good_pair_def pair_read_def machine_row_of_def float_at_def
    numeral_2_eq_2 split: sum.splits)

text \<open>The rows that are written.\<close>

lemma write_machine_rows:
  assumes "length mvvm_results \<le> length native_results"
  shows "write_machine cell mvvm_results native_results old =
    Inr (append_csv header_machine (map (pair_cells cell) (zip mvvm_results native_results)) old)"
proof -
  have "rmap (\<lambda>(idx, row). rbind (py_index native_results (int idx)) (\<lambda>n. Inr [fst row, snd row, cell (snd n)])) (enumerate 0 mvvm_results) =
    Inr (map (\<lambda>(idx, row). [fst row, snd row, cell (snd (native_results ! idx))]) (enumerate 0 mvvm_results))"
    by (rule rmap_pure) (use assms in \<open>auto simp: in_set_enumerate_eq\<close>)
  moreover have "map (\<lambda>(idx, row). [fst row, snd row, cell (snd (native_results ! idx))]) (enumerate 0 mvvm_results) =
    map (pair_cells cell) (zip mvvm_results native_results)"
    using assms by (intro nth_equalityI) (auto simp: nth_enumerate_eq pair_cells_def split: prod.split)
  ultimately show ?thesis by (simp add: write_machine_def)
qed

text \<open>On the Mac the file that is written anew reads back.\<close>

lemma mac_file_read_back:
  assumes "length mvvm_results \<le> length native_results" and "list_all (good_pair float_repr) (zip mvvm_results native_results)"
  shows "rbind (write_to_csv_mac float_repr mvvm_results native_results []) read_from_csv_mac =
    Inr (map pair_read (zip mvvm_results native_results))"
  using mac.written_read [OF assms(2)] write_machine_rows [OF assms(1)]
  by (simp add: write_to_csv_mac_def read_from_csv_mac_def)

end
