(* ===== verification/ComparisonMac.thy ===== *)
theory ComparisonMac
  imports BenchComparison MacWindows
begin

text \<open>
  The variants of the comparison: \<^verbatim>\<open>src/artifact/bench_comparison_mac.py\<close>,
  \<^verbatim>\<open>src/artifact/bench_comparison_gapbs.py\<close> and \<^verbatim>\<open>src/artifact/bench_comparison_gapbs_mac.py\<close>. The
  first has lists of different lengths, so that its jobs are a fallible list.
\<close>

section \<open>The comparison on the Mac\<close>

text \<open>
  \<^verbatim>\<open>"ORB_SLAM2" "nas"\<close>, without a comma, is one string.
\<close>

definition cmd_comparison_mac :: "string list" where
  "cmd_comparison_mac =
     [''linpack'', ''llama'', ''rgbd_tum'', ''tc'', ''bt'', ''cg'', ''ft'', ''lu'', ''mg'', ''sp'',
      ''redis'', ''hdastar'']"

definition folder_comparison_mac :: "string list" where
  "folder_comparison_mac =
     [''linpack'', ''llama'', ''ORB_SLAM2nas'', ''nas'', ''nas'', ''nas'', ''nas'', ''nas'', ''redis'',
      ''hdastar'']"

definition arg_comparison_mac :: "string list list" where
  "arg_comparison_mac =
     [[], [''stories110M.bin'', ''-z'', ''tokenizer.bin'', ''-t'', ''0.0''], [''./ORBvoc.txt,'',
      ''./TUM3.yaml'', ''./'', ''./associations/fr1_xyz.txt''], [], [], [], [], [], [], [],
      [''maze-6404.txt'', ''8'']]"

definition envs_comparison_mac :: "string list" where
  "envs_comparison_mac =
     [''a=b'', ''OMP_NUM_THREADS=1'', ''a=b'', ''OMP_NUM_THREADS=1'', ''OMP_NUM_THREADS=1'',
      ''OMP_NUM_THREADS=1'', ''OMP_NUM_THREADS=1'', ''OMP_NUM_THREADS=1'', ''OMP_NUM_THREADS=1'',
      ''a=b'', ''a=b'']"

text \<open>
  The arguments of the jobs, in the order of submission: \<^verbatim>\<open>arg[i]\<close>, \<^verbatim>\<open>envs[i]\<close> and, but for MVVM,
  \<^verbatim>\<open>folder[i]\<close> raise \<^verbatim>\<open>IndexError\<close> past the ends of the lists.
\<close>

definition mvvm_jobs_mac :: "job list res" where
  "mvvm_jobs_mac =
     rmap (\<lambda>i. rbind (py_index arg_comparison_mac (int i)) (\<lambda>a. rbind (py_index envs_comparison_mac (int i)) (\<lambda>e.
         Inr (cmd_comparison_mac ! i @ ''.aot'', a, e))))
       (concat (replicate trial [0..<length cmd_comparison_mac]))"

definition folder_jobs_mac :: "folder_job list res" where
  "folder_jobs_mac =
     rmap (\<lambda>i. rbind (py_index folder_comparison_mac (int i)) (\<lambda>f.
         rbind (py_index arg_comparison_mac (int i)) (\<lambda>a. rbind (py_index envs_comparison_mac (int i)) (\<lambda>e.
         Inr (cmd_comparison_mac ! i, f, a, e)))))
       (concat (replicate trial [0..<length cmd_comparison_mac]))"

definition run_mvvm_comparison_mac :: "(nat \<Rightarrow> world) \<Rightarrow> (string \<times> string) list res" where
  "run_mvvm_comparison_mac ws =
     rbind mvvm_jobs_mac (\<lambda>jobs.
     rbind (pool_results run_job ws jobs) (\<lambda>results1.
     rbind (found_times second_last_word ''Execution time:'' results1 None) (\<lambda>(results, exec_time). Inr results)))"

text \<open>
  Three of the four others fall back to the \<^verbatim>\<open>user\<close> time when the elapsed time does not parse, or
  keep the time they have.
\<close>

definition elapsed_or_user :: "string \<Rightarrow> rat option \<Rightarrow> rat option res" where
  "elapsed_or_user line exec_time =
     (case minutes_seconds line of
        Inr t \<Rightarrow> Inr (Some t)
      | Inl e \<Rightarrow> if py_contains line ''user'' then rbind (user_word line 0) (\<lambda>t. Inr (Some t)) else Inr exec_time)"

definition elapsed_output ::
    "string \<times> py_text \<Rightarrow> (string \<times> rat) list \<times> rat option \<Rightarrow> ((string \<times> rat) list \<times> rat option) res" where
  "elapsed_output result st =
     (case result of (exec_label, output) \<Rightarrow>
        rbind (as_str output) (\<lambda>s.
        rfold (\<lambda>line (results, exec_time).
            if py_contains line ''elapsed''
            then rbind (elapsed_or_user line exec_time) (\<lambda>exec_time.
              case exec_time of None \<Rightarrow> Inl UnboundLocalError | Some t \<Rightarrow> Inr (results @ [(exec_label, t)], exec_time))
            else Inr (results, exec_time))
          (py_split_on newline s) st))"

definition user_times :: "(string \<times> py_text) list \<Rightarrow> (string \<times> rat) list res" where
  "user_times results1 = rbind (rfold elapsed_output results1 ([], None)) (\<lambda>(results, exec_time). Inr results)"

definition run_folder_mac ::
    "(folder_job \<Rightarrow> (string \<times> py_text) io) \<Rightarrow> ((string \<times> py_text) list \<Rightarrow> (string \<times> rat) list res) \<Rightarrow> (nat \<Rightarrow> world) \<Rightarrow>
     (string \<times> rat) list res" where
  "run_folder_mac act parse ws = rbind folder_jobs_mac (\<lambda>jobs. rbind (pool_results act ws jobs) parse)"

definition run_hcontainer_comparison_mac :: "(nat \<Rightarrow> world) \<Rightarrow> (string \<times> rat) list res" where
  "run_hcontainer_comparison_mac ws =
     run_folder_mac (\<lambda>(aot, folder, arg, env). run_hcontainer aot folder arg env) user_times ws"

definition run_qemu_x86_64_comparison_mac :: "(nat \<Rightarrow> world) \<Rightarrow> (string \<times> rat) list res" where
  "run_qemu_x86_64_comparison_mac ws =
     run_folder_mac (\<lambda>(aot, folder, arg, env). run_qemu_x86_64 aot folder arg env) (\<lambda>rs. elapsed_times rs None) ws"

definition run_qemu_aarch64_comparison_mac :: "(nat \<Rightarrow> world) \<Rightarrow> (string \<times> rat) list res" where
  "run_qemu_aarch64_comparison_mac ws =
     run_folder_mac (\<lambda>(aot, folder, arg, env). run_qemu_aarch64 aot folder arg env) user_times ws"

definition run_native_comparison_mac :: "(nat \<Rightarrow> world) \<Rightarrow> (string \<times> rat) list res" where
  "run_native_comparison_mac ws =
     run_folder_mac (\<lambda>(aot, folder, arg, env). run_native aot folder arg env) user_times ws"

definition write_to_csv_comparison_mac ::
    "(rat \<Rightarrow> string) \<Rightarrow> (string \<times> string) list \<Rightarrow> (string \<times> rat) list \<Rightarrow> (string \<times> rat) list \<Rightarrow>
     (string \<times> rat) list \<Rightarrow> (string \<times> rat) list \<Rightarrow> string \<Rightarrow> string res" where
  "write_to_csv_comparison_mac float_repr mvvm_results hcontainer_results qemu_x86_64_results qemu_aarch64_results
       native_results old =
     write_to_csv_comparison float_repr mvvm_results hcontainer_results qemu_x86_64_results qemu_aarch64_results
       native_results old"

definition read_from_csv_comparison_mac :: "string \<Rightarrow> comparison_row list res" where
  "read_from_csv_comparison_mac csv_text = read_table comparison_row_of csv_text"

definition comparison_key :: "string \<Rightarrow> string" where
  "comparison_key workload =
     clean_key (removed [''OMP_NUM_THREADS='', ''-g20'', ''-n300'', '' -f '', ''-vn300'', ''maze-6404.txt'', ''stories110M.bin'',
       ''-z tokenizer.bin -t 0.0'']) workload"

definition comparison_clusters :: "numpy \<Rightarrow> nat \<Rightarrow> style list \<Rightarrow> string \<Rightarrow> (string \<times> rat list) list \<Rightarrow> draw list" where
  "comparison_clusters np n styles pdf results =
     (let statistics = cluster_statistics np comparison_key n results in
      [Font 18, Figure 20 10] @ cluster_bars (fl64 (fl64 (7 / 10) / 5)) styles statistics @
      [ticks 0 statistics, XTickLabels (map fst statistics) 10, YLabel ''Execution time (s)'', Legend [],
       Legend ''upper right'', SaveFig pdf])"

text \<open>
  The loop names the second field of a row \<^verbatim>\<open>hcontainer_values\<close> and the third \<^verbatim>\<open>mvvm_values\<close>; the
  file has them the other way round.
\<close>

definition plot_comparison_mac :: "numpy \<Rightarrow> comparison_row list \<Rightarrow> draw list" where
  "plot_comparison_mac np results =
     comparison_clusters np 5 [(0, 0, ''blue'', ''hcontainer''), (1, 1, ''red'', ''mvvm''), (2, 2, ''brown'', ''qemu_x86_64''),
       (3, 3, ''purple'', ''qemu_aarch64''), (4, 4, ''cyan'', ''native'')] ''performance_comparison.pdf''
       (map (\<lambda>(workload, hcontainer_values, mvvm_values, x86, aarch, native_values).
         (workload, [hcontainer_values, mvvm_values, x86, aarch, native_values])) results)"

section \<open>The comparison on gapbs\<close>

definition header_gapbs :: "string list" where
  "header_gapbs = [''name'', ''mvvm'', ''qemu_x86_64'', ''qemu_aach64'', ''native'']"

definition write_gapbs_rows ::
    "(rat \<Rightarrow> string) \<Rightarrow> (string \<times> string) list \<Rightarrow> (string \<times> rat) list \<Rightarrow> (string \<times> rat) list \<Rightarrow>
     (string \<times> rat) list \<Rightarrow> string \<Rightarrow> string res" where
  "write_gapbs_rows float_repr mvvm_results qemu_x86_64_results qemu_aarch64_results native_results old =
     rbind (rmap (\<lambda>(idx, row).
         rbind (py_index qemu_x86_64_results (int idx)) (\<lambda>x.
         rbind (py_index qemu_aarch64_results (int idx)) (\<lambda>a.
         rbind (py_index native_results (int idx)) (\<lambda>n.
         Inr [fst row, snd row, float_repr (snd x), float_repr (snd a), float_repr (snd n)]))))
       (enumerate 0 mvvm_results)) (\<lambda>rows.
     Inr (append_csv header_gapbs rows old))"

definition gapbs_row_of :: "string list \<Rightarrow> (string \<times> rat list) res" where
  "gapbs_row_of row =
     rbind (py_index row 0) (\<lambda>name. rbind (rmap (\<lambda>i. float_at row (int i)) [1..<5]) (\<lambda>xs. Inr (name, xs)))"

definition cmd_gapbs :: "string list" where
  "cmd_gapbs =
     [''bc'', ''bfs'', ''cc'', ''cc_sv'', ''pr'', ''pr_spmv'', ''sssp'', ''tc'']"

definition folder_gapbs :: "string list" where
  "folder_gapbs =
     [''gapbs'', ''gapbs'', ''gapbs'', ''gapbs'', ''gapbs'', ''gapbs'', ''gapbs'', ''gapbs'']"

definition arg_gapbs :: "string list list" where
  "arg_gapbs =
     [[''-g20'', ''-vn300''], [''-g20'', ''-vn300''], [''-g20'', ''-vn300''], [''-g20'', ''-vn300''],
      [''-g20'', ''-vn300''], [''-g20'', ''-vn300''], [''-g20'', ''-vn300''], [''-g20'', ''-n1'']]"

definition envs_gapbs :: "string list" where
  "envs_gapbs =
     [''OMP_NUM_THREADS=4'', ''OMP_NUM_THREADS=4'', ''OMP_NUM_THREADS=4'', ''OMP_NUM_THREADS=4'',
      ''OMP_NUM_THREADS=4'', ''OMP_NUM_THREADS=4'', ''OMP_NUM_THREADS=4'', ''OMP_NUM_THREADS=4'']"

definition run_mvvm_gapbs :: "(nat \<Rightarrow> world) \<Rightarrow> (string \<times> string) list res" where
  "run_mvvm_gapbs ws =
     rbind (pool_results run_job ws (variant_jobs cmd_gapbs arg_gapbs envs_gapbs [''.aot''])) (\<lambda>results1.
     rbind (found_times second_last ''Execution time:'' results1 None) (\<lambda>(results, exec_time). Inr results))"

definition run_qemu_x86_64_gapbs :: "(nat \<Rightarrow> world) \<Rightarrow> (string \<times> rat) list res" where
  "run_qemu_x86_64_gapbs ws =
     rbind (pool_results (\<lambda>(aot, folder, arg, env). run_qemu_x86_64 aot folder arg env) ws
       (machine_jobs cmd_gapbs [] folder_gapbs arg_gapbs envs_gapbs)) (\<lambda>results1.
     elapsed_times results1 None)"

definition run_qemu_aarch64_gapbs :: "(nat \<Rightarrow> world) \<Rightarrow> (string \<times> rat) list res" where
  "run_qemu_aarch64_gapbs ws =
     rbind (pool_results (\<lambda>(aot, folder, arg, env). run_qemu_aarch64 aot folder arg env) ws
       (machine_jobs cmd_gapbs [] folder_gapbs arg_gapbs envs_gapbs)) (\<lambda>results1.
     elapsed_times results1 None)"

definition run_native_gapbs :: "(nat \<Rightarrow> world) \<Rightarrow> (string \<times> rat) list res" where
  "run_native_gapbs ws =
     rbind (pool_results (\<lambda>(aot, folder, arg, env). run_native aot folder arg env) ws
       (machine_jobs cmd_gapbs [] folder_gapbs arg_gapbs envs_gapbs)) (\<lambda>results1.
     elapsed_times results1 None)"

definition write_to_csv_gapbs ::
    "(rat \<Rightarrow> string) \<Rightarrow> (string \<times> string) list \<Rightarrow> (string \<times> rat) list \<Rightarrow> (string \<times> rat) list \<Rightarrow>
     (string \<times> rat) list \<Rightarrow> string \<Rightarrow> string res" where
  "write_to_csv_gapbs float_repr mvvm_results qemu_x86_64_results qemu_aarch64_results native_results old =
     write_gapbs_rows float_repr mvvm_results qemu_x86_64_results qemu_aarch64_results native_results old"

definition read_from_csv_gapbs :: "string \<Rightarrow> (string \<times> rat list) list res" where
  "read_from_csv_gapbs csv_text = read_table gapbs_row_of csv_text"

definition plot_gapbs :: "numpy \<Rightarrow> (string \<times> rat list) list \<Rightarrow> draw list" where
  "plot_gapbs np results =
     comparison_clusters np 4 [(0, 0, ''red'', ''mvvm''), (1, 1, ''brown'', ''qemu_x86_64''), (2, 2, ''purple'', ''qemu_aarch64''),
       (3, 3, ''cyan'', ''native'')] ''performance_comparison_gapbs.pdf'' results"

section \<open>The same on the Mac\<close>

definition cmd_gapbs_mac :: "string list" where
  "cmd_gapbs_mac =
     [''bc'', ''bfs'', ''cc'', ''cc_sv'', ''pr'', ''pr_spmv'', ''sssp'', ''tc'']"

definition folder_gapbs_mac :: "string list" where
  "folder_gapbs_mac =
     [''gapbs'', ''gapbs'', ''gapbs'', ''gapbs'', ''gapbs'', ''gapbs'', ''gapbs'', ''gapbs'']"

definition arg_gapbs_mac :: "string list list" where
  "arg_gapbs_mac =
     [[''-g20'', ''-vn300''], [''-g20'', ''-vn300''], [''-g20'', ''-vn300''], [''-g20'', ''-vn300''],
      [''-g20'', ''-vn300''], [''-g20'', ''-vn300''], [''-g20'', ''-vn300''], [''-g20'', ''-n1'']]"

definition envs_gapbs_mac :: "string list" where
  "envs_gapbs_mac =
     [''OMP_NUM_THREADS=4'', ''OMP_NUM_THREADS=4'', ''OMP_NUM_THREADS=4'', ''OMP_NUM_THREADS=4'',
      ''OMP_NUM_THREADS=4'', ''OMP_NUM_THREADS=4'', ''OMP_NUM_THREADS=4'', ''OMP_NUM_THREADS=4'']"

definition run_mvvm_gapbs_mac :: "(nat \<Rightarrow> world) \<Rightarrow> (string \<times> string) list res" where
  "run_mvvm_gapbs_mac ws =
     rbind (pool_results run_job ws (variant_jobs cmd_gapbs_mac arg_gapbs_mac envs_gapbs_mac [''.aot''])) (\<lambda>results1.
     rbind (found_times second_last ''Execution time:'' results1 None) (\<lambda>(results, exec_time). Inr results))"

definition run_qemu_x86_64_gapbs_mac :: "(nat \<Rightarrow> world) \<Rightarrow> (string \<times> rat) list res" where
  "run_qemu_x86_64_gapbs_mac ws =
     rbind (pool_results (\<lambda>(aot, folder, arg, env). run_qemu_x86_64 aot folder arg env) ws
       (machine_jobs cmd_gapbs_mac [] folder_gapbs_mac arg_gapbs_mac envs_gapbs_mac)) (\<lambda>results1.
     elapsed_times results1 None)"

definition run_qemu_aarch64_gapbs_mac :: "(nat \<Rightarrow> world) \<Rightarrow> (string \<times> rat) list res" where
  "run_qemu_aarch64_gapbs_mac ws =
     rbind (pool_results (\<lambda>(aot, folder, arg, env). run_qemu_aarch64 aot folder arg env) ws
       (machine_jobs cmd_gapbs_mac [] folder_gapbs_mac arg_gapbs_mac envs_gapbs_mac)) (\<lambda>results1.
     elapsed_times results1 None)"

definition run_native_gapbs_mac :: "(nat \<Rightarrow> world) \<Rightarrow> (string \<times> rat) list res" where
  "run_native_gapbs_mac ws =
     rbind (pool_results (\<lambda>(aot, folder, arg, env). run_native aot folder arg env) ws
       (machine_jobs cmd_gapbs_mac [] folder_gapbs_mac arg_gapbs_mac envs_gapbs_mac)) (\<lambda>results1.
     elapsed_times results1 None)"

definition write_to_csv_gapbs_mac ::
    "(rat \<Rightarrow> string) \<Rightarrow> (string \<times> string) list \<Rightarrow> (string \<times> rat) list \<Rightarrow> (string \<times> rat) list \<Rightarrow>
     (string \<times> rat) list \<Rightarrow> string \<Rightarrow> string res" where
  "write_to_csv_gapbs_mac float_repr mvvm_results qemu_x86_64_results qemu_aarch64_results native_results old =
     write_gapbs_rows float_repr mvvm_results qemu_x86_64_results qemu_aarch64_results native_results old"

definition read_from_csv_gapbs_mac :: "string \<Rightarrow> (string \<times> rat list) list res" where
  "read_from_csv_gapbs_mac csv_text = read_table gapbs_row_of csv_text"

definition plot_gapbs_mac :: "numpy \<Rightarrow> (string \<times> rat list) list \<Rightarrow> draw list" where
  "plot_gapbs_mac np results =
     comparison_clusters np 4 [(0, 0, ''red'', ''mvvm''), (1, 1, ''brown'', ''qemu_x86_64''), (2, 2, ''purple'', ''qemu_aarch64''),
       (3, 3, ''cyan'', ''native'')] ''performance_comparison_gapbs.pdf'' results"

section \<open>Lemmas\<close>

text \<open>The eleventh command of the Mac comparison has no folder and the twelfth no arguments.\<close>

lemma mac_jobs_fail: "mvvm_jobs_mac = Inl IndexError" "folder_jobs_mac = Inl IndexError"
  by code_simp+

end
