(* ===== verification/ScriptSpec.thy ===== *)
theory ScriptSpec
  imports Latency MemoryBench ComparisonMac
begin

text \<open>
  The properties of the latency script and of the scripts for single machines.
\<close>

text \<open>
  C39. The latency figure from the files that the script writes. If the floats are written so
  that they read back, the main program reads the three results as they were; it draws the six
  bars of every MVVM workload, from the rows of all three systems with its shortened name, exactly
  when each of these names occurs with CRIU and with QEMU, and otherwise raises \<^verbatim>\<open>ValueError\<close>.
\<close>

theorem latency_main_cases:
  assumes "list_all (latency_result float_repr) mvvm" and "list_all (latency_result float_repr) criu"
    and "list_all (latency_result float_repr) qemu"
    and "file_text ''ckpt_restore_latency.csv'' = Some (write_to_csv_latency float_repr mvvm)"
    and "file_text ''ckpt_restore_latency_criu.csv'' = Some (write_to_csv_latency float_repr criu)"
    and "file_text ''ckpt_restore_latency_qemu.csv'' = Some (write_to_csv_latency float_repr qemu)"
  shows "latency_main np file_text =
    (let names = firsts (map (\<lambda>r. whole_key_mvvm (fst r)) mvvm);
         statistics = map (\<lambda>w. (w, whole_cells np mvvm criu qemu w)) names;
         bar_width = fl64 (fl64 (7 / 10) / 4)
     in if set names \<subseteq> whole_key_other ` fst ` set criu \<inter> whole_key_other ` fst ` set qemu
        then Inr ([Font 20, Figure 15 7] @ cluster_bars bar_width whole_styles statistics @
          [XLabel ''Workload'', YLabel ''Time'', ticks (fl64 (bar_width / 2)) statistics,
           XTickLabels (short_names statistics) 20, Legend [], TightLayout, SaveFig ''ckpt_restore_latency_whole.pdf''])
        else Inl ValueError)"
proof -
  have "latency_main np file_text =
      plot_whole_latency np mvvm criu qemu ''ckpt_restore_latency_whole.pdf''"
    using assms(4-6) latency_written_read [OF assms(1)] latency_written_read [OF assms(2)] latency_written_read [OF assms(3)]
    unfolding latency_main_def read_latency_file_def by (simp only: option.case rbind_Inr)
  then show ?thesis
    by (simp add: plot_whole_latency_def whole_statistics_cases Let_def image_image)
qed

text \<open>Zeros are written as \<^verbatim>\<open>0\<close>: a workload that CRIU does not have.\<close>

definition zero_files :: "string \<Rightarrow> string option" where
  "zero_files f =
     (if f = ''ckpt_restore_latency.csv'' then Some (write_to_csv_latency (\<lambda>_. ''0'') [(''a=b bt'', [0, 0])])
      else if f = ''ckpt_restore_latency_criu.csv'' then Some (write_to_csv_latency (\<lambda>_. ''0'') [])
      else if f = ''ckpt_restore_latency_qemu.csv'' then Some (write_to_csv_latency (\<lambda>_. ''0'') [(''a=b bt'', [0, 0])])
      else None)"

theorem latency_main_cases_witness:
  "latency_main \<lparr>np_mean = hd, np_median = hd, np_std = last, np_percentile = \<lambda>xs p. last xs\<rparr> zero_files = Inl ValueError"
proof -
  have "py_float ''0'' = Inr 0" by code_simp
  then have "latency_result (\<lambda>_. ''0'') (''a=b bt'', [0, 0])" by (simp add: latency_result_def carriage_def)
  moreover have "zero_files ''ckpt_restore_latency.csv'' = Some (write_to_csv_latency (\<lambda>_. ''0'') [(''a=b bt'', [0, 0])])"
    "zero_files ''ckpt_restore_latency_criu.csv'' = Some (write_to_csv_latency (\<lambda>_. ''0'') [])"
    "zero_files ''ckpt_restore_latency_qemu.csv'' = Some (write_to_csv_latency (\<lambda>_. ''0'') [(''a=b bt'', [0, 0])])"
    by (simp_all add: zero_files_def)
  ultimately show ?thesis
    using latency_main_cases [of "\<lambda>_. ''0''" "[(''a=b bt'', [0, 0])]" "[]" "[(''a=b bt'', [0, 0])]" zero_files
        "\<lparr>np_mean = hd, np_median = hd, np_std = last, np_percentile = \<lambda>xs p. last xs\<rparr>"]
    by (simp add: Let_def firsts_def)
qed



end
