(* ===== verification/Spec2Isabelle.thy ===== *)
theory Spec2Isabelle
  imports WasmSpec RunSpec BenchSpec PoolSpec UseSpec ScriptSpec
begin

text \<open>
  A model of the Python part of MVVM, a virtual machine that migrates running WebAssembly modules
  between machines, and the theorems about it. The repository's Python falls into two parts.
  \<^verbatim>\<open>src/wasm_static_analysis.py\<close> analyses a module for the ahead-of-time compiler: which functions
  are simple, which locals a loop modifies, which loops need no checkpoint of their own. The
  scripts of \<^verbatim>\<open>src/artifact/\<close> run the benchmarks, collect their times into CSV files and draw the
  figures; \<^verbatim>\<open>common_util.py\<close> has what they share. \<^verbatim>\<open>src/src/create_mvvm_metadata.py\<close> is a small
  build tool.

  \<^bold>\<open>Conventions.\<close> A function that may raise returns \<open>'a res\<close>, the sum of \<open>py_error\<close> and the result
  (theory \<open>Prelude\<close>); every raise, failed index, failed conversion and use of an unbound variable of
  the source is a branch of the model. Strings are lists of characters, Python's integers are
  \<open>int\<close>. A float is the rational number it stands for, each operation followed by the rounding
  \<open>fl64\<close> to binary64 (\<open>PyFloat\<close>); infinities and nan are the error \<open>Unsupported\<close>, which no handler of
  the model swallows. Files are strings. A dictionary is an association list in insertion order
  (\<open>PyDict\<close>). A computation that runs commands is an \<open>io\<close>: it is given a world, which answers for the
  processes and the clock from the trace so far, and extends the trace of events (\<open>Shell\<close>). A pool
  of processes gives every job a world of its own, except in \<open>CorePool\<close>, whose jobs share state.

  \<^bold>\<open>The static analysis.\<close>
  \<^item> \<open>WatToInst\<close>: \<^verbatim>\<open>wat_to_inst\<close>, from the text of the module to the instruction file.
  \<^item> \<open>InstParse\<close>: \<^verbatim>\<open>InstStream\<close> and the parser classes \<^verbatim>\<open>WasmBase\<close> to \<^verbatim>\<open>WasmProgram\<close>. The loops run with
    fuel; as many rounds as there are instructions are enough, so \<open>OutOfFuel\<close> is never returned.
  \<^item> \<open>InstRoundtrip\<close>, \<open>FrontEnd\<close>, \<open>Numbering\<close>: writer and parser together, what is rejected, and the
    numbers of functions and loops.
  \<^item> \<open>NodeTree\<close>, \<open>PassInterface\<close>: what the passes share; the locale \<open>node_pass\<close> is their contract and
    each of the three passes interprets it.
  \<^item> \<open>SimpleFuncPass\<close>, \<open>ModifiedLocalsPass\<close>, \<open>LoopCkptPass\<close>: the passes with their specifications. The
    fixpoint loop of the first runs with fuel; one round more than there are functions is enough.
  \<^item> \<open>CkptPaths\<close>: control flow of a program tree, as an inductive relation with the checkpoints met, and
    when it is sound to skip the checkpoint of a loop.
  \<^item> \<open>AnalysisMain\<close>, \<open>OptFiles\<close>: the main program and the three files it leaves, read back.
  \<^item> \<open>WasmSpec\<close>: properties C1 to C16.

  \<^bold>\<open>Running the benchmarks.\<close>
  \<^item> \<open>PyStr\<close>, \<open>PyFloat\<close>, \<open>PyDict\<close>: the string functions, floats and dictionaries the scripts use.
  \<^item> \<open>Shell\<close>, \<open>RunCommands\<close>: events, worlds, and the functions \<^verbatim>\<open>run\<close>, \<^verbatim>\<open>run_native\<close> and their kin of
    \<^verbatim>\<open>common_util.py\<close>; the locale \<open>command_runner\<close> is what the benchmarks rely on.
  \<^item> \<open>Restore\<close>: the runs that watch a process and stop it after twenty seconds. The watching loop has
    fuel; under a clock that advances by a tenth of a second a round, 235 rounds are enough.
  \<^item> \<open>RemoteRuns\<close>: the migrations between machines, as fixed sequences of commands.
  \<^item> \<open>TimeParse\<close>, \<open>Percentile\<close>, \<open>FuncIndex\<close>, \<open>NopMetadata\<close>: clock times, sample statistics, functions by name
    or index, and the metadata tool.
  \<^item> \<open>RunSpec\<close>: properties C17 to C27.

  \<^bold>\<open>The scripts.\<close>
  \<^item> \<open>Csv\<close>: Python's CSV writer and reader, and the locale \<open>result_file\<close> for files that read back.
  \<^item> \<open>BenchJobs\<close>: jobs, their times, and the sorting of times by variant.
  \<^item> \<open>Averages\<close>, \<open>Plots\<close>: the averages and the plots of \<^verbatim>\<open>common_util.py\<close>. A plot is the list of its
    drawing calls. \<open>Clusters\<close>: the bar charts that the other scripts repeat.
  \<^item> \<open>BenchPolicy\<close>, \<open>BenchLoopCounter\<close>, \<open>BenchComparison\<close>: the scripts with these names; \<open>BenchSpec\<close>:
    properties C28 to C33.
  \<^item> \<open>CorePool\<close>, \<open>PoolInv\<close>, \<open>PoolLive\<close>, \<open>PoolResults\<close>: \<^verbatim>\<open>devcontainer/bench.py\<close>, a pool of processes that share
    eight cores under a mutex, as a step relation. The locale \<open>account\<close> is a resource that steps conserve,
    interpreted by the mutex and by the cores; then progress, and the results in closed form;
    \<open>PoolSpec\<close>: properties C34 and C35.
  \<^item> \<open>UseCases\<close>, \<open>BurstUse\<close>, \<open>OptimisticUse\<close>: the two use cases, with the log of a run as a state machine
    whose exceptions are swallowed; \<open>UseSpec\<close>: properties C36 to C38.
  \<^item> \<open>Latency\<close>, \<open>MemoryBench\<close>, \<open>MacWindows\<close>, \<open>ComparisonMac\<close>: the scripts for checkpoint latency, memory
    footprint, single machines, and the variants of the comparison; \<open>ScriptSpec\<close>: properties C39
    and C40.

  \<^bold>\<open>What the properties show.\<close> Round trips: the parser inverts the writer (C1), the option files,
  the metadata and the result files read back (C14, C27, C30, C39). Exactness of the passes
  against specifications on the tree (C2, C4, C6), and the deviations from their purpose: a function
  with a call is never simple (C5), later loops are not looked at (C10), a loop may be reported
  that goes round without a checkpoint (C8, C9). Termination (C3, C19). Error behaviour (C11, C12,
  C15, C20, C24, C31, C32, C40). Times: what is read, for which job, and into which row (C21 to C23, C28,
  C29). Averages and figures (C25, C33, C37, C38), and the burst log as a refinement of a list
  of entries (C36). The interleavings of the core pool: who owns a core, and that it completes (C34, C35).

  \<^bold>\<open>Parameters.\<close> What is not in the repository is an argument of the definitions: what processes print
  and when they end (the world), \<^verbatim>\<open>wasm2wat\<close> and \<^verbatim>\<open>llvm-dwarfdump\<close>, the existence of files, the order in
  which a set is iterated, the statistics of numpy (the record \<open>numpy\<close>, of which \<^verbatim>\<open>np.reshape\<close> and
  \<^verbatim>\<open>np.repeat\<close> alone are written out), and how Python writes floats, bytes and lists.

  \<^bold>\<open>Not modelled.\<close> The C++ runtime (checkpoint, restore, gateway), which is built on the WAMR submodule,
  whose sources are not in the repository. \<^verbatim>\<open>graph.py\<close> and the \<^verbatim>\<open>test_*.py\<close> scripts, which draw
  constants, talk to sockets or start processes without processing anything. The pickled file of
  \<^verbatim>\<open>devcontainer/bench.py\<close>. What the functions print, apart from the report of the analysis and the
  commands that \<^verbatim>\<open>common_util.py\<close> echoes. Of a drawing call, the cap sizes, markers and line styles.
  When an exception leaves a function, the part of a file that was written before it. The first of
  the two definitions of \<^verbatim>\<open>plot_time\<close> in \<^verbatim>\<open>usecase_optimistic_computing.py\<close>, which the second replaces.
  \<^verbatim>\<open>sum\<close> adds from the left, as up to Python 3.11.
\<close>

end
